(* ===== verification/Fins_Prelude.thy ===== *)
theory Fins_Prelude
  imports Main "HOL-Library.Word"
begin

text \<open>
  Shared vocabulary of the development: Go's fixed-width integers as words, Go's three ways to
  leave a function (a value, an error, a panic), sub-slices and \<open>copy\<close> on byte lists, slices
  with spare capacity, and the byte orders of \<open>encoding/binary\<close>. The lemmas collected in
  \<open>bytes_simps\<close> and \<open>go_simps\<close> carry the component proofs.
\<close>

unbundle bit_operations_syntax

named_theorems bytes_simps \<open>byte-order and slice equations\<close>
named_theorems go_simps \<open>sequencing of Go outcomes\<close>
named_theorems fins_consts \<open>values of the named protocol constants\<close>

section \<open>Machine integers\<close>

type_synonym u8 = "8 word"
type_synonym u16 = "16 word"
type_synonym u32 = "32 word"
type_synonym u64 = "64 word"
type_synonym bytes = "8 word list"

text \<open>Go's \<open>int\<close> is 64 bits wide on the platforms the module is built for. An
  arithmetic result is brought back into range by \<open>int64\<close>.\<close>

definition int64 :: "int \<Rightarrow> int" where
  "int64 x = sint (word_of_int x :: 64 word)"

lemma int64_id: "- (2 ^ 63) \<le> x \<Longrightarrow> x < 2 ^ 63 \<Longrightarrow> int64 x = x"
  by (simp add: int64_def signed_of_int signed_take_bit_int_eq_self)

lemma int64_small [simp]: "0 \<le> x \<Longrightarrow> x < 9223372036854775808 \<Longrightarrow> int64 x = x"
  by (rule int64_id) simp_all

lemma int64_range: "- (2 ^ 63) \<le> int64 x \<and> int64 x < 2 ^ 63"
  using sint_greater_eq [of "word_of_int x :: 64 word"] sint_less [of "word_of_int x :: 64 word"]
  by (simp add: int64_def)

section \<open>Outcomes of a Go call\<close>

datatype ('e, 'a) go = Ok 'a | Err 'e | Panic

fun go_bind :: "('e, 'a) go \<Rightarrow> ('a \<Rightarrow> ('e, 'b) go) \<Rightarrow> ('e, 'b) go" where
  "go_bind (Ok x) f = f x"
| "go_bind (Err e) f = Err e"
| "go_bind Panic f = Panic"

declare go_bind.simps [go_simps]

lemma go_bind_Ok_iff: "go_bind m f = Ok y \<longleftrightarrow> (\<exists>x. m = Ok x \<and> f x = Ok y)"
  by (cases m) auto

lemma go_bind_Panic_iff: "go_bind m f = Panic \<longleftrightarrow> m = Panic \<or> (\<exists>x. m = Ok x \<and> f x = Panic)"
  by (cases m) auto

lemma go_bind_assoc: "go_bind (go_bind m f) g = go_bind m (\<lambda>x. go_bind (f x) g)"
  by (cases m) auto

section \<open>Sub-slices and copy\<close>

text \<open>\<open>slice xs a b\<close> is \<open>xs[a:b]\<close> for bounds that are in range; every definition that
  slices checks the bounds first, as the Go runtime does.\<close>

definition slice :: "'a list \<Rightarrow> nat \<Rightarrow> nat \<Rightarrow> 'a list" where
  "slice xs a b = take (b - a) (drop a xs)"

text \<open>\<open>copy_at xs i ys\<close> overwrites \<open>xs\<close> from index \<open>i\<close> on with \<open>ys\<close>.\<close>

definition copy_at :: "'a list \<Rightarrow> nat \<Rightarrow> 'a list \<Rightarrow> 'a list" where
  "copy_at xs i ys = take i xs @ ys @ drop (i + length ys) xs"

lemma length_slice [simp]: "b \<le> length xs \<Longrightarrow> length (slice xs a b) = b - a"
  by (simp add: slice_def)

lemma slice_full [simp]: "slice xs 0 (length xs) = xs"
  by (simp add: slice_def)

lemma nth_slice [simp]: "i < b - a \<Longrightarrow> b \<le> length xs \<Longrightarrow> slice xs a b ! i = xs ! (a + i)"
  by (simp add: slice_def)

lemma slice_slice [simp]:
  "d \<le> b - a \<Longrightarrow> slice (slice xs a b) c d = slice xs (a + c) (a + d)"
  by (simp add: slice_def drop_take add.commute min_def)

lemma slice_append_left [simp]: "b \<le> length xs \<Longrightarrow> slice (xs @ ys) a b = slice xs a b"
  by (simp add: slice_def)

lemma slice_append_right:
  "length xs \<le> a \<Longrightarrow> slice (xs @ ys) a b = slice ys (a - length xs) (b - length xs)"
  by (simp add: slice_def)

lemma slice_append_drop: "a \<le> b \<Longrightarrow> slice xs a b @ drop b xs = drop a xs"
  by (simp add: slice_def) (metis append_take_drop_id drop_drop le_add_diff_inverse2)

lemma take_append_slice: "a \<le> b \<Longrightarrow> take a xs @ slice xs a b = take b xs"
  by (simp add: slice_def) (metis le_add_diff_inverse take_add)

lemma slice_append_slice:
  assumes "a \<le> b" and "b \<le> c"
  shows "slice xs a b @ slice xs b c = slice xs a c"
proof -
  have "take (c - a) (drop a xs) =
      take (b - a) (drop a xs) @ take (c - b) (drop (b - a) (drop a xs))"
    using assms take_add [of "b - a" "c - b" "drop a xs"] by simp
  then show ?thesis using assms by (simp add: slice_def)
qed

lemma length_copy_at [simp]:
  "i + length ys \<le> length xs \<Longrightarrow> length (copy_at xs i ys) = length xs"
  by (simp add: copy_at_def)

lemma copy_at_Nil [simp]: "copy_at xs i [] = xs"
  by (simp add: copy_at_def)

lemma nth_copy_at:
  "i + length ys \<le> length xs \<Longrightarrow> k < length xs \<Longrightarrow>
   copy_at xs i ys ! k = (if i \<le> k \<and> k < i + length ys then ys ! (k - i) else xs ! k)"
  by (auto simp: copy_at_def nth_append)

lemma slice_copy_at_same:
  "i + length ys \<le> length xs \<Longrightarrow> b = i + length ys \<Longrightarrow> slice (copy_at xs i ys) i b = ys"
  by (simp add: slice_def copy_at_def)

lemma slice_copy_at_prefix:
  "i + length ys \<le> length xs \<Longrightarrow> b \<le> i + length ys \<Longrightarrow>
   slice (copy_at xs i ys) i b = take (b - i) ys"
  by (simp add: slice_def copy_at_def)

lemma slice_copy_at_disjoint:
  assumes "i + length ys \<le> length xs" and "b \<le> length xs" and "b \<le> i \<or> i + length ys \<le> a"
  shows "slice (copy_at xs i ys) a b = slice xs a b"
proof (rule nth_equalityI)
  show "length (slice (copy_at xs i ys) a b) = length (slice xs a b)"
    using assms by simp
next
  fix k
  assume "k < length (slice (copy_at xs i ys) a b)"
  then have "k < b - a" using assms by simp
  then show "slice (copy_at xs i ys) a b ! k = slice xs a b ! k"
    using assms by (auto simp: nth_copy_at)
qed

section \<open>Slices with spare capacity\<close>

text \<open>
  A Go slice is a window on a backing array: \<open>len\<close> elements are visible, and re-slicing may
  reach up to \<open>cap\<close>. The UDP code re-slices buffers beyond their length, so there a slice is
  the visible bytes followed by the spare ones.
\<close>

datatype gslice = GSlice (gs_vis: bytes) (gs_spare: bytes)

definition gs_len :: "gslice \<Rightarrow> nat" where
  "gs_len s = length (gs_vis s)"

definition gs_cap :: "gslice \<Rightarrow> nat" where
  "gs_cap s = length (gs_vis s) + length (gs_spare s)"

text \<open>\<open>s[a:b]\<close>: \<open>None\<close> is the run-time panic.\<close>

definition gs_slice :: "gslice \<Rightarrow> nat \<Rightarrow> nat \<Rightarrow> gslice option" where
  "gs_slice s a b =
     (if a \<le> b \<and> b \<le> gs_cap s
      then Some (GSlice (slice (gs_vis s @ gs_spare s) a b) (drop b (gs_vis s @ gs_spare s)))
      else None)"

text \<open>\<open>s[a:]\<close> reaches to the length, not to the capacity.\<close>

definition gs_from :: "gslice \<Rightarrow> nat \<Rightarrow> gslice option" where
  "gs_from s a = (if a \<le> gs_len s then gs_slice s a (gs_len s) else None)"

lemma gs_slice_len: "gs_slice s a b = Some t \<Longrightarrow> gs_len t = b - a"
  by (auto simp: gs_slice_def gs_len_def gs_cap_def split: if_splits)

lemma gs_slice_cap: "gs_slice s a b = Some t \<Longrightarrow> gs_cap t = gs_cap s - a"
  by (auto simp: gs_slice_def gs_cap_def split: if_splits)

lemma gs_slice_None: "gs_slice s a b = None \<longleftrightarrow> b < a \<or> gs_cap s < b"
  by (auto simp: gs_slice_def)

section \<open>Byte order\<close>

datatype byte_order = BigEndian | LittleEndian

definition le_bytes :: "nat \<Rightarrow> 'a::len word \<Rightarrow> bytes" where
  "le_bytes n w = map (\<lambda>i. ucast (drop_bit (8 * i) w)) [0..<n]"

fun le_word :: "bytes \<Rightarrow> 'a::len word" where
  "le_word [] = 0"
| "le_word (b # bs) = ucast b OR push_bit 8 (le_word bs)"

definition PutUint :: "byte_order \<Rightarrow> nat \<Rightarrow> 'a::len word \<Rightarrow> bytes" where
  "PutUint bo n w = (case bo of BigEndian \<Rightarrow> rev (le_bytes n w) | LittleEndian \<Rightarrow> le_bytes n w)"

definition Uint :: "byte_order \<Rightarrow> bytes \<Rightarrow> 'a::len word" where
  "Uint bo bs = (case bo of BigEndian \<Rightarrow> le_word (rev bs) | LittleEndian \<Rightarrow> le_word bs)"

abbreviation be16 :: "u16 \<Rightarrow> bytes" where
  "be16 \<equiv> PutUint BigEndian 2"

abbreviation be32 :: "u32 \<Rightarrow> bytes" where
  "be32 \<equiv> PutUint BigEndian 4"

abbreviation un_be16 :: "bytes \<Rightarrow> u16" where
  "un_be16 \<equiv> Uint BigEndian"

abbreviation un_be32 :: "bytes \<Rightarrow> u32" where
  "un_be32 \<equiv> Uint BigEndian"

lemma length_le_bytes [simp]: "length (le_bytes n w) = n"
  by (simp add: le_bytes_def)

lemma length_PutUint [simp]: "length (PutUint bo n w) = n"
  by (simp add: PutUint_def split: byte_order.split)

lemma le_bytes_0 [simp]: "le_bytes 0 w = []"
  by (simp add: le_bytes_def)

lemma le_bytes_Suc:
  "le_bytes (Suc n) w = ucast w # le_bytes n (drop_bit 8 w)"
  by (simp add: le_bytes_def upt_conv_Cons map_Suc_upt [symmetric] comp_def add.commute
      del: upt_Suc)

lemma bit_le_word:
  "bit (le_word bs :: 'a::len word) k \<longleftrightarrow>
     k < LENGTH('a) \<and> k div 8 < length bs \<and> bit (bs ! (k div 8)) (k mod 8)"
proof (induction bs arbitrary: k)
  case Nil
  then show ?case by simp
next
  case (Cons b bs)
  show ?case
  proof (cases "k < 8")
    case True
    then show ?thesis by (auto simp: bit_simps)
  next
    case False
    define j where "j = k - 8"
    have "k = j + 8" using False by (simp add: j_def)
    moreover have "\<not> bit b (j + 8)"
      using bit_imp_le_length [of b "j + 8"] by auto
    moreover have "(j + 8) div 8 = Suc (j div 8)" by simp
    ultimately show ?thesis by (auto simp: bit_simps Cons.IH)
  qed
qed

lemma le_word_le_bytes: "LENGTH('a) = 8 * n \<Longrightarrow> le_word (le_bytes n w) = (w :: 'a::len word)"
proof (rule bit_word_eqI)
  fix k
  assume n: "LENGTH('a) = 8 * n" and k: "k < LENGTH('a)"
  then have "k div 8 < n" by auto
  then show "bit (le_word (le_bytes n w) :: 'a word) k = bit w k"
    using k by (simp add: bit_le_word le_bytes_def bit_simps)
qed

lemma le_bytes_le_word:
  "LENGTH('a) = 8 * length bs \<Longrightarrow> le_bytes (length bs) (le_word bs :: 'a::len word) = bs"
proof (rule nth_equalityI)
  fix i
  assume n: "LENGTH('a) = 8 * length bs"
    and "i < length (le_bytes (length bs) (le_word bs :: 'a word))"
  then have i: "i < length bs" by simp
  show "le_bytes (length bs) (le_word bs :: 'a word) ! i = bs ! i"
  proof (rule bit_word_eqI)
    fix k
    assume "k < LENGTH(8)"
    then have k: "k < 8" by simp
    then have "(8 * i + k) div 8 = i" and "(8 * i + k) mod 8 = k" by simp_all
    moreover have "8 * i + k < LENGTH('a)" using n i k by simp
    ultimately show "bit (le_bytes (length bs) (le_word bs :: 'a word) ! i) k = bit (bs ! i) k"
      using i k by (simp add: le_bytes_def bit_simps bit_le_word)
  qed
qed simp

text \<open>The round trips of \<open>encoding/binary\<close>, for both orders and every width.\<close>

lemma Uint_PutUint: "LENGTH('a) = 8 * n \<Longrightarrow> Uint bo (PutUint bo n w) = (w :: 'a::len word)"
  by (cases bo) (simp_all add: Uint_def PutUint_def le_word_le_bytes)

lemma PutUint_Uint:
  assumes "LENGTH('a) = 8 * n" and "length bs = n"
  shows "PutUint bo n (Uint bo bs :: 'a::len word) = bs"
proof -
  have "le_bytes (length bs) (le_word (rev bs) :: 'a word) = rev bs"
    using le_bytes_le_word [of "rev bs", where 'a = 'a] assms by simp
  then show ?thesis
    using assms le_bytes_le_word [of bs, where 'a = 'a]
    by (cases bo) (simp_all add: Uint_def PutUint_def)
qed

lemma un_be16_be16 [simp, bytes_simps]: "un_be16 (be16 w) = w"
  by (rule Uint_PutUint) simp

lemma un_be32_be32 [simp, bytes_simps]: "un_be32 (be32 w) = w"
  by (rule Uint_PutUint) simp

lemma be16_un_be16: "length bs = 2 \<Longrightarrow> be16 (un_be16 bs) = bs"
  by (rule PutUint_Uint) simp_all

lemma be16_eq [bytes_simps]: "be16 w = [ucast (drop_bit 8 w), ucast w]"
  by (simp add: PutUint_def numeral_2_eq_2 le_bytes_Suc)

lemma be32_eq [bytes_simps]:
  "be32 w = [ucast (drop_bit 24 w), ucast (drop_bit 16 w), ucast (drop_bit 8 w), ucast w]"
  by (simp add: PutUint_def numeral_eq_Suc le_bytes_Suc drop_bit_drop_bit)

end
