(* ===== verification/Fins_Types.thy ===== *)
theory Fins_Types
  imports Fins_Prelude
begin

text \<open>
  The public types of package \<open>fins\<close> (\<open>types.go\<close>), the dynamic values that an
  \<open>interface{}\<close> carries in this program, and the package's error values. An error built
  with \<open>fmt.Errorf("%w: ...", sentinel)\<close> is its sentinel with the detail text.
\<close>

section \<open>Dynamic values\<close>

text \<open>Signed integers are kept as the words that hold them; floating-point numbers as their
  IEEE 754 bit patterns, which is all that \<open>math.Float32bits\<close> and its kin look at.
  \<open>VOther\<close> stands for a value of any type the code never asks for.\<close>

datatype GoValue =
    VNil
  | VBool bool
  | VUint8 u8 | VInt8 u8
  | VUint16 u16 | VInt16 u16
  | VUint32 u32 | VInt32 u32
  | VUint64 u64 | VInt64 u64
  | VFloat32 u32 | VFloat64 u64
  | VString bytes
  | VInt int
  | VOther

type_synonym Config = "string \<rightharpoonup> GoValue"

section \<open>Data types, qualities, points\<close>

datatype DataType =
    DataTypeBIT
  | DataTypeUINT8 | DataTypeINT8
  | DataTypeUINT16 | DataTypeINT16
  | DataTypeUINT32 | DataTypeINT32
  | DataTypeUINT64 | DataTypeINT64
  | DataTypeFLOAT | DataTypeDOUBLE
  | DataTypeSTRING
  | DataTypeOther string

datatype Quality = QualityGood | QualityBad | QualityUncertain

record Value =
  val_Value :: GoValue
  val_Quality :: Quality
  val_TS :: int

record Point =
  pt_ID :: string
  pt_Address :: string
  pt_DataType :: DataType
  pt_Attribute :: string

record DriverConfig =
  dc_Protocol :: string
  dc_Config :: "Config option"

datatype HealthStatus = HealthStatusUp | HealthStatusDown | HealthStatusUnknown

record ConnectionMetrics =
  cm_Connected :: bool
  cm_ConnectTime :: int
  cm_LastDisconnectTime :: int
  cm_ReconnectCount :: u32
  cm_LocalAddr :: string
  cm_RemoteAddr :: string

record SchedulerStats =
  TotalRequests :: u64
  SuccessCount :: u64
  FailureCount :: u64

datatype ByteOrder = ByteOrderHigh | ByteOrderLow

record ParsedAddress =
  pa_Area :: string
  pa_AreaCode :: u8
  pa_EMNumber :: int
  pa_Address :: int
  pa_Bit :: int
  pa_StringLen :: int
  pa_ByteOrder :: ByteOrder
  pa_IsBit :: bool
  pa_IsString :: bool

record AreaInfo =
  ai_Code :: u8
  ai_Name :: string
  ai_ReadOnly :: bool
  ai_SupportBit :: bool
  ai_SupportString :: bool

section \<open>Errors\<close>

datatype FinsError =
    ErrInvalidFINSHeader
  | ErrFrameTooShort
  | ErrInvalidAddress string
  | ErrUnsupportedArea string
  | ErrUnsupportedDataType DataType
  | ErrInvalidDataType string
  | ErrDataTooShort
  | ErrNotConnected
  | ErrConnectionClosed
  | ErrResponseTimeout
  | ErrSend string
  | ErrDial string
  | ErrContext string
  | ErrFINS string u16
  | ErrMsg string

section \<open>Which value belongs to which data type\<close>

text \<open>\<open>typed_value dt v\<close>: \<open>v\<close> has the Go type that \<open>DecodeValue\<close> returns for
  \<open>dt\<close>.\<close>

fun value_type :: "GoValue \<Rightarrow> DataType option" where
  "value_type (VBool _) = Some DataTypeBIT"
| "value_type (VUint8 _) = Some DataTypeUINT8"
| "value_type (VInt8 _) = Some DataTypeINT8"
| "value_type (VUint16 _) = Some DataTypeUINT16"
| "value_type (VInt16 _) = Some DataTypeINT16"
| "value_type (VUint32 _) = Some DataTypeUINT32"
| "value_type (VInt32 _) = Some DataTypeINT32"
| "value_type (VUint64 _) = Some DataTypeUINT64"
| "value_type (VInt64 _) = Some DataTypeINT64"
| "value_type (VFloat32 _) = Some DataTypeFLOAT"
| "value_type (VFloat64 _) = Some DataTypeDOUBLE"
| "value_type (VString _) = Some DataTypeSTRING"
| "value_type _ = None"

definition typed_value :: "DataType \<Rightarrow> GoValue \<Rightarrow> bool" where
  "typed_value dt v \<longleftrightarrow> value_type v = Some dt"

end
