(* ===== verification/Fins_Protocol.thy ===== *)
theory Fins_Protocol
  imports Fins_Types
begin

text \<open>
  The protocol layer, \<open>protocol.go\<close>: constants, frame types, and the encoders and decoders
  of FINS/TCP frames, FINS frames and memory addresses. Every encoder is shown to be undone by
  its decoder; the locale \<open>frame_codec\<close> states that contract once and is interpreted on
  each pair.
\<close>

section \<open>Constants\<close>

subsection \<open>TCP command and FINS command codes\<close>

definition TCPCommandFINSFrame :: u16 where [fins_consts]: "TCPCommandFINSFrame = 0x0000"
definition MRC_MEMORY_AREA_READ :: u16 where [fins_consts]: "MRC_MEMORY_AREA_READ = 0x0101"
definition MRC_MEMORY_AREA_WRITE :: u16 where [fins_consts]: "MRC_MEMORY_AREA_WRITE = 0x0102"
definition MRC_MEMORY_AREA_FILL :: u16 where [fins_consts]: "MRC_MEMORY_AREA_FILL = 0x0103"
definition MRC_MULTIPLE_MEMORY_AREA_READ :: u16 where [fins_consts]: "MRC_MULTIPLE_MEMORY_AREA_READ = 0x0104"
definition MRC_CONNECTION_DATA_READ :: u16 where [fins_consts]: "MRC_CONNECTION_DATA_READ = 0x0502"
definition MRC_CPU_UNIT_STATUS_READ :: u16 where [fins_consts]: "MRC_CPU_UNIT_STATUS_READ = 0x0601"
definition MRC_CLOCK_READ :: u16 where [fins_consts]: "MRC_CLOCK_READ = 0x0701"
definition MRC_CLOCK_WRITE :: u16 where [fins_consts]: "MRC_CLOCK_WRITE = 0x0702"
definition MRC_ERROR_CLEAR :: u16 where [fins_consts]: "MRC_ERROR_CLEAR = 0x2101"
definition MRC_ERROR_LOG_READ :: u16 where [fins_consts]: "MRC_ERROR_LOG_READ = 0x2102"
definition MRC_ERROR_LOG_CLEAR :: u16 where [fins_consts]: "MRC_ERROR_LOG_CLEAR = 0x2103"

subsection \<open>End codes\<close>

definition END_CODE_NORMAL :: u16 where [fins_consts]: "END_CODE_NORMAL = 0x0000"
definition END_CODE_SERVICE_INTERRUPTED :: u16 where [fins_consts]: "END_CODE_SERVICE_INTERRUPTED = 0x0001"
definition END_CODE_LOCAL_NOT_IN_NET :: u16 where [fins_consts]: "END_CODE_LOCAL_NOT_IN_NET = 0x0101"
definition END_CODE_TOKEN_TIMEOUT :: u16 where [fins_consts]: "END_CODE_TOKEN_TIMEOUT = 0x0102"
definition END_CODE_RETRIES_FAILED :: u16 where [fins_consts]: "END_CODE_RETRIES_FAILED = 0x0103"
definition END_CODE_TOO_MANY_FRAMES :: u16 where [fins_consts]: "END_CODE_TOO_MANY_FRAMES = 0x0104"
definition END_CODE_NODE_ADDR_RANGE :: u16 where [fins_consts]: "END_CODE_NODE_ADDR_RANGE = 0x0105"
definition END_CODE_NODE_ADDR_DUP :: u16 where [fins_consts]: "END_CODE_NODE_ADDR_DUP = 0x0106"
definition END_CODE_DEST_NOT_IN_NET :: u16 where [fins_consts]: "END_CODE_DEST_NOT_IN_NET = 0x0201"
definition END_CODE_UNIT_MISSING :: u16 where [fins_consts]: "END_CODE_UNIT_MISSING = 0x0202"
definition END_CODE_THIRD_NODE_MISSING :: u16 where [fins_consts]: "END_CODE_THIRD_NODE_MISSING = 0x0203"
definition END_CODE_DEST_BUSY :: u16 where [fins_consts]: "END_CODE_DEST_BUSY = 0x0204"
definition END_CODE_RESPONSE_TIMEOUT :: u16 where [fins_consts]: "END_CODE_RESPONSE_TIMEOUT = 0x0205"
definition END_CODE_COMM_CTRL_ERROR :: u16 where [fins_consts]: "END_CODE_COMM_CTRL_ERROR = 0x0301"
definition END_CODE_CPU_UNIT_ERROR :: u16 where [fins_consts]: "END_CODE_CPU_UNIT_ERROR = 0x0302"
definition END_CODE_CONTROLLER_ERROR :: u16 where [fins_consts]: "END_CODE_CONTROLLER_ERROR = 0x0303"
definition END_CODE_UNIT_NUM_ERROR :: u16 where [fins_consts]: "END_CODE_UNIT_NUM_ERROR = 0x0304"
definition END_CODE_UNDEFINED_CMD :: u16 where [fins_consts]: "END_CODE_UNDEFINED_CMD = 0x0401"
definition END_CODE_NOT_SUPPORTED :: u16 where [fins_consts]: "END_CODE_NOT_SUPPORTED = 0x0402"
definition END_CODE_DEST_ADDR_ERROR :: u16 where [fins_consts]: "END_CODE_DEST_ADDR_ERROR = 0x0501"
definition END_CODE_NO_ROUTING_TABLE :: u16 where [fins_consts]: "END_CODE_NO_ROUTING_TABLE = 0x0502"
definition END_CODE_ROUTING_TABLE_ERR :: u16 where [fins_consts]: "END_CODE_ROUTING_TABLE_ERR = 0x0503"
definition END_CODE_TOO_MANY_RELAYS :: u16 where [fins_consts]: "END_CODE_TOO_MANY_RELAYS = 0x0504"
definition END_CODE_CMD_TOO_LONG :: u16 where [fins_consts]: "END_CODE_CMD_TOO_LONG = 0x1001"
definition END_CODE_CMD_TOO_SHORT :: u16 where [fins_consts]: "END_CODE_CMD_TOO_SHORT = 0x1002"
definition END_CODE_ELEMENTS_MISMATCH :: u16 where [fins_consts]: "END_CODE_ELEMENTS_MISMATCH = 0x1003"
definition END_CODE_CMD_FORMAT_ERROR :: u16 where [fins_consts]: "END_CODE_CMD_FORMAT_ERROR = 0x1004"
definition END_CODE_HEADER_ERROR :: u16 where [fins_consts]: "END_CODE_HEADER_ERROR = 0x1005"
definition END_CODE_AREA_MISSING :: u16 where [fins_consts]: "END_CODE_AREA_MISSING = 0x1101"
definition END_CODE_ACCESS_SIZE_ERR :: u16 where [fins_consts]: "END_CODE_ACCESS_SIZE_ERR = 0x1102"
definition END_CODE_ADDR_RANGE_ERR :: u16 where [fins_consts]: "END_CODE_ADDR_RANGE_ERR = 0x1103"
definition END_CODE_ADDR_RANGE_EXCEED :: u16 where [fins_consts]: "END_CODE_ADDR_RANGE_EXCEED = 0x1104"
definition END_CODE_PROGRAM_MISSING :: u16 where [fins_consts]: "END_CODE_PROGRAM_MISSING = 0x1106"
definition END_CODE_RELATIONAL_ERROR :: u16 where [fins_consts]: "END_CODE_RELATIONAL_ERROR = 0x1109"
definition END_CODE_DUP_DATA_ACCESS :: u16 where [fins_consts]: "END_CODE_DUP_DATA_ACCESS = 0x110a"
definition END_CODE_RESPONSE_TOO_BIG :: u16 where [fins_consts]: "END_CODE_RESPONSE_TOO_BIG = 0x110b"
definition END_CODE_PARAMETER_ERROR :: u16 where [fins_consts]: "END_CODE_PARAMETER_ERROR = 0x110c"
definition END_CODE_READ_PROTECTED :: u16 where [fins_consts]: "END_CODE_READ_PROTECTED = 0x2002"
definition END_CODE_READ_TABLE_MISSING :: u16 where [fins_consts]: "END_CODE_READ_TABLE_MISSING = 0x2003"
definition END_CODE_READ_DATA_MISSING :: u16 where [fins_consts]: "END_CODE_READ_DATA_MISSING = 0x2004"
definition END_CODE_READ_PROG_MISSING :: u16 where [fins_consts]: "END_CODE_READ_PROG_MISSING = 0x2005"
definition END_CODE_READ_FILE_MISSING :: u16 where [fins_consts]: "END_CODE_READ_FILE_MISSING = 0x2006"
definition END_CODE_READ_DATA_MISMATCH :: u16 where [fins_consts]: "END_CODE_READ_DATA_MISMATCH = 0x2007"
definition END_CODE_WRITE_READ_ONLY :: u16 where [fins_consts]: "END_CODE_WRITE_READ_ONLY = 0x2101"
definition END_CODE_WRITE_PROTECTED :: u16 where [fins_consts]: "END_CODE_WRITE_PROTECTED = 0x2102"
definition END_CODE_WRITE_CANT_REGISTER :: u16 where [fins_consts]: "END_CODE_WRITE_CANT_REGISTER = 0x2103"
definition END_CODE_WRITE_PROG_MISSING :: u16 where [fins_consts]: "END_CODE_WRITE_PROG_MISSING = 0x2105"
definition END_CODE_WRITE_FILE_MISSING :: u16 where [fins_consts]: "END_CODE_WRITE_FILE_MISSING = 0x2106"
definition END_CODE_WRITE_FILE_EXISTS :: u16 where [fins_consts]: "END_CODE_WRITE_FILE_EXISTS = 0x2107"
definition END_CODE_WRITE_CANT_CHANGE :: u16 where [fins_consts]: "END_CODE_WRITE_CANT_CHANGE = 0x2108"
definition END_CODE_NOT_EXEC_DURING_EXEC :: u16 where [fins_consts]: "END_CODE_NOT_EXEC_DURING_EXEC = 0x2201"
definition END_CODE_NOT_EXEC_WHILE_RUNNING :: u16 where [fins_consts]: "END_CODE_NOT_EXEC_WHILE_RUNNING = 0x2202"
definition END_CODE_NOT_EXEC_PROG_MODE :: u16 where [fins_consts]: "END_CODE_NOT_EXEC_PROG_MODE = 0x2203"
definition END_CODE_NOT_EXEC_DEBUG_MODE :: u16 where [fins_consts]: "END_CODE_NOT_EXEC_DEBUG_MODE = 0x2204"
definition END_CODE_NOT_EXEC_MONITOR_MODE :: u16 where [fins_consts]: "END_CODE_NOT_EXEC_MONITOR_MODE = 0x2205"
definition END_CODE_NOT_EXEC_RUN_MODE :: u16 where [fins_consts]: "END_CODE_NOT_EXEC_RUN_MODE = 0x2206"
definition END_CODE_NOT_EXEC_NOT_POLLING :: u16 where [fins_consts]: "END_CODE_NOT_EXEC_NOT_POLLING = 0x2207"
definition END_CODE_NOT_EXEC_STEP_CANT :: u16 where [fins_consts]: "END_CODE_NOT_EXEC_STEP_CANT = 0x2208"
definition END_CODE_NO_SUCH_DEVICE_FILE :: u16 where [fins_consts]: "END_CODE_NO_SUCH_DEVICE_FILE = 0x2301"
definition END_CODE_NO_SUCH_DEVICE_MEM :: u16 where [fins_consts]: "END_CODE_NO_SUCH_DEVICE_MEM = 0x2302"
definition END_CODE_NO_SUCH_DEVICE_CLOCK :: u16 where [fins_consts]: "END_CODE_NO_SUCH_DEVICE_CLOCK = 0x2303"
definition END_CODE_CANT_START_STOP_TABLE :: u16 where [fins_consts]: "END_CODE_CANT_START_STOP_TABLE = 0x2401"
definition END_CODE_UNIT_ERROR_MEMORY :: u16 where [fins_consts]: "END_CODE_UNIT_ERROR_MEMORY = 0x2502"
definition END_CODE_UNIT_ERROR_IO :: u16 where [fins_consts]: "END_CODE_UNIT_ERROR_IO = 0x2503"
definition END_CODE_UNIT_ERROR_TOO_MANY_IO :: u16 where [fins_consts]: "END_CODE_UNIT_ERROR_TOO_MANY_IO = 0x2504"
definition END_CODE_UNIT_ERROR_CPU_BUS :: u16 where [fins_consts]: "END_CODE_UNIT_ERROR_CPU_BUS = 0x2505"
definition END_CODE_UNIT_ERROR_IO_DUP :: u16 where [fins_consts]: "END_CODE_UNIT_ERROR_IO_DUP = 0x2506"
definition END_CODE_UNIT_ERROR_IO_BUS_ERR :: u16 where [fins_consts]: "END_CODE_UNIT_ERROR_IO_BUS_ERR = 0x2507"
definition END_CODE_UNIT_ERROR_SYSMAC_BUS2 :: u16 where [fins_consts]: "END_CODE_UNIT_ERROR_SYSMAC_BUS2 = 0x2509"
definition END_CODE_UNIT_ERROR_CPU_BUS_UNIT :: u16 where [fins_consts]: "END_CODE_UNIT_ERROR_CPU_BUS_UNIT = 0x250a"
definition END_CODE_UNIT_ERROR_SYSMAC_BUS_NUM_DUP :: u16 where [fins_consts]: "END_CODE_UNIT_ERROR_SYSMAC_BUS_NUM_DUP = 0x250d"
definition END_CODE_UNIT_ERROR_MEM_STATUS :: u16 where [fins_consts]: "END_CODE_UNIT_ERROR_MEM_STATUS = 0x250f"
definition END_CODE_UNIT_ERROR_SYSMAC_BUS_TERM :: u16 where [fins_consts]: "END_CODE_UNIT_ERROR_SYSMAC_BUS_TERM = 0x2510"
definition END_CODE_CMD_ERROR_NO_PROTECTION :: u16 where [fins_consts]: "END_CODE_CMD_ERROR_NO_PROTECTION = 0x2601"
definition END_CODE_CMD_ERROR_BAD_PASSWORD :: u16 where [fins_consts]: "END_CODE_CMD_ERROR_BAD_PASSWORD = 0x2602"
definition END_CODE_CMD_ERROR_PROTECTED :: u16 where [fins_consts]: "END_CODE_CMD_ERROR_PROTECTED = 0x2604"
definition END_CODE_CMD_ERROR_SERVICE_EXEC :: u16 where [fins_consts]: "END_CODE_CMD_ERROR_SERVICE_EXEC = 0x2605"
definition END_CODE_CMD_ERROR_SERVICE_STOPPED :: u16 where [fins_consts]: "END_CODE_CMD_ERROR_SERVICE_STOPPED = 0x2606"
definition END_CODE_CMD_ERROR_NO_EXEC_RIGHT :: u16 where [fins_consts]: "END_CODE_CMD_ERROR_NO_EXEC_RIGHT = 0x2607"
definition END_CODE_CMD_ERROR_SETTINGS_NOT_COMPLETE :: u16 where [fins_consts]: "END_CODE_CMD_ERROR_SETTINGS_NOT_COMPLETE = 0x2608"
definition END_CODE_CMD_ERROR_ITEMS_NOT_SET :: u16 where [fins_consts]: "END_CODE_CMD_ERROR_ITEMS_NOT_SET = 0x2609"
definition END_CODE_CMD_ERROR_NUM_ALREADY_DEFINED :: u16 where [fins_consts]: "END_CODE_CMD_ERROR_NUM_ALREADY_DEFINED = 0x260a"
definition END_CODE_CMD_ERROR_ERROR_WONT_CLEAR :: u16 where [fins_consts]: "END_CODE_CMD_ERROR_ERROR_WONT_CLEAR = 0x260b"
definition END_CODE_ACCESS_WRITE_NO_RIGHT :: u16 where [fins_consts]: "END_CODE_ACCESS_WRITE_NO_RIGHT = 0x3001"
definition END_CODE_ABORT_SERVICE_ABORTED :: u16 where [fins_consts]: "END_CODE_ABORT_SERVICE_ABORTED = 0x4001"

subsection \<open>Memory area codes\<close>

definition MemoryAreaCIOBit :: u8 where [fins_consts]: "MemoryAreaCIOBit = 0x30"
definition MemoryAreaARBit :: u8 where [fins_consts]: "MemoryAreaARBit = 0x31"
definition MemoryAreaWRBit :: u8 where [fins_consts]: "MemoryAreaWRBit = 0x32"
definition MemoryAreaHRBit :: u8 where [fins_consts]: "MemoryAreaHRBit = 0x33"
definition MemoryAreaAuxiliaryBit :: u8 where [fins_consts]: "MemoryAreaAuxiliaryBit = 0x33"
definition MemoryAreaPVBit :: u8 where [fins_consts]: "MemoryAreaPVBit = 0x35"
definition MemoryAreaTimerCompletionFlag :: u8 where [fins_consts]: "MemoryAreaTimerCompletionFlag = 0x09"
definition MemoryAreaTimerPV :: u8 where [fins_consts]: "MemoryAreaTimerPV = 0x89"
definition MemoryAreaCounterCompletionFlag :: u8 where [fins_consts]: "MemoryAreaCounterCompletionFlag = 0x09"
definition MemoryAreaCounterPV :: u8 where [fins_consts]: "MemoryAreaCounterPV = 0x89"
definition MemoryAreaDMBit :: u8 where [fins_consts]: "MemoryAreaDMBit = 0x02"
definition MemoryAreaDMWord :: u8 where [fins_consts]: "MemoryAreaDMWord = 0x82"
definition MemoryAreaCIOWord :: u8 where [fins_consts]: "MemoryAreaCIOWord = 0xb0"
definition MemoryAreaWRWord :: u8 where [fins_consts]: "MemoryAreaWRWord = 0xb1"
definition MemoryAreaHRWord :: u8 where [fins_consts]: "MemoryAreaHRWord = 0xb2"
definition MemoryAreaARWord :: u8 where [fins_consts]: "MemoryAreaARWord = 0xb3"
definition MemoryAreaAuxiliaryWord :: u8 where [fins_consts]: "MemoryAreaAuxiliaryWord = 0xb3"
definition MemoryAreaPVWord :: u8 where [fins_consts]: "MemoryAreaPVWord = 0xb5"
definition MemoryAreaTaskBit :: u8 where [fins_consts]: "MemoryAreaTaskBit = 0x06"
definition MemoryAreaTaskStatus :: u8 where [fins_consts]: "MemoryAreaTaskStatus = 0x46"
definition MemoryAreaFlagBit :: u8 where [fins_consts]: "MemoryAreaFlagBit = 0x0b"
definition MemoryAreaIndexRegisterPV :: u8 where [fins_consts]: "MemoryAreaIndexRegisterPV = 0xdc"
definition MemoryAreaDataRegisterPV :: u8 where [fins_consts]: "MemoryAreaDataRegisterPV = 0xbc"
definition MemoryAreaClockPulsesConditionFlagsBit :: u8 where [fins_consts]: "MemoryAreaClockPulsesConditionFlagsBit = 0x07"
definition MemoryAreaEM0Word :: u8 where [fins_consts]: "MemoryAreaEM0Word = 0xa0"
definition MemoryAreaEM1Word :: u8 where [fins_consts]: "MemoryAreaEM1Word = 0xa1"
definition MemoryAreaEM2Word :: u8 where [fins_consts]: "MemoryAreaEM2Word = 0xa2"
definition MemoryAreaEM3Word :: u8 where [fins_consts]: "MemoryAreaEM3Word = 0xa3"
definition MemoryAreaEM4Word :: u8 where [fins_consts]: "MemoryAreaEM4Word = 0xa4"
definition MemoryAreaEM5Word :: u8 where [fins_consts]: "MemoryAreaEM5Word = 0xa5"
definition MemoryAreaEM6Word :: u8 where [fins_consts]: "MemoryAreaEM6Word = 0xa6"
definition MemoryAreaEM7Word :: u8 where [fins_consts]: "MemoryAreaEM7Word = 0xa7"
definition MemoryAreaEM8Word :: u8 where [fins_consts]: "MemoryAreaEM8Word = 0xa8"
definition MemoryAreaEM9Word :: u8 where [fins_consts]: "MemoryAreaEM9Word = 0xa9"
definition MemoryAreaEM10Word :: u8 where [fins_consts]: "MemoryAreaEM10Word = 0xaa"
definition MemoryAreaEM11Word :: u8 where [fins_consts]: "MemoryAreaEM11Word = 0xab"
definition MemoryAreaEM12Word :: u8 where [fins_consts]: "MemoryAreaEM12Word = 0xac"
definition MemoryAreaEM13Word :: u8 where [fins_consts]: "MemoryAreaEM13Word = 0xad"
definition MemoryAreaEM14Word :: u8 where [fins_consts]: "MemoryAreaEM14Word = 0xae"
definition MemoryAreaEM15Word :: u8 where [fins_consts]: "MemoryAreaEM15Word = 0xaf"
definition MemoryAreaEM0Bit :: u8 where [fins_consts]: "MemoryAreaEM0Bit = 0x20"
definition MemoryAreaEM1Bit :: u8 where [fins_consts]: "MemoryAreaEM1Bit = 0x21"
definition MemoryAreaEM2Bit :: u8 where [fins_consts]: "MemoryAreaEM2Bit = 0x22"
definition MemoryAreaEM3Bit :: u8 where [fins_consts]: "MemoryAreaEM3Bit = 0x23"
definition MemoryAreaEM4Bit :: u8 where [fins_consts]: "MemoryAreaEM4Bit = 0x24"
definition MemoryAreaEM5Bit :: u8 where [fins_consts]: "MemoryAreaEM5Bit = 0x25"
definition MemoryAreaEM6Bit :: u8 where [fins_consts]: "MemoryAreaEM6Bit = 0x26"
definition MemoryAreaEM7Bit :: u8 where [fins_consts]: "MemoryAreaEM7Bit = 0x27"
definition MemoryAreaEM8Bit :: u8 where [fins_consts]: "MemoryAreaEM8Bit = 0x28"
definition MemoryAreaEM9Bit :: u8 where [fins_consts]: "MemoryAreaEM9Bit = 0x29"
definition MemoryAreaEM10Bit :: u8 where [fins_consts]: "MemoryAreaEM10Bit = 0x2a"
definition MemoryAreaEM11Bit :: u8 where [fins_consts]: "MemoryAreaEM11Bit = 0x2b"
definition MemoryAreaEM12Bit :: u8 where [fins_consts]: "MemoryAreaEM12Bit = 0x2c"
definition MemoryAreaEM13Bit :: u8 where [fins_consts]: "MemoryAreaEM13Bit = 0x2d"
definition MemoryAreaEM14Bit :: u8 where [fins_consts]: "MemoryAreaEM14Bit = 0x2e"
definition MemoryAreaEM15Bit :: u8 where [fins_consts]: "MemoryAreaEM15Bit = 0x2f"

subsection \<open>Header bits\<close>

definition icfBitBridges :: u8 where [fins_consts]: "icfBitBridges = 7"
definition icfBitMessageType :: u8 where [fins_consts]: "icfBitMessageType = 6"
definition icfBitResponseRequired :: u8 where [fins_consts]: "icfBitResponseRequired = 0"
definition MessageTypeCommand :: u8 where [fins_consts]: "MessageTypeCommand = 0"
definition MessageTypeResponse :: u8 where [fins_consts]: "MessageTypeResponse = 1"
definition FINSTCPHeaderSize :: nat where "FINSTCPHeaderSize = 8"
definition FINSTCPMinFrameSize :: nat where "FINSTCPMinFrameSize = FINSTCPHeaderSize + 10"

section \<open>Frames and addresses\<close>

record FINSAddress =
  fa_Network :: u8
  fa_Node :: u8
  fa_Unit :: u8

record FINSHeader =
  ICF :: u8
  RSV :: u8
  GCT :: u8
  Dest :: FINSAddress
  Src :: FINSAddress
  SID :: u8

record FINSTCPFrame =
  tf_Magic :: bytes
  tf_Length :: u32
  tf_Command :: u16
  tf_ErrorCode :: u16
  tf_Data :: bytes

record FINSFrame =
  ff_Header :: FINSHeader
  ff_CommandCode :: u16
  ff_EndCode :: u16
  ff_Data :: bytes

record MemoryAddress =
  ma_Area :: u8
  ma_Address :: u16
  ma_BitOffset :: u8

definition NewMemoryAddress :: "u8 \<Rightarrow> u16 \<Rightarrow> MemoryAddress" where
  "NewMemoryAddress area address = \<lparr>ma_Area = area, ma_Address = address, ma_BitOffset = 0\<rparr>"

definition NewMemoryAddressWithBit :: "u8 \<Rightarrow> u16 \<Rightarrow> u8 \<Rightarrow> MemoryAddress" where
  "NewMemoryAddressWithBit area address bitOffset =
     \<lparr>ma_Area = area, ma_Address = address, ma_BitOffset = bitOffset\<rparr>"

section \<open>FINS/TCP frames\<close>

text \<open>The bytes of \<open>"FINS"\<close>.\<close>

definition fins_magic :: bytes where
  "fins_magic = [0x46, 0x49, 0x4E, 0x53]"

definition DecodeFINSTCPFrame :: "bytes \<Rightarrow> (FinsError, FINSTCPFrame) go" where
  "DecodeFINSTCPFrame data =
     (if length data < 12 then Err ErrFrameTooShort
      else let magic = slice data 0 4 in
        if magic \<noteq> fins_magic then Err ErrInvalidFINSHeader
        else
          let len = un_be32 (slice data 4 8);
              command = un_be16 (slice data 8 10);
              errorCode = un_be16 (slice data 10 12);
              dataLen = (if unat len < 4 then 0 else unat len - 4);
              remaining = length data - 12;
              payload = (if 12 < length data
                         then let dataLen' = (if remaining < dataLen then remaining else dataLen)
                              in slice data 12 (12 + dataLen')
                         else [])
          in Ok \<lparr>tf_Magic = magic, tf_Length = len, tf_Command = command,
                 tf_ErrorCode = errorCode, tf_Data = payload\<rparr>)"

definition EncodeFINSTCPFrame :: "u16 \<Rightarrow> u16 \<Rightarrow> bytes \<Rightarrow> bytes" where
  "EncodeFINSTCPFrame command errorCode finsData =
     fins_magic @ be32 (word_of_nat (length finsData + 4)) @ be16 command @ be16 errorCode @ finsData"

section \<open>FINS frames\<close>

definition encode_header :: "FINSHeader \<Rightarrow> bytes" where
  "encode_header h =
     [ICF h, RSV h, GCT h,
      fa_Network (Dest h), fa_Node (Dest h), fa_Unit (Dest h),
      fa_Network (Src h), fa_Node (Src h), fa_Unit (Src h), SID h]"

definition decode_header :: "bytes \<Rightarrow> FINSHeader" where
  "decode_header data =
     \<lparr>ICF = data ! 0, RSV = data ! 1, GCT = data ! 2,
      Dest = \<lparr>fa_Network = data ! 3, fa_Node = data ! 4, fa_Unit = data ! 5\<rparr>,
      Src = \<lparr>fa_Network = data ! 6, fa_Node = data ! 7, fa_Unit = data ! 8\<rparr>,
      SID = data ! 9\<rparr>"

definition DecodeFINSFrame :: "bytes \<Rightarrow> (FinsError, FINSFrame) go" where
  "DecodeFINSFrame data =
     (if length data < 14 then Err ErrFrameTooShort
      else Ok \<lparr>ff_Header = decode_header data,
               ff_CommandCode = un_be16 (slice data 10 12),
               ff_EndCode = un_be16 (slice data 12 14),
               ff_Data = (if 14 < length data then drop 14 data else [])\<rparr>)"

definition EncodeFINSFrame :: "FINSHeader \<Rightarrow> u16 \<Rightarrow> u16 \<Rightarrow> bytes \<Rightarrow> bytes" where
  "EncodeFINSFrame header commandCode endCode data =
     encode_header header @ be16 commandCode @ be16 endCode @ data"

section \<open>Memory addresses\<close>

definition EncodeMemoryAddress :: "MemoryAddress \<Rightarrow> bytes" where
  "EncodeMemoryAddress addr = [ma_Area addr] @ be16 (ma_Address addr) @ [ma_BitOffset addr]"

text \<open>The decoder indexes its argument without a length check: fewer than four bytes panic.\<close>

definition DecodeMemoryAddress :: "bytes \<Rightarrow> (FinsError, MemoryAddress) go" where
  "DecodeMemoryAddress data =
     (if length data < 4 then Panic
      else Ok \<lparr>ma_Area = data ! 0, ma_Address = un_be16 (slice data 1 3),
               ma_BitOffset = data ! 3\<rparr>)"

section \<open>Headers of commands and responses\<close>

definition DefaultCommandHeader :: "FINSAddress \<Rightarrow> FINSAddress \<Rightarrow> u8 \<Rightarrow> FINSHeader" where
  "DefaultCommandHeader src dest sid =
     \<lparr>ICF = push_bit (unat icfBitBridges) 1, RSV = 0, GCT = 2,
      Dest = dest, Src = src, SID = sid\<rparr>"

definition DefaultResponseHeader :: "FINSHeader \<Rightarrow> FINSHeader" where
  "DefaultResponseHeader cmdHeader =
     \<lparr>ICF = push_bit (unat icfBitBridges) 1 OR push_bit (unat icfBitMessageType) 1,
      RSV = 0, GCT = GCT cmdHeader,
      Dest = Src cmdHeader, Src = Dest cmdHeader, SID = SID cmdHeader\<rparr>"

section \<open>Area classification\<close>

definition word_areas :: "u8 list" where
  "word_areas =
     [MemoryAreaCIOWord, MemoryAreaWRWord, MemoryAreaHRWord, MemoryAreaARWord,
      MemoryAreaDMWord, MemoryAreaPVWord, MemoryAreaTimerPV,
      MemoryAreaEM0Word, MemoryAreaEM1Word, MemoryAreaEM2Word, MemoryAreaEM3Word,
      MemoryAreaEM4Word, MemoryAreaEM5Word, MemoryAreaEM6Word, MemoryAreaEM7Word,
      MemoryAreaEM8Word, MemoryAreaEM9Word, MemoryAreaEM10Word, MemoryAreaEM11Word,
      MemoryAreaEM12Word, MemoryAreaEM13Word, MemoryAreaEM14Word, MemoryAreaEM15Word]"

definition bit_areas :: "u8 list" where
  "bit_areas =
     [MemoryAreaCIOBit, MemoryAreaWRBit, MemoryAreaHRBit, MemoryAreaARBit,
      MemoryAreaDMBit, MemoryAreaPVBit, MemoryAreaFlagBit, MemoryAreaTaskBit,
      MemoryAreaEM0Bit, MemoryAreaEM1Bit, MemoryAreaEM2Bit, MemoryAreaEM3Bit,
      MemoryAreaEM4Bit, MemoryAreaEM5Bit, MemoryAreaEM6Bit, MemoryAreaEM7Bit,
      MemoryAreaEM8Bit, MemoryAreaEM9Bit, MemoryAreaEM10Bit, MemoryAreaEM11Bit,
      MemoryAreaEM12Bit, MemoryAreaEM13Bit, MemoryAreaEM14Bit, MemoryAreaEM15Bit]"

definition IsWordArea :: "u8 \<Rightarrow> bool" where
  "IsWordArea area \<longleftrightarrow> area \<in> set word_areas"

definition IsBitArea :: "u8 \<Rightarrow> bool" where
  "IsBitArea area \<longleftrightarrow> area \<in> set bit_areas"

definition EMWordArea :: "int \<Rightarrow> (FinsError, u8) go" where
  "EMWordArea emNumber =
     (if emNumber < 0 \<or> emNumber > 15 then Err (ErrMsg ''invalid EM area number, must be 0-15'')
      else Ok (MemoryAreaEM0Word + word_of_int emNumber))"

definition EMBitArea :: "int \<Rightarrow> (FinsError, u8) go" where
  "EMBitArea emNumber =
     (if emNumber < 0 \<or> emNumber > 15 then Err (ErrMsg ''invalid EM area number, must be 0-15'')
      else Ok (MemoryAreaEM0Bit + word_of_int emNumber))"

section \<open>Commands\<close>

definition EncodeReadCommand :: "MemoryAddress \<Rightarrow> u16 \<Rightarrow> bytes" where
  "EncodeReadCommand addr count =
     be16 MRC_MEMORY_AREA_READ @ EncodeMemoryAddress addr @ be16 count"

definition EncodeWriteCommand :: "MemoryAddress \<Rightarrow> u16 \<Rightarrow> bytes \<Rightarrow> bytes" where
  "EncodeWriteCommand addr count data =
     be16 MRC_MEMORY_AREA_WRITE @ EncodeMemoryAddress addr @ be16 count @ data"

section \<open>End code texts\<close>

definition end_code_texts :: "(u16 \<times> string) list" where
  "end_code_texts =
    [(END_CODE_NORMAL, ''normal completion''),
     (END_CODE_SERVICE_INTERRUPTED, ''service interrupted''),
     (END_CODE_LOCAL_NOT_IN_NET, ''local node not in network''),
     (END_CODE_TOKEN_TIMEOUT, ''token timeout''),
     (END_CODE_RETRIES_FAILED, ''retries failed''),
     (END_CODE_TOO_MANY_FRAMES, ''too many send frames''),
     (END_CODE_NODE_ADDR_RANGE, ''node address range error''),
     (END_CODE_NODE_ADDR_DUP, ''node address range duplication''),
     (END_CODE_DEST_NOT_IN_NET, ''destination node not in network''),
     (END_CODE_UNIT_MISSING, ''unit missing''),
     (END_CODE_THIRD_NODE_MISSING, ''third node missing''),
     (END_CODE_DEST_BUSY, ''destination node busy''),
     (END_CODE_RESPONSE_TIMEOUT, ''response timeout''),
     (END_CODE_COMM_CTRL_ERROR, ''communications controller error''),
     (END_CODE_CPU_UNIT_ERROR, ''CPU unit error''),
     (END_CODE_CONTROLLER_ERROR, ''controller error''),
     (END_CODE_UNIT_NUM_ERROR, ''unit number error''),
     (END_CODE_UNDEFINED_CMD, ''undefined command''),
     (END_CODE_NOT_SUPPORTED, ''not supported by model version''),
     (END_CODE_DEST_ADDR_ERROR, ''destination address setting error''),
     (END_CODE_NO_ROUTING_TABLE, ''no routing tables''),
     (END_CODE_ROUTING_TABLE_ERR, ''routing table error''),
     (END_CODE_TOO_MANY_RELAYS, ''too many relays''),
     (END_CODE_CMD_TOO_LONG, ''command too long''),
     (END_CODE_CMD_TOO_SHORT, ''command too short''),
     (END_CODE_ELEMENTS_MISMATCH, ''elements/data don'' @ CHR 0x27 # ''t match''),
     (END_CODE_CMD_FORMAT_ERROR, ''command format error''),
     (END_CODE_HEADER_ERROR, ''header error''),
     (END_CODE_AREA_MISSING, ''area classification missing''),
     (END_CODE_ACCESS_SIZE_ERR, ''access size error''),
     (END_CODE_ADDR_RANGE_ERR, ''address range error''),
     (END_CODE_ADDR_RANGE_EXCEED, ''address range exceeded''),
     (END_CODE_PROGRAM_MISSING, ''program missing''),
     (END_CODE_RELATIONAL_ERROR, ''relational error''),
     (END_CODE_DUP_DATA_ACCESS, ''duplicate data access''),
     (END_CODE_RESPONSE_TOO_BIG, ''response too big''),
     (END_CODE_PARAMETER_ERROR, ''parameter error''),
     (END_CODE_READ_PROTECTED, ''read not possible: protected''),
     (END_CODE_READ_TABLE_MISSING, ''read not possible: table missing''),
     (END_CODE_READ_DATA_MISSING, ''read not possible: data missing''),
     (END_CODE_READ_PROG_MISSING, ''read not possible: program missing''),
     (END_CODE_READ_FILE_MISSING, ''read not possible: file missing''),
     (END_CODE_READ_DATA_MISMATCH, ''read not possible: data mismatch''),
     (END_CODE_WRITE_READ_ONLY, ''write not possible: read only''),
     (END_CODE_WRITE_PROTECTED, ''write not possible: write protected''),
     (END_CODE_WRITE_CANT_REGISTER, ''write not possible: cannot register''),
     (END_CODE_WRITE_PROG_MISSING, ''write not possible: program missing''),
     (END_CODE_WRITE_FILE_MISSING, ''write not possible: file missing''),
     (END_CODE_WRITE_FILE_EXISTS, ''write not possible: file name already exists''),
     (END_CODE_WRITE_CANT_CHANGE, ''write not possible: cannot change''),
     (END_CODE_NOT_EXEC_DURING_EXEC, ''not executable in current mode: during execution''),
     (END_CODE_NOT_EXEC_WHILE_RUNNING, ''not executable in current mode: while running''),
     (END_CODE_NOT_EXEC_PROG_MODE, ''not executable in current mode: PROGRAM mode''),
     (END_CODE_NOT_EXEC_DEBUG_MODE, ''not executable in current mode: DEBUG mode''),
     (END_CODE_NOT_EXEC_MONITOR_MODE, ''not executable in current mode: MONITOR mode''),
     (END_CODE_NOT_EXEC_RUN_MODE, ''not executable in current mode: RUN mode''),
     (END_CODE_NOT_EXEC_NOT_POLLING, ''not executable in current mode: not polling node''),
     (END_CODE_NOT_EXEC_STEP_CANT, ''not executable in current mode: step cannot be executed''),
     (END_CODE_NO_SUCH_DEVICE_FILE, ''no such device: file device missing''),
     (END_CODE_NO_SUCH_DEVICE_MEM, ''no such device: memory missing''),
     (END_CODE_NO_SUCH_DEVICE_CLOCK, ''no such device: clock missing''),
     (END_CODE_CANT_START_STOP_TABLE, ''cannot start/stop: table missing''),
     (END_CODE_UNIT_ERROR_MEMORY, ''unit error: memory error''),
     (END_CODE_UNIT_ERROR_IO, ''unit error: IO error''),
     (END_CODE_UNIT_ERROR_TOO_MANY_IO, ''unit error: too many IO points''),
     (END_CODE_UNIT_ERROR_CPU_BUS, ''unit error: CPU bus error''),
     (END_CODE_UNIT_ERROR_IO_DUP, ''unit error: IO duplication''),
     (END_CODE_UNIT_ERROR_IO_BUS_ERR, ''unit error: IO bus error''),
     (END_CODE_UNIT_ERROR_SYSMAC_BUS2, ''unit error: SYSMAC BUS/2 error''),
     (END_CODE_UNIT_ERROR_CPU_BUS_UNIT, ''unit error: CPU bus unit error''),
     (END_CODE_UNIT_ERROR_SYSMAC_BUS_NUM_DUP, ''unit error: SYSMAC bus number duplication''),
     (END_CODE_UNIT_ERROR_MEM_STATUS, ''unit error: memory status error''),
     (END_CODE_UNIT_ERROR_SYSMAC_BUS_TERM, ''unit error: SYSMAC bus terminator missing''),
     (END_CODE_CMD_ERROR_NO_PROTECTION, ''command error: no protection''),
     (END_CODE_CMD_ERROR_BAD_PASSWORD, ''command error: incorrect password''),
     (END_CODE_CMD_ERROR_PROTECTED, ''command error: protected''),
     (END_CODE_CMD_ERROR_SERVICE_EXEC, ''command error: service already executing''),
     (END_CODE_CMD_ERROR_SERVICE_STOPPED, ''command error: service stopped''),
     (END_CODE_CMD_ERROR_NO_EXEC_RIGHT, ''command error: no execution right''),
     (END_CODE_CMD_ERROR_SETTINGS_NOT_COMPLETE, ''command error: settings not complete''),
     (END_CODE_CMD_ERROR_ITEMS_NOT_SET, ''command error: necessary items not set''),
     (END_CODE_CMD_ERROR_NUM_ALREADY_DEFINED, ''command error: number already defined''),
     (END_CODE_CMD_ERROR_ERROR_WONT_CLEAR, ''command error: error will not clear''),
     (END_CODE_ACCESS_WRITE_NO_RIGHT, ''access write error: no access right''),
     (END_CODE_ABORT_SERVICE_ABORTED, ''abort: service aborted'')]"

definition EndCodeText :: "u16 \<Rightarrow> string" where
  "EndCodeText endCode =
     (case map_of end_code_texts endCode of Some s \<Rightarrow> s | None \<Rightarrow> ''unknown error'')"

section \<open>Interface: an encoder undone by its decoder\<close>

locale frame_codec =
  fixes enc :: "'a \<Rightarrow> bytes"
    and dec :: "bytes \<Rightarrow> (FinsError, 'b) go"
    and image :: "'a \<Rightarrow> 'b"
    and dom_ok :: "'a \<Rightarrow> bool"
  assumes dec_enc: "dom_ok x \<Longrightarrow> dec (enc x) = Ok (image x)"
    and image_inj: "image x = image y \<Longrightarrow> dom_ok x \<Longrightarrow> dom_ok y \<Longrightarrow> x = y"
begin

lemma enc_inj: "enc x = enc y \<Longrightarrow> dom_ok x \<Longrightarrow> dom_ok y \<Longrightarrow> x = y"
  using dec_enc image_inj by (metis go.inject(1))

lemma dec_not_panic: "dom_ok x \<Longrightarrow> dec (enc x) \<noteq> Panic"
  by (simp add: dec_enc)

end

section \<open>Encoders: lengths and round trips\<close>

lemma length_fins_magic [simp]: "length fins_magic = 4"
  by (simp add: fins_magic_def)

lemma length_encode_header [simp]: "length (encode_header h) = 10"
  by (simp add: encode_header_def)

lemma length_EncodeFINSTCPFrame [simp]: "length (EncodeFINSTCPFrame c e d) = 12 + length d"
  by (simp add: EncodeFINSTCPFrame_def)

lemma length_EncodeFINSFrame [simp]: "length (EncodeFINSFrame h c e d) = 14 + length d"
  by (simp add: EncodeFINSFrame_def)

lemma length_EncodeMemoryAddress [simp]: "length (EncodeMemoryAddress a) = 4"
  by (simp add: EncodeMemoryAddress_def)

lemma length_EncodeReadCommand [simp]: "length (EncodeReadCommand a c) = 8"
  by (simp add: EncodeReadCommand_def)

lemma length_EncodeWriteCommand [simp]: "length (EncodeWriteCommand a c d) = 8 + length d"
  by (simp add: EncodeWriteCommand_def)

lemma decode_encode_header [simp]: "decode_header (encode_header h @ rest) = h"
  by (simp add: decode_header_def encode_header_def)

text \<open>The parts of an encoded frame, as the decoder slices them, with any bytes after it.\<close>

lemma tcp_frame_parts:
  fixes c e :: u16 and d rest :: bytes
  defines "f \<equiv> EncodeFINSTCPFrame c e d @ rest"
  shows "slice f 0 4 = fins_magic"
    and "slice f 4 8 = be32 (word_of_nat (length d + 4))"
    and "slice f 8 10 = be16 c"
    and "slice f 10 12 = be16 e"
    and "slice f 12 (12 + length d) = d"
  by (simp_all add: f_def EncodeFINSTCPFrame_def slice_def)

lemma unat_frame_length:
  "length (d :: bytes) + 4 < 2 ^ 32 \<Longrightarrow> unat (word_of_nat (length d + 4) :: u32) = length d + 4"
  by (simp add: unsigned_of_nat take_bit_nat_eq_self del: of_nat_add)

lemma DecodeFINSTCPFrame_stream:
  assumes "length d + 4 < 2 ^ 32"
  shows "DecodeFINSTCPFrame (EncodeFINSTCPFrame c e d @ rest) =
    Ok \<lparr>tf_Magic = fins_magic, tf_Length = word_of_nat (length d + 4), tf_Command = c,
        tf_ErrorCode = e, tf_Data = d\<rparr>"
  using assms
  by (simp add: DecodeFINSTCPFrame_def tcp_frame_parts unat_frame_length Let_def
        del: of_nat_add)

lemma DecodeFINSFrame_EncodeFINSFrame:
  "DecodeFINSFrame (EncodeFINSFrame h c e d) =
    Ok \<lparr>ff_Header = h, ff_CommandCode = c, ff_EndCode = e, ff_Data = d\<rparr>"
proof -
  have "slice (EncodeFINSFrame h c e d) 10 12 = be16 c"
    and "slice (EncodeFINSFrame h c e d) 12 14 = be16 e"
    and "drop 14 (EncodeFINSFrame h c e d) = d"
    by (simp_all add: EncodeFINSFrame_def slice_def)
  then show ?thesis
    by (simp add: DecodeFINSFrame_def) (simp add: EncodeFINSFrame_def)
qed

lemma DecodeMemoryAddress_EncodeMemoryAddress:
  "DecodeMemoryAddress (EncodeMemoryAddress a @ rest) = Ok a"
proof -
  have "slice (EncodeMemoryAddress a @ rest) 1 3 = be16 (ma_Address a)"
    by (simp add: EncodeMemoryAddress_def slice_def)
  moreover have "(EncodeMemoryAddress a @ rest) ! 0 = ma_Area a"
    and "(EncodeMemoryAddress a @ rest) ! 3 = ma_BitOffset a"
    by (simp_all add: EncodeMemoryAddress_def nth_append)
  ultimately show ?thesis
    by (simp add: DecodeMemoryAddress_def)
qed

text \<open>Decoders of frames return an error on short input and never panic.\<close>

lemma DecodeFINSTCPFrame_cases:
  obtains (short) "length data < 12" and "DecodeFINSTCPFrame data = Err ErrFrameTooShort"
  | (magic) "12 \<le> length data" and "slice data 0 4 \<noteq> fins_magic"
      and "DecodeFINSTCPFrame data = Err ErrInvalidFINSHeader"
  | (frame) f where "12 \<le> length data" and "slice data 0 4 = fins_magic"
      and "DecodeFINSTCPFrame data = Ok f" and "tf_Length f = un_be32 (slice data 4 8)"
      and "tf_Data f = slice data 12 (12 + min (unat (tf_Length f) - 4) (length data - 12))"
proof (cases "length data < 12")
  case True
  then show ?thesis using short by (simp add: DecodeFINSTCPFrame_def)
next
  case ge: False
  show ?thesis
  proof (cases "slice data 0 4 = fins_magic")
    case False
    then show ?thesis using ge magic by (simp add: DecodeFINSTCPFrame_def Let_def)
  next
    case True
    obtain f where "DecodeFINSTCPFrame data = Ok f" and "tf_Length f = un_be32 (slice data 4 8)"
      and "tf_Data f = slice data 12 (12 + min (unat (tf_Length f) - 4) (length data - 12))"
    proof
      show "DecodeFINSTCPFrame data = Ok \<lparr>tf_Magic = fins_magic,
          tf_Length = un_be32 (slice data 4 8), tf_Command = un_be16 (slice data 8 10),
          tf_ErrorCode = un_be16 (slice data 10 12),
          tf_Data = slice data 12
            (12 + min (unat (un_be32 (slice data 4 8)) - 4) (length data - 12))\<rparr>"
        using ge True by (auto simp: DecodeFINSTCPFrame_def Let_def slice_def min_def)
    qed simp_all
    then show ?thesis using frame ge True by simp
  qed
qed

lemma DecodeFINSTCPFrame_not_Panic: "DecodeFINSTCPFrame data \<noteq> Panic"
  by (cases rule: DecodeFINSTCPFrame_cases [of data]) auto

lemma DecodeFINSFrame_not_Panic: "DecodeFINSFrame data \<noteq> Panic"
  by (simp add: DecodeFINSFrame_def)

lemma DecodeFINSFrame_Ok_iff: "(\<exists>f. DecodeFINSFrame data = Ok f) \<longleftrightarrow> 14 \<le> length data"
  by (simp add: DecodeFINSFrame_def not_less)

lemma encode_decode_header:
  assumes "10 \<le> length data"
  shows "encode_header (decode_header data) = take 10 data"
proof (rule nth_equalityI)
  show "length (encode_header (decode_header data)) = length (take 10 data)"
    using assms by simp
next
  fix i
  assume "i < length (encode_header (decode_header data))"
  then have "i = 0 \<or> i = 1 \<or> i = 2 \<or> i = 3 \<or> i = 4 \<or> i = 5 \<or> i = 6 \<or> i = 7 \<or> i = 8 \<or> i = 9"
    by (simp del: One_nat_def) arith
  then show "encode_header (decode_header data) ! i = take 10 data ! i"
    by (auto simp: encode_header_def decode_header_def)
qed

lemma EncodeFINSFrame_DecodeFINSFrame:
  assumes "DecodeFINSFrame data = Ok f"
  shows "EncodeFINSFrame (ff_Header f) (ff_CommandCode f) (ff_EndCode f) (ff_Data f) = data"
proof -
  have len: "14 \<le> length data" and f: "f = \<lparr>ff_Header = decode_header data,
      ff_CommandCode = un_be16 (slice data 10 12), ff_EndCode = un_be16 (slice data 12 14),
      ff_Data = drop 14 data\<rparr>"
    using assms by (auto simp: DecodeFINSFrame_def split: if_splits)
  have "take 10 data @ slice data 10 12 @ slice data 12 14 @ drop 14 data = data"
    by (simp add: slice_append_drop)
  then show ?thesis
    using len by (simp add: f EncodeFINSFrame_def encode_decode_header be16_un_be16)
qed

section \<open>Area codes\<close>

lemmas area_consts = word_areas_def bit_areas_def fins_consts

lemma word_bit_areas_disjoint: "IsWordArea a \<Longrightarrow> \<not> IsBitArea a"
  by (auto simp: IsWordArea_def IsBitArea_def area_consts)

lemma em_number_cases:
  "0 \<le> n \<Longrightarrow> n \<le> 15 \<Longrightarrow> n = 15 \<or> n = 14 \<or> n = 13 \<or> n = 12 \<or> n = 11 \<or> n = 10 \<or> n = 9 \<or>
     n = 8 \<or> n = 7 \<or> n = 6 \<or> n = 5 \<or> n = 4 \<or> n = 3 \<or> n = 2 \<or> n = 1 \<or> n = (0::int)"
  by arith

lemma EMWordArea_IsWordArea: "EMWordArea n = Ok a \<Longrightarrow> IsWordArea a"
proof -
  assume "EMWordArea n = Ok a"
  then have a: "a = 0xa0 + word_of_int n" and n: "0 \<le> n" "n \<le> 15"
    by (auto simp: EMWordArea_def fins_consts split: if_splits)
  from em_number_cases [OF n] show ?thesis
    by (elim disjE) (simp_all add: a IsWordArea_def area_consts)
qed

lemma EMBitArea_IsBitArea: "EMBitArea n = Ok a \<Longrightarrow> IsBitArea a"
proof -
  assume "EMBitArea n = Ok a"
  then have a: "a = 0x20 + word_of_int n" and n: "0 \<le> n" "n \<le> 15"
    by (auto simp: EMBitArea_def fins_consts split: if_splits)
  from em_number_cases [OF n] show ?thesis
    by (elim disjE) (simp_all add: a IsBitArea_def area_consts)
qed

section \<open>End code texts\<close>

lemma end_code_texts_distinct:
  "distinct (map fst end_code_texts)" "distinct (map snd end_code_texts)"
  by (simp_all add: end_code_texts_def fins_consts)

lemma unknown_not_in_texts: "''unknown error'' \<notin> snd ` set end_code_texts"
  by (simp add: end_code_texts_def)

lemma EndCodeText_known: "(c, s) \<in> set end_code_texts \<Longrightarrow> EndCodeText c = s"
  using end_code_texts_distinct(1) by (simp add: EndCodeText_def)

lemma EndCodeText_unknown: "c \<notin> fst ` set end_code_texts \<Longrightarrow> EndCodeText c = ''unknown error''"
  by (simp add: EndCodeText_def map_of_eq_None_iff [symmetric])

section \<open>The codecs of the protocol layer\<close>

interpretation tcp_codec: frame_codec
  "\<lambda>(c, e, d). EncodeFINSTCPFrame c e d" DecodeFINSTCPFrame
  "\<lambda>(c, e, d). \<lparr>tf_Magic = fins_magic, tf_Length = word_of_nat (length d + 4), tf_Command = c,
     tf_ErrorCode = e, tf_Data = d\<rparr>"
  "\<lambda>(c, e, d). length d + 4 < 2 ^ 32"
proof unfold_locales
  fix x :: "u16 \<times> u16 \<times> bytes"
  assume "case x of (c, e, d) \<Rightarrow> length d + 4 < 2 ^ 32"
  then show "DecodeFINSTCPFrame (case x of (c, e, d) \<Rightarrow> EncodeFINSTCPFrame c e d) =
      Ok (case x of (c, e, d) \<Rightarrow> \<lparr>tf_Magic = fins_magic, tf_Length = word_of_nat (length d + 4),
        tf_Command = c, tf_ErrorCode = e, tf_Data = d\<rparr>)"
    using DecodeFINSTCPFrame_stream [where rest = "[]"] by (cases x) (simp del: of_nat_add)
qed auto

interpretation fins_codec: frame_codec
  "\<lambda>f. EncodeFINSFrame (ff_Header f) (ff_CommandCode f) (ff_EndCode f) (ff_Data f)"
  DecodeFINSFrame "\<lambda>f. f" "\<lambda>_. True"
  by unfold_locales (simp_all add: DecodeFINSFrame_EncodeFINSFrame)

interpretation addr_codec: frame_codec EncodeMemoryAddress DecodeMemoryAddress "\<lambda>a. a" "\<lambda>_. True"
  using DecodeMemoryAddress_EncodeMemoryAddress [where rest = "[]"]
  by unfold_locales simp_all

section \<open>Properties\<close>



text \<open>Decoding and encoding of FINS frames are inverse bijections between frames and byte
  strings of at least 14 bytes: a byte string decodes to a frame exactly when it is that frame's
  encoding.\<close>

lemma fins_frame_bijection:
  "DecodeFINSFrame data = Ok f \<longleftrightarrow>
   data = EncodeFINSFrame (ff_Header f) (ff_CommandCode f) (ff_EndCode f) (ff_Data f)"
  using EncodeFINSFrame_DecodeFINSFrame fins_codec.dec_enc by auto

text \<open>End code texts identify end codes: two codes have the same text exactly when they are
  equal or both are unknown to the driver, and the text of a known code is never the fallback.\<close>

lemma EndCodeText_identifies:
  "EndCodeText a = EndCodeText b \<longleftrightarrow>
     a = b \<or> a \<notin> fst ` set end_code_texts \<and> b \<notin> fst ` set end_code_texts"
proof -
  have inj: "c = c'" if "(c, s) \<in> set end_code_texts" "(c', s) \<in> set end_code_texts" for c c' s
    using that end_code_texts_distinct(2)
    by (simp add: distinct_map inj_on_def) (metis prod.inject snd_conv)
  have known: "\<exists>s. (c, s) \<in> set end_code_texts \<and> EndCodeText c = s \<and> s \<noteq> ''unknown error''"
    if "c \<in> fst ` set end_code_texts" for c
  proof -
    from that obtain s where s: "(c, s) \<in> set end_code_texts" by (auto simp del: set_map)
    then have "snd (c, s) \<in> snd ` set end_code_texts" by (rule imageI)
    then have "s \<noteq> ''unknown error''" using unknown_not_in_texts by (metis snd_conv)
    with s EndCodeText_known show ?thesis by blast
  qed
  show ?thesis
  proof (cases "a \<in> fst ` set end_code_texts")
    case a: True
    then obtain s where s: "(a, s) \<in> set end_code_texts" "EndCodeText a = s" "s \<noteq> ''unknown error''"
      using known by blast
    show ?thesis
    proof (cases "b \<in> fst ` set end_code_texts")
      case True
      then obtain t where t: "(b, t) \<in> set end_code_texts" "EndCodeText b = t"
        using known by blast
      have "s = t \<longleftrightarrow> a = b" using s t inj by metis
      then show ?thesis using a s(2) t(2) by simp
    next
      case False
      then show ?thesis using a s EndCodeText_unknown by metis
    qed
  next
    case False
    then show ?thesis using known EndCodeText_unknown by metis
  qed
qed

end
