(* ===== verification/Go_Runtime.thy ===== *)
theory Go_Runtime
  imports Fins_Types
begin

text \<open>
  What the driver uses of Go's language and standard library beyond integers and slices:
  conversions from \<open>float64\<close>, decimal numbers in strings, ASCII upper case and trimming, and
  \<open>strings.IndexByte\<close>. Strings are byte strings; \<open>ToUpper\<close> and \<open>TrimSpace\<close> are given for
  ASCII text, the alphabet of PLC addresses.
\<close>

section \<open>Floating point\<close>

definition f64_exponent :: "u64 \<Rightarrow> nat" where
  "f64_exponent b = unat (take_bit 11 (drop_bit 52 b))"

definition f64_significand :: "u64 \<Rightarrow> int" where
  "f64_significand b = uint (take_bit 52 b) + (if f64_exponent b = 0 then 0 else 2 ^ 52)"

text \<open>The value truncated towards zero; \<open>None\<close> for infinities and NaNs.\<close>

definition f64_trunc :: "u64 \<Rightarrow> int option" where
  "f64_trunc b =
     (if f64_exponent b = 2047 then None
      else
        let e = int (max (f64_exponent b) 1) - 1075;
            mag = (if e \<ge> 0 then f64_significand b * 2 ^ nat e
                   else f64_significand b div 2 ^ nat (- e))
        in Some (if bit b 63 then - mag else mag))"

text \<open>
  A conversion from \<open>float64\<close> to an integer type discards the fraction; when the result
  does not fit the type, the language leaves it to the implementation. That choice is the
  parameter \<open>oob\<close> of the definitions that convert: the resulting bit pattern for a target
  type and an argument.
\<close>

type_synonym float_oob = "DataType \<Rightarrow> u64 \<Rightarrow> u64"

definition float_to_int :: "float_oob \<Rightarrow> DataType \<Rightarrow> int \<Rightarrow> int \<Rightarrow> u64 \<Rightarrow> u64" where
  "float_to_int oob dt lo hi b =
     (case f64_trunc b of
        Some i \<Rightarrow> if lo \<le> i \<and> i \<le> hi then word_of_int i else oob dt b
      | None \<Rightarrow> oob dt b)"

text \<open>\<open>float32(f)\<close> rounds to nearest, ties to even; a NaN's payload is left to the
  implementation. The biased exponent and the fraction of the result are one number, to which
  a carry of the rounding adds correctly.\<close>

definition round_half_even :: "int \<Rightarrow> nat \<Rightarrow> int" where
  "round_half_even m sh =
     (let q = m div 2 ^ sh; r = m mod 2 ^ sh; h = 2 ^ (sh - 1) in
      if r > h \<or> (r = h \<and> odd q) then q + 1 else q)"

definition float64_to_float32 :: "float_oob \<Rightarrow> u64 \<Rightarrow> u32" where
  "float64_to_float32 oob b =
     (let sign = (if bit b 63 then 0x80000000 else 0) in
      if f64_exponent b = 2047 then
        (if take_bit 52 b = 0 then sign OR 0x7f800000 else ucast (oob DataTypeFLOAT b))
      else
        let e = int (max (f64_exponent b) 1) - 1075;
            sh = nat (max 29 (- 149 - e));
            q = round_half_even (f64_significand b) sh;
            n = (e + int sh + 149) * 2 ^ 23 + q
        in if n \<ge> 0x7f800000 then sign OR 0x7f800000 else sign OR word_of_int n)"

section \<open>Text\<close>

definition is_digit :: "char \<Rightarrow> bool" where
  "is_digit c \<longleftrightarrow> 48 \<le> (of_char c :: nat) \<and> (of_char c :: nat) \<le> 57"

definition upper :: "char \<Rightarrow> char" where
  "upper c = (if 97 \<le> (of_char c :: nat) \<and> (of_char c :: nat) \<le> 122
              then char_of ((of_char c :: nat) - 32) else c)"

definition ToUpper :: "string \<Rightarrow> string" where
  "ToUpper s = map upper s"

definition is_space :: "char \<Rightarrow> bool" where
  "is_space c \<longleftrightarrow> (of_char c :: nat) \<in> {9, 10, 11, 12, 13, 32}"

definition TrimSpace :: "string \<Rightarrow> string" where
  "TrimSpace s = rev (dropWhile is_space (rev (dropWhile is_space s)))"

definition HasPrefix :: "string \<Rightarrow> string \<Rightarrow> bool" where
  "HasPrefix s p \<longleftrightarrow> take (length p) s = p"

definition HasSuffix :: "string \<Rightarrow> string \<Rightarrow> bool" where
  "HasSuffix s p \<longleftrightarrow> length p \<le> length s \<and> drop (length s - length p) s = p"

text \<open>The value of a digit string, and \<open>strconv.Atoi\<close> on one: an error when the value
  does not fit a 64-bit signed integer.\<close>

definition digits_value :: "string \<Rightarrow> int" where
  "digits_value s = foldl (\<lambda>v c. 10 * v + (int (of_char c) - 48)) 0 s"

definition Atoi :: "string \<Rightarrow> int option" where
  "Atoi s = (if digits_value s < 2 ^ 63 then Some (digits_value s) else None)"

text \<open>\<open>fmt.Sprintf("%d", n)\<close> for a natural number.\<close>

fun dec :: "nat \<Rightarrow> string" where
  "dec n = (if n < 10 then [char_of (48 + n)] else dec (n div 10) @ [char_of (48 + n mod 10)])"

declare dec.simps [simp del]

section \<open>Lemmas\<close>

lemma is_digit_char_of: "n < 10 \<Longrightarrow> is_digit (char_of (48 + n :: nat))"
  by (simp add: is_digit_def of_char_of)

lemma dec_digits: "list_all is_digit (dec n)"
proof (induction n rule: dec.induct)
  case (1 n)
  show ?case
  proof (cases "n < 10")
    case True
    then show ?thesis by (simp add: dec.simps [of n] is_digit_char_of)
  next
    case False
    with 1 show ?thesis by (simp add: dec.simps [of n] is_digit_char_of)
  qed
qed

lemma dec_nonempty [simp]: "dec n \<noteq> []"
  by (subst dec.simps) simp

lemma digits_value_snoc:
  "digits_value (s @ [c]) = 10 * digits_value s + (int (of_char c) - 48)"
  by (simp add: digits_value_def)

lemma digits_value_dec: "digits_value (dec n) = int n"
proof (induction n rule: dec.induct)
  case (1 n)
  show ?case
  proof (cases "n < 10")
    case True
    then show ?thesis by (simp add: dec.simps [of n] digits_value_def)
  next
    case False
    have "digits_value (dec (n div 10)) = int (n div 10)" using 1 False by simp
    then show ?thesis
      using False by (simp add: dec.simps [of n] digits_value_snoc) (simp add: zdiv_int zmod_int)
  qed
qed

lemma Atoi_dec: "int n < 2 ^ 63 \<Longrightarrow> Atoi (dec n) = Some (int n)"
  by (simp add: Atoi_def digits_value_dec)

lemma digits_value_nonneg: "list_all is_digit s \<Longrightarrow> 0 \<le> digits_value s"
proof (induction s rule: rev_induct)
  case Nil
  then show ?case by (simp add: digits_value_def)
next
  case (snoc c s)
  then have "48 \<le> (of_char c :: nat)" by (simp add: is_digit_def)
  then have "48 \<le> int (of_char c)" by simp
  with snoc show ?case by (simp add: digits_value_snoc)
qed

text \<open>Digits, dots and upper-case letters are left alone by trimming and upper-casing.\<close>

definition address_char :: "char \<Rightarrow> bool" where
  "address_char c \<longleftrightarrow> is_digit c \<or> c = CHR ''.'' \<or> (65 \<le> (of_char c :: nat) \<and> (of_char c :: nat) \<le> 90)"

lemma upper_address_char: "address_char c \<Longrightarrow> upper c = c"
  by (auto simp: address_char_def is_digit_def upper_def)

lemma not_space_address_char: "address_char c \<Longrightarrow> \<not> is_space c"
  by (auto simp: address_char_def is_digit_def is_space_def)

lemma ToUpper_address: "list_all address_char s \<Longrightarrow> ToUpper s = s"
  by (induction s) (simp_all add: ToUpper_def upper_address_char)

lemma dropWhile_none: "list_all (\<lambda>c. \<not> P c) s \<Longrightarrow> dropWhile P s = s"
  by (cases s) simp_all

lemma TrimSpace_address: "list_all address_char s \<Longrightarrow> TrimSpace s = s"
proof -
  assume "list_all address_char s"
  then have "list_all (\<lambda>c. \<not> is_space c) s"
    by (auto simp: list_all_iff not_space_address_char)
  then show ?thesis
    by (simp add: TrimSpace_def dropWhile_none)
qed

lemma digits_address: "list_all is_digit s \<Longrightarrow> list_all address_char s"
  by (auto simp: list_all_iff address_char_def)

end
