(* ===== verification/Fins_Decoder.thy ===== *)
theory Fins_Decoder
  imports Fins_Protocol Go_Runtime
begin

text \<open>
  The decoder layer, \<open>decoder.go\<close>: the table of memory areas, parsing of address strings,
  encoding and decoding of values, and the translation between word and bit area codes.
\<close>

section \<open>Areas\<close>

definition mk_area :: "u8 \<Rightarrow> string \<Rightarrow> bool \<Rightarrow> bool \<Rightarrow> AreaInfo" where
  "mk_area code name readOnly supportString =
     \<lparr>ai_Code = code, ai_Name = name, ai_ReadOnly = readOnly, ai_SupportBit = True,
      ai_SupportString = supportString\<rparr>"

text \<open>The loop of \<open>initAreaMap\<close> over the sixteen EM banks; the error of \<open>EMWordArea\<close> is
  ignored, as in the source.\<close>

definition em_area :: "nat \<Rightarrow> string \<times> AreaInfo" where
  "em_area i =
     (''EM'' @ dec i,
      mk_area (case EMWordArea (int i) of Ok c \<Rightarrow> c | _ \<Rightarrow> 0) (''EM'' @ dec i) False True)"

definition initAreaMap :: "(string \<times> AreaInfo) list" where
  "initAreaMap =
     [(''CIO'', mk_area MemoryAreaCIOWord ''CIO'' False True),
      (''W'', mk_area MemoryAreaWRWord ''Work'' False True),
      (''H'', mk_area MemoryAreaHRWord ''Holding'' False True),
      (''A'', mk_area MemoryAreaARWord ''Auxiliary'' True True),
      (''D'', mk_area MemoryAreaDMWord ''Data Memory'' False True),
      (''P'', mk_area MemoryAreaPVWord ''PVs'' False False),
      (''F'', mk_area MemoryAreaFlagBit ''Flag'' True False),
      (''T'', mk_area MemoryAreaTimerPV ''Timer'' False False),
      (''C'', mk_area MemoryAreaCounterPV ''Counter'' False False)]
     @ map em_area [0..<16]"

record Decoder =
  areaMap :: "string \<rightharpoonup> AreaInfo"

definition NewDecoder :: Decoder where
  "NewDecoder = \<lparr>areaMap = map_of initAreaMap\<rparr>"

definition GetAreaInfo :: "Decoder \<Rightarrow> string \<Rightarrow> AreaInfo option" where
  "GetAreaInfo d areaName = areaMap d (ToUpper areaName)"

definition GetAreaCode :: "Decoder \<Rightarrow> string \<Rightarrow> (FinsError, u8) go" where
  "GetAreaCode d areaName =
     (case GetAreaInfo d areaName of
        None \<Rightarrow> Err (ErrUnsupportedArea areaName)
      | Some info \<Rightarrow> Ok (ai_Code info))"

section \<open>Address strings\<close>

text \<open>
  The regular expression of addresses,
  \<^verbatim>\<open>^(CIO|EM\d+W?|[WHDAPTC])(\d+)(?:\.(\d+)([HL])?)?$\<close>. Each part lists its possible matches
  at the front of a string, with what is left, in the order of preference of Go's
  leftmost-first matching (earlier alternatives first, longer repetitions first); the match is
  the first combination that uses up the string.
\<close>

definition rx_digits :: "string \<Rightarrow> (string \<times> string) list" where
  "rx_digits s =
     map (\<lambda>n. (take n s, drop n s)) (rev [1..<Suc (length (takeWhile is_digit s))])"

definition rx_area :: "string \<Rightarrow> (string \<times> string) list" where
  "rx_area s =
     (if HasPrefix s ''CIO'' then [(''CIO'', drop 3 s)] else [])
     @ (if HasPrefix s ''EM''
        then concat (map (\<lambda>(ds, r).
               (if HasPrefix r ''W'' then [(''EM'' @ ds @ ''W'', drop 1 r)] else [])
               @ [(''EM'' @ ds, r)])
             (rx_digits (drop 2 s)))
        else [])
     @ (case s of [] \<Rightarrow> [] | c # r \<Rightarrow> if c \<in> set ''WHDAPTC'' then [([c], r)] else [])"

definition rx_suffix :: "string \<Rightarrow> (string \<times> string \<times> string) list" where
  "rx_suffix s =
     (if HasPrefix s ''.''
      then concat (map (\<lambda>(ds, r).
             (case r of [] \<Rightarrow> [] | c # r' \<Rightarrow> if c \<in> set ''HL'' then [(ds, [c], r')] else [])
             @ [(ds, [], r)])
           (rx_digits (drop 1 s)))
      else [])
     @ [([], [], s)]"

definition regex_matches :: "string \<Rightarrow> (string \<times> string \<times> string \<times> string) list" where
  "regex_matches s =
     concat (map (\<lambda>(area, r1). concat (map (\<lambda>(num, r2).
         concat (map (\<lambda>(dot, bo, r3). if r3 = [] then [(area, num, dot, bo)] else [])
           (rx_suffix r2)))
       (rx_digits r1)))
     (rx_area s))"

definition addressRegex :: "string \<Rightarrow> (string \<times> string \<times> string \<times> string) option" where
  "addressRegex s = (case regex_matches s of [] \<Rightarrow> None | m # _ \<Rightarrow> Some m)"

text \<open>The part of \<open>ParseAddress\<close> after the dot: a bit number or a string length.\<close>

definition parse_dot ::
  "AreaInfo \<Rightarrow> string \<Rightarrow> ParsedAddress \<Rightarrow> string \<Rightarrow> string \<Rightarrow> (FinsError, ParsedAddress) go" where
  "parse_dot areaInfo addr parsed dotNumStr byteOrderStr =
     (case Atoi dotNumStr of
        None \<Rightarrow> Err (ErrInvalidAddress (''invalid number '' @ dotNumStr @ '' after dot''))
      | Some dotNum \<Rightarrow>
        let isString = (byteOrderStr \<noteq> [] \<or> (pa_Area parsed = ''D'' \<and> dotNum > 15));
            isBit = (\<not> isString \<and> dotNum \<ge> 0 \<and> dotNum \<le> 15) in
        if isString then
          (if \<not> ai_SupportString areaInfo
           then Err (ErrInvalidAddress
                  (''area '' @ pa_Area parsed @ '' does not support string access''))
           else if dotNum \<le> 0
           then Err (ErrInvalidAddress ''string length must be positive'')
           else Ok (parsed\<lparr>pa_StringLen := dotNum, pa_IsString := True,
                  pa_ByteOrder := (if byteOrderStr = ''H'' then ByteOrderHigh
                                   else ByteOrderLow)\<rparr>))
        else if isBit then
          (if \<not> ai_SupportBit areaInfo
           then Err (ErrInvalidAddress
                  (''area '' @ pa_Area parsed @ '' does not support bit access''))
           else Ok (parsed\<lparr>pa_Bit := dotNum, pa_IsBit := True\<rparr>))
        else Err (ErrInvalidAddress (''invalid address format: '' @ addr)))"

definition ParseAddress :: "Decoder \<Rightarrow> string \<Rightarrow> (FinsError, ParsedAddress) go" where
  "ParseAddress d addr0 =
     (let addr = ToUpper (TrimSpace addr0) in
      case addressRegex addr of
        None \<Rightarrow> Err (ErrInvalidAddress addr)
      | Some (areaName, addrStr, dotNumStr, byteOrderStr) \<Rightarrow>
          let lookupArea = (if HasPrefix areaName ''EM'' \<and> HasSuffix areaName ''W''
                            then butlast areaName else areaName) in
          case GetAreaInfo d lookupArea of
            None \<Rightarrow> Err (ErrUnsupportedArea areaName)
          | Some areaInfo \<Rightarrow>
            (case Atoi addrStr of
               None \<Rightarrow> Err (ErrInvalidAddress (''invalid address number '' @ addrStr))
             | Some address \<Rightarrow>
               let parsed =
                 \<lparr>pa_Area = lookupArea, pa_AreaCode = ai_Code areaInfo,
                  pa_EMNumber = (if HasPrefix lookupArea ''EM''
                                 then (case Atoi (drop 2 lookupArea) of Some n \<Rightarrow> n | None \<Rightarrow> 0)
                                 else 0),
                  pa_Address = address, pa_Bit = - 1, pa_StringLen = 0,
                  pa_ByteOrder = ByteOrderHigh, pa_IsBit = False, pa_IsString = False\<rparr> in
               if dotNumStr = [] then Ok parsed
               else parse_dot areaInfo addr parsed dotNumStr byteOrderStr))"

section \<open>Encoding of values\<close>

text \<open>The byte order that \<open>EncodeValue\<close> and \<open>DecodeValue\<close> choose from the address
  (\<open>None\<close> is a nil address).\<close>

definition value_order :: "ParsedAddress option \<Rightarrow> byte_order" where
  "value_order addr =
     (case addr of
        Some a \<Rightarrow> if pa_IsString a \<and> pa_ByteOrder a = ByteOrderLow then LittleEndian else BigEndian
      | None \<Rightarrow> BigEndian)"

definition addr_is_bit :: "ParsedAddress option \<Rightarrow> bool" where
  "addr_is_bit addr \<longleftrightarrow> (case addr of Some a \<Rightarrow> pa_IsBit a | None \<Rightarrow> False)"

definition addr_string_len :: "ParsedAddress option \<Rightarrow> int" where
  "addr_string_len addr = (case addr of Some a \<Rightarrow> pa_StringLen a | None \<Rightarrow> 0)"

definition EncodeValue ::
  "float_oob \<Rightarrow> GoValue \<Rightarrow> DataType \<Rightarrow> ParsedAddress option \<Rightarrow> (FinsError, bytes) go" where
  "EncodeValue oob v dataType addr =
     (if addr_is_bit addr then
        (case v of
           VBool b \<Rightarrow> Ok (if b then [1] else [0])
         | _ \<Rightarrow> Err (ErrInvalidDataType ''expected bool for bit access''))
      else let bo = value_order addr in
        case dataType of
          DataTypeUINT8 \<Rightarrow>
            (case v of VUint8 w \<Rightarrow> Ok [w]
             | VFloat64 f \<Rightarrow> Ok [ucast (float_to_int oob DataTypeUINT8 0 255 f)]
             | _ \<Rightarrow> Err (ErrInvalidDataType ''expected uint8''))
        | DataTypeINT8 \<Rightarrow>
            (case v of VInt8 w \<Rightarrow> Ok [w]
             | VFloat64 f \<Rightarrow> Ok [ucast (float_to_int oob DataTypeINT8 (- 128) 127 f)]
             | _ \<Rightarrow> Err (ErrInvalidDataType ''expected int8''))
        | DataTypeUINT16 \<Rightarrow>
            (case v of VUint16 w \<Rightarrow> Ok (PutUint bo 2 w)
             | VFloat64 f \<Rightarrow> Ok (PutUint bo 2 (ucast (float_to_int oob DataTypeUINT16 0 65535 f) :: u16))
             | _ \<Rightarrow> Err (ErrInvalidDataType ''expected uint16''))
        | DataTypeINT16 \<Rightarrow>
            (case v of VInt16 w \<Rightarrow> Ok (PutUint bo 2 w)
             | VFloat64 f \<Rightarrow>
                 Ok (PutUint bo 2 (ucast (float_to_int oob DataTypeINT16 (- 32768) 32767 f) :: u16))
             | _ \<Rightarrow> Err (ErrInvalidDataType ''expected int16''))
        | DataTypeUINT32 \<Rightarrow>
            (case v of VUint32 w \<Rightarrow> Ok (PutUint bo 4 w)
             | VFloat64 f \<Rightarrow>
                 Ok (PutUint bo 4 (ucast (float_to_int oob DataTypeUINT32 0 (2 ^ 32 - 1) f) :: u32))
             | _ \<Rightarrow> Err (ErrInvalidDataType ''expected uint32''))
        | DataTypeINT32 \<Rightarrow>
            (case v of VInt32 w \<Rightarrow> Ok (PutUint bo 4 w)
             | VFloat64 f \<Rightarrow>
                 Ok (PutUint bo 4
                   (ucast (float_to_int oob DataTypeINT32 (- (2 ^ 31)) (2 ^ 31 - 1) f) :: u32))
             | _ \<Rightarrow> Err (ErrInvalidDataType ''expected int32''))
        | DataTypeUINT64 \<Rightarrow>
            (case v of VUint64 w \<Rightarrow> Ok (PutUint bo 8 w)
             | VFloat64 f \<Rightarrow> Ok (PutUint bo 8 (float_to_int oob DataTypeUINT64 0 (2 ^ 64 - 1) f))
             | _ \<Rightarrow> Err (ErrInvalidDataType ''expected uint64''))
        | DataTypeINT64 \<Rightarrow>
            (case v of VInt64 w \<Rightarrow> Ok (PutUint bo 8 w)
             | VFloat64 f \<Rightarrow>
                 Ok (PutUint bo 8 (float_to_int oob DataTypeINT64 (- (2 ^ 63)) (2 ^ 63 - 1) f))
             | _ \<Rightarrow> Err (ErrInvalidDataType ''expected int64''))
        | DataTypeFLOAT \<Rightarrow>
            (case v of VFloat32 w \<Rightarrow> Ok (PutUint bo 4 w)
             | VFloat64 f \<Rightarrow> Ok (PutUint bo 4 (float64_to_float32 oob f))
             | _ \<Rightarrow> Err (ErrInvalidDataType ''expected float32''))
        | DataTypeDOUBLE \<Rightarrow>
            (case v of VFloat64 w \<Rightarrow> Ok (PutUint bo 8 w)
             | _ \<Rightarrow> Err (ErrInvalidDataType ''expected float64''))
        | DataTypeSTRING \<Rightarrow>
            (case v of
               VString s \<Rightarrow>
                 let strLen = (if addr_string_len addr > 0 then nat (addr_string_len addr)
                               else length s)
                 in Ok (take strLen s @ replicate (strLen - length s) 0)
             | _ \<Rightarrow> Err (ErrInvalidDataType ''expected string''))
        | _ \<Rightarrow> Err (ErrUnsupportedDataType dataType))"

section \<open>Decoding of values\<close>

definition decode_bool :: "bytes \<Rightarrow> (FinsError, GoValue) go" where
  "decode_bool data =
     (if length data < 1 then Err ErrDataTooShort else Ok (VBool (data ! 0 AND 1 \<noteq> 0)))"

definition decode_sized :: "nat \<Rightarrow> bytes \<Rightarrow> (bytes \<Rightarrow> GoValue) \<Rightarrow> (FinsError, GoValue) go" where
  "decode_sized n data f =
     (if length data < n then Err ErrDataTooShort else Ok (f (slice data 0 n)))"

definition DecodeValue ::
  "bytes \<Rightarrow> DataType \<Rightarrow> ParsedAddress option \<Rightarrow> (FinsError, GoValue) go" where
  "DecodeValue data dataType addr =
     (if addr_is_bit addr then decode_bool data
      else let bo = value_order addr in
        case dataType of
          DataTypeUINT8 \<Rightarrow> decode_sized 1 data (\<lambda>b. VUint8 (b ! 0))
        | DataTypeINT8 \<Rightarrow> decode_sized 1 data (\<lambda>b. VInt8 (b ! 0))
        | DataTypeUINT16 \<Rightarrow> decode_sized 2 data (\<lambda>b. VUint16 (Uint bo b))
        | DataTypeINT16 \<Rightarrow> decode_sized 2 data (\<lambda>b. VInt16 (Uint bo b))
        | DataTypeUINT32 \<Rightarrow> decode_sized 4 data (\<lambda>b. VUint32 (Uint bo b))
        | DataTypeINT32 \<Rightarrow> decode_sized 4 data (\<lambda>b. VInt32 (Uint bo b))
        | DataTypeUINT64 \<Rightarrow> decode_sized 8 data (\<lambda>b. VUint64 (Uint bo b))
        | DataTypeINT64 \<Rightarrow> decode_sized 8 data (\<lambda>b. VInt64 (Uint bo b))
        | DataTypeFLOAT \<Rightarrow> decode_sized 4 data (\<lambda>b. VFloat32 (Uint bo b))
        | DataTypeDOUBLE \<Rightarrow> decode_sized 8 data (\<lambda>b. VFloat64 (Uint bo b))
        | DataTypeSTRING \<Rightarrow>
            (let strLen = (if addr_string_len addr > 0 \<and> addr_string_len addr < int (length data)
                           then nat (addr_string_len addr) else length data)
             in Ok (VString (takeWhile (\<lambda>b. b \<noteq> 0) (take strLen data))))
        | DataTypeBIT \<Rightarrow> decode_bool data
        | DataTypeOther _ \<Rightarrow> Err (ErrUnsupportedDataType dataType))"

definition DataTypeSize :: "DataType \<Rightarrow> (FinsError, nat) go" where
  "DataTypeSize dataType =
     (case dataType of
        DataTypeUINT8 \<Rightarrow> Ok 1 | DataTypeINT8 \<Rightarrow> Ok 1
      | DataTypeUINT16 \<Rightarrow> Ok 2 | DataTypeINT16 \<Rightarrow> Ok 2
      | DataTypeUINT32 \<Rightarrow> Ok 4 | DataTypeINT32 \<Rightarrow> Ok 4 | DataTypeFLOAT \<Rightarrow> Ok 4
      | DataTypeUINT64 \<Rightarrow> Ok 8 | DataTypeINT64 \<Rightarrow> Ok 8 | DataTypeDOUBLE \<Rightarrow> Ok 8
      | DataTypeSTRING \<Rightarrow> Ok 0
      | _ \<Rightarrow> Err (ErrUnsupportedDataType dataType))"

definition IsBitDataType :: "DataType \<Rightarrow> bool" where
  "IsBitDataType dataType \<longleftrightarrow> dataType = DataTypeBIT"

section \<open>Word and bit area codes\<close>

definition GetWordAreaCode :: "u8 \<Rightarrow> (FinsError, u8) go" where
  "GetWordAreaCode bitAreaCode =
     (if bitAreaCode = MemoryAreaCIOBit then Ok MemoryAreaCIOWord
      else if bitAreaCode = MemoryAreaWRBit then Ok MemoryAreaWRWord
      else if bitAreaCode = MemoryAreaHRBit then Ok MemoryAreaHRWord
      else if bitAreaCode = MemoryAreaARBit then Ok MemoryAreaARWord
      else if bitAreaCode = MemoryAreaDMBit then Ok MemoryAreaDMWord
      else if bitAreaCode = MemoryAreaPVBit then Ok MemoryAreaPVWord
      else if bitAreaCode = MemoryAreaFlagBit then Ok MemoryAreaFlagBit
      else if bitAreaCode \<ge> MemoryAreaEM0Bit \<and> bitAreaCode \<le> MemoryAreaEM15Bit
      then Ok (MemoryAreaEM0Word + (bitAreaCode - MemoryAreaEM0Bit))
      else Err (ErrMsg ''unknown bit area code''))"

definition GetBitAreaCode :: "u8 \<Rightarrow> (FinsError, u8) go" where
  "GetBitAreaCode wordAreaCode =
     (if wordAreaCode = MemoryAreaCIOWord then Ok MemoryAreaCIOBit
      else if wordAreaCode = MemoryAreaWRWord then Ok MemoryAreaWRBit
      else if wordAreaCode = MemoryAreaHRWord then Ok MemoryAreaHRBit
      else if wordAreaCode = MemoryAreaARWord then Ok MemoryAreaARBit
      else if wordAreaCode = MemoryAreaDMWord then Ok MemoryAreaDMBit
      else if wordAreaCode = MemoryAreaPVWord then Ok MemoryAreaPVBit
      else if wordAreaCode \<ge> MemoryAreaEM0Word \<and> wordAreaCode \<le> MemoryAreaEM15Word
      then Ok (MemoryAreaEM0Bit + (wordAreaCode - MemoryAreaEM0Word))
      else Err (ErrMsg ''unknown word area code''))"

section \<open>Values: what is encoded is decoded\<close>

text \<open>A value that has the Go type of the data type, at an address that fits: a bool at a bit
  address, anything else at a word address; a string without NUL bytes that fits the declared
  length.\<close>

definition encodable :: "ParsedAddress option \<Rightarrow> DataType \<Rightarrow> GoValue \<Rightarrow> bool" where
  "encodable addr dt v \<longleftrightarrow>
     typed_value dt v \<and> (addr_is_bit addr \<longleftrightarrow> dt = DataTypeBIT) \<and>
     (\<forall>s. v = VString s \<longrightarrow> 0 \<notin> set s \<and>
        (addr_string_len addr > 0 \<longrightarrow> int (length s) \<le> addr_string_len addr))"

lemma decode_sized_PutUint:
  fixes w :: "'a::len word"
  assumes "LENGTH('a) = 8 * n"
  shows "decode_sized n (PutUint bo n w @ rest) f = Ok (f (PutUint bo n w))"
proof -
  have "slice (PutUint bo n w @ rest) 0 n = PutUint bo n w" by (simp add: slice_def)
  then show ?thesis by (simp add: decode_sized_def)
qed

lemmas Uint_widths = Uint_PutUint [where 'a = 16 and n = 2, simplified]
  Uint_PutUint [where 'a = 32 and n = 4, simplified]
  Uint_PutUint [where 'a = 64 and n = 8, simplified]

lemmas decode_widths = decode_sized_PutUint [where 'a = 16 and n = 2, simplified]
  decode_sized_PutUint [where 'a = 32 and n = 4, simplified]
  decode_sized_PutUint [where 'a = 64 and n = 8, simplified]

text \<open>Numeric values: the encoding has the size of the data type, and decoding it gives the
  value back whatever bytes follow.\<close>

lemma numeric_roundtrip:
  assumes "typed_value dt v" and "\<not> addr_is_bit addr" and "DataTypeSize dt = Ok n" and "n > 0"
  shows "\<exists>bs. EncodeValue oob v dt addr = Ok bs \<and> length bs = n \<and>
    DecodeValue (bs @ rest) dt addr = Ok v"
  using assms
  by (cases v) (auto simp: typed_value_def EncodeValue_def DecodeValue_def DataTypeSize_def
      Uint_widths decode_widths decode_sized_def slice_def)

lemma takeWhile_zeros: "0 \<notin> set s \<Longrightarrow> takeWhile (\<lambda>b. b \<noteq> 0) (s @ replicate k 0) = (s :: bytes)"
  by (induction s) (auto simp: takeWhile_eq_Nil_iff hd_replicate)

lemma string_encode:
  assumes "\<not> addr_is_bit addr" and "addr_string_len addr > 0 \<longrightarrow> int (length s) \<le> addr_string_len addr"
  shows "EncodeValue oob (VString s) DataTypeSTRING addr =
    Ok (s @ replicate (nat (addr_string_len addr) - length s) 0)"
  using assms by (auto simp: EncodeValue_def Let_def)

lemma string_decode:
  assumes "0 \<notin> set s" and "\<not> addr_is_bit addr"
    and "addr_string_len addr > 0 \<longrightarrow> int (length s) \<le> addr_string_len addr"
  shows "DecodeValue (s @ replicate k 0) DataTypeSTRING addr = Ok (VString s)"
proof -
  have "take n (s @ replicate k 0) = s @ replicate (min (n - length s) k) 0" if "length s \<le> n" for n
    using that by (simp add: min.commute)
  then show ?thesis
    using assms takeWhile_zeros [OF assms(1)]
    by (auto simp: DecodeValue_def Let_def)
qed

section \<open>Addresses: the result of a parse\<close>

lemma rx_digits_mem:
  "(ds, r) \<in> set (rx_digits s) \<Longrightarrow> s = ds @ r \<and> ds \<noteq> [] \<and> list_all is_digit ds"
proof -
  assume "(ds, r) \<in> set (rx_digits s)"
  then obtain n where n: "1 \<le> n" "n \<le> length (takeWhile is_digit s)" "ds = take n s" "r = drop n s"
    by (auto simp: rx_digits_def)
  have "take n s = take n (takeWhile is_digit s)"
    using n(2) by (metis append_take_drop_id takeWhile_eq_take take_all_iff length_takeWhile_le
        min.absorb1 take_take)
  then have "list_all is_digit ds"
    using n(3) by (auto simp: list_all_iff dest!: in_set_takeD set_takeWhileD)
  moreover have "n \<le> length s" using n(2) length_takeWhile_le le_trans by blast
  ultimately show ?thesis using n by auto
qed

lemma addressRegex_parts:
  assumes "addressRegex s = Some (a, n, d, b)"
  obtains r1 r2 where "(a, r1) \<in> set (rx_area s)" and "(n, r2) \<in> set (rx_digits r1)"
    and "(d, b, []) \<in> set (rx_suffix r2)"
proof -
  obtain ms where "regex_matches s = (a, n, d, b) # ms"
    using assms by (auto simp: addressRegex_def split: list.splits)
  then have "(a, n, d, b) \<in> set (regex_matches s)" by simp
  then show ?thesis using that by (fastforce simp: regex_matches_def split: if_splits)
qed

lemma rx_suffix_mem:
  "(d, b, r) \<in> set (rx_suffix s) \<Longrightarrow> list_all is_digit d \<and> b \<in> {[], ''H'', ''L''}"
  by (auto simp: rx_suffix_def dest!: rx_digits_mem split: if_splits list.splits)

lemma addressRegex_digits:
  "addressRegex s = Some (a, n, d, b) \<Longrightarrow> list_all is_digit n \<and> list_all is_digit d \<and> b \<in> {[], ''H'', ''L''}"
  by (elim addressRegex_parts) (auto dest!: rx_digits_mem dest: rx_suffix_mem)

lemma Atoi_range: "list_all is_digit s \<Longrightarrow> Atoi s = Some n \<Longrightarrow> 0 \<le> n \<and> n < 2 ^ 63"
  by (auto simp: Atoi_def digits_value_nonneg split: if_splits)

text \<open>A flag-area address cannot be written: no alternative of the expression starts with F.\<close>

lemma rx_area_not_F: "(a, r) \<in> set (rx_area s) \<Longrightarrow> a \<noteq> ''F''"
  by (auto simp: rx_area_def split: if_splits list.splits)

text \<open>What holds of every parsed address.\<close>

definition parsed_ok :: "Decoder \<Rightarrow> ParsedAddress \<Rightarrow> bool" where
  "parsed_ok d p \<longleftrightarrow>
     (\<exists>info. GetAreaInfo d (pa_Area p) = Some info \<and> pa_AreaCode p = ai_Code info \<and>
        (pa_IsString p \<longrightarrow> ai_SupportString info) \<and> (pa_IsBit p \<longrightarrow> ai_SupportBit info)) \<and>
     0 \<le> pa_Address p \<and> pa_Address p < 2 ^ 63 \<and>
     \<not> (pa_IsBit p \<and> pa_IsString p) \<and>
     (if pa_IsBit p then 0 \<le> pa_Bit p \<and> pa_Bit p \<le> 15 else pa_Bit p = - 1) \<and>
     (if pa_IsString p then 0 < pa_StringLen p \<and> pa_StringLen p < 2 ^ 63 else pa_StringLen p = 0)"

lemma parse_dot_ok:
  assumes "parse_dot info addr q dot bo = Ok p" and "list_all is_digit dot"
    and "GetAreaInfo d (pa_Area q) = Some info" and "pa_AreaCode q = ai_Code info"
    and "0 \<le> pa_Address q" and "pa_Address q < 2 ^ 63" and "pa_Bit q = - 1" and "pa_StringLen q = 0"
    and "\<not> pa_IsBit q" and "\<not> pa_IsString q"
  shows "parsed_ok d p \<and> pa_Area p = pa_Area q"
proof -
  obtain k where k: "Atoi dot = Some k" using assms(1) by (auto simp: parse_dot_def split: option.splits)
  have "0 \<le> k \<and> k < 2 ^ 63" using Atoi_range [OF assms(2) k] .
  then show ?thesis
    using assms k by (auto simp: parse_dot_def parsed_ok_def Let_def split: if_splits)
qed

lemma ParseAddress_ok:
  assumes "ParseAddress d s = Ok p"
  shows "parsed_ok d p \<and> pa_Area p \<noteq> ''F''"
proof -
  obtain a n dot bo where rx: "addressRegex (ToUpper (TrimSpace s)) = Some (a, n, dot, bo)"
    using assms by (auto simp: ParseAddress_def Let_def split: option.splits)
  have digs: "list_all is_digit n" "list_all is_digit dot" using addressRegex_digits [OF rx] by simp_all
  define area where "area = (if HasPrefix a ''EM'' \<and> HasSuffix a ''W'' then butlast a else a)"
  have "a \<noteq> ''F''" using rx by (metis addressRegex_parts rx_area_not_F)
  moreover have "butlast a \<noteq> ''F''" if "HasPrefix a ''EM''"
    using that by (cases a; cases "tl a") (auto simp: HasPrefix_def)
  ultimately have F: "area \<noteq> ''F''" by (simp add: area_def)
  obtain info where info: "GetAreaInfo d area = Some info"
    using assms rx by (auto simp: ParseAddress_def Let_def area_def split: option.splits if_splits)
  obtain k where k: "Atoi n = Some k"
    using assms rx info by (auto simp: ParseAddress_def Let_def area_def [symmetric] split: option.splits)
  show ?thesis
  proof (cases "dot = []")
    case True
    then show ?thesis
      using assms rx info k F Atoi_range [OF digs(1) k]
      by (auto simp: ParseAddress_def Let_def area_def [symmetric] parsed_ok_def)
  next
    case False
    then show ?thesis
      using assms rx info k F Atoi_range [OF digs(1) k]
      by (auto simp: ParseAddress_def Let_def area_def [symmetric]
          dest!: parse_dot_ok [OF _ digs(2), where d = d])
  qed
qed

section \<open>Addresses: printing and parsing\<close>

text \<open>The canonical address string of a parsed address. Bank \<open>k\<close> of extended memory is
  written with the \<open>W\<close>, which keeps its number apart from the word address.\<close>

definition print_address :: "ParsedAddress \<Rightarrow> string" where
  "print_address p =
     pa_Area p @ (if HasPrefix (pa_Area p) ''EM'' then ''W'' else []) @ dec (nat (pa_Address p)) @
     (if pa_IsBit p then ''.'' @ dec (nat (pa_Bit p))
      else if pa_IsString p
      then ''.'' @ dec (nat (pa_StringLen p)) @ (if pa_ByteOrder p = ByteOrderHigh then ''H'' else ''L'')
      else [])"

lemma rx_digits_greedy:
  assumes "list_all is_digit ds" and "ds \<noteq> []" and "r = [] \<or> \<not> is_digit (hd r)"
  shows "\<exists>ms. rx_digits (ds @ r) = (ds, r) # ms"
proof -
  have "takeWhile is_digit (ds @ r) = ds"
    using assms(1,3) by (cases r) (auto simp: list_all_iff takeWhile_append)
  moreover have "[1..<Suc (length ds)] = [1..<length ds] @ [length ds]"
    using assms(2) by (simp add: Suc_le_eq)
  ultimately show ?thesis by (simp add: rx_digits_def del: upt_Suc)
qed

lemma addressRegex_greedy:
  assumes "rx_area s = (a, r1) # ms1" and "rx_digits r1 = (n, r2) # ms2"
    and "rx_suffix r2 = (d, b, []) # ms3"
  shows "addressRegex s = Some (a, n, d, b)"
  using assms by (simp add: addressRegex_def regex_matches_def)

text \<open>The three kinds of suffix.\<close>

lemma rx_suffix_none: "rx_suffix [] = ([], [], []) # []"
  by (simp add: rx_suffix_def HasPrefix_def)

lemma rx_suffix_bit: "\<exists>ms. rx_suffix (''.'' @ dec k) = (dec k, [], []) # ms"
  using rx_digits_greedy [of "dec k" "[]"] by (auto simp: rx_suffix_def HasPrefix_def dec_digits)

lemma rx_suffix_string:
  "c \<in> set ''HL'' \<Longrightarrow> \<exists>ms. rx_suffix (''.'' @ dec k @ [c]) = (dec k, [c], []) # ms"
  using rx_digits_greedy [of "dec k" "[c]"]
  by (auto simp: rx_suffix_def HasPrefix_def dec_digits is_digit_def)

text \<open>The areas that can be written, with the string that names them.\<close>

definition area_names :: "string list" where
  "area_names = [''CIO'', ''W'', ''H'', ''A'', ''D'', ''P'', ''T'', ''C''] @ map (\<lambda>i. ''EM'' @ dec i) [0..<16]"

lemma area_names_cases:
  assumes "a \<in> set area_names"
  obtains (em) k where "a = ''EM'' @ dec k" "k < 16"
    | (named) "a \<in> set [''CIO'', ''W'', ''H'', ''A'', ''D'', ''P'', ''T'', ''C'']"
  using assms unfolding area_names_def set_append Un_iff by (auto simp del: list.set)

lemma hd_digit: "list_all is_digit ds \<Longrightarrow> ds \<noteq> [] \<Longrightarrow> \<exists>c r. ds = c # r \<and> is_digit c"
  by (cases ds) auto

lemma rx_area_named:
  assumes "a \<in> set area_names" and "list_all is_digit ds" and "ds \<noteq> []"
  shows "\<exists>ms. rx_area (a @ (if HasPrefix a ''EM'' then ''W'' else []) @ ds @ r) =
    (a @ (if HasPrefix a ''EM'' then ''W'' else []), ds @ r) # ms"
proof -
  obtain c t where c: "ds = c # t" "is_digit c" using hd_digit assms(2,3) by blast
  have ne: "c \<noteq> CHR ''I''" using c(2) by (auto simp: is_digit_def)
  from assms(1) show ?thesis
  proof (cases rule: area_names_cases)
    case (em k)
    obtain ms where "rx_digits (dec k @ CHR ''W'' # c # t @ r) = (dec k, CHR ''W'' # c # t @ r) # ms"
      using rx_digits_greedy [of "dec k" "CHR ''W'' # c # t @ r"] by (auto simp: dec_digits is_digit_def)
    then show ?thesis by (simp add: em c rx_area_def HasPrefix_def)
  next
    case named
    then show ?thesis using ne by (auto simp: c rx_area_def HasPrefix_def)
  qed
qed

text \<open>Every area that can be written is in the table, and every area in the table but the flag
  area can be written.\<close>

lemma area_upper:
  assumes "a \<in> set area_names"
  shows "list_all address_char a"
  using assms
proof (cases rule: area_names_cases)
  case (em k)
  then show ?thesis by (simp add: digits_address dec_digits) (simp add: address_char_def)
next
  case named
  then show ?thesis by (auto simp: address_char_def)
qed

lemma area_names_dom: "fst ` set initAreaMap = insert ''F'' (set area_names)"
  unfolding initAreaMap_def area_names_def set_append image_Un set_map image_image em_area_def
  by (simp add: insert_commute)

lemma GetAreaInfo_named:
  assumes "ToUpper a = a" and "a \<noteq> ''F''"
  shows "a \<in> set area_names \<longleftrightarrow> (\<exists>info. GetAreaInfo NewDecoder a = Some info)"
proof -
  have "(\<exists>info. GetAreaInfo NewDecoder a = Some info) \<longleftrightarrow> a \<in> fst ` set initAreaMap"
    using map_of_eq_None_iff [of initAreaMap a] by (auto simp: GetAreaInfo_def NewDecoder_def assms(1))
  then show ?thesis unfolding area_names_dom using assms(2) by simp
qed


text \<open>A parsed address that is in the form \<open>ParseAddress\<close> gives it: the area can be
  written, and the fields that do not apply have their defaults.\<close>

definition canonical :: "ParsedAddress \<Rightarrow> bool" where
  "canonical p \<longleftrightarrow> parsed_ok NewDecoder p \<and> pa_Area p \<in> set area_names \<and>
     pa_EMNumber p = (if HasPrefix (pa_Area p) ''EM''
                      then (case Atoi (drop 2 (pa_Area p)) of Some n \<Rightarrow> n | None \<Rightarrow> 0) else 0) \<and>
     (\<not> pa_IsString p \<longrightarrow> pa_ByteOrder p = ByteOrderHigh)"

lemma print_address_chars: "pa_Area p \<in> set area_names \<Longrightarrow> list_all address_char (print_address p)"
  by (simp add: print_address_def area_upper digits_address dec_digits) (simp add: address_char_def)

lemma addressRegex_print:
  assumes "pa_Area p \<in> set area_names"
  shows "addressRegex (print_address p) =
    Some (pa_Area p @ (if HasPrefix (pa_Area p) ''EM'' then ''W'' else []), dec (nat (pa_Address p)),
      (if pa_IsBit p then dec (nat (pa_Bit p)) else if pa_IsString p then dec (nat (pa_StringLen p)) else []),
      (if pa_IsBit p \<or> \<not> pa_IsString p then [] else if pa_ByteOrder p = ByteOrderHigh then ''H'' else ''L''))"
    (is "_ = Some (_, ?n, ?d, ?b)")
proof -
  define r where "r = (if pa_IsBit p then ''.'' @ dec (nat (pa_Bit p))
      else if pa_IsString p
      then ''.'' @ dec (nat (pa_StringLen p)) @ (if pa_ByteOrder p = ByteOrderHigh then ''H'' else ''L'')
      else [])"
  have "\<exists>ms. rx_suffix r = (?d, ?b, []) # ms"
    using rx_suffix_none rx_suffix_bit [of "nat (pa_Bit p)"]
      rx_suffix_string [of "CHR ''H''" "nat (pa_StringLen p)"] rx_suffix_string [of "CHR ''L''" "nat (pa_StringLen p)"]
    by (auto simp: r_def)
  moreover have "r = [] \<or> \<not> is_digit (hd r)" by (simp add: r_def is_digit_def)
  then have "\<exists>ms. rx_digits (?n @ r) = (?n, r) # ms" by (intro rx_digits_greedy dec_digits dec_nonempty)
  moreover have "print_address p = pa_Area p @ (if HasPrefix (pa_Area p) ''EM'' then ''W'' else []) @ ?n @ r"
    by (simp add: print_address_def r_def)
  ultimately show ?thesis
    using rx_area_named [OF assms dec_digits dec_nonempty, of "nat (pa_Address p)" r] addressRegex_greedy
    by metis
qed

lemma lookup_area:
  assumes "a \<in> set area_names" and "b = a @ (if HasPrefix a ''EM'' then ''W'' else [])"
  shows "(if HasPrefix b ''EM'' \<and> HasSuffix b ''W'' then butlast b else b) = a"
  using assms(1)
proof (cases rule: area_names_cases)
  case (em k)
  then show ?thesis using assms(2) by (simp add: HasPrefix_def HasSuffix_def butlast_append)
next
  case named
  then show ?thesis using assms(2) by (auto simp: HasPrefix_def HasSuffix_def)
qed

lemma parse_print:
  assumes "canonical p"
  shows "ParseAddress NewDecoder (print_address p) = Ok p"
proof -
  let ?a = "pa_Area p @ (if HasPrefix (pa_Area p) ''EM'' then ''W'' else [])"
  have area: "pa_Area p \<in> set area_names" using assms by (simp add: canonical_def)
  obtain info where info: "GetAreaInfo NewDecoder (pa_Area p) = Some info" "pa_AreaCode p = ai_Code info"
      "pa_IsString p \<longrightarrow> ai_SupportString info" "pa_IsBit p \<longrightarrow> ai_SupportBit info"
    using assms by (auto simp: canonical_def parsed_ok_def)
  have upper: "ToUpper (TrimSpace (print_address p)) = print_address p"
    by (simp add: print_address_chars [OF area] TrimSpace_address ToUpper_address)
  have n: "Atoi (dec (nat (pa_Address p))) = Some (pa_Address p)"
    using assms Atoi_dec [of "nat (pa_Address p)"] by (simp add: canonical_def parsed_ok_def)
  have b: "Atoi (dec (nat (pa_Bit p))) = Some (pa_Bit p)" if "pa_IsBit p"
    using that assms Atoi_dec [of "nat (pa_Bit p)"] by (simp add: canonical_def parsed_ok_def)
  have l: "Atoi (dec (nat (pa_StringLen p))) = Some (pa_StringLen p)" if "pa_IsString p"
    using that assms Atoi_dec [of "nat (pa_StringLen p)"] by (simp add: canonical_def parsed_ok_def)
  have bo: "(if pa_ByteOrder p = ByteOrderHigh then ''H'' else ''L'') \<noteq> []"
    "(if (if pa_ByteOrder p = ByteOrderHigh then ''H'' else ''L'') = ''H'' then ByteOrderHigh
      else ByteOrderLow) = pa_ByteOrder p"
    by (cases "pa_ByteOrder p"; simp)+
  have p: "\<not> (pa_IsBit p \<and> pa_IsString p)" "pa_IsBit p \<Longrightarrow> 0 \<le> pa_Bit p \<and> pa_Bit p \<le> 15"
      "\<not> pa_IsBit p \<Longrightarrow> pa_Bit p = - 1" "pa_IsString p \<Longrightarrow> 0 < pa_StringLen p"
      "\<not> pa_IsString p \<Longrightarrow> pa_StringLen p = 0" "\<not> pa_IsString p \<Longrightarrow> pa_ByteOrder p = ByteOrderHigh"
    using assms by (simp_all add: canonical_def parsed_ok_def split: if_splits)
  have em: "(if HasPrefix (pa_Area p) ''EM'' then (case Atoi (drop 2 (pa_Area p)) of Some n \<Rightarrow> n | None \<Rightarrow> 0)
      else 0) = pa_EMNumber p"
    using assms by (simp add: canonical_def)
  show ?thesis
    unfolding ParseAddress_def Let_def upper addressRegex_print [OF area] option.case prod.case
      lookup_area [OF area refl] info(1) n em
  proof (cases "pa_IsBit p"; cases "pa_IsString p")
  qed (use p info b l bo in \<open>simp_all add: parse_dot_def Let_def ParsedAddress.equality del: if_split\<close>)
qed

text \<open>The result of a parse is canonical.\<close>

lemma rx_area_cases:
  assumes "(a, r) \<in> set (rx_area s)"
  obtains "a = ''CIO''" | ds w where "list_all is_digit ds" "w = [] \<or> w = ''W''" "a = ''EM'' @ ds @ w"
    | c where "c \<in> set ''WHDAPTC''" "a = [c]"
proof -
  define W where "W = set ''WHDAPTC''"
  consider "HasPrefix s ''CIO'' \<and> a = ''CIO''"
    | ds q where "(ds, q) \<in> set (rx_digits (drop 2 s))" "a = ''EM'' @ ds \<or> a = ''EM'' @ ds @ ''W''"
    | c t where "s = c # t" "c \<in> W" "a = [c]"
    using assms unfolding rx_area_def set_append Un_iff W_def [symmetric]
    by (elim disjE) (auto split: if_splits list.splits)
  then show ?thesis
  proof cases
    case (2 ds q)
    then show ?thesis using that(2) [of ds "[]"] that(2) [of ds "''W''"] rx_digits_mem [OF 2(1)] by auto
  qed (use that in \<open>simp_all add: W_def del: list.set\<close>)
qed

lemma rx_area_upper:
  assumes "(a, r) \<in> set (rx_area s)"
  shows "list_all address_char a"
  using assms
proof (cases rule: rx_area_cases)
  case (2 ds w)
  then have "list_all address_char w" by (auto simp: address_char_def)
  then show ?thesis using 2 by (simp add: digits_address) (simp add: address_char_def)
qed (auto simp: address_char_def)

lemma list_all_butlast: "list_all P s \<Longrightarrow> list_all P (butlast s)"
  by (auto simp: list_all_iff dest: in_set_butlastD)

lemma ParseAddress_canonical:
  assumes "ParseAddress NewDecoder s = Ok p"
  shows "canonical p"
proof -
  have ok: "parsed_ok NewDecoder p" "pa_Area p \<noteq> ''F''" using ParseAddress_ok [OF assms] by simp_all
  obtain a n dot bo where rx: "addressRegex (ToUpper (TrimSpace s)) = Some (a, n, dot, bo)"
    using assms by (auto simp: ParseAddress_def Let_def split: option.splits)
  then have "list_all address_char a" using addressRegex_parts rx_area_upper by metis
  then have up: "list_all address_char (if HasPrefix a ''EM'' \<and> HasSuffix a ''W'' then butlast a else a)"
    by (simp add: list_all_butlast)
  have rest: "pa_Area p = (if HasPrefix a ''EM'' \<and> HasSuffix a ''W'' then butlast a else a) \<and>
     pa_EMNumber p = (if HasPrefix (pa_Area p) ''EM''
                      then (case Atoi (drop 2 (pa_Area p)) of Some n \<Rightarrow> n | None \<Rightarrow> 0) else 0) \<and>
     (\<not> pa_IsString p \<longrightarrow> pa_ByteOrder p = ByteOrderHigh)"
    using assms unfolding ParseAddress_def Let_def rx option.case prod.case
    by (simp add: parse_dot_def Let_def split: option.splits if_splits) auto
  then have "ToUpper (pa_Area p) = pa_Area p" using up ToUpper_address by auto
  then have "pa_Area p \<in> set area_names"
    using ok GetAreaInfo_named by (auto simp: parsed_ok_def)
  then show ?thesis using ok rest by (simp add: canonical_def)
qed

section \<open>Word and bit area codes: the tables\<close>

text \<open>The two translations as tables.\<close>

definition area_pairs :: "(u8 \<times> u8) list" where
  "area_pairs =
     [(MemoryAreaCIOWord, MemoryAreaCIOBit), (MemoryAreaWRWord, MemoryAreaWRBit),
      (MemoryAreaHRWord, MemoryAreaHRBit), (MemoryAreaARWord, MemoryAreaARBit),
      (MemoryAreaDMWord, MemoryAreaDMBit), (MemoryAreaPVWord, MemoryAreaPVBit)]
     @ map (\<lambda>i. (MemoryAreaEM0Word + of_nat i, MemoryAreaEM0Bit + of_nat i)) [0..<16]"

lemma bank_range:
  fixes w b :: u8
  assumes "unat b + 15 < 256"
  shows "b \<le> w \<and> w \<le> b + 15 \<longleftrightarrow> w \<in> set (map (\<lambda>i. b + of_nat i) [0..<16])"
proof
  have b15: "unat (b + 15) = unat b + 15" using assms by (simp add: unat_word_ariths)
  assume "b \<le> w \<and> w \<le> b + 15"
  then have "unat b \<le> unat w" "unat w \<le> unat b + 15" by (simp_all add: word_le_nat_alt b15)
  then have "w = b + of_nat (unat w - unat b)" "unat w - unat b \<in> set [0..<16]"
    by (auto simp: of_nat_diff)
  then show "w \<in> set (map (\<lambda>i. b + of_nat i) [0..<16])" by (metis image_eqI set_map)
next
  assume "w \<in> set (map (\<lambda>i. b + of_nat i) [0..<16])"
  then obtain i where i: "i < 16" "w = b + of_nat i" by auto
  have "unat w = unat b + i" using i assms by (simp add: unat_word_ariths unat_of_nat)
  then show "b \<le> w \<and> w \<le> b + 15" using i assms by (simp add: word_le_nat_alt unat_word_ariths)
qed

lemma upt_16: "[0..<16] = rev [15, 14, 13, 12, 11, 10, 9, 8, 7, 6, 5, 4, 3, 2, 1, 0 :: nat]"
  by (simp add: upt_rec numeral_eq_Suc)

lemmas bank_A0 = bank_range [where b = "0xA0", unfolded upt_16, simplified]
lemmas bank_20 = bank_range [where b = "0x20", unfolded upt_16, simplified]

lemma GetBitAreaCode_table: "GetBitAreaCode w = Ok b \<longleftrightarrow> (w, b) \<in> set area_pairs"
  by (auto simp: GetBitAreaCode_def area_pairs_def upt_16 bank_A0 fins_consts)

lemma GetWordAreaCode_table:
  "GetWordAreaCode b = Ok w \<longleftrightarrow> (w, b) \<in> set area_pairs \<or> w = MemoryAreaFlagBit \<and> b = MemoryAreaFlagBit"
  by (auto simp: GetWordAreaCode_def area_pairs_def upt_16 bank_20 fins_consts)

text \<open>\<open>GetBitAreaCode\<close> and \<open>GetWordAreaCode\<close> are inverse to each other, but
  for the flag area, which is its own word area; they are defined on exactly the word areas but
  the timer/counter one and on exactly the bit areas but the task one.\<close>

lemma area_codes_inverse:
  "(GetBitAreaCode w = Ok b \<longleftrightarrow> GetWordAreaCode b = Ok w \<and> b \<noteq> MemoryAreaFlagBit) \<and>
   ((\<exists>b. GetBitAreaCode w = Ok b) \<longleftrightarrow> IsWordArea w \<and> w \<noteq> MemoryAreaTimerPV) \<and>
   ((\<exists>w. GetWordAreaCode b = Ok w) \<longleftrightarrow> IsBitArea b \<and> b \<noteq> MemoryAreaTaskBit)"
proof (intro conjI)
  have "(w, MemoryAreaFlagBit) \<notin> set area_pairs" by (auto simp: area_pairs_def upt_16 fins_consts)
  then show "GetBitAreaCode w = Ok b \<longleftrightarrow> GetWordAreaCode b = Ok w \<and> b \<noteq> MemoryAreaFlagBit"
    by (auto simp: GetBitAreaCode_table GetWordAreaCode_table)
  have "set word_areas = insert MemoryAreaTimerPV (fst ` set area_pairs)"
    by (auto simp: area_pairs_def upt_16 area_consts)
  moreover have "MemoryAreaTimerPV \<notin> fst ` set area_pairs"
    by (auto simp: area_pairs_def upt_16 fins_consts)
  ultimately show "(\<exists>b. GetBitAreaCode w = Ok b) \<longleftrightarrow> IsWordArea w \<and> w \<noteq> MemoryAreaTimerPV"
    by (force simp: GetBitAreaCode_table IsWordArea_def)
  have "set bit_areas = insert MemoryAreaTaskBit (insert MemoryAreaFlagBit (snd ` set area_pairs))"
    by (auto simp: area_pairs_def upt_16 area_consts)
  moreover have "MemoryAreaTaskBit \<notin> insert MemoryAreaFlagBit (snd ` set area_pairs)"
    by (auto simp: area_pairs_def upt_16 fins_consts)
  ultimately show "(\<exists>w. GetWordAreaCode b = Ok w) \<longleftrightarrow> IsBitArea b \<and> b \<noteq> MemoryAreaTaskBit"
    by (force simp: GetWordAreaCode_table IsBitArea_def)
qed

section \<open>Properties\<close>



text \<open>The number of bytes that a value at an address takes on the wire.\<close>

definition needed_bytes :: "ParsedAddress option \<Rightarrow> DataType \<Rightarrow> nat option" where
  "needed_bytes addr dt =
     (if addr_is_bit addr \<or> IsBitDataType dt then Some 1
      else case DataTypeSize dt of Ok n \<Rightarrow> Some n | _ \<Rightarrow> None)"

text \<open>C31. \<open>DecodeValue\<close> never panics; it returns a value exactly when the data reach the
  size of the type, and that value has the Go type of the data type.\<close>

theorem DecodeValue_total:
  "case DecodeValue data dt addr of
     Ok v \<Rightarrow> typed_value (if addr_is_bit addr then DataTypeBIT else dt) v \<and>
        (\<exists>n. needed_bytes addr dt = Some n \<and> n \<le> length data)
   | Err e \<Rightarrow> e = ErrDataTooShort \<and> (\<exists>n. needed_bytes addr dt = Some n \<and> length data < n) \<or>
        e = ErrUnsupportedDataType dt \<and> needed_bytes addr dt = None
   | Panic \<Rightarrow> False"
  by (cases dt) (auto simp: DecodeValue_def needed_bytes_def decode_bool_def decode_sized_def Let_def
      typed_value_def IsBitDataType_def DataTypeSize_def Suc_le_eq)

lemma initAreaMap_codes: "(a, info) \<in> set initAreaMap \<Longrightarrow> a \<noteq> ''F'' \<Longrightarrow> IsWordArea (ai_Code info)"
proof -
  assume *: "(a, info) \<in> set initAreaMap" "a \<noteq> ''F''"
  then consider i where "i < 16" "(a, info) = em_area i"
    | "(a, info) \<in> set (take 9 initAreaMap)"
    by (auto simp: initAreaMap_def)
  then show ?thesis
  proof cases
    case (1 i)
    then obtain c where "EMWordArea (int i) = Ok c" by (auto simp: EMWordArea_def)
    then show ?thesis using 1 EMWordArea_IsWordArea by (simp add: em_area_def mk_area_def)
  next
    case 2
    then show ?thesis using *(2) by (auto simp: initAreaMap_def mk_area_def IsWordArea_def area_consts)
  qed
qed

lemma canonical_word_area:
  assumes "canonical p"
  shows "IsWordArea (pa_AreaCode p)"
proof -
  obtain info where "GetAreaInfo NewDecoder (pa_Area p) = Some info" "pa_AreaCode p = ai_Code info"
    using assms by (auto simp: canonical_def parsed_ok_def)
  moreover have "ToUpper (pa_Area p) = pa_Area p"
    using assms by (simp add: canonical_def area_upper ToUpper_address)
  moreover have "pa_Area p \<noteq> ''F''"
  proof
    assume "pa_Area p = ''F''"
    then have "''F'' \<in> set area_names" using assms by (simp add: canonical_def)
    then show False by (cases rule: area_names_cases) auto
  qed
  ultimately show ?thesis
    using initAreaMap_codes by (auto simp: GetAreaInfo_def NewDecoder_def dest: map_of_SomeD)
qed


end
