(* ===== verification/Fins_Stream.thy ===== *)
theory Fins_Stream
  imports Fins_Protocol
begin

text \<open>
  Framing of the TCP byte stream. \<open>Transport.readLoop\<close> and \<open>MockPLC.handleConnection\<close>
  run the same inner loop over an accumulator of received bytes; \<open>readLoop_inner\<close> is that
  loop, with the action on a decoded frame as its parameter. The locale \<open>stream_framer\<close>
  states what such a loop promises and derives that the frames it delivers do not depend on how
  the network cuts the stream into reads.
\<close>

section \<open>Interface: a framing loop\<close>

text \<open>What a framer does with its accumulator: wait for more bytes, or consume a number of
  bytes and deliver frames (none for a byte that is skipped).\<close>

datatype 'f framing = Wait | Consume "'f list" nat

text \<open>Successive reads: each chunk is appended to the residue of the chunk before.\<close>

fun feed :: "(bytes \<Rightarrow> 'f list \<times> bytes) \<Rightarrow> bytes \<Rightarrow> bytes list \<Rightarrow> 'f list \<times> bytes" where
  "feed drain acc [] = ([], acc)"
| "feed drain acc (c # cs) =
     (let (fs, r) = drain (acc @ c); (gs, r') = feed drain r cs in (fs @ gs, r'))"

locale stream_framer =
  fixes framing_of :: "bytes \<Rightarrow> 'f framing"
    and drain :: "bytes \<Rightarrow> 'f list \<times> bytes"
  assumes drain_wait: "framing_of acc = Wait \<Longrightarrow> drain acc = ([], acc)"
    and drain_consume: "framing_of acc = Consume fs n \<Longrightarrow>
      drain acc = (fs @ fst (drain (drop n acc)), snd (drain (drop n acc)))"
    and consume_bounds: "framing_of acc = Consume fs n \<Longrightarrow> 0 < n \<and> n \<le> length acc"
    and consume_stable: "framing_of acc = Consume fs n \<Longrightarrow> framing_of (acc @ suf) = Consume fs n"
    and wait_empty: "framing_of [] = Wait"
begin

lemma drain_append:
  "drain (acc @ suf) =
     (fst (drain acc) @ fst (drain (snd (drain acc) @ suf)), snd (drain (snd (drain acc) @ suf)))"
proof (induction acc rule: length_induct)
  case (1 acc)
  show ?case
  proof (cases "framing_of acc")
    case Wait
    then show ?thesis by (simp add: drain_wait)
  next
    case (Consume fs n)
    then have n: "0 < n" "n \<le> length acc" using consume_bounds by blast+
    then have "length (drop n acc) < length acc" by simp
    with "1.IH" have IH: "drain (drop n acc @ suf) =
        (fst (drain (drop n acc)) @ fst (drain (snd (drain (drop n acc)) @ suf)),
         snd (drain (snd (drain (drop n acc)) @ suf)))"
      by blast
    have "drain (acc @ suf) =
        (fs @ fst (drain (drop n acc @ suf)), snd (drain (drop n acc @ suf)))"
      using drain_consume [OF consume_stable [OF Consume, of suf]] n by simp
    then show ?thesis
      using drain_consume [OF Consume] IH by simp
  qed
qed

text \<open>The residue is a position where the loop waits: draining it again delivers nothing.\<close>

lemma drain_residue: "drain (snd (drain acc)) = ([], snd (drain acc))"
proof (induction acc rule: length_induct)
  case (1 acc)
  show ?case
  proof (cases "framing_of acc")
    case Wait
    then show ?thesis by (simp add: drain_wait)
  next
    case (Consume fs n)
    then have "length (drop n acc) < length acc" using consume_bounds [OF Consume] by auto
    with "1.IH" show ?thesis using drain_consume [OF Consume] by simp
  qed
qed

lemma feed_chunks_aux: "drain acc = ([], acc) \<Longrightarrow> feed drain acc cs = drain (acc @ concat cs)"
proof (induction cs arbitrary: acc)
  case Nil
  then show ?case by simp
next
  case (Cons c cs)
  have "feed drain (snd (drain (acc @ c))) cs = drain (snd (drain (acc @ c)) @ concat cs)"
    by (rule Cons.IH) (rule drain_residue)
  then show ?case
    using drain_append [of "acc @ c" "concat cs"] by (simp add: split_beta Let_def)
qed

lemma feed_chunks: "feed drain [] cs = drain (concat cs)"
  using feed_chunks_aux [of "[]" cs] drain_wait [OF wait_empty] by simp

end

section \<open>The loop of the driver and of the mock PLC\<close>

function readLoop_inner :: "('s \<Rightarrow> FINSFrame \<Rightarrow> 's) \<Rightarrow> 's \<Rightarrow> bytes \<Rightarrow> 's \<times> bytes" where
  "readLoop_inner dispatch s accumulator =
     (if length accumulator < 12 then (s, accumulator)
      else case DecodeFINSTCPFrame accumulator of
        Ok tcpFrame \<Rightarrow>
          (let frameLen = 12 + unat (tf_Length tcpFrame) - 4 in
           if length accumulator < frameLen then (s, accumulator)
           else
             let s' = (case DecodeFINSFrame (tf_Data tcpFrame) of
                         Ok finsFrame \<Rightarrow> dispatch s finsFrame
                       | _ \<Rightarrow> s) in
             if frameLen \<ge> length accumulator then (s', [])
             else readLoop_inner dispatch s' (drop frameLen accumulator))
      | _ \<Rightarrow> readLoop_inner dispatch s (drop 1 accumulator))"
  by pat_completeness auto
termination
  by (relation "measure (\<lambda>(d, s, acc). length acc)") auto

declare readLoop_inner.simps [simp del]

text \<open>One read of the socket: the bytes are appended to the accumulator and the loop runs.\<close>

definition readLoop_read :: "('s \<Rightarrow> FINSFrame \<Rightarrow> 's) \<Rightarrow> 's \<times> bytes \<Rightarrow> bytes \<Rightarrow> 's \<times> bytes" where
  "readLoop_read dispatch st buf = readLoop_inner dispatch (fst st) (snd st @ buf)"

section \<open>The loop as a framer\<close>

definition next_framing :: "bytes \<Rightarrow> FINSFrame framing" where
  "next_framing acc =
     (case DecodeFINSTCPFrame acc of
        Ok f \<Rightarrow>
          (if length acc < 8 + unat (tf_Length f) then Wait
           else Consume (case DecodeFINSFrame (tf_Data f) of Ok g \<Rightarrow> [g] | _ \<Rightarrow> [])
                  (8 + unat (tf_Length f)))
      | Err ErrFrameTooShort \<Rightarrow> Wait
      | _ \<Rightarrow> Consume [] 1)"

definition frames_of :: "bytes \<Rightarrow> FINSFrame list \<times> bytes" where
  "frames_of acc = readLoop_inner (\<lambda>fs f. fs @ [f]) [] acc"

lemma readLoop_inner_wait:
  "next_framing acc = Wait \<Longrightarrow> readLoop_inner d s acc = (s, acc)"
  by (cases rule: DecodeFINSTCPFrame_cases [of acc])
    (auto simp: next_framing_def readLoop_inner.simps [of d s acc] split: if_splits)

lemma readLoop_inner_Nil [simp]: "readLoop_inner d s [] = (s, [])"
  by (simp add: readLoop_inner.simps)

lemma readLoop_inner_consume:
  assumes "next_framing acc = Consume fs n"
  shows "readLoop_inner d s acc = readLoop_inner d (foldl d s fs) (drop n acc)"
proof (cases rule: DecodeFINSTCPFrame_cases [of acc])
  case short
  with assms show ?thesis by (simp add: next_framing_def)
next
  case magic
  with assms show ?thesis
    by (auto simp: next_framing_def readLoop_inner.simps [of d s acc])
next
  case (frame f)
  with assms have n: "n = 8 + unat (tf_Length f)" "n \<le> length acc"
    and fs: "fs = (case DecodeFINSFrame (tf_Data f) of Ok g \<Rightarrow> [g] | _ \<Rightarrow> [])"
    by (auto simp: next_framing_def split: if_splits)
  have "(case DecodeFINSFrame (tf_Data f) of Ok g \<Rightarrow> d s g | _ \<Rightarrow> s) = foldl d s fs"
    by (simp add: fs split: go.split)
  then show ?thesis
    using frame n by (auto simp: readLoop_inner.simps [of d s acc] Let_def)
qed

lemma next_framing_bounds: "next_framing acc = Consume fs n \<Longrightarrow> 0 < n \<and> n \<le> length acc"
  by (cases rule: DecodeFINSTCPFrame_cases [of acc])
    (auto simp: next_framing_def split: if_splits)

lemma next_framing_stable:
  assumes "next_framing acc = Consume fs n"
  shows "next_framing (acc @ suf) = Consume fs n"
proof (cases rule: DecodeFINSTCPFrame_cases [of acc])
  case short
  with assms show ?thesis by (simp add: next_framing_def)
next
  case magic
  then have "DecodeFINSTCPFrame (acc @ suf) = Err ErrInvalidFINSHeader"
    by (simp add: DecodeFINSTCPFrame_def)
  with magic assms show ?thesis by (simp add: next_framing_def)
next
  case (frame f)
  with assms have n: "n = 8 + unat (tf_Length f)" "n \<le> length acc"
    and fs: "fs = (case DecodeFINSFrame (tf_Data f) of Ok g \<Rightarrow> [g] | _ \<Rightarrow> [])"
    by (auto simp: next_framing_def split: if_splits)
  show ?thesis
  proof (cases rule: DecodeFINSTCPFrame_cases [of "acc @ suf"])
    case short
    with frame show ?thesis by simp
  next
    case magic
    with frame show ?thesis by simp
  next
    case f': (frame f')
    have len: "tf_Length f' = tf_Length f" using f' frame by simp
    have "tf_Data f = slice acc 12 (12 + (unat (tf_Length f) - 4))"
      using frame n by (auto simp: min_def)
    moreover have "tf_Data f' = slice acc 12 (12 + (unat (tf_Length f) - 4))"
      using f' frame n len by (auto simp: min_def)
    ultimately show ?thesis using f' n fs len by (simp add: next_framing_def)
  qed
qed

text \<open>The loop is the fold of its action over the frames of the stream.\<close>

lemma readLoop_inner_frames:
  "readLoop_inner d s acc = (foldl d s (fst (frames_of acc)), snd (frames_of acc))"
proof -
  have "readLoop_inner d (foldl d s fs) acc =
      (foldl d s (fst (readLoop_inner (\<lambda>fs f. fs @ [f]) fs acc)),
       snd (readLoop_inner (\<lambda>fs f. fs @ [f]) fs acc))" for fs
  proof (induction acc arbitrary: fs rule: length_induct)
    case (1 acc)
    show ?case
    proof (cases "next_framing acc")
      case Wait
      then show ?thesis by (simp add: readLoop_inner_wait)
    next
      case (Consume gs n)
      have app: "foldl (\<lambda>fs f. fs @ [f]) fs gs = fs @ gs" for fs gs :: "FINSFrame list"
        by (induction gs arbitrary: fs) simp_all
      have "length (drop n acc) < length acc"
        using next_framing_bounds [OF Consume] by auto
      with "1.IH" have "readLoop_inner d (foldl d s (fs @ gs)) (drop n acc) =
          (foldl d s (fst (readLoop_inner (\<lambda>fs f. fs @ [f]) (fs @ gs) (drop n acc))),
           snd (readLoop_inner (\<lambda>fs f. fs @ [f]) (fs @ gs) (drop n acc)))"
        by blast
      then show ?thesis
        by (simp add: readLoop_inner_consume [OF Consume] app)
    qed
  qed
  from this [of "[]"] show ?thesis by (simp add: frames_of_def)
qed

interpretation rl: stream_framer next_framing frames_of
proof unfold_locales
  fix acc :: bytes
  assume "next_framing acc = Wait"
  then show "frames_of acc = ([], acc)"
    by (simp add: frames_of_def readLoop_inner_wait)
next
  fix acc fs n
  assume c: "next_framing acc = Consume fs n"
  have app: "foldl (\<lambda>fs f. fs @ [f]) [] fs = fs" for fs :: "FINSFrame list"
    by (induction fs rule: rev_induct) simp_all
  have "frames_of acc = readLoop_inner (\<lambda>fs f. fs @ [f]) fs (drop n acc)"
    by (simp add: frames_of_def readLoop_inner_consume [OF c] app)
  moreover have "foldl (\<lambda>fs f. fs @ [f]) fs gs = fs @ gs" for gs :: "FINSFrame list"
    by (induction gs rule: rev_induct) simp_all
  ultimately show "frames_of acc =
      (fs @ fst (frames_of (drop n acc)), snd (frames_of (drop n acc)))"
    by (simp add: readLoop_inner_frames [of _ fs])
qed (auto simp: next_framing_bounds next_framing_stable, simp add: next_framing_def DecodeFINSTCPFrame_def)

section \<open>What arrives is what was sent\<close>

text \<open>The bytes a peer sends for a frame.\<close>

definition wire_frame :: "FINSFrame \<Rightarrow> bytes" where
  "wire_frame f = EncodeFINSTCPFrame TCPCommandFINSFrame 0
     (EncodeFINSFrame (ff_Header f) (ff_CommandCode f) (ff_EndCode f) (ff_Data f))"

definition frame_fits :: "FINSFrame \<Rightarrow> bool" where
  "frame_fits f \<longleftrightarrow> length (ff_Data f) + 18 < 2 ^ 32"

lemma length_wire_frame [simp]: "length (wire_frame f) = 26 + length (ff_Data f)"
  by (simp add: wire_frame_def)

lemma next_framing_wire_frame:
  assumes "frame_fits f"
  shows "next_framing (wire_frame f @ rest) = Consume [f] (length (wire_frame f))"
proof -
  have "unat (word_of_nat (18 + length (ff_Data f)) :: u32) = 18 + length (ff_Data f)"
    using assms unat_frame_length [of "EncodeFINSFrame (ff_Header f) (ff_CommandCode f)
      (ff_EndCode f) (ff_Data f)"]
    by (simp add: frame_fits_def add.commute del: of_nat_add)
  then show ?thesis
    using assms
    by (simp add: next_framing_def wire_frame_def frame_fits_def DecodeFINSTCPFrame_stream
        DecodeFINSFrame_EncodeFINSFrame add.commute del: of_nat_add)
qed

lemma frames_of_wire_frame:
  "frame_fits f \<Longrightarrow> frames_of (wire_frame f @ rest) = (f # fst (frames_of rest), snd (frames_of rest))"
  by (simp add: rl.drain_consume [OF next_framing_wire_frame])

lemma frames_of_Nil [simp]: "frames_of [] = ([], [])"
  by (simp add: frames_of_def)

lemma frames_of_wire_frames:
  "\<forall>f \<in> set fs. frame_fits f \<Longrightarrow> frames_of (concat (map wire_frame fs)) = (fs, [])"
  by (induction fs) (simp_all add: frames_of_wire_frame)

text \<open>Bytes that cannot start a frame are skipped.\<close>

lemma frames_of_skip:
  assumes "b \<noteq> 0x46" and "12 \<le> length (b # acc)"
  shows "frames_of (b # acc) = frames_of acc"
proof -
  have "slice (b # acc) 0 4 \<noteq> fins_magic"
    using assms by (auto simp: slice_def fins_magic_def)
  then have "next_framing (b # acc) = Consume [] 1"
    using assms by (simp add: next_framing_def DecodeFINSTCPFrame_def)
  then show ?thesis by (simp add: rl.drain_consume)
qed

lemma frames_of_skip_all:
  "0x46 \<notin> set g \<Longrightarrow> 12 \<le> length acc \<Longrightarrow> frames_of (g @ acc) = frames_of acc"
  by (induction g) (simp_all add: frames_of_skip)

lemma readLoop_read_chunks:
  "foldl (readLoop_read d) (s, acc) cs =
     (foldl d s (fst (feed frames_of acc cs)), snd (feed frames_of acc cs))"
  by (induction cs arbitrary: s acc)
    (simp_all add: readLoop_read_def readLoop_inner_frames split_beta Let_def)

section \<open>Properties\<close>

text \<open>C16. The read loop is insensitive to how TCP segments the stream: reading the chunks one
  after the other from an empty accumulator dispatches the same frames in the same order, and
  leaves the same unprocessed bytes, as one read of all the bytes.\<close>

theorem readLoop_chunking:
  "foldl (readLoop_read d) (s, []) chunks = readLoop_inner d s (concat chunks)"
  by (simp add: readLoop_read_chunks readLoop_inner_frames rl.feed_chunks)

text \<open>C5. No response is lost or reordered: when the peer sends frames back to back, in
  whatever chunks they arrive, the loop dispatches exactly these frames in the order of sending
  and its accumulator ends up empty.\<close>

theorem readLoop_delivers:
  assumes "\<forall>f \<in> set fs. frame_fits f"
    and "concat chunks = concat (map wire_frame fs)"
  shows "foldl (readLoop_read d) (s, []) chunks = (foldl d s fs, [])"
  using assms by (simp add: readLoop_read_chunks rl.feed_chunks frames_of_wire_frames)

theorem readLoop_delivers_witness:
  "let f = \<lparr>ff_Header = decode_header [0xC0, 0, 2, 0, 1, 255, 0, 1, 0, 9], ff_CommandCode = 0x0101,
            ff_EndCode = 0, ff_Data = [0x12, 0x34]\<rparr>
   in foldl (readLoop_read (\<lambda>fs f. fs @ [f])) ([], []) [take 5 (wire_frame f), drop 5 (wire_frame f)]
      = ([f], [])"
  unfolding Let_def
  by (subst readLoop_delivers [where fs = "[\<lparr>ff_Header = decode_header [0xC0, 0, 2, 0, 1, 255, 0, 1, 0, 9],
        ff_CommandCode = 0x0101, ff_EndCode = 0, ff_Data = [0x12, 0x34]\<rparr>]"])
    (simp_all add: frame_fits_def)

text \<open>C24. The loop resynchronises: bytes before a frame that do not contain the first magic
  byte are dropped and the frame behind them is dispatched.\<close>

theorem readLoop_resync:
  assumes "0x46 \<notin> set garbage" and "frame_fits f"
  shows "readLoop_inner d s (garbage @ wire_frame f) = (d s f, [])"
  using assms frames_of_wire_frame [of f "[]"]
  by (simp add: readLoop_inner_frames frames_of_skip_all)

theorem readLoop_resync_witness:
  "let f = \<lparr>ff_Header = decode_header [0xC0, 0, 2, 0, 1, 255, 0, 1, 0, 9], ff_CommandCode = 0x0101,
            ff_EndCode = 0, ff_Data = []\<rparr>
   in readLoop_inner (\<lambda>fs f. fs @ [f]) [] ([0, 1, 0x53] @ wire_frame f) = ([f], [])"
  unfolding Let_def by (subst readLoop_resync) (simp_all add: frame_fits_def)

end
