(* ===== verification/Fins_MockPLC.thy ===== *)
theory Fins_MockPLC
  imports Fins_Stream
begin

text \<open>
  The mock PLC of \<open>mock_plc.go\<close>: five memory areas of big-endian words, the request handler,
  and the connection loop. The locale \<open>plc_word_memory\<close> is the contract of a PLC's word
  memory as a byte image per area; it is interpreted here on the mock.
\<close>

section \<open>Interface: word memory of a PLC\<close>

locale plc_word_memory =
  fixes rd :: "'m \<Rightarrow> MemoryAddress \<Rightarrow> u16 \<Rightarrow> bytes \<times> u16"
    and wr :: "'m \<Rightarrow> MemoryAddress \<Rightarrow> u16 \<Rightarrow> bytes \<Rightarrow> 'm \<times> u16"
    and img :: "'m \<Rightarrow> u8 \<Rightarrow> bytes option"
    and writable :: "u8 \<Rightarrow> bool"
    and inv :: "'m \<Rightarrow> bool"
  assumes rd_image: "inv m \<Longrightarrow> img m (ma_Area a) = Some bs \<Longrightarrow>
      2 * (unat (ma_Address a) + unat n) \<le> length bs \<Longrightarrow>
      rd m a n = (slice bs (2 * unat (ma_Address a)) (2 * (unat (ma_Address a) + unat n)), 0)"
    and rd_exceeds: "inv m \<Longrightarrow> img m (ma_Area a) = Some bs \<Longrightarrow>
      length bs < 2 * (unat (ma_Address a) + unat n) \<Longrightarrow> rd m a n = ([], 0x1104)"
    and wr_image: "inv m \<Longrightarrow> writable (ma_Area a) \<Longrightarrow> img m (ma_Area a) = Some bs \<Longrightarrow>
      2 * (unat (ma_Address a) + unat n) \<le> length bs \<Longrightarrow>
      snd (wr m a n d) = 0 \<and>
      img (fst (wr m a n d)) (ma_Area a) =
        Some (copy_at bs (2 * unat (ma_Address a)) (take (2 * unat n) d))"
    and wr_exceeds: "inv m \<Longrightarrow> writable (ma_Area a) \<Longrightarrow> img m (ma_Area a) = Some bs \<Longrightarrow>
      length bs < 2 * (unat (ma_Address a) + unat n) \<Longrightarrow> wr m a n d = (m, 0x1104)"
    and inv_wr: "inv m \<Longrightarrow> inv (fst (wr m a n d))"
begin

text \<open>Reading a range that lies inside the range just written gives the written bytes.\<close>

lemma read_inside_write:
  assumes "inv m" and "writable (ma_Area a)" and "img m (ma_Area a) = Some bs"
    and "2 * (unat (ma_Address a) + unat n) \<le> length bs" and "length d = 2 * unat n"
    and "ma_Area b = ma_Area a" and "unat (ma_Address a) \<le> unat (ma_Address b)"
    and "unat (ma_Address b) + unat k \<le> unat (ma_Address a) + unat n"
  shows "rd (fst (wr m a n d)) b k =
    (slice d (2 * (unat (ma_Address b) - unat (ma_Address a)))
       (2 * (unat (ma_Address b) - unat (ma_Address a) + unat k)), 0)"
proof -
  let ?s = "2 * unat (ma_Address a)"
  let ?bs = "copy_at bs ?s d"
  have img': "img (fst (wr m a n d)) (ma_Area b) = Some ?bs"
    using wr_image [OF assms(1-4), of d] assms(5,6) by simp
  have len: "?s + length d \<le> length bs" using assms(4,5) by simp
  have range: "2 * (unat (ma_Address b) + unat k) \<le> length ?bs"
    using assms(4,8) len by simp
  have "slice ?bs (2 * unat (ma_Address b)) (2 * (unat (ma_Address b) + unat k)) =
      slice d (2 * (unat (ma_Address b) - unat (ma_Address a)))
        (2 * (unat (ma_Address b) - unat (ma_Address a) + unat k))"
    (is "?l = ?r")
  proof (rule nth_equalityI)
    show "length ?l = length ?r"
      using range assms(5,7,8) by simp
  next
    fix i
    assume "i < length ?l"
    then have i: "i < 2 * unat k" using range by simp
    moreover have "2 * unat (ma_Address b) + i - 2 * unat (ma_Address a) =
        2 * (unat (ma_Address b) - unat (ma_Address a)) + i"
      using assms(7) by arith
    ultimately show "?l ! i = ?r ! i"
      using range len assms(5,7,8) by (simp add: nth_copy_at)
  qed
  then show ?thesis
    using rd_image [OF inv_wr [OF assms(1)] img' range] by simp
qed

text \<open>A later write of the same range hides an earlier one.\<close>

lemma write_write:
  assumes "inv m" and "writable (ma_Area a)" and "img m (ma_Area a) = Some bs"
    and "2 * (unat (ma_Address a) + unat n) \<le> length bs" and "length d = 2 * unat n"
    and "length d' = 2 * unat n"
  shows "img (fst (wr (fst (wr m a n d)) a n d')) (ma_Area a) = img (fst (wr m a n d')) (ma_Area a)"
proof -
  have len: "2 * unat (ma_Address a) + length d \<le> length bs" using assms(4,5) by simp
  have "img (fst (wr m a n d)) (ma_Area a) = Some (copy_at bs (2 * unat (ma_Address a)) d)"
    using wr_image [OF assms(1-4), of d] assms(5) by simp
  then have "img (fst (wr (fst (wr m a n d)) a n d')) (ma_Area a) =
      Some (copy_at (copy_at bs (2 * unat (ma_Address a)) d) (2 * unat (ma_Address a)) d')"
    using wr_image [OF inv_wr [OF assms(1)] assms(2), of a n d _ n d'] len assms(4,6) by simp
  then show ?thesis
    using wr_image [OF assms(1-4), of d'] len assms(5,6) by (simp add: copy_at_def)
qed

end

section \<open>State\<close>

definition MockDMWordSize :: nat where "MockDMWordSize = 32768"
definition MockCIOWordSize :: nat where "MockCIOWordSize = 6144"
definition MockWWordSize :: nat where "MockWWordSize = 512"
definition MockHWordSize :: nat where "MockHWordSize = 512"
definition MockAWordSize :: nat where "MockAWordSize = 512"

lemmas mock_sizes = MockDMWordSize_def MockCIOWordSize_def MockWWordSize_def MockHWordSize_def
  MockAWordSize_def

text \<open>A listener is nil before \<open>Start\<close>, then open until it is closed.\<close>

record MockPLC =
  mp_listener :: "bool option"
  mp_addr :: string
  mp_closed :: bool
  dmArea :: bytes
  cioArea :: bytes
  wArea :: bytes
  hArea :: bytes
  aArea :: bytes
  mp_srcAddr :: FINSAddress
  mp_dstAddr :: FINSAddress

definition NewMockPLC :: MockPLC where
  "NewMockPLC =
     \<lparr>mp_listener = None, mp_addr = [], mp_closed = False,
      dmArea = replicate (MockDMWordSize * 2) 0, cioArea = replicate (MockCIOWordSize * 2) 0,
      wArea = replicate (MockWWordSize * 2) 0, hArea = replicate (MockHWordSize * 2) 0,
      aArea = replicate (MockAWordSize * 2) 0,
      mp_srcAddr = \<lparr>fa_Network = 0, fa_Node = 1, fa_Unit = 0\<rparr>,
      mp_dstAddr = \<lparr>fa_Network = 0, fa_Node = 2, fa_Unit = 0\<rparr>\<rparr>"

text \<open>The slices handed out by \<open>getArea\<close> alias the fields of the PLC. A slice is modelled
  by the name of the field, with a read and a write of that field.\<close>

datatype mock_area = AreaDM | AreaCIO | AreaW | AreaH | AreaA

fun area_bytes :: "MockPLC \<Rightarrow> mock_area \<Rightarrow> bytes" where
  "area_bytes m AreaDM = dmArea m"
| "area_bytes m AreaCIO = cioArea m"
| "area_bytes m AreaW = wArea m"
| "area_bytes m AreaH = hArea m"
| "area_bytes m AreaA = aArea m"

fun area_set :: "MockPLC \<Rightarrow> mock_area \<Rightarrow> bytes \<Rightarrow> MockPLC" where
  "area_set m AreaDM bs = m\<lparr>dmArea := bs\<rparr>"
| "area_set m AreaCIO bs = m\<lparr>cioArea := bs\<rparr>"
| "area_set m AreaW bs = m\<lparr>wArea := bs\<rparr>"
| "area_set m AreaH bs = m\<lparr>hArea := bs\<rparr>"
| "area_set m AreaA bs = m\<lparr>aArea := bs\<rparr>"

definition getArea :: "u8 \<Rightarrow> (mock_area \<times> nat) option" where
  "getArea areaCode =
     (if areaCode = MemoryAreaDMWord then Some (AreaDM, MockDMWordSize)
      else if areaCode = MemoryAreaCIOWord then Some (AreaCIO, MockCIOWordSize)
      else if areaCode = MemoryAreaWRWord then Some (AreaW, MockWWordSize)
      else if areaCode = MemoryAreaHRWord then Some (AreaH, MockHWordSize)
      else if areaCode = MemoryAreaARWord then Some (AreaA, MockAWordSize)
      else None)"

definition getBitArea :: "u8 \<Rightarrow> (mock_area \<times> nat) option" where
  "getBitArea areaCode =
     (if areaCode = MemoryAreaDMBit then Some (AreaDM, MockDMWordSize * 16)
      else if areaCode = MemoryAreaCIOBit then Some (AreaCIO, MockCIOWordSize * 16)
      else if areaCode = MemoryAreaWRBit then Some (AreaW, MockWWordSize * 16)
      else if areaCode = MemoryAreaHRBit then Some (AreaH, MockHWordSize * 16)
      else if areaCode = MemoryAreaARBit then Some (AreaA, MockAWordSize * 16)
      else None)"

section \<open>The listener\<close>

text \<open>\<open>Start\<close> with what \<open>net.Listen\<close> answers: an error or the address of the listener.\<close>

definition mock_Start :: "string + string \<Rightarrow> MockPLC \<Rightarrow> (FinsError, string) go \<times> MockPLC" where
  "mock_Start listen m =
     (case listen of
        Inl e \<Rightarrow> (Err (ErrMsg e), m)
      | Inr addr \<Rightarrow> (Ok addr, m\<lparr>mp_listener := Some True, mp_addr := addr\<rparr>))"

definition mock_Addr :: "MockPLC \<Rightarrow> string" where
  "mock_Addr m = mp_addr m"

definition mock_Close :: "MockPLC \<Rightarrow> MockPLC" where
  "mock_Close m =
     (let m1 = m\<lparr>mp_closed := True\<rparr> in
      if mp_listener m1 \<noteq> None then m1\<lparr>mp_listener := Some False\<rparr> else m1)"

text \<open>The turns of \<open>acceptLoop\<close>, each with the PLC as it then is and what \<open>Accept\<close> returns: a
  connection, which gets its own \<open>handleConnection\<close>, or an error, which ends the loop only when the
  PLC is closed. The result is the connections served and whether the loop still runs.\<close>

datatype 'c accept_event = Accepted 'c | AcceptError

fun mock_acceptLoop :: "(MockPLC \<times> 'c accept_event) list \<Rightarrow> 'c list \<times> bool" where
  "mock_acceptLoop [] = ([], True)"
| "mock_acceptLoop ((m, Accepted conn) # turns) = (case mock_acceptLoop turns of (conns, running) \<Rightarrow> (conn # conns, running))"
| "mock_acceptLoop ((m, AcceptError) # turns) = (if mp_closed m then ([], False) else mock_acceptLoop turns)"

text \<open>While the PLC is open every connection is served, whatever errors come between; after \<open>Close\<close>
  the loop ends with the next error.\<close>

lemma mock_acceptLoop_serves:
  "\<forall>(m, ev) \<in> set turns. \<not> mp_closed m \<Longrightarrow>
   mock_acceptLoop (turns @ (mock_Close m', AcceptError) # rest) =
     (concat (map (\<lambda>(m, ev). case ev of Accepted conn \<Rightarrow> [conn] | AcceptError \<Rightarrow> []) turns), False)"
  by (induction turns rule: mock_acceptLoop.induct) (auto simp: mock_Close_def Let_def)

section \<open>Bits\<close>

text \<open>The position of bit \<open>bitPos\<close> of an area: bits are numbered from the low end of
  each big-endian word.\<close>

definition bit_byteOffset :: "nat \<Rightarrow> nat" where
  "bit_byteOffset bitPos = bitPos div 16 * 2 + (15 - bitPos mod 16) div 8"

definition bit_inByte :: "nat \<Rightarrow> nat" where
  "bit_inByte bitPos = 7 - (15 - bitPos mod 16) mod 8"

definition read_bit :: "bytes \<Rightarrow> nat \<Rightarrow> u8" where
  "read_bit area bitPos =
     (if area ! bit_byteOffset bitPos AND push_bit (bit_inByte bitPos) 1 \<noteq> 0 then 1 else 0)"

definition write_bit :: "u8 \<Rightarrow> bytes \<Rightarrow> nat \<Rightarrow> bytes" where
  "write_bit v area bitPos =
     (let i = bit_byteOffset bitPos; m = push_bit (bit_inByte bitPos) 1 in
      if v \<noteq> 0 then area[i := area ! i OR m] else area[i := area ! i AND NOT m])"

fun write_bits :: "bytes \<Rightarrow> nat \<Rightarrow> bytes \<Rightarrow> bytes" where
  "write_bits area startBit [] = area"
| "write_bits area startBit (v # vs) = write_bits (write_bit v area startBit) (Suc startBit) vs"

section \<open>Memory operations\<close>

definition mock_readMemory :: "MockPLC \<Rightarrow> MemoryAddress \<Rightarrow> u16 \<Rightarrow> bytes \<times> u16" where
  "mock_readMemory m addr count =
     (if IsWordArea (ma_Area addr) then
        (case getArea (ma_Area addr) of
           None \<Rightarrow> ([], END_CODE_NOT_SUPPORTED)
         | Some (ar, _) \<Rightarrow>
             let area = area_bytes m ar;
                 startByte = unat (ma_Address addr) * 2;
                 endByte = startByte + unat count * 2
             in if endByte > length area then ([], END_CODE_ADDR_RANGE_EXCEED)
                else (slice area startByte endByte, END_CODE_NORMAL))
      else if IsBitArea (ma_Area addr) then
        (case getBitArea (ma_Area addr) of
           None \<Rightarrow> ([], END_CODE_NOT_SUPPORTED)
         | Some (ar, maxBits) \<Rightarrow>
             let area = area_bytes m ar;
                 startBit = unat (ma_Address addr) * 16 + unat (ma_BitOffset addr)
             in if startBit + unat count > maxBits then ([], END_CODE_ADDR_RANGE_EXCEED)
                else (map (\<lambda>i. read_bit area (startBit + i)) [0..<unat count], END_CODE_NORMAL))
      else ([], END_CODE_NOT_SUPPORTED))"

definition mock_writeMemory :: "MockPLC \<Rightarrow> MemoryAddress \<Rightarrow> u16 \<Rightarrow> bytes \<Rightarrow> MockPLC \<times> u16" where
  "mock_writeMemory m addr count data =
     (if IsWordArea (ma_Area addr) then
        (case getArea (ma_Area addr) of
           None \<Rightarrow> (m, END_CODE_NOT_SUPPORTED)
         | Some (ar, _) \<Rightarrow>
             let area = area_bytes m ar;
                 startByte = unat (ma_Address addr) * 2;
                 endByte = startByte + unat count * 2
             in if endByte > length area then (m, END_CODE_ADDR_RANGE_EXCEED)
                else (area_set m ar (copy_at area startByte (take (endByte - startByte) data)),
                      END_CODE_NORMAL))
      else if IsBitArea (ma_Area addr) then
        (case getBitArea (ma_Area addr) of
           None \<Rightarrow> (m, END_CODE_NOT_SUPPORTED)
         | Some (ar, maxBits) \<Rightarrow>
             let area = area_bytes m ar;
                 startBit = unat (ma_Address addr) * 16 + unat (ma_BitOffset addr)
             in if startBit + unat count > maxBits then (m, END_CODE_ADDR_RANGE_EXCEED)
                else (area_set m ar (write_bits area startBit (take (unat count) data)),
                      END_CODE_NORMAL))
      else (m, END_CODE_NOT_SUPPORTED))"

section \<open>Requests\<close>

definition mock_handleRequest :: "MockPLC \<Rightarrow> FINSFrame \<Rightarrow> (FinsError, FINSFrame \<times> MockPLC) go" where
  "mock_handleRequest m req =
     (let resp = \<lparr>ff_Header = DefaultResponseHeader (ff_Header req),
                  ff_CommandCode = ff_CommandCode req, ff_EndCode = END_CODE_NORMAL, ff_Data = []\<rparr>
      in if ff_CommandCode req = MRC_MEMORY_AREA_READ then
           (if length (ff_Data req) < 6
            then Ok (resp\<lparr>ff_EndCode := END_CODE_CMD_TOO_SHORT\<rparr>, m)
            else go_bind (DecodeMemoryAddress (slice (ff_Data req) 0 4)) (\<lambda>memAddr.
              let count = un_be16 (slice (ff_Data req) 4 6);
                  (data, endCode) = mock_readMemory m memAddr count
              in Ok (resp\<lparr>ff_Data := data, ff_EndCode := endCode\<rparr>, m)))
         else if ff_CommandCode req = MRC_MEMORY_AREA_WRITE then
           (if length (ff_Data req) < 6
            then Ok (resp\<lparr>ff_EndCode := END_CODE_CMD_TOO_SHORT\<rparr>, m)
            else go_bind (DecodeMemoryAddress (slice (ff_Data req) 0 4)) (\<lambda>memAddr.
              let count = un_be16 (slice (ff_Data req) 4 6);
                  (m', endCode) = mock_writeMemory m memAddr count (drop 6 (ff_Data req))
              in Ok (resp\<lparr>ff_EndCode := endCode\<rparr>, m')))
         else if ff_CommandCode req = MRC_CPU_UNIT_STATUS_READ then
           Ok (resp\<lparr>ff_Data := [0, 0]\<rparr>, m)
         else Ok (resp\<lparr>ff_EndCode := END_CODE_UNDEFINED_CMD\<rparr>, m))"

text \<open>What the connection loop does with a decoded frame: handle it and write the response.
  The written bytes are collected in the second component.\<close>

definition mock_dispatch ::
  "(FinsError, MockPLC \<times> bytes) go \<Rightarrow> FINSFrame \<Rightarrow> (FinsError, MockPLC \<times> bytes) go" where
  "mock_dispatch st finsFrame =
     go_bind st (\<lambda>(m, out). go_bind (mock_handleRequest m finsFrame) (\<lambda>(resp, m').
       let respData = EncodeFINSFrame (ff_Header resp) (ff_CommandCode resp) (ff_EndCode resp)
             (ff_Data resp);
           tcpResp = EncodeFINSTCPFrame TCPCommandFINSFrame 0 respData
       in Ok (m', out @ tcpResp)))"

definition handleConnection_read ::
  "MockPLC \<Rightarrow> bytes \<Rightarrow> bytes \<Rightarrow> (FinsError, MockPLC \<times> bytes) go \<times> bytes" where
  "handleConnection_read m accumulator buf =
     readLoop_read mock_dispatch (Ok (m, []), accumulator) buf"

section \<open>Direct access to words\<close>

text \<open>The slice bounds of \<open>SetWord\<close> and \<open>GetWord\<close> are computed in \<open>uint16\<close>.\<close>

definition SetWord :: "MockPLC \<Rightarrow> u8 \<Rightarrow> u16 \<Rightarrow> u16 \<Rightarrow> (FinsError, MockPLC) go" where
  "SetWord m areaCode address v =
     (case getArea areaCode of
        None \<Rightarrow> Ok m
      | Some (ar, _) \<Rightarrow>
          let area = area_bytes m ar; lo = unat (address * 2); hi = unat (address * 2 + 2) in
          if unat address * 2 + 2 \<le> length area
          then (if lo \<le> hi \<and> hi \<le> length area
                then Ok (area_set m ar (copy_at area lo (be16 v)))
                else Panic)
          else Ok m)"

definition GetWord :: "MockPLC \<Rightarrow> u8 \<Rightarrow> u16 \<Rightarrow> (FinsError, u16) go" where
  "GetWord m areaCode address =
     (case getArea areaCode of
        None \<Rightarrow> Ok 0
      | Some (ar, _) \<Rightarrow>
          let area = area_bytes m ar; lo = unat (address * 2); hi = unat (address * 2 + 2) in
          if unat address * 2 + 2 \<le> length area
          then (if lo \<le> hi \<and> hi \<le> length area then Ok (un_be16 (slice area lo hi)) else Panic)
          else Ok 0)"

section \<open>Invariant and frame lemmas\<close>

definition mock_wf :: "MockPLC \<Rightarrow> bool" where
  "mock_wf m \<longleftrightarrow>
     length (dmArea m) = MockDMWordSize * 2 \<and> length (cioArea m) = MockCIOWordSize * 2 \<and>
     length (wArea m) = MockWWordSize * 2 \<and> length (hArea m) = MockHWordSize * 2 \<and>
     length (aArea m) = MockAWordSize * 2"

fun area_words :: "mock_area \<Rightarrow> nat" where
  "area_words AreaDM = MockDMWordSize"
| "area_words AreaCIO = MockCIOWordSize"
| "area_words AreaW = MockWWordSize"
| "area_words AreaH = MockHWordSize"
| "area_words AreaA = MockAWordSize"

lemma mock_wf_area: "mock_wf m \<Longrightarrow> length (area_bytes m ar) = area_words ar * 2"
  by (cases ar) (simp_all add: mock_wf_def)

lemma mock_wf_New: "mock_wf NewMockPLC"
  by (simp add: mock_wf_def NewMockPLC_def)

lemma mock_wf_set: "mock_wf m \<Longrightarrow> length bs = area_words ar * 2 \<Longrightarrow> mock_wf (area_set m ar bs)"
  by (cases ar) (simp_all add: mock_wf_def)

lemma area_bytes_set: "area_bytes (area_set m ar bs) ar' = (if ar' = ar then bs else area_bytes m ar')"
  by (cases ar; cases ar') simp_all

lemma getArea_Some: "getArea c = Some (ar, n) \<Longrightarrow> n = area_words ar \<and> IsWordArea c"
  by (auto simp: getArea_def IsWordArea_def area_consts split: if_splits)

lemma getBitArea_Some:
  "getBitArea c = Some (ar, n) \<Longrightarrow> n = area_words ar * 16 \<and> IsBitArea c \<and> \<not> IsWordArea c"
  by (auto simp: getBitArea_def IsBitArea_def IsWordArea_def area_consts split: if_splits)

lemma bit_byteOffset_less: "p < n * 16 \<Longrightarrow> bit_byteOffset p < n * 2"
proof -
  assume p: "p < n * 16"
  then have "p div 16 < n" by (simp add: less_mult_imp_div_less)
  moreover have "(15 - p mod 16) div 8 < 2" by simp
  ultimately show ?thesis unfolding bit_byteOffset_def by linarith
qed

lemma bit_inByte_less: "bit_inByte p < 8"
  by (simp add: bit_inByte_def)

lemma length_write_bit [simp]: "length (write_bit v area p) = length area"
  by (simp add: write_bit_def Let_def)

lemma length_write_bits [simp]: "length (write_bits area p vs) = length area"
  by (induction vs arbitrary: area p) simp_all

section \<open>Words and their bits\<close>

definition word_at :: "bytes \<Rightarrow> nat \<Rightarrow> u16" where
  "word_at area k = un_be16 (slice area (2 * k) (2 * k + 2))"

lemma slice_two: "2 * k + 2 \<le> length xs \<Longrightarrow> slice xs (2 * k) (2 * k + 2) = [xs ! (2 * k), xs ! (2 * k + 1)]"
  by (rule nth_equalityI) (auto simp: less_Suc_eq numeral_2_eq_2)

lemma high_low_split:
  "j < 8 \<Longrightarrow> (15 - j) div 8 = 1 \<and> 7 - (15 - j) mod 8 = j"
  "8 \<le> j \<Longrightarrow> j < 16 \<Longrightarrow> (15 - j) div 8 = 0 \<and> 7 - (15 - j) mod 8 = j - (8::nat)"
proof -
  assume "j < 8"
  define x where "x = 7 - j"
  then have "15 - j = 8 + x" and "x < 8" and "7 - x = j" using \<open>j < 8\<close> by simp_all
  then show "(15 - j) div 8 = 1 \<and> 7 - (15 - j) mod 8 = j" by simp
next
  assume "8 \<le> j" "j < 16"
  then show "(15 - j) div 8 = 0 \<and> 7 - (15 - j) mod 8 = j - 8" by simp
qed

lemma bit_word_at:
  assumes "2 * k + 2 \<le> length area" and "j < 16"
  shows "bit (word_at area k) j \<longleftrightarrow> bit (area ! (2 * k + (15 - j) div 8)) (7 - (15 - j) mod 8)"
proof (cases "j < 8")
  case True
  then show ?thesis
    using assms(2) high_low_split(1) [OF True]
    unfolding word_at_def slice_two [OF assms(1)] by (simp add: Uint_def bit_simps)
next
  case False
  then have "j - 8 < 16" using assms(2) by simp
  moreover have "\<not> bit (area ! (2 * k + 1)) j"
    using False bit_imp_le_length [of "area ! (2 * k + 1)" j] by auto
  ultimately show ?thesis
    using False assms(2) high_low_split(2) [of j]
    unfolding word_at_def slice_two [OF assms(1)] by (simp add: Uint_def bit_simps)
qed

text \<open>A bit read is the bit of the big-endian word that holds it.\<close>

lemma read_bit_word_at:
  assumes "p < n * 16" and "length area = n * 2"
  shows "read_bit area p = of_bool (bit (word_at area (p div 16)) (p mod 16))"
proof -
  have "p div 16 < n" using assms(1) by (simp add: less_mult_imp_div_less)
  then have "2 * (p div 16) + 2 \<le> length area" using assms(2) by simp
  then show ?thesis
    by (simp add: read_bit_def and_exp_eq_0_iff_not_bit bit_word_at bit_byteOffset_def
        bit_inByte_def mult.commute)
qed

lemma base2_digits: "a * 2 + u = b * 2 + w \<Longrightarrow> u < 2 \<Longrightarrow> w < 2 \<Longrightarrow> a = b \<and> u = (w :: nat)"
  by presburger

lemma bit_position_inj:
  assumes "bit_byteOffset p = bit_byteOffset q" and "bit_inByte p = bit_inByte q"
  shows "p = q"
proof -
  define x y where "x = 15 - p mod 16" and "y = 15 - q mod 16"
  have "7 - x mod 8 = 7 - y mod 8" using assms(2) by (simp add: bit_inByte_def x_def y_def)
  moreover have "x mod 8 < 8" and "y mod 8 < 8" by simp_all
  ultimately have m: "x mod 8 = y mod 8" by linarith
  have "x div 8 < 2" and "y div 8 < 2" by (simp_all add: x_def y_def)
  moreover have "p div 16 * 2 + x div 8 = q div 16 * 2 + y div 8"
    using assms(1) by (simp add: bit_byteOffset_def x_def y_def)
  ultimately have d: "p div 16 = q div 16" and "x div 8 = y div 8"
    using base2_digits [of "p div 16" "x div 8" "q div 16" "y div 8"] by blast+
  with m have "x = y" by (metis div_mult_mod_eq)
  then have "p mod 16 = q mod 16"
    using mod_less_divisor [of 16 p] mod_less_divisor [of 16 q] unfolding x_def y_def by linarith
  with d show "p = q" by (metis div_mult_mod_eq)
qed

lemma read_bit_write_bit:
  assumes "p < n * 16" and "q < n * 16" and "length area = n * 2"
  shows "read_bit (write_bit v area p) q = (if q = p then of_bool (v \<noteq> 0) else read_bit area q)"
proof -
  have len: "bit_byteOffset p < length area" using bit_byteOffset_less [OF assms(1)] assms(3) by simp
  show ?thesis
  proof (cases "q = p")
    case True
    then show ?thesis using len bit_inByte_less [of p]
      by (simp add: read_bit_def write_bit_def Let_def and_exp_eq_0_iff_not_bit bit_simps)
  next
    case False
    then have "bit_byteOffset p \<noteq> bit_byteOffset q \<or> bit_inByte p \<noteq> bit_inByte q"
      using bit_position_inj [of p q] by auto
    then show ?thesis using False len bit_inByte_less [of q]
      by (auto simp: read_bit_def write_bit_def Let_def and_exp_eq_0_iff_not_bit nth_list_update
          bit_simps)
  qed
qed

lemma read_bit_write_bits:
  assumes "s + length vs \<le> n * 16" and "q < n * 16" and "length area = n * 2"
  shows "read_bit (write_bits area s vs) q =
    (if s \<le> q \<and> q < s + length vs then of_bool (vs ! (q - s) \<noteq> 0) else read_bit area q)"
  using assms
proof (induction vs arbitrary: s area)
  case Nil
  then show ?case by auto
next
  case (Cons v vs)
  have "read_bit (write_bits (write_bit v area s) (Suc s) vs) q =
      (if Suc s \<le> q \<and> q < Suc s + length vs then of_bool (vs ! (q - Suc s) \<noteq> 0)
       else read_bit (write_bit v area s) q)"
    using Cons.prems by (intro Cons.IH) simp_all
  moreover have "read_bit (write_bit v area s) q =
      (if q = s then of_bool (v \<noteq> 0) else read_bit area q)"
    using Cons.prems by (intro read_bit_write_bit) simp_all
  ultimately show ?case by (auto simp: nth_Cons' Suc_diff_le)
qed

section \<open>The mock implements the memory contract\<close>

definition mock_img :: "MockPLC \<Rightarrow> u8 \<Rightarrow> bytes option" where
  "mock_img m c = map_option (\<lambda>(ar, _). area_bytes m ar) (getArea c)"

lemma mock_wf_write: "mock_wf m \<Longrightarrow> mock_wf (fst (mock_writeMemory m a n d))"
  by (auto simp: mock_writeMemory_def Let_def mock_wf_area intro!: mock_wf_set split: option.split)

interpretation mock_mem: plc_word_memory mock_readMemory mock_writeMemory mock_img "\<lambda>_. True" mock_wf
proof unfold_locales
  fix m :: MockPLC and a :: MemoryAddress and bs d and n :: u16
  assume img: "mock_img m (ma_Area a) = Some bs"
  then obtain ar k where ar: "getArea (ma_Area a) = Some (ar, k)" "bs = area_bytes m ar"
    by (auto simp: mock_img_def)
  have word: "IsWordArea (ma_Area a)" using getArea_Some [OF ar(1)] by simp
  show "2 * (unat (ma_Address a) + unat n) \<le> length bs \<Longrightarrow> mock_readMemory m a n =
      (slice bs (2 * unat (ma_Address a)) (2 * (unat (ma_Address a) + unat n)), 0)"
    using ar word by (simp add: mock_readMemory_def Let_def algebra_simps END_CODE_NORMAL_def)
  show "length bs < 2 * (unat (ma_Address a) + unat n) \<Longrightarrow> mock_readMemory m a n = ([], 0x1104)"
    using ar word by (simp add: mock_readMemory_def Let_def END_CODE_ADDR_RANGE_EXCEED_def)
  show "2 * (unat (ma_Address a) + unat n) \<le> length bs \<Longrightarrow> snd (mock_writeMemory m a n d) = 0 \<and>
      mock_img (fst (mock_writeMemory m a n d)) (ma_Area a) =
        Some (copy_at bs (2 * unat (ma_Address a)) (take (2 * unat n) d))"
    using ar word
    by (simp add: mock_writeMemory_def mock_img_def Let_def area_bytes_set algebra_simps
        END_CODE_NORMAL_def)
  show "length bs < 2 * (unat (ma_Address a) + unat n) \<Longrightarrow> mock_writeMemory m a n d = (m, 0x1104)"
    using ar word by (simp add: mock_writeMemory_def Let_def END_CODE_ADDR_RANGE_EXCEED_def)
qed (rule mock_wf_write)

lemma mock_request_answered:
  assumes "mock_wf m"
  shows "\<exists>resp m'. mock_handleRequest m req = Ok (resp, m') \<and> mock_wf m' \<and>
    ff_CommandCode resp = ff_CommandCode req \<and> SID (ff_Header resp) = SID (ff_Header req) \<and>
    Dest (ff_Header resp) = Src (ff_Header req) \<and> Src (ff_Header resp) = Dest (ff_Header req) \<and>
    bit (ICF (ff_Header resp)) 6"
proof (cases "length (ff_Data req) < 6")
  case True
  then show ?thesis
    using assms by (simp add: mock_handleRequest_def Let_def DefaultResponseHeader_def fins_consts)
next
  case False
  then obtain a where "DecodeMemoryAddress (slice (ff_Data req) 0 4) = Ok a"
    by (simp add: DecodeMemoryAddress_def)
  moreover obtain r e where "mock_readMemory m a (un_be16 (slice (ff_Data req) 4 6)) = (r, e)"
    by fastforce
  moreover obtain m1 e1 where
    w: "mock_writeMemory m a (un_be16 (slice (ff_Data req) 4 6)) (drop 6 (ff_Data req)) = (m1, e1)"
    by fastforce
  moreover have "mock_wf m1" using mock_wf_write [OF assms] w by (metis fst_conv)
  ultimately show ?thesis
    using False assms
    by (simp add: mock_handleRequest_def Let_def DefaultResponseHeader_def fins_consts)
qed

section \<open>Properties\<close>

text \<open>C14. Word memory of the mock PLC: after a write of \<open>n\<close> words that fits the area, a
  read of any range inside the written one returns exactly the written bytes of that range with
  the normal end code.\<close>

theorem mock_read_after_write:
  assumes "mock_wf m" and "getArea (ma_Area a) = Some (ar, words)"
    and "unat (ma_Address a) + unat n \<le> words" and "length d = 2 * unat n"
    and "ma_Area b = ma_Area a" and "unat (ma_Address a) \<le> unat (ma_Address b)"
    and "unat (ma_Address b) + unat k \<le> unat (ma_Address a) + unat n"
  shows "mock_readMemory (fst (mock_writeMemory m a n d)) b k =
    (slice d (2 * (unat (ma_Address b) - unat (ma_Address a)))
       (2 * (unat (ma_Address b) - unat (ma_Address a) + unat k)), END_CODE_NORMAL)"
proof -
  have "mock_img m (ma_Area a) = Some (area_bytes m ar)"
    using assms(2) by (simp add: mock_img_def)
  moreover have "2 * (unat (ma_Address a) + unat n) \<le> length (area_bytes m ar)"
    using assms(1,3) getArea_Some [OF assms(2)] by (simp add: mock_wf_area)
  ultimately show ?thesis
    using mock_mem.read_inside_write [of m a "area_bytes m ar" n d b k] assms
    by (simp add: END_CODE_NORMAL_def)
qed

theorem mock_read_after_write_witness:
  "mock_readMemory (fst (mock_writeMemory NewMockPLC (NewMemoryAddress MemoryAreaDMWord 100) 2
      [1, 2, 3, 4])) (NewMemoryAddress MemoryAreaDMWord 101) 1 = ([3, 4], END_CODE_NORMAL)"
  by (subst mock_read_after_write [where words = MockDMWordSize and ar = AreaDM])
    (simp_all add: mock_wf_New NewMemoryAddress_def getArea_def mock_sizes slice_def)

text \<open>C27. Bit memory of the mock PLC: writing bits through a bit area sets exactly the
  addressed bits of the area (non-zero bytes as one, zero bytes as zero) and leaves every other
  bit of it alone.\<close>

theorem mock_bit_write_exact:
  assumes "mock_wf m" and "getBitArea (ma_Area a) = Some (ar, maxBits)"
    and "start = unat (ma_Address a) * 16 + unat (ma_BitOffset a)"
    and "start + unat n \<le> maxBits" and "length d = unat n" and "q < maxBits"
  shows "snd (mock_writeMemory m a n d) = END_CODE_NORMAL \<and>
    read_bit (area_bytes (fst (mock_writeMemory m a n d)) ar) q =
      (if start \<le> q \<and> q < start + unat n then of_bool (d ! (q - start) \<noteq> 0)
       else read_bit (area_bytes m ar) q)"
proof -
  have max: "maxBits = area_words ar * 16" and bit: "IsBitArea (ma_Area a)" "\<not> IsWordArea (ma_Area a)"
    using getBitArea_Some [OF assms(2)] by simp_all
  have "mock_writeMemory m a n d =
      (area_set m ar (write_bits (area_bytes m ar) start d), END_CODE_NORMAL)"
    using assms(2-5) bit by (simp add: mock_writeMemory_def Let_def)
  moreover have "read_bit (write_bits (area_bytes m ar) start d) q =
      (if start \<le> q \<and> q < start + length d then of_bool (d ! (q - start) \<noteq> 0)
       else read_bit (area_bytes m ar) q)"
    using assms(1,4-6) max by (intro read_bit_write_bits) (simp_all add: mock_wf_area)
  ultimately show ?thesis using assms(5) by (simp add: area_bytes_set)
qed

theorem mock_bit_write_exact_witness:
  "read_bit (area_bytes (fst (mock_writeMemory NewMockPLC
      (NewMemoryAddressWithBit MemoryAreaCIOBit 3 5) 1 [1])) AreaCIO) 53 = 1"
  using mock_bit_write_exact [of NewMockPLC "NewMemoryAddressWithBit MemoryAreaCIOBit 3 5" AreaCIO
      "MockCIOWordSize * 16" 53 1 "[1]" 53]
  by (simp add: mock_wf_New NewMemoryAddressWithBit_def getBitArea_def fins_consts mock_sizes)

text \<open>C28. The two views of an area agree: the bit read through the bit area at word address
  \<open>n\<close> and offset \<open>k\<close> is bit \<open>k\<close> of the big-endian word stored at
  address \<open>n\<close>.\<close>

theorem mock_bit_is_word_bit:
  assumes "mock_wf m" and "getBitArea c = Some (ar, maxBits)" and "unat n < area_words ar"
    and "unat k < 16"
  shows "mock_readMemory m \<lparr>ma_Area = c, ma_Address = n, ma_BitOffset = k\<rparr> 1 =
    ([of_bool (bit (word_at (area_bytes m ar) (unat n)) (unat k))], END_CODE_NORMAL)"
proof -
  let ?p = "unat n * 16 + unat k"
  have max: "maxBits = area_words ar * 16" and bit: "IsBitArea c" "\<not> IsWordArea c"
    using getBitArea_Some [OF assms(2)] by simp_all
  have p: "?p < area_words ar * 16" using assms(3,4) by linarith
  have "mock_readMemory m \<lparr>ma_Area = c, ma_Address = n, ma_BitOffset = k\<rparr> 1 =
      ([read_bit (area_bytes m ar) ?p], END_CODE_NORMAL)"
    using assms(2) bit max p by (simp add: mock_readMemory_def Let_def)
  moreover have "?p div 16 = unat n" and "?p mod 16 = unat k"
    using assms(4) by simp_all
  ultimately show ?thesis
    using read_bit_word_at [OF p mock_wf_area [OF assms(1)]] by simp
qed

theorem mock_bit_is_word_bit_witness:
  "mock_readMemory NewMockPLC \<lparr>ma_Area = MemoryAreaDMBit, ma_Address = 7, ma_BitOffset = 15\<rparr> 1 =
    ([of_bool (bit (word_at (area_bytes NewMockPLC AreaDM) 7) 15)], END_CODE_NORMAL)"
  using mock_bit_is_word_bit [of NewMockPLC MemoryAreaDMBit AreaDM "MockDMWordSize * 16" 7 15]
  by (simp add: mock_wf_New getBitArea_def mock_sizes)



text \<open>C30. \<open>SetWord\<close> computes its slice bounds in 16 bits: for the last word of the DM area the
  upper bound wraps around to zero and the call panics, although its range check passes; for
  every other word of an area, reading back gives the word just set.\<close>

theorem SetWord_GetWord:
  assumes "mock_wf m" and "getArea c = Some (ar, words)" and "unat n < words"
  shows "if unat n = 32767 then SetWord m c n v = Panic
         else \<exists>m'. SetWord m c n v = Ok m' \<and> GetWord m' c n = Ok v"
proof -
  have words: "words = area_words ar" and le: "words \<le> 32768"
    using getArea_Some [OF assms(2)] by (cases ar; simp add: mock_sizes)+
  have len: "length (area_bytes m ar) = words * 2" using assms(1) words by (simp add: mock_wf_area)
  show ?thesis
  proof (cases "unat n = 32767")
    case True
    then have "word_of_nat (unat n) = (word_of_nat 32767 :: u16)" by simp
    then have "n = 32767" by simp
    then show ?thesis
      using assms(2,3) len by (simp add: SetWord_def Let_def)
  next
    case False
    then have n: "unat n < 32767" using assms(3) le by simp
    have lo: "unat (n * 2) = unat n * 2" and hi: "unat (n * 2 + 2) = unat n * 2 + 2"
      using n by (simp_all add: unat_word_ariths)
    then show ?thesis
      using False assms(2,3) len
      by (simp add: SetWord_def GetWord_def Let_def area_bytes_set slice_copy_at_same)
  qed
qed

theorem SetWord_GetWord_witness:
  "SetWord NewMockPLC MemoryAreaDMWord 32767 1 = Panic \<and>
   (\<exists>m'. SetWord NewMockPLC MemoryAreaDMWord 32766 1 = Ok m' \<and> GetWord m' MemoryAreaDMWord 32766 = Ok 1)"
  using SetWord_GetWord [OF mock_wf_New, of MemoryAreaDMWord AreaDM MockDMWordSize 32767 1]
    SetWord_GetWord [OF mock_wf_New, of MemoryAreaDMWord AreaDM MockDMWordSize 32766 1]
  by (simp add: getArea_def mock_sizes)

end
