(* ===== verification/Fins_Transport.thy ===== *)
theory Fins_Transport
  imports Fins_MockPLC Go_Runtime
begin

text \<open>
  The TCP transport of \<open>transport.go\<close>. The transport record holds the fields of the Go struct,
  the channels it has made (a store: a channel is its index) and the accumulator of the running
  read loop. The operating system is the record \<open>Env\<close> over a world \<open>'w\<close>: what dialling,
  writing, waiting and the clock answer is a parameter. Waiting for a response is driven by the
  list of events that happen until the next call of the transport, in the order in which the
  goroutines see them; when the list is used up, the timer of \<open>time.After\<close> fires.
\<close>

section \<open>Environment\<close>

datatype net_event =
    Received bytes
  | ReadTimeout
  | ReadFailed
  | ContextDone string
  | TimerFired

record 'w Env =
  env_dial :: "'w \<Rightarrow> bytes \<Rightarrow> int \<Rightarrow> (string + string \<times> string) \<times> 'w"
  env_write :: "'w \<Rightarrow> bytes \<Rightarrow> string option \<times> 'w"
  env_events :: "'w \<Rightarrow> net_event list \<times> 'w"
  env_close :: "'w \<Rightarrow> 'w"
  env_now :: "'w \<Rightarrow> int \<times> 'w"
  env_after :: "'w \<Rightarrow> int \<Rightarrow> string option \<times> 'w"
  env_sleep :: "'w \<Rightarrow> int \<Rightarrow> 'w"

section \<open>State\<close>

text \<open>A channel \<open>chan *FINSFrame\<close> of capacity one.\<close>

record Channel =
  ch_buf :: "FINSFrame option"
  ch_closed :: bool

record Transport =
  t_conn :: "(string \<times> string) option"
  t_connected :: bool
  t_closed :: bool
  t_connectTime :: int
  t_lastDisconnectTime :: int
  t_reconnectCount :: u32
  t_plcIP :: bytes
  t_plcPort :: int
  t_timeout :: int
  t_maxRetries :: int
  t_retryInterval :: int
  t_maxBackoff :: int
  t_heartbeatInterval :: int
  t_stopHeartbeat :: bool
  t_heartbeatRunning :: bool
  t_srcAddr :: FINSAddress
  t_dstAddr :: FINSAddress
  t_sidCounter :: u8
  t_responseChans :: "u8 \<rightharpoonup> nat"
  t_chans :: "Channel list"
  t_accumulator :: "bytes option"

section \<open>Configuration\<close>

text \<open>A number of the configuration, as \<open>float64\<close> or \<open>int\<close>, with its default; and the
  same as a duration in milliseconds (durations are 64-bit nanoseconds).\<close>

definition cfg_int :: "float_oob \<Rightarrow> Config \<Rightarrow> string \<Rightarrow> int \<Rightarrow> int" where
  "cfg_int oob cfg key dflt =
     (case cfg key of
        Some (VFloat64 f) \<Rightarrow> sint (float_to_int oob DataTypeINT64 (- (2 ^ 63)) (2 ^ 63 - 1) f)
      | Some (VInt i) \<Rightarrow> i
      | _ \<Rightarrow> dflt)"

definition cfg_duration :: "float_oob \<Rightarrow> Config \<Rightarrow> string \<Rightarrow> int \<Rightarrow> int" where
  "cfg_duration oob cfg key dflt =
     (case cfg key of
        Some (VFloat64 f) \<Rightarrow>
          int64 (sint (float_to_int oob DataTypeINT64 (- (2 ^ 63)) (2 ^ 63 - 1) f) * 1000000)
      | Some (VInt i) \<Rightarrow> int64 (i * 1000000)
      | _ \<Rightarrow> dflt)"

definition cfg_address :: "float_oob \<Rightarrow> Config \<Rightarrow> string \<Rightarrow> int \<Rightarrow> int \<Rightarrow> int \<Rightarrow> FINSAddress" where
  "cfg_address oob cfg side net node unit =
     \<lparr>fa_Network = word_of_int (cfg_int oob cfg (side @ ''NetworkAddr'') net),
      fa_Node = word_of_int (cfg_int oob cfg (side @ ''NodeAddr'') node),
      fa_Unit = word_of_int (cfg_int oob cfg (side @ ''UnitAddr'') unit)\<rparr>"

definition loadConfig :: "float_oob \<Rightarrow> Config \<Rightarrow> Transport \<Rightarrow> (FinsError, Transport) go" where
  "loadConfig oob cfg t =
     (case cfg ''plcIP'' of
        Some (VString v) \<Rightarrow>
          Ok (t\<lparr>t_plcIP := v,
                t_plcPort := cfg_int oob cfg ''plcPort'' (t_plcPort t),
                t_timeout := cfg_duration oob cfg ''timeout'' (t_timeout t),
                t_heartbeatInterval := cfg_duration oob cfg ''heartbeatInterval'' (t_heartbeatInterval t),
                t_maxRetries := cfg_int oob cfg ''maxRetries'' (t_maxRetries t),
                t_retryInterval := cfg_duration oob cfg ''retryInterval'' (t_retryInterval t),
                t_srcAddr := cfg_address oob cfg ''src'' 0 1 255,
                t_dstAddr := cfg_address oob cfg ''dst'' 0 1 0\<rparr>)
      | _ \<Rightarrow> Err (ErrMsg ''plcIP is required''))"

definition initial_transport :: Transport where
  "initial_transport =
     \<lparr>t_conn = None, t_connected = False, t_closed = False, t_connectTime = 0,
      t_lastDisconnectTime = 0, t_reconnectCount = 0, t_plcIP = [], t_plcPort = 9600,
      t_timeout = 3000 * 1000000, t_maxRetries = 3, t_retryInterval = 1000 * 1000000,
      t_maxBackoff = 30 * 1000000000, t_heartbeatInterval = 30 * 1000000000,
      t_stopHeartbeat = False, t_heartbeatRunning = False,
      t_srcAddr = \<lparr>fa_Network = 0, fa_Node = 0, fa_Unit = 0\<rparr>,
      t_dstAddr = \<lparr>fa_Network = 0, fa_Node = 0, fa_Unit = 0\<rparr>,
      t_sidCounter = 0, t_responseChans = Map.empty, t_chans = [], t_accumulator = None\<rparr>"

definition NewTransport :: "float_oob \<Rightarrow> Config \<Rightarrow> (FinsError, Transport) go" where
  "NewTransport oob cfg = loadConfig oob cfg initial_transport"

section \<open>Connecting\<close>

text \<open>\<open>startHeartbeat\<close> starts the goroutine of \<open>heartbeat_step\<close> below unless it runs.\<close>

definition startHeartbeat :: "Transport \<Rightarrow> Transport" where
  "startHeartbeat t = (if t_heartbeatRunning t then t else t\<lparr>t_heartbeatRunning := True\<rparr>)"

definition Connect :: "'w Env \<Rightarrow> Transport \<Rightarrow> 'w \<Rightarrow> (FinsError, unit) go \<times> Transport \<times> 'w" where
  "Connect env t w =
     (if t_connected t then (Ok (), t, w)
      else
        let t1 = t\<lparr>t_closed := False\<rparr> in
        case env_dial env w (t_plcIP t1) (t_plcPort t1) of
          (Inl e, w1) \<Rightarrow> (Err (ErrDial e), t1, w1)
        | (Inr addrs, w1) \<Rightarrow>
            let (now, w2) = env_now env w1;
                t2 = t1\<lparr>t_conn := Some addrs, t_connected := True, t_connectTime := now,
                        t_accumulator := Some []\<rparr>
            in (Ok (), if t_heartbeatInterval t2 > 0 then startHeartbeat t2 else t2, w2))"

text \<open>Closing the registered channels and forgetting them.\<close>

definition close_chans :: "Transport \<Rightarrow> Transport" where
  "close_chans t =
     t\<lparr>t_chans := map (\<lambda>i. if i \<in> ran (t_responseChans t) then (t_chans t ! i)\<lparr>ch_closed := True\<rparr>
                            else t_chans t ! i) [0..<length (t_chans t)],
       t_responseChans := Map.empty\<rparr>"

text \<open>The read loop of the closed connection sees the flag \<open>closed\<close> and returns.\<close>

definition Disconnect :: "'w Env \<Rightarrow> Transport \<Rightarrow> 'w \<Rightarrow> (FinsError, unit) go \<times> Transport \<times> 'w" where
  "Disconnect env t w =
     (if \<not> t_connected t then (Ok (), t, w)
      else
        let t1 = t\<lparr>t_closed := True, t_stopHeartbeat := True\<rparr>;
            w1 = (if t_conn t1 \<noteq> None then env_close env w else w);
            (now, w2) = env_now env w1;
            t2 = t1\<lparr>t_connected := False, t_lastDisconnectTime := now, t_accumulator := None\<rparr>
        in (Ok (), close_chans t2, w2))"

definition IsConnected :: "Transport \<Rightarrow> bool" where
  "IsConnected t = t_connected t"

section \<open>Receiving\<close>

text \<open>The channel of the frame's service ID is taken out of the table, and the frame is offered
  to it without blocking; a send on a closed channel would panic.\<close>

definition dispatchResponse ::
  "(FinsError, Transport) go \<Rightarrow> FINSFrame \<Rightarrow> (FinsError, Transport) go" where
  "dispatchResponse st frame =
     go_bind st (\<lambda>t.
       case t_responseChans t (SID (ff_Header frame)) of
         None \<Rightarrow> Ok t
       | Some i \<Rightarrow>
           let t1 = t\<lparr>t_responseChans := (t_responseChans t)(SID (ff_Header frame) := None)\<rparr>;
               ch = t_chans t1 ! i
           in if ch_closed ch then Panic
              else if ch_buf ch = None
              then Ok (t1\<lparr>t_chans := (t_chans t1)[i := ch\<lparr>ch_buf := Some frame\<rparr>]\<rparr>)
              else Ok t1)"

text \<open>One iteration of \<open>readLoop\<close>: a timed-out read goes on, any other error ends the loop
  and marks the transport disconnected; bytes go through the inner loop.\<close>

definition readLoop_event ::
  "'w Env \<Rightarrow> net_event \<Rightarrow> Transport \<Rightarrow> 'w \<Rightarrow> (FinsError, Transport) go \<times> 'w" where
  "readLoop_event env ev t w =
     (case (t_accumulator t, ev) of
        (Some acc, Received buf) \<Rightarrow>
          let (st, acc') = readLoop_read dispatchResponse (Ok t, acc) buf
          in (go_bind st (\<lambda>t'. Ok (t'\<lparr>t_accumulator := Some acc'\<rparr>)), w)
      | (Some acc, ReadFailed) \<Rightarrow>
          if t_connected t \<and> \<not> t_closed t
          then let (now, w1) = env_now env w
               in (Ok (t\<lparr>t_connected := False, t_lastDisconnectTime := now, t_accumulator := None\<rparr>), w1)
          else (Ok (t\<lparr>t_accumulator := None\<rparr>), w)
      | _ \<Rightarrow> (Ok t, w))"

section \<open>Sending\<close>

definition nextSID :: "Transport \<Rightarrow> u8 \<times> Transport" where
  "nextSID t =
     (let c = t_sidCounter t + 1; c' = (if c = 0 then 1 else c)
      in (c', t\<lparr>t_sidCounter := c'\<rparr>))"

definition unregister :: "u8 \<Rightarrow> Transport \<Rightarrow> Transport" where
  "unregister sid t = t\<lparr>t_responseChans := (t_responseChans t)(sid := None)\<rparr>"

definition register :: "u8 \<Rightarrow> Transport \<Rightarrow> Transport" where
  "register sid t =
     t\<lparr>t_chans := t_chans t @ [\<lparr>ch_buf = None, ch_closed = False\<rparr>],
       t_responseChans := (t_responseChans t)(sid \<mapsto> length (t_chans t))\<rparr>"

text \<open>The events that come after the waiting call has returned.\<close>

fun after_wait ::
  "'w Env \<Rightarrow> (FinsError, 'a) go \<Rightarrow> net_event list \<Rightarrow> Transport \<Rightarrow> 'w \<Rightarrow>
     (FinsError, 'a) go \<times> Transport \<times> 'w" where
  "after_wait env r [] t w = (r, t, w)"
| "after_wait env r (ev # evs) t w =
     (case readLoop_event env ev t w of
        (Ok t', w') \<Rightarrow> after_wait env r evs t' w'
      | (_, w') \<Rightarrow> (Panic, t, w'))"

text \<open>The \<open>select\<close> at the end of \<open>SendCommand\<close> over the response channel \<open>i\<close>, the
  context and the timer, with the deferred removal of the channel.\<close>

fun await_response ::
  "'w Env \<Rightarrow> nat \<Rightarrow> u8 \<Rightarrow> net_event list \<Rightarrow> Transport \<Rightarrow> 'w \<Rightarrow>
     (FinsError, FINSFrame) go \<times> Transport \<times> 'w" where
  "await_response env i sid [] t w = (Err ErrResponseTimeout, unregister sid t, w)"
| "await_response env i sid (ev # evs) t w =
     (case ev of
        ContextDone e \<Rightarrow> after_wait env (Err (ErrContext e)) evs (unregister sid t) w
      | TimerFired \<Rightarrow> after_wait env (Err ErrResponseTimeout) evs (unregister sid t) w
      | _ \<Rightarrow>
        (case readLoop_event env ev t w of
           (Ok t', w') \<Rightarrow>
             (let ch = t_chans t' ! i in
              case ch_buf ch of
                Some f \<Rightarrow> after_wait env (Ok f) evs
                  (unregister sid (t'\<lparr>t_chans := (t_chans t')[i := ch\<lparr>ch_buf := None\<rparr>]\<rparr>)) w'
              | None \<Rightarrow>
                  if ch_closed ch
                  then after_wait env (Err ErrConnectionClosed) evs (unregister sid t') w'
                  else await_response env i sid evs t' w')
         | (_, w') \<Rightarrow> (Panic, t, w')))"

definition SendCommand ::
  "'w Env \<Rightarrow> Transport \<Rightarrow> 'w \<Rightarrow> bytes \<Rightarrow> (FinsError, FINSFrame) go \<times> Transport \<times> 'w" where
  "SendCommand env t w commandData =
     (if \<not> t_connected t then (Err ErrNotConnected, t, w)
      else
        let (sid, t1) = nextSID t;
            i = length (t_chans t1);
            t2 = register sid t1
        in if length commandData < 2 then (Panic, unregister sid t2, w)
        else
          let header = DefaultCommandHeader (t_srcAddr t2) (t_dstAddr t2) sid;
              finsFrame = EncodeFINSFrame header (un_be16 (slice commandData 0 2)) 0
                (drop 2 commandData);
              tcpFrame = EncodeFINSTCPFrame TCPCommandFINSFrame 0 finsFrame
          in if t_conn t2 = None then (Err ErrNotConnected, unregister sid t2, w)
          else case env_write env w tcpFrame of
            (Some e, w1) \<Rightarrow> (Err (ErrSend e), unregister sid t2, w1)
          | (None, w1) \<Rightarrow>
              let (evs, w2) = env_events env w1 in await_response env i sid evs t2 w2)"

section \<open>Memory access\<close>

definition check_end_code :: "FINSFrame \<Rightarrow> (FinsError, FINSFrame) go" where
  "check_end_code resp =
     (if ff_EndCode resp \<noteq> END_CODE_NORMAL
      then Err (ErrFINS (EndCodeText (ff_EndCode resp)) (ff_EndCode resp)) else Ok resp)"

definition ReadMemory ::
  "'w Env \<Rightarrow> Transport \<Rightarrow> 'w \<Rightarrow> u8 \<Rightarrow> u16 \<Rightarrow> u16 \<Rightarrow> (FinsError, bytes) go \<times> Transport \<times> 'w" where
  "ReadMemory env t w area address count =
     (case SendCommand env t w (EncodeReadCommand (NewMemoryAddress area address) count) of
        (r, t', w') \<Rightarrow>
          (go_bind r (\<lambda>resp. go_bind (check_end_code resp) (\<lambda>resp. Ok (ff_Data resp))), t', w'))"

definition WriteMemory ::
  "'w Env \<Rightarrow> Transport \<Rightarrow> 'w \<Rightarrow> u8 \<Rightarrow> u16 \<Rightarrow> u16 \<Rightarrow> bytes \<Rightarrow>
     (FinsError, unit) go \<times> Transport \<times> 'w" where
  "WriteMemory env t w area address count data =
     (case SendCommand env t w (EncodeWriteCommand (NewMemoryAddress area address) count data) of
        (r, t', w') \<Rightarrow>
          (go_bind r (\<lambda>resp. go_bind (check_end_code resp) (\<lambda>resp. Ok ())), t', w'))"

definition ReadBits ::
  "'w Env \<Rightarrow> Transport \<Rightarrow> 'w \<Rightarrow> u8 \<Rightarrow> u16 \<Rightarrow> u8 \<Rightarrow> u16 \<Rightarrow>
     (FinsError, bool list) go \<times> Transport \<times> 'w" where
  "ReadBits env t w area address bitOffset count =
     (case SendCommand env t w
        (EncodeReadCommand (NewMemoryAddressWithBit area address bitOffset) count) of
        (r, t', w') \<Rightarrow>
          (go_bind r (\<lambda>resp. go_bind (check_end_code resp) (\<lambda>resp.
             Ok (map (\<lambda>i. i < length (ff_Data resp) \<and> ff_Data resp ! i AND 1 \<noteq> 0)
                   [0..<unat count]))), t', w'))"

definition WriteBits ::
  "'w Env \<Rightarrow> Transport \<Rightarrow> 'w \<Rightarrow> u8 \<Rightarrow> u16 \<Rightarrow> u8 \<Rightarrow> bool list \<Rightarrow>
     (FinsError, unit) go \<times> Transport \<times> 'w" where
  "WriteBits env t w area address bitOffset values =
     (case SendCommand env t w
        (EncodeWriteCommand (NewMemoryAddressWithBit area address bitOffset)
           (word_of_nat (length values)) (map (\<lambda>v. if v then 1 else 0) values)) of
        (r, t', w') \<Rightarrow>
          (go_bind r (\<lambda>resp. go_bind (check_end_code resp) (\<lambda>resp. Ok ())), t', w'))"

section \<open>Heartbeat, reconnection, accessors\<close>

text \<open>One round of the heartbeat goroutine: the ticker fired or a stop token arrived. The
  result of the command is dropped.\<close>

datatype heartbeat_wake = Tick | Stop

definition heartbeat_step ::
  "'w Env \<Rightarrow> heartbeat_wake \<Rightarrow> Transport \<Rightarrow> 'w \<Rightarrow> Transport \<times> 'w" where
  "heartbeat_step env wake t w =
     (if \<not> t_heartbeatRunning t then (t, w)
      else case wake of
        Tick \<Rightarrow>
          if \<not> t_connected t \<or> t_closed t then (t\<lparr>t_heartbeatRunning := False\<rparr>, w)
          else snd (SendCommand env t w [0x06, 0x01])
      | Stop \<Rightarrow>
          if t_stopHeartbeat t
          then (t\<lparr>t_stopHeartbeat := False, t_heartbeatRunning := False\<rparr>, w)
          else (t, w))"

text \<open>The loop of \<open>Reconnect\<close> with \<open>n\<close> attempts left.\<close>

fun reconnect_loop ::
  "'w Env \<Rightarrow> nat \<Rightarrow> int \<Rightarrow> Transport \<Rightarrow> 'w \<Rightarrow> (FinsError, unit) go \<times> Transport \<times> 'w" where
  "reconnect_loop env 0 interval t w = (Err (ErrMsg ''failed to reconnect''), t, w)"
| "reconnect_loop env (Suc n) interval t w =
     (case Connect env t w of
        (Ok _, t1, w1) \<Rightarrow> (Ok (), t1\<lparr>t_reconnectCount := t_reconnectCount t1 + 1\<rparr>, w1)
      | (_, t1, w1) \<Rightarrow>
          if n > 0 then
            (case env_after env w1 interval of
               (Some e, w2) \<Rightarrow> (Err (ErrContext e), t1, w2)
             | (None, w2) \<Rightarrow>
                 let interval' = int64 (interval * 2) in
                 reconnect_loop env n (if interval' > t_maxBackoff t1 then t_maxBackoff t1 else interval')
                   t1 w2)
          else reconnect_loop env n interval t1 w1)"

definition Reconnect :: "'w Env \<Rightarrow> Transport \<Rightarrow> 'w \<Rightarrow> (FinsError, unit) go \<times> Transport \<times> 'w" where
  "Reconnect env t w =
     (case Disconnect env t w of
        (_, t1, w1) \<Rightarrow> reconnect_loop env (nat (t_maxRetries t1)) (t_retryInterval t1) t1 w1)"

definition GetMetrics :: "Transport \<Rightarrow> ConnectionMetrics" where
  "GetMetrics t =
     \<lparr>cm_Connected = t_connected t, cm_ConnectTime = t_connectTime t,
      cm_LastDisconnectTime = t_lastDisconnectTime t, cm_ReconnectCount = t_reconnectCount t,
      cm_LocalAddr = (case t_conn t of Some (l, _) \<Rightarrow> l | None \<Rightarrow> []),
      cm_RemoteAddr = (case t_conn t of Some (_, r) \<Rightarrow> r | None \<Rightarrow> [])\<rparr>"

definition SetTimeout :: "int \<Rightarrow> Transport \<Rightarrow> Transport" where
  "SetTimeout timeout t = t\<lparr>t_timeout := timeout\<rparr>"

end
