(* ===== verification/Fins_Scheduler.thy ===== *)
theory Fins_Scheduler
  imports Fins_Decoder Fins_Transport "HOL-Library.Multiset"
begin

text \<open>
  The scheduler of \<open>scheduler.go\<close>: it parses the points of a read, groups them by area, sorts
  each group by address, packs neighbouring word points into one request, and decodes the
  values out of the responses. Two things are not determined by the language: the order in
  which a \<open>range\<close> loop visits a map, and the order in which \<open>sort.Slice\<close> leaves elements
  that compare equal. Both are permutations given by a list of picks, a parameter of the
  definitions; every permutation has such a list.
\<close>

section \<open>Permutations\<close>

fun permute :: "nat list \<Rightarrow> 'a list \<Rightarrow> 'a list" where
  "permute (k # ks) (x # xs) =
     (let ys = x # xs; i = k mod length ys in ys ! i # permute ks (take i ys @ drop (Suc i) ys))"
| "permute _ xs = xs"

lemma mset_permute [simp]: "mset (permute ks xs) = mset xs"
proof (induction ks xs rule: permute.induct)
  case (1 k ks x xs)
  let ?ys = "x # xs" and ?i = "k mod length (x # xs)"
  have "?i < length ?ys" by simp
  then have "mset ?ys = {#?ys ! ?i#} + mset (take ?i ?ys @ drop (Suc ?i) ?ys)"
    by (subst id_take_nth_drop [of ?i ?ys]) simp_all
  moreover have "mset (permute ks (take ?i ?ys @ drop (Suc ?i) ?ys)) =
      mset (take ?i ?ys @ drop (Suc ?i) ?ys)"
    by (rule "1.IH") simp_all
  ultimately show ?case by (simp add: Let_def)
qed simp_all

section \<open>Positions\<close>

text \<open>The order of the comparison function of \<open>sort.Slice\<close>: by address, then by bit.\<close>

datatype sort_position = SortPosition (sp_address: int) (sp_bit: int)

instantiation sort_position :: linorder
begin

definition less_eq_sort_position :: "sort_position \<Rightarrow> sort_position \<Rightarrow> bool" where
  "less_eq_sort_position p q \<longleftrightarrow>
     sp_address p < sp_address q \<or> sp_address p = sp_address q \<and> sp_bit p \<le> sp_bit q"

definition less_sort_position :: "sort_position \<Rightarrow> sort_position \<Rightarrow> bool" where
  "less_sort_position p q \<longleftrightarrow>
     (if sp_address p \<noteq> sp_address q then sp_address p < sp_address q else sp_bit p < sp_bit q)"

instance
  by standard (auto simp: less_eq_sort_position_def less_sort_position_def intro: sort_position.expand)

end

section \<open>State\<close>

record Scheduler =
  s_decoder :: Decoder
  s_maxFrameLength :: int
  s_minInterval :: int
  s_totalRequests :: u64
  s_successCount :: u64
  s_failureCount :: u64
  s_lastRequestTime :: int

definition NewScheduler :: "float_oob \<Rightarrow> Decoder \<Rightarrow> Config \<Rightarrow> Scheduler" where
  "NewScheduler oob decoder cfg =
     \<lparr>s_decoder = decoder, s_maxFrameLength = cfg_int oob cfg ''maxFrameLength'' 64,
      s_minInterval = cfg_duration oob cfg ''minInterval'' 0,
      s_totalRequests = 0, s_successCount = 0, s_failureCount = 0, s_lastRequestTime = 0\<rparr>"

record groupedPoint =
  gp_point :: Point
  gp_parsed :: ParsedAddress
  gp_offset :: int

record pointGroup =
  pg_areaCode :: u8
  pg_startAddr :: u16
  pg_count :: u16
  pg_points :: "groupedPoint list"
  pg_isBit :: bool

type_synonym groupKey = "u8 \<times> bool"

section \<open>Grouping\<close>

definition point_isBit :: "Point \<Rightarrow> ParsedAddress \<Rightarrow> bool" where
  "point_isBit p a \<longleftrightarrow> pa_IsBit a \<or> pt_DataType p = DataTypeBIT"

definition group_key :: "Point \<Rightarrow> ParsedAddress \<Rightarrow> groupKey" where
  "group_key p a =
     (if point_isBit p a
      then (case GetBitAreaCode (pa_AreaCode a) of Ok c \<Rightarrow> c | _ \<Rightarrow> pa_AreaCode a, True)
      else (pa_AreaCode a, False))"

text \<open>\<open>groupsMap[key] = append(groupsMap[key], gp)\<close> on the map as an association list.\<close>

fun groups_append :: "(groupKey \<times> groupedPoint list) list \<Rightarrow> groupKey \<Rightarrow> groupedPoint \<Rightarrow>
    (groupKey \<times> groupedPoint list) list" where
  "groups_append [] k gp = [(k, [gp])]"
| "groups_append ((k', gps) # gs) k gp =
     (if k' = k then (k', gps @ [gp]) # gs else (k', gps) # groups_append gs k gp)"

text \<open>The parsed points: the result of \<open>ParseAddress\<close> beside each point.\<close>

definition groups_map ::
  "(Point \<times> (FinsError, ParsedAddress) go) list \<Rightarrow> (groupKey \<times> groupedPoint list) list" where
  "groups_map pps =
     foldl (\<lambda>gs (p, r). case r of
        Ok a \<Rightarrow> groups_append gs (group_key p a) \<lparr>gp_point = p, gp_parsed = a, gp_offset = 0\<rparr>
      | _ \<Rightarrow> gs) [] pps"

definition gp_position :: "groupedPoint \<Rightarrow> sort_position" where
  "gp_position gp = SortPosition (pa_Address (gp_parsed gp)) (pa_Bit (gp_parsed gp))"

definition sort_points :: "nat list \<Rightarrow> groupedPoint list \<Rightarrow> groupedPoint list" where
  "sort_points ties gps = sort_key gp_position (permute ties gps)"

definition bit_groups :: "u8 \<Rightarrow> groupedPoint list \<Rightarrow> pointGroup list" where
  "bit_groups c gps =
     map (\<lambda>gp. \<lparr>pg_areaCode = c, pg_startAddr = word_of_int (pa_Address (gp_parsed gp)), pg_count = 1,
               pg_points = [gp], pg_isBit = True\<rparr>) gps"

definition point_size :: "groupedPoint \<Rightarrow> int" where
  "point_size gp =
     (let typeSize = (case DataTypeSize (pt_DataType (gp_point gp)) of Ok n \<Rightarrow> int n | _ \<Rightarrow> 0) in
      if typeSize = 0
      then (if pa_IsString (gp_parsed gp) then pa_StringLen (gp_parsed gp) else 2) else typeSize)"

definition word_count :: "groupedPoint \<Rightarrow> int" where
  "word_count gp = int64 (point_size gp + 1) div 2"

text \<open>One round of the loop that packs sorted word points; the accumulator is the list of
  finished groups and the current group.\<close>

definition pack_point ::
  "u8 \<Rightarrow> int \<Rightarrow> pointGroup list \<times> pointGroup \<Rightarrow> groupedPoint \<Rightarrow> pointGroup list \<times> pointGroup" where
  "pack_point c maxBytes st p =
     (case st of (done, cur) \<Rightarrow>
      let wordOffset = pa_Address (gp_parsed p); wordCount = word_count p in
      if pg_points cur = [] then
        (done, cur\<lparr>pg_startAddr := word_of_int wordOffset, pg_count := word_of_int wordCount,
                   pg_points := [p\<lparr>gp_offset := 0\<rparr>]\<rparr>)
      else
        let start = uint (pg_startAddr cur);
            endAddr = start + uint (pg_count cur);
            newEnd = int64 (wordOffset + wordCount);
            totalBytes = int64 (int64 (newEnd - start) * 2)
        in if wordOffset \<le> endAddr + 10 \<and> totalBytes \<le> maxBytes then
             (done, cur\<lparr>pg_count := (if newEnd > endAddr then word_of_int (newEnd - start) else pg_count cur),
                        pg_points := pg_points cur @ [p\<lparr>gp_offset := int64 (int64 (wordOffset - start) * 2)\<rparr>]\<rparr>)
           else
             (done @ [cur],
              \<lparr>pg_areaCode = c, pg_startAddr = word_of_int wordOffset, pg_count = word_of_int wordCount,
               pg_points = [p], pg_isBit = False\<rparr>))"

definition word_groups :: "u8 \<Rightarrow> int \<Rightarrow> groupedPoint list \<Rightarrow> pointGroup list" where
  "word_groups c maxBytes gps =
     (case foldl (pack_point c maxBytes)
        ([], \<lparr>pg_areaCode = c, pg_startAddr = 0, pg_count = 0, pg_points = [], pg_isBit = False\<rparr>) gps of
        (done, cur) \<Rightarrow> if pg_points cur \<noteq> [] then done @ [cur] else done)"

text \<open>\<open>order\<close> permutes the visits of the map, \<open>ties\<close> the points of each group before sorting.\<close>

definition groupPoints ::
  "nat list \<Rightarrow> (groupKey \<Rightarrow> nat list) \<Rightarrow> Scheduler \<Rightarrow>
     (Point \<times> (FinsError, ParsedAddress) go) list \<Rightarrow> pointGroup list" where
  "groupPoints order ties s pps =
     concat (map (\<lambda>((c, isBit), gps).
       let points = sort_points (ties (c, isBit)) gps in
       if isBit then bit_groups c points else word_groups c (int64 (s_maxFrameLength s * 2)) points)
     (permute order (groups_map pps)))"

section \<open>Pacing\<close>

text \<open>\<open>time.Since\<close> saturates at the ends of the 64-bit durations.\<close>

definition since :: "int \<Rightarrow> int \<Rightarrow> int" where
  "since now start = max (- (2 ^ 63)) (min (2 ^ 63 - 1) (now - start))"

definition waitMinInterval :: "'w Env \<Rightarrow> Scheduler \<Rightarrow> 'w \<Rightarrow> Scheduler \<times> 'w" where
  "waitMinInterval env s w =
     (if s_minInterval s \<le> 0 then (s, w)
      else
        let (now, w1) = env_now env w;
            elapsed = since now (s_lastRequestTime s);
            w2 = (if elapsed < s_minInterval s then env_sleep env w1 (int64 (s_minInterval s - elapsed)) else w1);
            (now', w3) = env_now env w2
        in (s\<lparr>s_lastRequestTime := now'\<rparr>, w3))"

section \<open>Reading\<close>

definition readWordGroup ::
  "'w Env \<Rightarrow> Transport \<Rightarrow> 'w \<Rightarrow> pointGroup \<Rightarrow> (FinsError, bytes) go \<times> Transport \<times> 'w" where
  "readWordGroup env t w grp = ReadMemory env t w (pg_areaCode grp) (pg_startAddr grp) (pg_count grp)"

definition readBitGroup ::
  "'w Env \<Rightarrow> Transport \<Rightarrow> 'w \<Rightarrow> pointGroup \<Rightarrow> (FinsError, bytes) go \<times> Transport \<times> 'w" where
  "readBitGroup env t w grp =
     (case pg_points grp of
        [] \<Rightarrow> (Ok [], t, w)
      | p # _ \<Rightarrow>
          (case ReadBits env t w (pg_areaCode grp) (word_of_int (pa_Address (gp_parsed p)))
              (word_of_int (pa_Bit (gp_parsed p))) 1 of
             (r, t', w') \<Rightarrow> (go_bind r (\<lambda>bits. Ok (map (\<lambda>b. if b then 1 else 0) bits)), t', w')))"

definition decodePointValue :: "bytes \<Rightarrow> groupedPoint \<Rightarrow> pointGroup \<Rightarrow> (FinsError, GoValue) go" where
  "decodePointValue data gp grp =
     (if pg_isBit grp then decode_bool data
      else
        let offset = gp_offset gp;
            typeSize = (case DataTypeSize (pt_DataType (gp_point gp)) of Ok n \<Rightarrow> int n | _ \<Rightarrow> 0)
        in if pa_IsString (gp_parsed gp) then
             (let end' = int64 (offset + pa_StringLen (gp_parsed gp));
                  end = (if end' > int (length data) then int (length data) else end')
              in if offset < 0 \<or> end < offset then Panic
                 else DecodeValue (slice data (nat offset) (nat end)) DataTypeSTRING (Some (gp_parsed gp)))
           else
             let size = (if typeSize = 0 then 2 else typeSize) in
             if int64 (offset + size) > int (length data) then Err ErrDataTooShort
             else if offset < 0 \<or> int64 (offset + size) < offset then Panic
             else DecodeValue (slice data (nat offset) (nat (offset + size)))
                    (pt_DataType (gp_point gp)) (Some (gp_parsed gp)))"

definition bad_value :: "int \<Rightarrow> Value" where
  "bad_value now = \<lparr>val_Value = VNil, val_Quality = QualityBad, val_TS = now\<rparr>"

type_synonym results = "string \<rightharpoonup> Value"

text \<open>The loop over the points of a group that could not be read: each takes its own time stamp.\<close>

fun fail_points :: "'w Env \<Rightarrow> results \<Rightarrow> groupedPoint list \<Rightarrow> 'w \<Rightarrow> results \<times> 'w" where
  "fail_points env results [] w = (results, w)"
| "fail_points env results (gp # gps) w =
     (case env_now env w of
        (now, w') \<Rightarrow> fail_points env (results(pt_ID (gp_point gp) \<mapsto> bad_value now)) gps w')"

fun decode_points ::
  "results \<Rightarrow> int \<Rightarrow> bytes \<Rightarrow> pointGroup \<Rightarrow> groupedPoint list \<Rightarrow> (FinsError, results) go" where
  "decode_points results now data grp [] = Ok results"
| "decode_points results now data grp (gp # gps) =
     (case decodePointValue data gp grp of
        Ok v \<Rightarrow> decode_points (results(pt_ID (gp_point gp) \<mapsto>
                  \<lparr>val_Value = v, val_Quality = QualityGood, val_TS = now\<rparr>)) now data grp gps
      | Err _ \<Rightarrow> decode_points (results(pt_ID (gp_point gp) \<mapsto> bad_value now)) now data grp gps
      | Panic \<Rightarrow> Panic)"

definition read_group ::
  "'w Env \<Rightarrow> results \<Rightarrow> Scheduler \<Rightarrow> Transport \<Rightarrow> 'w \<Rightarrow> pointGroup \<Rightarrow>
     (FinsError, results) go \<times> Scheduler \<times> Transport \<times> 'w" where
  "read_group env results s t w grp =
     (let (s1, w1) = waitMinInterval env s w;
          s2 = s1\<lparr>s_totalRequests := s_totalRequests s1 + 1\<rparr>;
          (r, t1, w2) = (if pg_isBit grp then readBitGroup env t w1 grp else readWordGroup env t w1 grp)
      in case r of
           Ok data \<Rightarrow>
             let s3 = s2\<lparr>s_successCount := s_successCount s2 + 1\<rparr>; (now, w3) = env_now env w2
             in (decode_points results now data grp (pg_points grp), s3, t1, w3)
         | Err e \<Rightarrow>
             let s3 = s2\<lparr>s_failureCount := s_failureCount s2 + 1\<rparr>;
                 (results', w3) = fail_points env results (pg_points grp) w2
             in (Ok results', s3, t1, w3)
         | Panic \<Rightarrow> (Panic, s2, t1, w2))"

fun read_groups ::
  "'w Env \<Rightarrow> results \<Rightarrow> Scheduler \<Rightarrow> Transport \<Rightarrow> 'w \<Rightarrow> pointGroup list \<Rightarrow>
     (FinsError, results) go \<times> Scheduler \<times> Transport \<times> 'w" where
  "read_groups env results s t w [] = (Ok results, s, t, w)"
| "read_groups env results s t w (g # gs) =
     (case read_group env results s t w g of
        (Ok results', s', t', w') \<Rightarrow> read_groups env results' s' t' w' gs
      | (r, s', t', w') \<Rightarrow> (r, s', t', w'))"

fun parse_points ::
  "'w Env \<Rightarrow> Decoder \<Rightarrow> results \<Rightarrow> Point list \<Rightarrow> 'w \<Rightarrow>
     (Point \<times> (FinsError, ParsedAddress) go) list \<times> results \<times> 'w" where
  "parse_points env d results [] w = ([], results, w)"
| "parse_points env d results (p # ps) w =
     (case ParseAddress d (pt_Address p) of
        Ok a \<Rightarrow> (case parse_points env d results ps w of
                   (pps, results', w') \<Rightarrow> ((p, Ok a) # pps, results', w'))
      | r \<Rightarrow>
          (case env_now env w of (now, w1) \<Rightarrow>
           case parse_points env d (results(pt_ID p \<mapsto> bad_value now)) ps w1 of
             (pps, results', w') \<Rightarrow> ((p, r) # pps, results', w')))"

definition ReadPoints ::
  "'w Env \<Rightarrow> nat list \<Rightarrow> (groupKey \<Rightarrow> nat list) \<Rightarrow> Scheduler \<Rightarrow> Transport \<Rightarrow> 'w \<Rightarrow> Point list \<Rightarrow>
     (FinsError, results) go \<times> Scheduler \<times> Transport \<times> 'w" where
  "ReadPoints env order ties s t w points =
     (if points = [] then (Ok Map.empty, s, t, w)
      else case parse_points env (s_decoder s) Map.empty points w of
        (pps, results, w1) \<Rightarrow> read_groups env results s t w1 (groupPoints order ties s pps))"

section \<open>Writing\<close>

definition count_failure :: "Scheduler \<Rightarrow> Scheduler" where
  "count_failure s = s\<lparr>s_failureCount := s_failureCount s + 1\<rparr>"

definition count_success :: "Scheduler \<Rightarrow> Scheduler" where
  "count_success s = s\<lparr>s_successCount := s_successCount s + 1\<rparr>"

text \<open>The number of words of a write, and its data, padded for a string of declared length.\<close>

definition write_payload :: "Point \<Rightarrow> ParsedAddress \<Rightarrow> bytes \<Rightarrow> u16 \<times> bytes" where
  "write_payload point parsed encoded =
     (if pt_DataType point = DataTypeSTRING \<and> pa_StringLen parsed > 0
      then let wordCount = word_of_int (int64 (pa_StringLen parsed + 1) div 2) :: u16
           in (wordCount, if length encoded < unat wordCount * 2
                          then encoded @ replicate (unat wordCount * 2 - length encoded) 0 else encoded)
      else (word_of_nat ((length encoded + 1) div 2), encoded))"

definition WritePoint ::
  "float_oob \<Rightarrow> 'w Env \<Rightarrow> Scheduler \<Rightarrow> Transport \<Rightarrow> 'w \<Rightarrow> Point \<Rightarrow> GoValue \<Rightarrow>
     (FinsError, unit) go \<times> Scheduler \<times> Transport \<times> 'w" where
  "WritePoint oob env s0 t w point v =
     (let s = s0\<lparr>s_totalRequests := s_totalRequests s0 + 1\<rparr> in
      case ParseAddress (s_decoder s) (pt_Address point) of
        Err e \<Rightarrow> (Err e, count_failure s, t, w)
      | Panic \<Rightarrow> (Panic, s, t, w)
      | Ok parsed \<Rightarrow>
        (case EncodeValue oob v (pt_DataType point) (Some parsed) of
           Err e \<Rightarrow> (Err e, count_failure s, t, w)
         | Panic \<Rightarrow> (Panic, s, t, w)
         | Ok encoded \<Rightarrow>
           let (s1, w1) = waitMinInterval env s w;
               (r, t', w') =
                 (if point_isBit point parsed
                  then WriteBits env t w1
                    (case GetBitAreaCode (pa_AreaCode parsed) of Ok c \<Rightarrow> c | _ \<Rightarrow> pa_AreaCode parsed)
                    (word_of_int (pa_Address parsed)) (word_of_int (pa_Bit parsed))
                    [encoded \<noteq> [] \<and> encoded ! 0 \<noteq> 0]
                  else let (n, data) = write_payload point parsed encoded
                       in WriteMemory env t w1 (pa_AreaCode parsed) (word_of_int (pa_Address parsed)) n data)
           in case r of
                Ok _ \<Rightarrow> (Ok (), count_success s1, t', w')
              | Err e \<Rightarrow> (Err e, count_failure s1, t', w')
              | Panic \<Rightarrow> (Panic, s1, t', w')))"

section \<open>Statistics and settings\<close>

definition GetStats :: "Scheduler \<Rightarrow> SchedulerStats" where
  "GetStats s = \<lparr>TotalRequests = s_totalRequests s, SuccessCount = s_successCount s,
     FailureCount = s_failureCount s\<rparr>"

definition ResetStats :: "Scheduler \<Rightarrow> Scheduler" where
  "ResetStats s = s\<lparr>s_totalRequests := 0, s_successCount := 0, s_failureCount := 0\<rparr>"

definition Scheduler_Health :: "Transport \<Rightarrow> HealthStatus" where
  "Scheduler_Health t = (if IsConnected t then HealthStatusUp else HealthStatusDown)"

definition MaxFrameLength :: "Scheduler \<Rightarrow> int" where
  "MaxFrameLength s = s_maxFrameLength s"

definition SetMaxFrameLength :: "int \<Rightarrow> Scheduler \<Rightarrow> Scheduler" where
  "SetMaxFrameLength len s = (if len > 0 then s\<lparr>s_maxFrameLength := len\<rparr> else s)"

definition SetMinInterval :: "int \<Rightarrow> Scheduler \<Rightarrow> Scheduler" where
  "SetMinInterval interval s = s\<lparr>s_minInterval := interval\<rparr>"

definition Scheduler_String :: "Scheduler \<Rightarrow> string" where
  "Scheduler_String s =
     (let stats = GetStats s in
      ''Scheduler{total='' @ dec (unat (TotalRequests stats)) @ '', success='' @ dec (unat (SuccessCount stats))
      @ '', failure='' @ dec (unat (FailureCount stats)) @ ''}'')"

end
