(* ===== verification/Fins_Driver.thy ===== *)
theory Fins_Driver
  imports Fins_Scheduler
begin

text \<open>
  The driver facade of \<open>fins.go\<close>: it owns one decoder, one transport and one scheduler, all
  created by \<open>Init\<close>, and guards every operation by whether they exist. Driver and scheduler
  hold the same transport, so the state has it once. A call through a nil pointer is \<open>Panic\<close>.
\<close>

section \<open>State\<close>

record FinsTCPDriver =
  d_config :: DriverConfig
  d_transport :: "Transport option"
  d_decoder :: "Decoder option"
  d_scheduler :: "Scheduler option"
  d_slaveID :: u8
  d_deviceCfg :: Config
  d_initialized :: bool

definition NewFinsTCPDriver :: FinsTCPDriver where
  "NewFinsTCPDriver =
     \<lparr>d_config = \<lparr>dc_Protocol = [], dc_Config = None\<rparr>, d_transport = None, d_decoder = None,
      d_scheduler = None, d_slaveID = 0, d_deviceCfg = Map.empty, d_initialized = False\<rparr>"

definition driver_not_initialized :: FinsError where
  "driver_not_initialized = ErrMsg ''driver not initialized''"

section \<open>Life cycle\<close>

definition Driver_Init :: "float_oob \<Rightarrow> FinsTCPDriver \<Rightarrow> DriverConfig \<Rightarrow> (FinsError, unit) go \<times> FinsTCPDriver" where
  "Driver_Init oob d cfg =
     (if d_initialized d then (Err (ErrMsg ''driver already initialized''), d)
      else
        let d1 = d\<lparr>d_config := cfg,
                   d_deviceCfg := (case dc_Config cfg of Some m \<Rightarrow> d_deviceCfg d ++ m | None \<Rightarrow> d_deviceCfg d),
                   d_decoder := Some NewDecoder\<rparr>
        in case NewTransport oob (d_deviceCfg d1) of
             Ok t \<Rightarrow> (Ok (), d1\<lparr>d_transport := Some t,
                        d_scheduler := Some (NewScheduler oob NewDecoder (d_deviceCfg d1)),
                        d_initialized := True\<rparr>)
           | Err e \<Rightarrow> (Err e, d1)
           | Panic \<Rightarrow> (Panic, d1))"

text \<open>A method of the transport called through the driver.\<close>

definition on_transport ::
  "(Transport \<Rightarrow> 'w \<Rightarrow> (FinsError, 'a) go \<times> Transport \<times> 'w) \<Rightarrow> FinsTCPDriver \<Rightarrow> 'w \<Rightarrow>
     (FinsError, 'a) go \<times> FinsTCPDriver \<times> 'w" where
  "on_transport f d w =
     (case d_transport d of
        None \<Rightarrow> (Panic, d, w)
      | Some t \<Rightarrow> (case f t w of (r, t', w') \<Rightarrow> (r, d\<lparr>d_transport := Some t'\<rparr>, w')))"

definition Driver_Connect :: "'w Env \<Rightarrow> FinsTCPDriver \<Rightarrow> 'w \<Rightarrow> (FinsError, unit) go \<times> FinsTCPDriver \<times> 'w" where
  "Driver_Connect env d w =
     (if \<not> d_initialized d then (Err driver_not_initialized, d, w) else on_transport (Connect env) d w)"

definition Driver_Disconnect :: "'w Env \<Rightarrow> FinsTCPDriver \<Rightarrow> 'w \<Rightarrow> (FinsError, unit) go \<times> FinsTCPDriver \<times> 'w" where
  "Driver_Disconnect env d w =
     (if d_transport d = None then (Ok (), d, w) else on_transport (Disconnect env) d w)"

definition Driver_Reconnect :: "'w Env \<Rightarrow> FinsTCPDriver \<Rightarrow> 'w \<Rightarrow> (FinsError, unit) go \<times> FinsTCPDriver \<times> 'w" where
  "Driver_Reconnect env d w =
     (if d_transport d = None then (Err (ErrMsg ''transport not initialized''), d, w)
      else on_transport (Reconnect env) d w)"

section \<open>Points\<close>

text \<open>The check at the head of \<open>ReadPoints\<close> and \<open>WritePoint\<close>: reconnect if the link is
  down, the outcome of which the caller inspects.\<close>

definition ensure_connected ::
  "'w Env \<Rightarrow> Transport \<Rightarrow> 'w \<Rightarrow> (FinsError, unit) go \<times> Transport \<times> 'w" where
  "ensure_connected env t w = (if IsConnected t then (Ok (), t, w) else Reconnect env t w)"

definition all_bad :: "int \<Rightarrow> Point list \<Rightarrow> results" where
  "all_bad now points = foldl (\<lambda>res p. res(pt_ID p \<mapsto> bad_value now)) Map.empty points"

definition Driver_ReadPoints ::
  "'w Env \<Rightarrow> nat list \<Rightarrow> (groupKey \<Rightarrow> nat list) \<Rightarrow> FinsTCPDriver \<Rightarrow> 'w \<Rightarrow> Point list \<Rightarrow>
     (FinsError, results) go \<times> FinsTCPDriver \<times> 'w" where
  "Driver_ReadPoints env order ties d w points =
     (if \<not> d_initialized d then (Err driver_not_initialized, d, w)
      else case d_scheduler d of
        None \<Rightarrow> (Err (ErrMsg ''scheduler not initialized''), d, w)
      | Some s \<Rightarrow>
        (case d_transport d of
           None \<Rightarrow> (Panic, d, w)
         | Some t \<Rightarrow>
           (case ensure_connected env t w of
              (Ok _, t1, w1) \<Rightarrow>
                (case ReadPoints env order ties s t1 w1 points of
                   (r, s', t', w') \<Rightarrow> (r, d\<lparr>d_transport := Some t', d_scheduler := Some s'\<rparr>, w'))
            | (Err _, t1, w1) \<Rightarrow>
                (case env_now env w1 of
                   (now, w2) \<Rightarrow> (Ok (all_bad now points), d\<lparr>d_transport := Some t1\<rparr>, w2))
            | (Panic, t1, w1) \<Rightarrow> (Panic, d\<lparr>d_transport := Some t1\<rparr>, w1))))"

definition Driver_WritePoint ::
  "float_oob \<Rightarrow> 'w Env \<Rightarrow> FinsTCPDriver \<Rightarrow> 'w \<Rightarrow> Point \<Rightarrow> GoValue \<Rightarrow>
     (FinsError, unit) go \<times> FinsTCPDriver \<times> 'w" where
  "Driver_WritePoint oob env d w point v =
     (if \<not> d_initialized d then (Err driver_not_initialized, d, w)
      else case d_scheduler d of
        None \<Rightarrow> (Err (ErrMsg ''scheduler not initialized''), d, w)
      | Some s \<Rightarrow>
        (case d_transport d of
           None \<Rightarrow> (Panic, d, w)
         | Some t \<Rightarrow>
           (case ensure_connected env t w of
              (Ok _, t1, w1) \<Rightarrow>
                (case WritePoint oob env s t1 w1 point v of
                   (r, s', t', w') \<Rightarrow> (r, d\<lparr>d_transport := Some t', d_scheduler := Some s'\<rparr>, w'))
            | (r, t1, w1) \<Rightarrow> (r, d\<lparr>d_transport := Some t1\<rparr>, w1))))"

section \<open>Accessors and settings\<close>

definition Driver_Health :: "FinsTCPDriver \<Rightarrow> (FinsError, HealthStatus) go" where
  "Driver_Health d =
     (case d_transport d of
        None \<Rightarrow> Ok HealthStatusUnknown
      | Some t \<Rightarrow>
          if \<not> d_initialized d then Ok HealthStatusUnknown
          else if d_scheduler d = None then Panic else Ok (Scheduler_Health t))"

definition SetSlaveID :: "FinsTCPDriver \<Rightarrow> u8 \<Rightarrow> FinsTCPDriver" where
  "SetSlaveID d slaveID = d\<lparr>d_slaveID := slaveID\<rparr>"

definition SetDeviceConfig :: "FinsTCPDriver \<Rightarrow> Config \<Rightarrow> FinsTCPDriver" where
  "SetDeviceConfig d config = d\<lparr>d_deviceCfg := d_deviceCfg d ++ config\<rparr>"

definition GetConnectionMetrics :: "FinsTCPDriver \<Rightarrow> ConnectionMetrics" where
  "GetConnectionMetrics d =
     (case d_transport d of
        None \<Rightarrow> \<lparr>cm_Connected = False, cm_ConnectTime = 0, cm_LastDisconnectTime = 0,
                 cm_ReconnectCount = 0, cm_LocalAddr = [], cm_RemoteAddr = []\<rparr>
      | Some t \<Rightarrow> GetMetrics t)"

definition GetSchedulerStats :: "FinsTCPDriver \<Rightarrow> SchedulerStats" where
  "GetSchedulerStats d =
     (case d_scheduler d of
        None \<Rightarrow> \<lparr>TotalRequests = 0, SuccessCount = 0, FailureCount = 0\<rparr>
      | Some s \<Rightarrow> GetStats s)"

definition GetDecoder :: "FinsTCPDriver \<Rightarrow> Decoder option" where
  "GetDecoder d = d_decoder d"

definition GetTransport :: "FinsTCPDriver \<Rightarrow> Transport option" where
  "GetTransport d = d_transport d"

definition GetScheduler :: "FinsTCPDriver \<Rightarrow> Scheduler option" where
  "GetScheduler d = d_scheduler d"

definition IsInitialized :: "FinsTCPDriver \<Rightarrow> bool" where
  "IsInitialized d = d_initialized d"

definition Driver_IsConnected :: "FinsTCPDriver \<Rightarrow> bool" where
  "Driver_IsConnected d = (case d_transport d of None \<Rightarrow> False | Some t \<Rightarrow> IsConnected t)"

end
