(* ===== verification/Fins_Scheduler_Groups.thy ===== *)
theory Fins_Scheduler_Groups
  imports Fins_Scheduler
begin

text \<open>
  What \<open>groupPoints\<close> and the loop over the groups keep: the groups hold exactly the points
  whose address parses, every point ends up with a result, the statistics add up, and the packed
  groups cover their points within the frame limit.
\<close>

section \<open>Grouping neither loses nor invents points\<close>

text \<open>A grouped point without its offset.\<close>

definition gp_core :: "groupedPoint \<Rightarrow> Point \<times> ParsedAddress" where
  "gp_core gp = (gp_point gp, gp_parsed gp)"

lemma gp_core_offset [simp]: "gp_core (gp\<lparr>gp_offset := x\<rparr>) = gp_core gp"
  by (simp add: gp_core_def)

definition group_cores :: "pointGroup list \<Rightarrow> (Point \<times> ParsedAddress) list" where
  "group_cores gs = concat (map (\<lambda>g. map gp_core (pg_points g)) gs)"

lemma group_cores_simps [simp]:
  "group_cores [] = []" "group_cores (g # gs) = map gp_core (pg_points g) @ group_cores gs"
  "group_cores (gs @ hs) = group_cores gs @ group_cores hs"
  by (simp_all add: group_cores_def)

definition parsed_cores :: "(Point \<times> (FinsError, ParsedAddress) go) list \<Rightarrow> (Point \<times> ParsedAddress) list" where
  "parsed_cores pps = List.map_filter (\<lambda>(p, r). case r of Ok a \<Rightarrow> Some (p, a) | _ \<Rightarrow> None) pps"

lemma parsed_cores_simps [simp]:
  "parsed_cores [] = []" "parsed_cores ((p, Ok a) # pps) = (p, a) # parsed_cores pps"
  "parsed_cores ((p, Err e) # pps) = parsed_cores pps" "parsed_cores ((p, Panic) # pps) = parsed_cores pps"
  by (simp_all add: parsed_cores_def List.map_filter_simps)

definition keyed :: "(groupKey \<times> groupedPoint list) list \<Rightarrow> bool" where
  "keyed gs \<longleftrightarrow> (\<forall>(k, gps) \<in> set gs. \<forall>gp \<in> set gps.
     group_key (gp_point gp) (gp_parsed gp) = k \<and> gp_offset gp = 0)"

lemma groups_append_mset:
  "mset (concat (map snd (groups_append gs k gp))) = add_mset gp (mset (concat (map snd gs)))"
  by (induction gs k gp rule: groups_append.induct) auto

lemma groups_append_keyed:
  "keyed gs \<Longrightarrow> group_key (gp_point gp) (gp_parsed gp) = k \<Longrightarrow> gp_offset gp = 0 \<Longrightarrow>
     keyed (groups_append gs k gp)"
  by (induction gs k gp rule: groups_append.induct) (auto simp: keyed_def)

definition groups_ok :: "(groupKey \<times> groupedPoint list) list \<Rightarrow> (Point \<times> ParsedAddress) multiset \<Rightarrow> bool" where
  "groups_ok gs M \<longleftrightarrow> image_mset gp_core (mset (concat (map snd gs))) = M \<and> keyed gs"

lemma groups_map_ok: "groups_ok (groups_map pps) (mset (parsed_cores pps))"
proof -
  have step: "groups_ok (foldl (\<lambda>gs (p, r). case r of
        Ok a \<Rightarrow> groups_append gs (group_key p a) \<lparr>gp_point = p, gp_parsed = a, gp_offset = 0\<rparr>
      | _ \<Rightarrow> gs) gs pps) (M + mset (parsed_cores pps))" if "groups_ok gs M" for gs M
    using that
  proof (induction pps arbitrary: gs M)
    case (Cons x pps)
    obtain p r where x: "x = (p, r)" by fastforce
    show ?case
    proof (cases r)
      case (Ok a)
      have "groups_ok (groups_append gs (group_key p a) \<lparr>gp_point = p, gp_parsed = a, gp_offset = 0\<rparr>)
          (add_mset (p, a) M)"
        using Cons.prems by (auto simp: groups_ok_def groups_append_mset groups_append_keyed gp_core_def)
      from Cons.IH [OF this] show ?thesis by (simp add: x Ok)
    qed (use Cons in \<open>simp_all add: x\<close>)
  qed simp
  then show ?thesis using step [of "[]" "{#}"] by (simp add: groups_map_def groups_ok_def keyed_def)
qed

lemma cores_sort_points: "image_mset gp_core (mset (sort_points ties gps)) = image_mset gp_core (mset gps)"
  by (simp add: sort_points_def)

lemma cores_bit_groups: "group_cores (bit_groups c gps) = map gp_core gps"
  by (induction gps) (simp_all add: bit_groups_def)

text \<open>The groups of a packing state, with the unfinished one.\<close>

definition packed :: "pointGroup list \<times> pointGroup \<Rightarrow> pointGroup list" where
  "packed st = (case st of (done, cur) \<Rightarrow> if pg_points cur \<noteq> [] then done @ [cur] else done)"

lemma word_groups_packed:
  "word_groups c maxBytes gps = packed (foldl (pack_point c maxBytes)
     ([], \<lparr>pg_areaCode = c, pg_startAddr = 0, pg_count = 0, pg_points = [], pg_isBit = False\<rparr>) gps)"
  by (simp add: word_groups_def packed_def)

lemma pack_point_cores: "group_cores (packed (pack_point c mb st p)) = group_cores (packed st) @ [gp_core p]"
  by (cases st) (auto simp: pack_point_def packed_def Let_def)

lemma foldl_pack_cores:
  "group_cores (packed (foldl (pack_point c mb) st gps)) = group_cores (packed st) @ map gp_core gps"
  by (induction gps arbitrary: st) (simp_all add: pack_point_cores)

lemma cores_word_groups: "group_cores (word_groups c mb gps) = map gp_core gps"
  unfolding word_groups_packed foldl_pack_cores by (simp add: packed_def)

lemma mset_concat_map: "mset (concat (map f xs)) = (\<Sum>x \<in># mset xs. mset (f x))"
  by (induction xs) simp_all

lemma groupPoints_cores: "mset (group_cores (groupPoints order ties s pps)) = mset (parsed_cores pps)"
proof -
  let ?f = "\<lambda>((c, isBit), gps). let points = sort_points (ties (c, isBit)) gps in
       if isBit then bit_groups c points else word_groups c (int64 (s_maxFrameLength s * 2)) points"
  have one: "mset (group_cores (?f kg)) = image_mset gp_core (mset (snd kg))" for kg
    using cores_sort_points
    by (cases kg) (simp add: Let_def split_beta cores_bit_groups cores_word_groups)
  have all: "mset (group_cores (concat (map ?f gs))) = image_mset gp_core (mset (concat (map snd gs)))" for gs
    by (induction gs) (simp_all add: one)
  have "mset (concat (map snd (permute order gs))) = mset (concat (map snd gs))"
    for gs :: "(groupKey \<times> groupedPoint list) list"
    by (simp add: mset_concat_map)
  then show ?thesis
    using groups_map_ok [of pps] all [of "permute order (groups_map pps)"]
    by (simp add: groupPoints_def groups_ok_def)
qed

section \<open>Every requested point gets a value\<close>

definition core_ids :: "(Point \<times> ParsedAddress) list \<Rightarrow> string set" where
  "core_ids cs = (\<lambda>(p, _). pt_ID p) ` set cs"

lemma core_ids_simps [simp]:
  "core_ids [] = {}" "core_ids ((p, a) # cs) = insert (pt_ID p) (core_ids cs)"
  by (simp_all add: core_ids_def)

lemma fail_points_dom:
  "dom (fst (fail_points env results gps w)) = dom results \<union> core_ids (map gp_core gps)"
  by (induction gps arbitrary: results w) (auto simp: core_ids_def gp_core_def split: prod.split)

lemma decode_points_dom:
  "decode_points results now data grp gps = Ok res \<Longrightarrow> dom res = dom results \<union> core_ids (map gp_core gps)"
  by (induction gps arbitrary: results) (auto simp: core_ids_def gp_core_def split: go.splits)

lemma decode_points_not_Err: "decode_points results now data grp gps \<noteq> Err e"
  by (induction gps arbitrary: results) (auto split: go.splits)

lemma read_group_result:
  assumes "read_group env results s t w g = (r, s', t', w')"
  shows "(\<forall>e. r \<noteq> Err e) \<and> (\<forall>res. r = Ok res \<longrightarrow> dom res = dom results \<union> core_ids (map gp_core (pg_points g)))"
proof -
  obtain s1 w1 where m: "waitMinInterval env s w = (s1, w1)" by fastforce
  obtain d t1 w2 where d: "(if pg_isBit g then readBitGroup env t w1 g else readWordGroup env t w1 g) = (d, t1, w2)"
    by (cases "if pg_isBit g then readBitGroup env t w1 g else readWordGroup env t w1 g")
  obtain now w3 where n: "env_now env w2 = (now, w3)" by fastforce
  obtain rs w4 where f: "fail_points env results (pg_points g) w2 = (rs, w4)" by fastforce
  show ?thesis
  proof (cases d)
    case (Ok data)
    then show ?thesis
      using assms m d n decode_points_not_Err decode_points_dom [of results now data g "pg_points g"]
      by (auto simp: read_group_def Let_def)
  next
    case (Err e)
    then show ?thesis
      using assms m d f fail_points_dom [of env results "pg_points g" w2] by (auto simp: read_group_def Let_def)
  next
    case Panic
    then show ?thesis using assms m d by (auto simp: read_group_def Let_def)
  qed
qed

lemma core_ids_append: "core_ids (xs @ ys) = core_ids xs \<union> core_ids ys"
  by (auto simp: core_ids_def)

lemma read_groups_result:
  "read_groups env results s t w gs = (r, s', t', w') \<Longrightarrow>
   (\<forall>e. r \<noteq> Err e) \<and> (\<forall>res. r = Ok res \<longrightarrow> dom res = dom results \<union> core_ids (group_cores gs))"
proof (induction gs arbitrary: results s t w)
  case Nil
  then show ?case by (auto simp: core_ids_def)
next
  case (Cons g gs)
  obtain r1 s1 t1 w1 where g: "read_group env results s t w g = (r1, s1, t1, w1)"
    by (cases "read_group env results s t w g")
  note gr = read_group_result [OF g]
  show ?case
  proof (cases r1)
    case (Ok res1)
    then have "read_groups env res1 s1 t1 w1 gs = (r, s', t', w')" using Cons.prems g by simp
    from Cons.IH [OF this] show ?thesis using gr Ok by (auto simp: core_ids_append)
  qed (use Cons.prems g gr in auto)
qed

lemma parse_points_result:
  "parse_points env d results ps w = (pps, res, w') \<Longrightarrow>
   map fst pps = ps \<and> (\<forall>(p, r) \<in> set pps. r = ParseAddress d (pt_Address p)) \<and>
   dom res \<union> core_ids (parsed_cores pps) = dom results \<union> pt_ID ` set ps"
proof (induction ps arbitrary: results w pps res w')
  case (Cons p ps)
  obtain now w1 where n: "env_now env w = (now, w1)" by fastforce
  obtain pps1 res1 w2 where 1: "parse_points env d results ps w = (pps1, res1, w2)"
    by (cases "parse_points env d results ps w")
  obtain pps2 res2 w3 where 2: "parse_points env d (results(pt_ID p \<mapsto> bad_value now)) ps w1 = (pps2, res2, w3)"
    by (cases "parse_points env d (results(pt_ID p \<mapsto> bad_value now)) ps w1")
  show ?case
    using Cons.IH [OF 1] Cons.IH [OF 2] Cons.prems n 1 2
    by (cases "ParseAddress d (pt_Address p)") (auto simp del: domIff fun_upd_apply)
qed simp

lemma ReadPoints_result:
  assumes "ReadPoints env order ties s t w points = (r, s', t', w')"
  shows "(\<forall>e. r \<noteq> Err e) \<and> (\<forall>res. r = Ok res \<longrightarrow> dom res = pt_ID ` set points)"
proof (cases "points = []")
  case True
  then show ?thesis using assms by (auto simp: ReadPoints_def)
next
  case False
  obtain pps res w1 where p: "parse_points env (s_decoder s) Map.empty points w = (pps, res, w1)"
    by (cases "parse_points env (s_decoder s) Map.empty points w")
  have "read_groups env res s t w1 (groupPoints order ties s pps) = (r, s', t', w')"
    using assms False p by (simp add: ReadPoints_def)
  note rg = read_groups_result [OF this]
  have "set (group_cores (groupPoints order ties s pps)) = set (parsed_cores pps)"
    using groupPoints_cores by (metis set_mset_mset)
  then have "core_ids (group_cores (groupPoints order ties s pps)) = core_ids (parsed_cores pps)"
    by (simp add: core_ids_def)
  then show ?thesis using rg parse_points_result [OF p] by auto
qed

section \<open>Statistics\<close>

definition stats_gap :: "Scheduler \<Rightarrow> u64" where
  "stats_gap s = s_totalRequests s - s_successCount s - s_failureCount s"

lemma waitMinInterval_stats: "waitMinInterval env s w = (s', w') \<Longrightarrow>
   s_totalRequests s' = s_totalRequests s \<and> s_successCount s' = s_successCount s \<and>
   s_failureCount s' = s_failureCount s \<and> s_decoder s' = s_decoder s \<and>
   s_maxFrameLength s' = s_maxFrameLength s \<and> s_minInterval s' = s_minInterval s"
  by (auto simp: waitMinInterval_def Let_def split: if_splits prod.splits)

lemma read_group_stats:
  assumes "read_group env results s t w g = (r, s', t', w')" and "r \<noteq> Panic"
  shows "stats_gap s' = stats_gap s \<and> s_totalRequests s' = s_totalRequests s + 1"
proof -
  obtain s1 w1 where m: "waitMinInterval env s w = (s1, w1)" by fastforce
  obtain d t1 w2 where d: "(if pg_isBit g then readBitGroup env t w1 g else readWordGroup env t w1 g) = (d, t1, w2)"
    by (cases "if pg_isBit g then readBitGroup env t w1 g else readWordGroup env t w1 g")
  show ?thesis
    using assms m d waitMinInterval_stats [OF m]
    by (cases d) (auto simp: read_group_def Let_def stats_gap_def split: prod.splits)
qed

lemma read_groups_stats:
  "read_groups env results s t w gs = (r, s', t', w') \<Longrightarrow> r \<noteq> Panic \<Longrightarrow>
   stats_gap s' = stats_gap s \<and> s_totalRequests s' = s_totalRequests s + of_nat (length gs)"
proof (induction gs arbitrary: results s t w)
  case (Cons g gs)
  obtain r1 s1 t1 w1 where g: "read_group env results s t w g = (r1, s1, t1, w1)"
    by (cases "read_group env results s t w g")
  show ?case
  proof (cases r1)
    case (Ok res1)
    then have "read_groups env res1 s1 t1 w1 gs = (r, s', t', w')" using Cons.prems g by simp
    from Cons.IH [OF this Cons.prems(2)] show ?thesis
      using read_group_stats [OF g] Ok by simp
  qed (use Cons.prems g read_group_result [OF g] in auto)
qed auto

lemma WritePoint_stats:
  assumes "WritePoint oob env s t w p v = (r, s', t', w')" and "r \<noteq> Panic"
  shows "stats_gap s' = stats_gap s \<and> s_totalRequests s' = s_totalRequests s + 1"
proof -
  obtain s1 w1 where m: "waitMinInterval env (s\<lparr>s_totalRequests := s_totalRequests s + 1\<rparr>) w = (s1, w1)" by fastforce
  note ws = waitMinInterval_stats [OF m]
  show ?thesis
  proof (cases "ParseAddress (s_decoder s) (pt_Address p)")
    case (Ok a)
    then show ?thesis
      using assms m ws
      by (cases "EncodeValue oob v (pt_DataType p) (Some a)")
        (auto simp: WritePoint_def Let_def stats_gap_def count_failure_def count_success_def
          split: go.splits prod.splits)
  qed (use assms in \<open>auto simp: WritePoint_def stats_gap_def count_failure_def\<close>)
qed

section \<open>Packing: every group covers its points\<close>

text \<open>A word point whose range fits 16-bit addresses, and a group that covers its points at the
  offsets it records, ends where one of them ends, and keeps to the frame limit unless its first
  point alone exceeds it.\<close>

definition gp_fits :: "groupedPoint \<Rightarrow> bool" where
  "gp_fits gp \<longleftrightarrow> 0 \<le> pa_Address (gp_parsed gp) \<and> 0 < point_size gp \<and>
     pa_Address (gp_parsed gp) + (point_size gp + 1) div 2 \<le> 65535"

definition group_covers :: "int \<Rightarrow> pointGroup \<Rightarrow> bool" where
  "group_covers maxBytes g \<longleftrightarrow> \<not> pg_isBit g \<and> pg_points g \<noteq> [] \<and>
     (\<forall>gp \<in> set (pg_points g). gp_fits gp \<and> uint (pg_startAddr g) \<le> pa_Address (gp_parsed gp) \<and>
        gp_offset gp = 2 * (pa_Address (gp_parsed gp) - uint (pg_startAddr g)) \<and>
        pa_Address (gp_parsed gp) + word_count gp \<le> uint (pg_startAddr g) + uint (pg_count g)) \<and>
     (\<exists>gp \<in> set (pg_points g).
        uint (pg_startAddr g) + uint (pg_count g) = pa_Address (gp_parsed gp) + word_count gp) \<and>
     (2 * uint (pg_count g) \<le> maxBytes \<or> uint (pg_count g) = word_count (hd (pg_points g)))"

lemma point_size_core:
  assumes "gp_core q = gp_core p"
  shows "gp_parsed q = gp_parsed p" "gp_fits q = gp_fits p" "word_count q = word_count p"
proof -
  have "point_size q = point_size p" and "gp_parsed q = gp_parsed p"
    using assms by (simp_all add: gp_core_def point_size_def Let_def)
  then show "gp_parsed q = gp_parsed p" "gp_fits q = gp_fits p" "word_count q = word_count p"
    by (simp_all add: gp_fits_def word_count_def)
qed

lemma gp_fits_word_count:
  "gp_fits gp \<Longrightarrow> word_count gp = (point_size gp + 1) div 2 \<and> 0 < word_count gp \<and>
     pa_Address (gp_parsed gp) + word_count gp \<le> 65535"
proof -
  assume *: "gp_fits gp"
  then have "0 < point_size gp" "(point_size gp + 1) div 2 \<le> 65535" by (auto simp: gp_fits_def)
  then have "int64 (point_size gp + 1) = point_size gp + 1" by (intro int64_small) simp_all
  moreover have "0 < (point_size gp + 1) div 2" using \<open>0 < point_size gp\<close> by simp
  ultimately show ?thesis using * by (simp add: word_count_def gp_fits_def)
qed

lemma gp_fits_offset [simp]: "gp_fits (gp\<lparr>gp_offset := x\<rparr>) = gp_fits gp"
  "word_count (gp\<lparr>gp_offset := x\<rparr>) = word_count gp"
  by (rule point_size_core, simp)+

lemma uint16_small: "0 \<le> x \<Longrightarrow> x < 65536 \<Longrightarrow> uint (word_of_int x :: u16) = x"
  by (simp add: unsigned_of_int take_bit_int_eq_self)

lemma int64_addresses: "0 \<le> x \<Longrightarrow> x \<le> 65535 \<Longrightarrow> int64 x = x \<and> int64 (x * 2) = x * 2"
  by simp

text \<open>Starting a group.\<close>

lemma new_group_covers:
  assumes "gp_fits p" and "gp_offset q = 0" and "gp_core q = gp_core p"
  shows "group_covers mb \<lparr>pg_areaCode = c, pg_startAddr = word_of_int (pa_Address (gp_parsed p)),
    pg_count = word_of_int (word_count p), pg_points = [q], pg_isBit = False\<rparr>"
proof -
  have pq: "gp_parsed q = gp_parsed p" "gp_fits q" "word_count q = word_count p"
    using assms(1) point_size_core [OF assms(3)] by simp_all
  have "0 \<le> pa_Address (gp_parsed p)" using assms(1) by (simp add: gp_fits_def)
  moreover have "0 < word_count p" "pa_Address (gp_parsed p) + word_count p \<le> 65535"
    using gp_fits_word_count [OF assms(1)] by simp_all
  ultimately have "uint (word_of_int (pa_Address (gp_parsed p)) :: u16) = pa_Address (gp_parsed p)"
      "uint (word_of_int (word_count p) :: u16) = word_count p"
    by (simp_all add: uint16_small)
  then show ?thesis using assms(2) pq by (simp add: group_covers_def)
qed

text \<open>Extending a group.\<close>

lemma extend_group_covers:
  assumes "group_covers mb g" and "gp_fits p" and "uint (pg_startAddr g) \<le> pa_Address (gp_parsed p)"
    and "gp_offset q = 2 * (pa_Address (gp_parsed p) - uint (pg_startAddr g))" and "gp_core q = gp_core p"
    and "n = (if pa_Address (gp_parsed p) + word_count p > uint (pg_startAddr g) + uint (pg_count g)
              then word_of_int (pa_Address (gp_parsed p) + word_count p - uint (pg_startAddr g)) else pg_count g)"
    and "2 * (pa_Address (gp_parsed p) + word_count p - uint (pg_startAddr g)) \<le> mb"
  shows "group_covers mb (g\<lparr>pg_count := n, pg_points := pg_points g @ [q]\<rparr>)"
proof -
  have pq: "gp_parsed q = gp_parsed p" "gp_fits q" "word_count q = word_count p"
    using assms(2) point_size_core [OF assms(5)] by simp_all
  let ?s = "uint (pg_startAddr g)" and ?e = "pa_Address (gp_parsed p) + word_count p"
  have e: "?s < ?e" "?e \<le> 65535" using gp_fits_word_count [OF assms(2)] assms(3) by auto
  show ?thesis
  proof (cases "?e > ?s + uint (pg_count g)")
    case True
    have "0 \<le> ?s" by simp
    with e have "uint (word_of_int (?e - ?s) :: u16) = ?e - ?s" by (intro uint16_small; linarith)
    moreover have "n = word_of_int (?e - ?s)" using True assms(6) by (simp only: if_True)
    ultimately have n: "uint n = ?e - ?s" by (simp only:)
    then show ?thesis
      using assms(1,3,4,7) pq True by (auto simp: group_covers_def)
  next
    case False
    then have "n = pg_count g" using assms(6) by simp
    then show ?thesis using assms(1,3,4) pq False by (auto simp: group_covers_def)
  qed
qed

definition pack_inv :: "u8 \<Rightarrow> int \<Rightarrow> pointGroup list \<times> pointGroup \<Rightarrow> groupedPoint list \<Rightarrow> bool" where
  "pack_inv c mb st rest \<longleftrightarrow> (case st of (fin, cur) \<Rightarrow>
     (\<forall>g \<in> set fin. group_covers mb g \<and> pg_areaCode g = c) \<and>
     (if pg_points cur = []
      then cur = \<lparr>pg_areaCode = c, pg_startAddr = 0, pg_count = 0, pg_points = [], pg_isBit = False\<rparr>
      else group_covers mb cur \<and> pg_areaCode cur = c \<and>
        (\<forall>gp \<in> set rest. uint (pg_startAddr cur) \<le> pa_Address (gp_parsed gp))))"

lemma pack_point_inv:
  assumes "pack_inv c mb st (p # rest)" and "gp_fits p" and "gp_offset p = 0"
    and "\<forall>gp \<in> set rest. pa_Address (gp_parsed p) \<le> pa_Address (gp_parsed gp)"
  shows "pack_inv c mb (pack_point c mb st p) rest"
proof -
  obtain fin cur where st: "st = (fin, cur)" by fastforce
  let ?a = "pa_Address (gp_parsed p)"
  have a: "0 \<le> ?a" "?a < 65536" "0 < word_count p" "?a + word_count p \<le> 65535"
    using gp_fits_word_count [OF assms(2)] assms(2) by (auto simp: gp_fits_def)
  have start: "uint (word_of_int ?a :: u16) = ?a" using a by (intro uint16_small)
  show ?thesis
  proof (cases "pg_points cur = []")
    case True
    then have cur: "cur = \<lparr>pg_areaCode = c, pg_startAddr = 0, pg_count = 0, pg_points = [], pg_isBit = False\<rparr>"
      using assms(1) by (simp add: st pack_inv_def)
    show ?thesis
      using assms(1,4) new_group_covers [OF assms(2), of "p\<lparr>gp_offset := 0\<rparr>" mb c] start
      by (simp add: st cur pack_inv_def pack_point_def Let_def)
  next
    case False
    let ?s = "uint (pg_startAddr cur)"
    have inv: "group_covers mb cur" "pg_areaCode cur = c" "?s \<le> ?a"
        "\<forall>gp \<in> set rest. ?s \<le> pa_Address (gp_parsed gp)" "\<forall>g \<in> set fin. group_covers mb g \<and> pg_areaCode g = c"
      using assms(1) False by (auto simp: st pack_inv_def)
    have i: "int64 (?a + word_count p) = ?a + word_count p" using a by (intro int64_small) simp_all
    have s0: "0 \<le> ?s" by simp
    have j: "int64 (?a + word_count p - ?s) = ?a + word_count p - ?s"
        "int64 ((?a + word_count p - ?s) * 2) = (?a + word_count p - ?s) * 2"
        "int64 (?a - ?s) = ?a - ?s" "int64 ((?a - ?s) * 2) = (?a - ?s) * 2"
      using int64_addresses [of "?a + word_count p - ?s"] int64_addresses [of "?a - ?s"] a inv(3) s0
      by linarith+
    show ?thesis
    proof (cases "?a \<le> ?s + uint (pg_count cur) + 10 \<and> (?a + word_count p - ?s) * 2 \<le> mb")
      case True
      let ?g = "cur\<lparr>pg_count := (if ?a + word_count p > ?s + uint (pg_count cur)
            then word_of_int (?a + word_count p - ?s) else pg_count cur),
          pg_points := pg_points cur @ [p\<lparr>gp_offset := (?a - ?s) * 2\<rparr>]\<rparr>"
      have "pack_point c mb st p = (fin, ?g)"
        using True False unfolding st pack_point_def Let_def prod.case i j by simp
      moreover have "group_covers mb ?g"
        using True inv(1,3) assms(2) by (intro extend_group_covers [where p = p]) simp_all
      ultimately show ?thesis using inv by (simp add: pack_inv_def)
    next
      case new: False
      have "pack_point c mb st p = (fin @ [cur], \<lparr>pg_areaCode = c, pg_startAddr = word_of_int ?a,
          pg_count = word_of_int (word_count p), pg_points = [p], pg_isBit = False\<rparr>)"
        using new False unfolding st pack_point_def Let_def prod.case i j by (simp only: if_False)
      then show ?thesis
        using inv assms(4) new_group_covers [OF assms(2,3) refl, of mb c] start by (simp add: pack_inv_def)
    qed
  qed
qed

lemma foldl_pack_inv:
  "pack_inv c mb st gps \<Longrightarrow> \<forall>gp \<in> set gps. gp_fits gp \<and> gp_offset gp = 0 \<Longrightarrow>
   sorted (map gp_position gps) \<Longrightarrow> pack_inv c mb (foldl (pack_point c mb) st gps) []"
proof (induction gps arbitrary: st)
  case (Cons p gps)
  have "\<forall>gp \<in> set gps. pa_Address (gp_parsed p) \<le> pa_Address (gp_parsed gp)"
    using Cons.prems(3) by (auto simp: gp_position_def less_eq_sort_position_def)
  then have "pack_inv c mb (pack_point c mb st p) gps"
    using Cons.prems by (intro pack_point_inv) simp_all
  then show ?case using Cons by simp
qed simp

lemma word_groups_cover:
  assumes "\<forall>gp \<in> set gps. gp_fits gp \<and> gp_offset gp = 0" and "g \<in> set (word_groups c mb (sort_points ties gps))"
  shows "group_covers mb g \<and> pg_areaCode g = c"
proof -
  let ?init = "([], \<lparr>pg_areaCode = c, pg_startAddr = 0, pg_count = 0, pg_points = [], pg_isBit = False\<rparr>)"
  have set: "set (sort_points ties gps) = set gps"
    using mset_permute [of ties gps] by (metis mset_eq_setD mset_sort sort_points_def)
  have "pack_inv c mb (foldl (pack_point c mb) ?init (sort_points ties gps)) []"
    using assms(1) set by (intro foldl_pack_inv) (simp_all add: pack_inv_def sort_points_def)
  then show ?thesis
    using assms(2) by (auto simp: word_groups_packed packed_def pack_inv_def split: prod.splits if_splits)
qed

end
