(* ===== verification/Fins_Transport_Safety.thy ===== *)
theory Fins_Transport_Safety
  imports Fins_Transport
begin

text \<open>
  Correctness of the transport of \<open>Fins_Transport\<close>: the invariant of its response channels, the
  invariant of the connection and the reachable states, service IDs, the correlation of
  responses with commands, and the backoff of \<open>Reconnect\<close>.
\<close>

section \<open>Invariant of the response channels\<close>

text \<open>A registered channel exists, is open and empty, and is registered once.\<close>

definition chans_ok :: "Transport \<Rightarrow> bool" where
  "chans_ok t \<longleftrightarrow>
     (\<forall>sid i. t_responseChans t sid = Some i \<longrightarrow>
        i < length (t_chans t) \<and> t_chans t ! i = \<lparr>ch_buf = None, ch_closed = False\<rparr>) \<and>
     inj_on (t_responseChans t) (dom (t_responseChans t))"

text \<open>What dispatching does when no channel is closed or full.\<close>

definition deliver :: "Transport \<Rightarrow> FINSFrame \<Rightarrow> Transport" where
  "deliver t f =
     (case t_responseChans t (SID (ff_Header f)) of
        None \<Rightarrow> t
      | Some i \<Rightarrow> t\<lparr>t_responseChans := (t_responseChans t)(SID (ff_Header f) := None),
                     t_chans := (t_chans t)[i := \<lparr>ch_buf = Some f, ch_closed = False\<rparr>]\<rparr>)"

lemma chans_ok_inj:
  "chans_ok t \<Longrightarrow> t_responseChans t s = Some i \<Longrightarrow> t_responseChans t s' = Some i \<Longrightarrow> s = s'"
  unfolding chans_ok_def inj_on_def by (metis domI)

lemma chans_ok_chan:
  "chans_ok t \<Longrightarrow> t_responseChans t s = Some i \<Longrightarrow>
     i < length (t_chans t) \<and> t_chans t ! i = \<lparr>ch_buf = None, ch_closed = False\<rparr>"
  unfolding chans_ok_def by blast

lemma chans_okI:
  assumes "\<And>s i. t_responseChans t s = Some i \<Longrightarrow>
      i < length (t_chans t) \<and> t_chans t ! i = \<lparr>ch_buf = None, ch_closed = False\<rparr>"
    and "\<And>s s' i. t_responseChans t s = Some i \<Longrightarrow> t_responseChans t s' = Some i \<Longrightarrow> s = s'"
  shows "chans_ok t"
proof -
  have "inj_on (t_responseChans t) (dom (t_responseChans t))"
    using assms(2) by (auto simp: inj_on_def)
  then show ?thesis using assms(1) unfolding chans_ok_def by blast
qed

lemma dispatch_deliver:
  assumes "chans_ok t"
  shows "dispatchResponse (Ok t) f = Ok (deliver t f)"
  using chans_ok_chan [OF assms]
  by (auto simp: dispatchResponse_def deliver_def Let_def split: option.split)

lemma chans_ok_deliver:
  assumes "chans_ok t"
  shows "chans_ok (deliver t f)"
proof (cases "t_responseChans t (SID (ff_Header f))")
  case None
  then show ?thesis using assms by (simp add: deliver_def)
next
  case (Some i)
  show ?thesis
  proof (rule chans_okI)
    fix s j
    assume "t_responseChans (deliver t f) s = Some j"
    then have s: "s \<noteq> SID (ff_Header f)" "t_responseChans t s = Some j"
      using Some by (auto simp: deliver_def split: if_splits)
    then have "j \<noteq> i" using chans_ok_inj [OF assms Some] by metis
    then show "j < length (t_chans (deliver t f)) \<and>
        t_chans (deliver t f) ! j = \<lparr>ch_buf = None, ch_closed = False\<rparr>"
      using chans_ok_chan [OF assms s(2)] Some by (simp add: deliver_def)
  next
    fix s s' j
    assume "t_responseChans (deliver t f) s = Some j" "t_responseChans (deliver t f) s' = Some j"
    then show "s = s'"
      using chans_ok_inj [OF assms] Some by (auto simp: deliver_def split: if_splits)
  qed
qed

lemma foldl_dispatch:
  "chans_ok t \<Longrightarrow> foldl dispatchResponse (Ok t) fs = Ok (foldl deliver t fs) \<and> chans_ok (foldl deliver t fs)"
  by (induction fs arbitrary: t) (simp_all add: dispatch_deliver chans_ok_deliver)

text \<open>Only the table and the channels change.\<close>

lemma deliver_frame:
  "\<exists>rc cs. deliver t f = t\<lparr>t_responseChans := rc, t_chans := cs\<rparr> \<and> rc \<subseteq>\<^sub>m t_responseChans t \<and>
     length cs = length (t_chans t)"
proof (cases "t_responseChans t (SID (ff_Header f))")
  case None
  then have "deliver t f = t\<lparr>t_responseChans := t_responseChans t, t_chans := t_chans t\<rparr>"
    by (simp add: deliver_def)
  then show ?thesis by (metis map_le_refl)
next
  case (Some i)
  have "(t_responseChans t)(SID (ff_Header f) := None) \<subseteq>\<^sub>m t_responseChans t"
    by (auto simp: map_le_def)
  then show ?thesis
    using Some by (intro exI [of _ "(t_responseChans t)(SID (ff_Header f) := None)"]
        exI [of _ "(t_chans t)[i := \<lparr>ch_buf = Some f, ch_closed = False\<rparr>]"]) (simp add: deliver_def)
qed

lemma foldl_deliver_frame:
  "\<exists>rc cs. foldl deliver t fs = t\<lparr>t_responseChans := rc, t_chans := cs\<rparr> \<and> rc \<subseteq>\<^sub>m t_responseChans t \<and>
     length cs = length (t_chans t)"
proof (induction fs arbitrary: t)
  case Nil
  have "t = t\<lparr>t_responseChans := t_responseChans t, t_chans := t_chans t\<rparr>" by simp
  then show ?case by (metis foldl_Nil map_le_refl)
next
  case (Cons f fs)
  obtain rc cs where *: "deliver t f = t\<lparr>t_responseChans := rc, t_chans := cs\<rparr>"
      "rc \<subseteq>\<^sub>m t_responseChans t" "length cs = length (t_chans t)"
    using deliver_frame by blast
  obtain rc' cs' where "foldl deliver (deliver t f) fs =
      (deliver t f)\<lparr>t_responseChans := rc', t_chans := cs'\<rparr>" "rc' \<subseteq>\<^sub>m rc" "length cs' = length cs"
    using Cons [of "deliver t f"] * by auto
  then show ?case using * map_le_trans by (intro exI [of _ rc'] exI [of _ cs']) auto
qed

section \<open>Waiting for a frame\<close>

definition first_with :: "u8 \<Rightarrow> FINSFrame list \<Rightarrow> FINSFrame option" where
  "first_with sid fs = find (\<lambda>f. SID (ff_Header f) = sid) fs"

lemma first_with_append:
  "first_with sid (fs @ gs) = (case first_with sid fs of None \<Rightarrow> first_with sid gs | r \<Rightarrow> r)"
  unfolding first_with_def by (induction fs) auto

lemma first_with_SID: "first_with sid fs = Some f \<Longrightarrow> SID (ff_Header f) = sid \<and> f \<in> set fs"
  unfolding first_with_def by (induction fs) (auto split: if_splits)

text \<open>A channel that is not registered is left alone; a registered one gets the first frame with
  its service ID and no other.\<close>

lemma deliver_unregistered:
  "i \<notin> ran (t_responseChans t) \<Longrightarrow>
     t_chans (foldl deliver t fs) ! i = t_chans t ! i"
proof (induction fs arbitrary: t)
  case (Cons f fs)
  have "i \<notin> ran (t_responseChans (deliver t f))" "t_chans (deliver t f) ! i = t_chans t ! i"
    using Cons.prems
    by (auto simp: deliver_def ran_def split: option.splits if_splits)
      (metis nth_list_update_neq)
  then show ?case using Cons.IH [of "deliver t f"] by simp
qed simp

lemma deliver_registered:
  assumes "chans_ok t" and "t_responseChans t sid = Some i"
  shows "case first_with sid fs of
      None \<Rightarrow> t_responseChans (foldl deliver t fs) sid = Some i
    | Some f \<Rightarrow> t_chans (foldl deliver t fs) ! i = \<lparr>ch_buf = Some f, ch_closed = False\<rparr>"
  using assms
proof (induction fs arbitrary: t)
  case Nil
  then show ?case by (simp add: first_with_def)
next
  case (Cons f fs)
  show ?case
  proof (cases "SID (ff_Header f) = sid")
    case True
    have "t_chans (deliver t f) ! i = \<lparr>ch_buf = Some f, ch_closed = False\<rparr>"
      using True Cons.prems chans_ok_chan by (simp add: deliver_def)
    moreover have "i \<notin> ran (t_responseChans (deliver t f))"
    proof
      assume "i \<in> ran (t_responseChans (deliver t f))"
      then obtain s where "s \<noteq> sid" "t_responseChans t s = Some i"
        using True Cons.prems(2) by (auto simp: deliver_def ran_def split: if_splits)
      then show False using chans_ok_inj [OF Cons.prems] by metis
    qed
    ultimately show ?thesis
      using True deliver_unregistered by (simp add: first_with_def)
  next
    case False
    then have "t_responseChans (deliver t f) sid = Some i"
      using Cons.prems by (simp add: deliver_def split: option.split)
    from Cons.IH [OF chans_ok_deliver [OF Cons.prems(1)] this] show ?thesis
      using False by (simp add: first_with_def split: option.splits)
  qed
qed


section \<open>The read loop while a call waits\<close>

lemma readLoop_event_Received:
  assumes "chans_ok t" and "t_accumulator t = Some acc"
  shows "readLoop_event env (Received buf) t w =
    (Ok ((foldl deliver t (fst (frames_of (acc @ buf))))
       \<lparr>t_accumulator := Some (snd (frames_of (acc @ buf)))\<rparr>), w)"
  using assms foldl_dispatch [OF assms(1)]
  by (simp add: readLoop_event_def readLoop_read_def readLoop_inner_frames)

lemma chans_ok_simps [simp]:
  "chans_ok (t\<lparr>t_accumulator := a\<rparr>) = chans_ok t"
  "chans_ok (t\<lparr>t_connected := b\<rparr>) = chans_ok t"
  "chans_ok (t\<lparr>t_lastDisconnectTime := x\<rparr>) = chans_ok t"
  "chans_ok (t\<lparr>t_sidCounter := c\<rparr>) = chans_ok t"
  by (simp_all add: chans_ok_def)

lemma chans_ok_unregister: "chans_ok t \<Longrightarrow> chans_ok (unregister sid t)"
  by (rule chans_okI) (auto simp: unregister_def dest: chans_ok_chan chans_ok_inj split: if_splits)

lemma chans_ok_register:
  assumes "chans_ok t"
  shows "chans_ok (register sid t)"
proof (rule chans_okI)
  fix s i
  assume "t_responseChans (register sid t) s = Some i"
  then show "i < length (t_chans (register sid t)) \<and>
      t_chans (register sid t) ! i = \<lparr>ch_buf = None, ch_closed = False\<rparr>"
    using chans_ok_chan [OF assms, of s i]
    by (cases "s = sid") (auto simp: register_def nth_append)
next
  fix s s' i
  assume "t_responseChans (register sid t) s = Some i" "t_responseChans (register sid t) s' = Some i"
  then show "s = s'"
    using chans_ok_chan [OF assms, of s i] chans_ok_chan [OF assms, of s' i] chans_ok_inj [OF assms, of s i s']
    by (cases "s = sid"; cases "s' = sid") (auto simp: register_def)
qed

text \<open>Every event keeps the invariant and never panics.\<close>

lemma readLoop_event_ok:
  assumes "chans_ok t"
  shows "\<exists>t' w'. readLoop_event env ev t w = (Ok t', w') \<and> chans_ok t' \<and>
    length (t_chans t') = length (t_chans t) \<and> t_sidCounter t' = t_sidCounter t \<and>
    t_responseChans t' \<subseteq>\<^sub>m t_responseChans t"
proof (cases "\<exists>acc buf. t_accumulator t = Some acc \<and> ev = Received buf")
  case True
  then obtain acc buf where "t_accumulator t = Some acc" "ev = Received buf" by blast
  then show ?thesis
    using readLoop_event_Received [OF assms, of acc env buf w] foldl_dispatch [OF assms]
      foldl_deliver_frame [of t "fst (frames_of (acc @ buf))"] by auto
next
  case False
  then show ?thesis
    using assms by (cases "t_accumulator t"; cases ev) (auto simp: readLoop_event_def split: prod.split)
qed

lemma after_wait_ok:
  "chans_ok t \<Longrightarrow> \<exists>t' w'. after_wait env r evs t w = (r, t', w') \<and> chans_ok t' \<and>
     t_sidCounter t' = t_sidCounter t \<and> t_responseChans t' \<subseteq>\<^sub>m t_responseChans t"
proof (induction evs arbitrary: t w)
  case (Cons ev evs)
  obtain t1 w1 where *: "readLoop_event env ev t w = (Ok t1, w1)" "chans_ok t1"
      "t_sidCounter t1 = t_sidCounter t" "t_responseChans t1 \<subseteq>\<^sub>m t_responseChans t"
    using readLoop_event_ok [OF Cons.prems] by metis
  obtain t2 w2 where "after_wait env r evs t1 w1 = (r, t2, w2)" "chans_ok t2"
     "t_sidCounter t2 = t_sidCounter t1" "t_responseChans t2 \<subseteq>\<^sub>m t_responseChans t1"
    using Cons.IH [OF *(2)] by blast
  then show ?case using * map_le_trans by (intro exI [of _ t2] exI [of _ w2]) auto
qed (simp add: map_le_refl)


lemma deliver_registered_gone:
  assumes "chans_ok t" and "t_responseChans t sid = Some i" and "first_with sid fs = Some f"
  shows "i \<notin> ran (t_responseChans (foldl deliver t fs))"
proof
  assume "i \<in> ran (t_responseChans (foldl deliver t fs))"
  then obtain s where "t_responseChans (foldl deliver t fs) s = Some i" by (auto simp: ran_def)
  then have "ch_buf (t_chans (foldl deliver t fs) ! i) = None"
    using chans_ok_chan foldl_dispatch [OF assms(1), of fs] by fastforce
  then show False using deliver_registered [OF assms(1,2), of fs] assms(3) by simp
qed

lemma readLoop_event_wait:
  assumes "chans_ok t" and "t_responseChans t sid = Some i"
  shows "\<exists>t' w'. readLoop_event env ev t w = (Ok t', w') \<and> chans_ok t' \<and>
    t_sidCounter t' = t_sidCounter t \<and> t_responseChans t' \<subseteq>\<^sub>m t_responseChans t \<and>
    (t_responseChans t' sid = Some i \<or>
     (\<exists>f. SID (ff_Header f) = sid \<and> t_chans t' ! i = \<lparr>ch_buf = Some f, ch_closed = False\<rparr> \<and>
        i \<notin> ran (t_responseChans t')))"
proof (cases "\<exists>acc buf. t_accumulator t = Some acc \<and> ev = Received buf")
  case True
  then obtain acc buf where "t_accumulator t = Some acc" "ev = Received buf" by blast
  moreover have "case first_with sid fs of
      None \<Rightarrow> t_responseChans (foldl deliver t fs) sid = Some i
    | Some f \<Rightarrow> SID (ff_Header f) = sid \<and>
        t_chans (foldl deliver t fs) ! i = \<lparr>ch_buf = Some f, ch_closed = False\<rparr> \<and>
        i \<notin> ran (t_responseChans (foldl deliver t fs))"
      if "fs = fst (frames_of (acc @ buf))" for fs
    using deliver_registered [OF assms, of fs] deliver_registered_gone [OF assms, of fs]
      first_with_SID [of sid fs] by (auto split: option.splits)
  moreover define fs where "fs = fst (frames_of (acc @ buf))"
  moreover obtain rc cs where "foldl deliver t fs = t\<lparr>t_responseChans := rc, t_chans := cs\<rparr>"
      "rc \<subseteq>\<^sub>m t_responseChans t"
    using foldl_deliver_frame by blast
  moreover have "chans_ok (foldl deliver t fs)" using foldl_dispatch [OF assms(1)] by simp
  ultimately show ?thesis
    using readLoop_event_Received [OF assms(1), of acc env buf w]
    by (auto split: option.splits)
next
  case False
  then show ?thesis
    using assms by (cases "t_accumulator t"; cases ev) (auto simp: readLoop_event_def split: prod.split)
qed

lemma chans_ok_take:
  assumes "chans_ok t" and "i \<notin> ran (t_responseChans t)"
  shows "chans_ok (t\<lparr>t_chans := (t_chans t)[i := c]\<rparr>)"
proof (rule chans_okI)
  fix s j
  assume "t_responseChans (t\<lparr>t_chans := (t_chans t)[i := c]\<rparr>) s = Some j"
  then have j: "t_responseChans t s = Some j" by simp
  then have "j \<noteq> i" using assms(2) by (auto simp: ran_def)
  then show "j < length (t_chans (t\<lparr>t_chans := (t_chans t)[i := c]\<rparr>)) \<and>
      t_chans (t\<lparr>t_chans := (t_chans t)[i := c]\<rparr>) ! j = \<lparr>ch_buf = None, ch_closed = False\<rparr>"
    using chans_ok_chan [OF assms(1) j] by simp
qed (use chans_ok_inj [OF assms(1)] in simp)

text \<open>The result of a wait.\<close>

definition wait_result :: "u8 \<Rightarrow> net_event list \<Rightarrow> (FinsError, FINSFrame) go \<Rightarrow> bool" where
  "wait_result sid evs r \<longleftrightarrow>
     (case r of Ok f \<Rightarrow> SID (ff_Header f) = sid
      | Err e \<Rightarrow> e = ErrResponseTimeout \<or> (\<exists>s. e = ErrContext s \<and> ContextDone s \<in> set evs)
      | Panic \<Rightarrow> False)"

lemma unregister_le: "t_responseChans t' \<subseteq>\<^sub>m t_responseChans t \<Longrightarrow>
    t_responseChans (unregister sid t') \<subseteq>\<^sub>m (t_responseChans t)(sid := None)"
  by (auto simp: unregister_def map_le_def)

lemma after_wait_ends:
  assumes "chans_ok t'" and "t_responseChans t' \<subseteq>\<^sub>m t_responseChans t"
    and "t_sidCounter t' = t_sidCounter t"
  shows "\<exists>t'' w'. after_wait env r evs (unregister sid t') w = (r, t'', w') \<and> chans_ok t'' \<and>
    t_sidCounter t'' = t_sidCounter t \<and> t_responseChans t'' \<subseteq>\<^sub>m (t_responseChans t)(sid := None)"
proof -
  obtain t'' w' where "after_wait env r evs (unregister sid t') w = (r, t'', w')" "chans_ok t''"
     "t_sidCounter t'' = t_sidCounter (unregister sid t')"
     "t_responseChans t'' \<subseteq>\<^sub>m t_responseChans (unregister sid t')"
    using after_wait_ok [OF chans_ok_unregister [OF assms(1)], where sid1 = sid and env = env and r = r and evs = evs and w = w] by blast
  then show ?thesis
    using map_le_trans [OF _ unregister_le [OF assms(2), of sid]] assms(3)
    by (simp add: unregister_def)
qed

text \<open>Whatever happens while a call waits, it gets a frame with its own service ID or an error.\<close>

lemma await_response_ok:
  assumes "chans_ok t" and "t_responseChans t sid = Some i"
  shows "\<exists>r t' w'. await_response env i sid evs t w = (r, t', w') \<and> chans_ok t' \<and>
    t_sidCounter t' = t_sidCounter t \<and> t_responseChans t' \<subseteq>\<^sub>m (t_responseChans t)(sid := None) \<and>
    wait_result sid evs r"
  using assms
proof (induction evs arbitrary: t w)
  case Nil
  then show ?case
    using chans_ok_unregister [OF Nil(1)] by (auto simp: unregister_def wait_result_def map_le_def)
next
  case (Cons ev evs)
  obtain t1 w1 where e: "readLoop_event env ev t w = (Ok t1, w1)" "chans_ok t1"
      "t_sidCounter t1 = t_sidCounter t" "t_responseChans t1 \<subseteq>\<^sub>m t_responseChans t"
      and c: "t_responseChans t1 sid = Some i \<or>
     (\<exists>f. SID (ff_Header f) = sid \<and> t_chans t1 ! i = \<lparr>ch_buf = Some f, ch_closed = False\<rparr> \<and>
        i \<notin> ran (t_responseChans t1))"
    using readLoop_event_wait [OF Cons.prems, of env ev w] by blast
  consider (ends) s where "ev = ContextDone s" | (timer) "ev = TimerFired"
    | (got) f where "\<forall>s. ev \<noteq> ContextDone s" "ev \<noteq> TimerFired" "SID (ff_Header f) = sid"
        "t_chans t1 ! i = \<lparr>ch_buf = Some f, ch_closed = False\<rparr>" "i \<notin> ran (t_responseChans t1)"
    | (wait) "\<forall>s. ev \<noteq> ContextDone s" "ev \<noteq> TimerFired" "t_responseChans t1 sid = Some i"
    using c by blast
  then show ?case
  proof cases
    case ends
    have "wait_result sid (ev # evs) (Err (ErrContext s))" using ends by (simp add: wait_result_def)
    then show ?thesis
      using after_wait_ends [OF Cons.prems(1) map_le_refl refl, of env "Err (ErrContext s)" evs sid w]
        ends by (auto simp: fun_upd_def)
  next
    case timer
    have "wait_result sid (ev # evs) (Err ErrResponseTimeout)" by (simp add: wait_result_def)
    then show ?thesis
      using after_wait_ends [OF Cons.prems(1) map_le_refl refl, of env "Err ErrResponseTimeout" evs sid w]
        timer by (auto simp: fun_upd_def)
  next
    case got
    let ?t = "t1\<lparr>t_chans := (t_chans t1)[i := \<lparr>ch_buf = None, ch_closed = False\<rparr>]\<rparr>"
    have "await_response env i sid (ev # evs) t w = after_wait env (Ok f) evs (unregister sid ?t) w1"
      using got e(1) by (cases ev) (simp_all add: Let_def)
    moreover have "wait_result sid (ev # evs) (Ok f)" using got by (simp add: wait_result_def)
    moreover have "chans_ok ?t" using chans_ok_take [OF e(2) got(5)] .
    ultimately show ?thesis
      using after_wait_ends [of ?t t env "Ok f" evs sid w1] e(3,4) by (auto simp: fun_upd_def)
  next
    case wait
    have "t_chans t1 ! i = \<lparr>ch_buf = None, ch_closed = False\<rparr>" using chans_ok_chan [OF e(2) wait(3)] by simp
    then have "await_response env i sid (ev # evs) t w = await_response env i sid evs t1 w1"
      using wait e(1) by (cases ev) (simp_all add: Let_def)
    moreover have "(t_responseChans t1)(sid := None) \<subseteq>\<^sub>m (t_responseChans t)(sid := None)"
      using e(4) by (auto simp: map_le_def)
    moreover have "wait_result sid evs r \<Longrightarrow> wait_result sid (ev # evs) r" for r
      by (cases r) (auto simp: wait_result_def)
    ultimately show ?thesis
      using Cons.IH [OF e(2) wait(3), of w1] e(3) map_le_trans by (fastforce simp: fun_upd_def)
  qed
qed

lemma chans_ok_accumulator [simp]:
  "chans_ok (t\<lparr>t_accumulator := a, t_responseChans := rc, t_chans := chs\<rparr>) =
     chans_ok (t\<lparr>t_responseChans := rc, t_chans := chs\<rparr>)"
  by (simp add: chans_ok_def)

text \<open>When only data arrive, in whatever chunks, the call returns the first frame with its
  service ID among those the bytes hold, and times out when there is none.\<close>

lemma after_wait_chunks:
  assumes "chans_ok t" and "t_accumulator t = Some acc" and "frames_of acc = ([], acc)"
  shows "\<exists>rc chs. after_wait env r (map Received cs) t w =
      (r, t\<lparr>t_responseChans := rc, t_chans := chs, t_accumulator := Some (snd (frames_of (acc @ concat cs)))\<rparr>, w) \<and>
    rc \<subseteq>\<^sub>m t_responseChans t \<and> chans_ok (t\<lparr>t_responseChans := rc, t_chans := chs\<rparr>)"
  using assms
proof (induction cs arbitrary: t acc)
  case Nil
  then show ?case
    by (intro exI [of _ "t_responseChans t"] exI [of _ "t_chans t"]) (simp add: map_le_refl)
next
  case (Cons c cs)
  define fs q where "fs = fst (frames_of (acc @ c))" and "q = snd (frames_of (acc @ c))"
  obtain rc chs where d: "foldl deliver t fs = t\<lparr>t_responseChans := rc, t_chans := chs\<rparr>"
      "rc \<subseteq>\<^sub>m t_responseChans t"
    using foldl_deliver_frame by blast
  have ok: "chans_ok (t\<lparr>t_responseChans := rc, t_chans := chs\<rparr>)"
    using foldl_dispatch [OF Cons.prems(1), of fs] d(1) by simp
  have res: "frames_of q = ([], q)" using rl.drain_residue by (simp add: q_def)
  have app: "snd (frames_of (acc @ c @ concat cs)) = snd (frames_of (q @ concat cs))"
    using rl.drain_append [of "acc @ c" "concat cs"] by (simp add: q_def)
  obtain rc' chs' where "after_wait env r (map Received cs)
        (t\<lparr>t_responseChans := rc, t_chans := chs, t_accumulator := Some q\<rparr>) w =
      (r, t\<lparr>t_responseChans := rc', t_chans := chs', t_accumulator := Some (snd (frames_of (q @ concat cs)))\<rparr>, w)"
      "rc' \<subseteq>\<^sub>m rc" "chans_ok (t\<lparr>t_responseChans := rc', t_chans := chs'\<rparr>)"
    using Cons.IH [of "t\<lparr>t_responseChans := rc, t_chans := chs, t_accumulator := Some q\<rparr>" q] ok res by auto
  then show ?case
    using readLoop_event_Received [OF Cons.prems(1,2), of env c w] d map_le_trans
    by (intro exI [of _ rc'] exI [of _ chs']) (auto simp: fs_def [symmetric] q_def [symmetric] app)
qed

lemma await_chunks:
  assumes "chans_ok t" and "t_responseChans t sid = Some i"
    and "t_accumulator t = Some acc" and "frames_of acc = ([], acc)"
  shows "\<exists>rc chs. await_response env i sid (map Received cs) t w =
      (case first_with sid (fst (frames_of (acc @ concat cs))) of
         Some f \<Rightarrow> Ok f | None \<Rightarrow> Err ErrResponseTimeout,
       t\<lparr>t_responseChans := rc, t_chans := chs, t_accumulator := Some (snd (frames_of (acc @ concat cs)))\<rparr>, w) \<and>
    rc \<subseteq>\<^sub>m (t_responseChans t)(sid := None) \<and> chans_ok (t\<lparr>t_responseChans := rc, t_chans := chs\<rparr>)"
  using assms
proof (induction cs arbitrary: t acc)
  case Nil
  define rc where "rc = (t_responseChans t)(sid := None)"
  have "unregister sid t = t\<lparr>t_responseChans := rc, t_chans := t_chans t, t_accumulator := Some acc\<rparr>"
    using Nil.prems(3) by (simp add: unregister_def rc_def)
  moreover have "chans_ok (t\<lparr>t_responseChans := rc, t_chans := t_chans t\<rparr>)"
    using chans_ok_unregister [OF Nil.prems(1), of sid] by (simp add: unregister_def rc_def)
  ultimately show ?case
    using Nil.prems(4) unfolding rc_def [symmetric]
    by (intro exI [of _ rc] exI [of _ "t_chans t"]) (simp add: first_with_def map_le_refl)
next
  case (Cons c cs)
  define fs q where "fs = fst (frames_of (acc @ c))" and "q = snd (frames_of (acc @ c))"
  define t1 where "t1 = (foldl deliver t fs)\<lparr>t_accumulator := Some q\<rparr>"
  have ev: "readLoop_event env (Received c) t w = (Ok t1, w)"
    using readLoop_event_Received [OF Cons.prems(1,3)] by (simp add: t1_def fs_def q_def)
  obtain rc chs where d: "foldl deliver t fs = t\<lparr>t_responseChans := rc, t_chans := chs\<rparr>"
      "rc \<subseteq>\<^sub>m t_responseChans t"
    using foldl_deliver_frame by blast
  have ok: "chans_ok t1" using foldl_dispatch [OF Cons.prems(1), of fs] by (simp add: t1_def)
  have res: "frames_of q = ([], q)" using rl.drain_residue by (simp add: q_def)
  have app: "frames_of (acc @ c @ concat cs) =
      (fs @ fst (frames_of (q @ concat cs)), snd (frames_of (q @ concat cs)))"
    using rl.drain_append [of "acc @ c" "concat cs"] by (simp add: fs_def q_def)
  have le: "rc' \<subseteq>\<^sub>m (t_responseChans t)(sid := None)" if "rc' \<subseteq>\<^sub>m rc(sid := None)" for rc'
    using that d(2) by (auto simp: map_le_def dom_def split: if_splits)
  have t1: "t1 = t\<lparr>t_responseChans := rc, t_chans := chs, t_accumulator := Some q\<rparr>"
    by (simp add: t1_def d(1))
  have acc1: "t_accumulator t1 = Some q" and rc1: "t_responseChans t1 = rc" by (simp_all add: t1)
  show ?case
  proof (cases "first_with sid fs")
    case None
    have reg: "t_responseChans t1 sid = Some i"
      using deliver_registered [OF Cons.prems(1,2), of fs] None by (simp add: t1_def)
    have "t_chans t1 ! i = \<lparr>ch_buf = None, ch_closed = False\<rparr>" using chans_ok_chan [OF ok reg] by simp
    then have "await_response env i sid (map Received (c # cs)) t w = await_response env i sid (map Received cs) t1 w"
      using ev by (simp add: Let_def)
    moreover obtain rc' chs' where "await_response env i sid (map Received cs) t1 w =
      (case first_with sid (fst (frames_of (q @ concat cs))) of
         Some f \<Rightarrow> Ok f | None \<Rightarrow> Err ErrResponseTimeout,
       t1\<lparr>t_responseChans := rc', t_chans := chs', t_accumulator := Some (snd (frames_of (q @ concat cs)))\<rparr>, w)"
      "rc' \<subseteq>\<^sub>m (t_responseChans t1)(sid := None)" "chans_ok (t1\<lparr>t_responseChans := rc', t_chans := chs'\<rparr>)"
      using Cons.IH [OF ok reg acc1 res] by blast
    moreover from this(2) have "rc' \<subseteq>\<^sub>m (t_responseChans t)(sid := None)"
      by (intro le) (simp only: rc1)
    moreover have "chans_ok (t1\<lparr>t_responseChans := rc', t_chans := chs'\<rparr>) =
        chans_ok (t\<lparr>t_responseChans := rc', t_chans := chs'\<rparr>)"
      by (simp add: t1)
    ultimately show ?thesis
      using None by (intro exI [of _ rc'] exI [of _ chs']) (simp add: app first_with_append t1 del: await_response.simps fun_upd_apply)
  next
    case (Some f)
    have ch: "t_chans t1 ! i = \<lparr>ch_buf = Some f, ch_closed = False\<rparr>"
      using deliver_registered [OF Cons.prems(1,2), of fs] Some by (simp add: t1_def)
    let ?t = "unregister sid (t1\<lparr>t_chans := (t_chans t1)[i := \<lparr>ch_buf = None, ch_closed = False\<rparr>]\<rparr>)"
    have "i \<notin> ran (t_responseChans t1)"
      using deliver_registered_gone [OF Cons.prems(1,2) Some] by (simp add: t1_def)
    then have ok': "chans_ok ?t" using chans_ok_take [OF ok] chans_ok_unregister by blast
    have "await_response env i sid (map Received (c # cs)) t w = after_wait env (Ok f) (map Received cs) ?t w"
      using ev ch by (simp add: Let_def)
    moreover obtain rc' chs' where "after_wait env (Ok f) (map Received cs) ?t w =
        (Ok f, ?t\<lparr>t_responseChans := rc', t_chans := chs', t_accumulator := Some (snd (frames_of (q @ concat cs)))\<rparr>, w)"
      "rc' \<subseteq>\<^sub>m t_responseChans ?t" "chans_ok (?t\<lparr>t_responseChans := rc', t_chans := chs'\<rparr>)"
      using after_wait_chunks [OF ok' _ res, of env "Ok f" cs w] by (auto simp: unregister_def t1_def)
    moreover have "t_responseChans ?t = rc(sid := None)" by (simp add: t1 unregister_def)
    with calculation(3) have "rc' \<subseteq>\<^sub>m (t_responseChans t)(sid := None)"
      by (intro le) (simp only:)
    moreover have "?t\<lparr>t_responseChans := rc', t_chans := chs', t_accumulator := a\<rparr> =
        t\<lparr>t_responseChans := rc', t_chans := chs', t_accumulator := a\<rparr>" for a
      by (simp add: t1 unregister_def)
    moreover have "chans_ok (?t\<lparr>t_responseChans := rc', t_chans := chs'\<rparr>) =
        chans_ok (t\<lparr>t_responseChans := rc', t_chans := chs'\<rparr>)"
      by (simp add: t1 unregister_def)
    ultimately show ?thesis
      using Some by (intro exI [of _ rc'] exI [of _ chs']) (simp add: app first_with_append del: await_response.simps fun_upd_apply)
  qed
qed

section \<open>Invariant of the connection\<close>

text \<open>The transport is connected exactly while its read loop runs, on an open connection, and the
  loop has decoded all it can.\<close>

definition link_ok :: "Transport \<Rightarrow> bool" where
  "link_ok t \<longleftrightarrow>
     (t_connected t \<longleftrightarrow> t_accumulator t \<noteq> None) \<and>
     (t_connected t \<longrightarrow> t_conn t \<noteq> None \<and> \<not> t_closed t) \<and>
     (\<forall>acc. t_accumulator t = Some acc \<longrightarrow> frames_of acc = ([], acc))"

lemma link_ok_simps [simp]:
  "link_ok (t\<lparr>t_responseChans := rc\<rparr>) = link_ok t"
  "link_ok (t\<lparr>t_chans := chs\<rparr>) = link_ok t"
  "link_ok (t\<lparr>t_sidCounter := c\<rparr>) = link_ok t"
  "link_ok (t\<lparr>t_timeout := n\<rparr>) = link_ok t"
  "link_ok (t\<lparr>t_reconnectCount := k\<rparr>) = link_ok t"
  "link_ok (t\<lparr>t_heartbeatRunning := b\<rparr>) = link_ok t"
  "link_ok (t\<lparr>t_stopHeartbeat := b\<rparr>) = link_ok t"
  "link_ok (unregister sid t) = link_ok t"
  "link_ok (register sid t) = link_ok t"
  by (simp_all add: link_ok_def unregister_def register_def)

lemma readLoop_event_link:
  assumes "chans_ok t" and "link_ok t" and "readLoop_event env ev t w = (Ok t', w')"
  shows "link_ok t'"
proof (cases "\<exists>acc buf. t_accumulator t = Some acc \<and> ev = Received buf")
  case True
  then obtain acc buf where a: "t_accumulator t = Some acc" "ev = Received buf" by blast
  obtain rc cs where "foldl deliver t (fst (frames_of (acc @ buf))) = t\<lparr>t_responseChans := rc, t_chans := cs\<rparr>"
    using foldl_deliver_frame by blast
  then have "t' = t\<lparr>t_responseChans := rc, t_chans := cs, t_accumulator := Some (snd (frames_of (acc @ buf)))\<rparr>"
    using readLoop_event_Received [OF assms(1) a(1), of env buf w] assms(3) a(2) by simp
  then show ?thesis using assms(2) a(1) rl.drain_residue by (simp add: link_ok_def)
next
  case False
  then show ?thesis
    using assms by (cases "t_accumulator t"; cases ev)
      (auto simp: readLoop_event_def link_ok_def split: prod.splits if_splits)
qed

lemma after_wait_link:
  "chans_ok t \<Longrightarrow> link_ok t \<Longrightarrow> after_wait env r evs t w = (r', t', w') \<Longrightarrow> link_ok t'"
proof (induction evs arbitrary: t w)
  case (Cons ev evs)
  obtain t1 w1 where e: "readLoop_event env ev t w = (Ok t1, w1)" "chans_ok t1"
    using readLoop_event_ok [OF Cons.prems(1)] by metis
  then show ?case
    using Cons.IH [OF e(2) readLoop_event_link [OF Cons.prems(1,2) e(1)]] Cons.prems(3) by simp
qed simp

lemma await_response_link:
  "chans_ok t \<Longrightarrow> link_ok t \<Longrightarrow> t_responseChans t sid = Some i \<Longrightarrow>
     await_response env i sid evs t w = (r, t', w') \<Longrightarrow> link_ok t'"
proof (induction evs arbitrary: t w)
  case (Cons ev evs)
  obtain t1 w1 where e: "readLoop_event env ev t w = (Ok t1, w1)" "chans_ok t1"
      and c: "t_responseChans t1 sid = Some i \<or>
     (\<exists>f. SID (ff_Header f) = sid \<and> t_chans t1 ! i = \<lparr>ch_buf = Some f, ch_closed = False\<rparr> \<and>
        i \<notin> ran (t_responseChans t1))"
    using readLoop_event_wait [OF Cons.prems(1,3), of env ev w] by blast
  have l: "link_ok t1" using readLoop_event_link [OF Cons.prems(1,2) e(1)] .
  have ends: "link_ok t'" if "after_wait env r0 evs (unregister sid t0) w0 = (r, t', w')"
      "chans_ok t0" "link_ok t0" for r0 t0 w0
    using after_wait_link [OF chans_ok_unregister [OF that(2)] _ that(1)] that(3) by simp
  have step: "link_ok t'" if "\<forall>s. ev \<noteq> ContextDone s" "ev \<noteq> TimerFired"
    using c
  proof
    assume reg: "t_responseChans t1 sid = Some i"
    then have "t_chans t1 ! i = \<lparr>ch_buf = None, ch_closed = False\<rparr>" using chans_ok_chan [OF e(2)] by simp
    then show "link_ok t'"
      using that e Cons.IH [OF e(2) l reg] Cons.prems(4) by (cases ev) (simp_all add: Let_def)
  next
    assume "\<exists>f. SID (ff_Header f) = sid \<and> t_chans t1 ! i = \<lparr>ch_buf = Some f, ch_closed = False\<rparr> \<and>
        i \<notin> ran (t_responseChans t1)"
    then obtain f where f: "t_chans t1 ! i = \<lparr>ch_buf = Some f, ch_closed = False\<rparr>"
        "i \<notin> ran (t_responseChans t1)" by blast
    let ?t = "t1\<lparr>t_chans := (t_chans t1)[i := \<lparr>ch_buf = None, ch_closed = False\<rparr>]\<rparr>"
    have "after_wait env (Ok f) evs (unregister sid ?t) w1 = (r, t', w')"
      using that e f Cons.prems(4) by (cases ev) (simp_all add: Let_def)
    then show "link_ok t'" using ends chans_ok_take [OF e(2) f(2)] l by simp
  qed
  then show ?case using ends [OF _ Cons.prems(1,2)] Cons.prems(4) by (cases ev) auto
qed auto

text \<open>Between calls nothing is registered.\<close>

definition transport_inv :: "Transport \<Rightarrow> bool" where
  "transport_inv t \<longleftrightarrow> chans_ok t \<and> link_ok t \<and> t_responseChans t = Map.empty"

lemma chans_ok_empty: "t_responseChans t = Map.empty \<Longrightarrow> chans_ok t"
  by (simp add: chans_ok_def)

lemma transport_invI: "link_ok t \<Longrightarrow> t_responseChans t = Map.empty \<Longrightarrow> transport_inv t"
  by (simp add: transport_inv_def chans_ok_empty)

lemma nextSID_simps [simp]:
  "chans_ok (snd (nextSID t)) = chans_ok t" "link_ok (snd (nextSID t)) = link_ok t"
  "t_responseChans (snd (nextSID t)) = t_responseChans t"
  "t_connected (snd (nextSID t)) = t_connected t" "t_conn (snd (nextSID t)) = t_conn t"
  "t_accumulator (snd (nextSID t)) = t_accumulator t" "t_chans (snd (nextSID t)) = t_chans t"
  "t_srcAddr (snd (nextSID t)) = t_srcAddr t" "t_dstAddr (snd (nextSID t)) = t_dstAddr t"
  by (simp_all add: nextSID_def Let_def)

lemma register_simps [simp]:
  "t_responseChans (register sid t) = (t_responseChans t)(sid \<mapsto> length (t_chans t))"
  "t_conn (register sid t) = t_conn t" "t_srcAddr (register sid t) = t_srcAddr t"
  "t_dstAddr (register sid t) = t_dstAddr t" "t_sidCounter (register sid t) = t_sidCounter t"
  "t_accumulator (register sid t) = t_accumulator t" "t_connected (register sid t) = t_connected t"
  by (simp_all add: register_def)

text \<open>\<open>SendCommand\<close>: the invariant, the result, and what is left registered.\<close>

lemma SendCommand_inv:
  assumes "chans_ok t" and "link_ok t" and "SendCommand env t w cmd = (r, t', w')"
  shows "chans_ok t' \<and> link_ok t' \<and>
    t_responseChans t' \<subseteq>\<^sub>m (if t_connected t then (t_responseChans t)(fst (nextSID t) := None)
                           else t_responseChans t) \<and>
    (\<forall>f. r = Ok f \<longrightarrow> SID (ff_Header f) = fst (nextSID t)) \<and> (r = Panic \<longrightarrow> length cmd < 2)"
proof (cases "t_connected t")
  case False
  then show ?thesis using assms by (auto simp: SendCommand_def map_le_refl)
next
  case True
  define sid where "sid = fst (nextSID t)"
  define t2 where "t2 = register sid (snd (nextSID t))"
  have ok2: "chans_ok t2" "link_ok t2" "t_responseChans t2 sid = Some (length (t_chans t))"
      "(t_responseChans t2)(sid := None) = (t_responseChans t)(sid := None)"
    using assms(1,2) chans_ok_register [of "snd (nextSID t)"] by (simp_all add: t2_def)
  have un: "chans_ok (unregister sid t2)" "t_responseChans (unregister sid t2) \<subseteq>\<^sub>m (t_responseChans t)(sid := None)"
    using chans_ok_unregister [OF ok2(1)] unfolding ok2(4) [symmetric]
    by (simp_all add: unregister_def map_le_refl)
  have sc: "SendCommand env t w cmd = (r, t', w') \<Longrightarrow>
      (r = Panic \<and> length cmd < 2 \<or> (\<exists>e. r = Err e)) \<and> t' = unregister sid t2 \<or>
      (\<exists>evs w2. await_response env (length (t_chans t)) sid evs t2 w2 = (r, t', w'))"
    using True
    by (auto simp: SendCommand_def Let_def split_beta sid_def t2_def split: if_splits option.splits)
  show ?thesis
    using sc [OF assms(3)]
  proof
    assume "(r = Panic \<and> length cmd < 2 \<or> (\<exists>e. r = Err e)) \<and> t' = unregister sid t2"
    then show ?thesis using un ok2(2) True by (auto simp: sid_def)
  next
    assume "\<exists>evs w2. await_response env (length (t_chans t)) sid evs t2 w2 = (r, t', w')"
    then obtain evs w2 where a: "await_response env (length (t_chans t)) sid evs t2 w2 = (r, t', w')" by blast
    have "wait_result sid evs r" "chans_ok t'" "t_responseChans t' \<subseteq>\<^sub>m (t_responseChans t2)(sid := None)"
      using await_response_ok [OF ok2(1,3), of env evs w2] a by auto
    moreover have "link_ok t'" using await_response_link [OF ok2(1,2,3) a] .
    ultimately show ?thesis
      using ok2(4) True by (auto simp: wait_result_def sid_def)
  qed
qed

section \<open>The invariant holds in every reachable state\<close>

lemma SendCommand_transport_inv:
  assumes "transport_inv t" and "SendCommand env t w cmd = (r, t', w')"
  shows "transport_inv t'"
proof -
  have "t_responseChans t' \<subseteq>\<^sub>m (if t_connected t then (t_responseChans t)(fst (nextSID t) := None)
      else t_responseChans t)" and "link_ok t'"
    using SendCommand_inv [OF _ _ assms(2)] assms(1) by (simp_all add: transport_inv_def)
  moreover have "(if t_connected t then (t_responseChans t)(fst (nextSID t) := None)
      else t_responseChans t) = Map.empty"
    using assms(1) by (auto simp: transport_inv_def)
  ultimately show ?thesis by (intro transport_invI) (auto simp: map_le_def)
qed

lemma Connect_inv:
  assumes "transport_inv t" and "Connect env t w = (r, t', w')"
  shows "transport_inv t' \<and> (r = Ok () \<longleftrightarrow> t_connected t') \<and> r \<noteq> Panic"
proof (cases "t_connected t")
  case True
  then show ?thesis using assms by (auto simp: Connect_def)
next
  case False
  obtain d w1 where d: "env_dial env w (t_plcIP t) (t_plcPort t) = (d, w1)" by fastforce
  obtain now w2 where n: "env_now env w1 = (now, w2)" by fastforce
  show ?thesis
    using assms False d n
    by (cases d) (auto simp: Connect_def Let_def startHeartbeat_def transport_inv_def link_ok_def chans_ok_empty
        split: if_splits)
qed

lemma Disconnect_inv:
  assumes "transport_inv t" and "Disconnect env t w = (r, t', w')"
  shows "transport_inv t' \<and> r = Ok () \<and> \<not> t_connected t'"
  using assms
  by (auto simp: Disconnect_def close_chans_def transport_inv_def link_ok_def chans_ok_empty Let_def
      split: if_splits prod.splits)

lemma heartbeat_inv: "transport_inv t \<Longrightarrow> heartbeat_step env k t w = (t', w') \<Longrightarrow> transport_inv t'"
  using SendCommand_transport_inv [of t env w "[6, 1]"]
  by (cases "SendCommand env t w [6, 1]"; cases k)
    (auto simp: heartbeat_step_def transport_inv_def chans_ok_empty split: if_splits)

lemma idle_event_inv:
  assumes "transport_inv t" and "readLoop_event env ev t w = (Ok t', w')"
  shows "transport_inv t'"
proof -
  have "link_ok t'" using readLoop_event_link [OF _ _ assms(2)] assms(1) by (simp add: transport_inv_def)
  moreover have "t_responseChans t' \<subseteq>\<^sub>m Map.empty"
    using readLoop_event_ok [of t env ev w] assms by (auto simp: transport_inv_def)
  ultimately show ?thesis by (intro transport_invI) (auto simp: map_le_def)
qed

lemma reconnect_loop_inv:
  "transport_inv t \<Longrightarrow> reconnect_loop env n d t w = (r, t', w') \<Longrightarrow>
     transport_inv t' \<and> (r = Ok () \<longrightarrow> t_connected t')"
proof (induction n arbitrary: d t w)
  case (Suc n)
  obtain r1 t1 w1 where c: "Connect env t w = (r1, t1, w1)" by (cases "Connect env t w")
  note ci = Connect_inv [OF Suc.prems(1) c]
  obtain e w2 where a: "env_after env w1 d = (e, w2)" by fastforce
  show ?case
  proof (cases "r1 = Ok ()")
    case True
    then have "t' = t1\<lparr>t_reconnectCount := t_reconnectCount t1 + 1\<rparr>" using Suc.prems(2) c by auto
    then show ?thesis using ci True by (simp add: transport_inv_def chans_ok_empty)
  next
    case False
    then obtain e1 where "r1 = Err e1" using ci by (cases r1) auto
    then show ?thesis
      using Suc.prems(2) c a ci Suc.IH [of t1] by (auto simp: Let_def split: if_splits option.splits)
  qed
qed auto

lemma Reconnect_inv:
  assumes "transport_inv t" and "Reconnect env t w = (r, t', w')"
  shows "transport_inv t' \<and> (r = Ok () \<longrightarrow> t_connected t')"
proof -
  obtain r1 t1 w1 where d: "Disconnect env t w = (r1, t1, w1)" by (cases "Disconnect env t w")
  then show ?thesis
    using Disconnect_inv [OF assms(1) d] reconnect_loop_inv [of t1 env] assms(2)
    by (simp add: Reconnect_def)
qed

text \<open>The states a program can bring a transport into, one call or idle event at a time; a
  panicking call ends the program.\<close>

inductive transport_reach :: "'w Env \<Rightarrow> Transport \<Rightarrow> 'w \<Rightarrow> bool" for env :: "'w Env" where
  reach_new: "NewTransport oob cfg = Ok t \<Longrightarrow> transport_reach env t w"
| reach_connect: "transport_reach env t w \<Longrightarrow> Connect env t w = (r, t', w') \<Longrightarrow> transport_reach env t' w'"
| reach_disconnect: "transport_reach env t w \<Longrightarrow> Disconnect env t w = (r, t', w') \<Longrightarrow> transport_reach env t' w'"
| reach_send: "transport_reach env t w \<Longrightarrow> SendCommand env t w cmd = (r, t', w') \<Longrightarrow> r \<noteq> Panic \<Longrightarrow>
    transport_reach env t' w'"
| reach_heartbeat: "transport_reach env t w \<Longrightarrow> heartbeat_step env k t w = (t', w') \<Longrightarrow> transport_reach env t' w'"
| reach_reconnect: "transport_reach env t w \<Longrightarrow> Reconnect env t w = (r, t', w') \<Longrightarrow> transport_reach env t' w'"
| reach_idle: "transport_reach env t w \<Longrightarrow> readLoop_event env ev t w = (Ok t', w') \<Longrightarrow> transport_reach env t' w'"
| reach_timeout: "transport_reach env t w \<Longrightarrow> transport_reach env (SetTimeout d t) w"

inductive_cases transport_reach_cases: "transport_reach env t w"

lemma NewTransport_inv: "NewTransport oob cfg = Ok t \<Longrightarrow> transport_inv t"
  by (auto simp: NewTransport_def loadConfig_def initial_transport_def transport_inv_def link_ok_def
      chans_ok_empty split: option.splits GoValue.splits)

lemma transport_reach_inv: "transport_reach env t w \<Longrightarrow> transport_inv t"
proof (induction rule: transport_reach.induct)
  case (reach_timeout t w d)
  then show ?case by (simp add: SetTimeout_def transport_inv_def chans_ok_empty)
qed (auto dest: NewTransport_inv Connect_inv Disconnect_inv SendCommand_transport_inv heartbeat_inv
      Reconnect_inv idle_event_inv)

section \<open>Service IDs\<close>

fun sid_run :: "nat \<Rightarrow> Transport \<Rightarrow> u8 list" where
  "sid_run 0 t = []"
| "sid_run (Suc n) t = fst (nextSID t) # sid_run n (snd (nextSID t))"

lemma nextSID_value: "unat (fst (nextSID t)) = unat (t_sidCounter t) mod 255 + 1"
proof -
  have lt: "unat (t_sidCounter t) < 256" using unsigned_less [of "t_sidCounter t"] by simp
  show ?thesis
  proof (cases "t_sidCounter t = 255")
    case True
    then show ?thesis by (simp add: nextSID_def)
  next
    case False
    then have "unat (t_sidCounter t) \<noteq> 255" 
      using word_unat_eq_iff [of "t_sidCounter t" 255] by simp
    then have "unat (t_sidCounter t + 1) = unat (t_sidCounter t) + 1"
      using lt by (simp add: unat_word_ariths)
    moreover from this have "t_sidCounter t + 1 \<noteq> 0" by auto
    ultimately show ?thesis
      using lt \<open>unat (t_sidCounter t) \<noteq> 255\<close> by (simp add: nextSID_def Let_def)
  qed
qed

lemma nextSID_counter: "t_sidCounter (snd (nextSID t)) = fst (nextSID t)"
  by (simp add: nextSID_def Let_def)

lemma sid_run_nth: "k < n \<Longrightarrow> unat (sid_run n t ! k) = (unat (t_sidCounter t) + k) mod 255 + 1"
proof (induction n arbitrary: t k)
  case (Suc n)
  show ?case
  proof (cases k)
    case 0
    then show ?thesis by (simp add: nextSID_value)
  next
    case (Suc j)
    then have "unat (sid_run (Suc n) t ! k) = (unat (t_sidCounter t) mod 255 + 1 + j) mod 255 + 1"
      using Suc.IH [of j "snd (nextSID t)"] Suc.prems by (simp add: nextSID_counter nextSID_value)
    also have "\<dots> = (unat (t_sidCounter t) + k) mod 255 + 1"
      using Suc mod_add_left_eq [of "unat (t_sidCounter t)" 255 "1 + j"] by simp
    finally show ?thesis .
  qed
qed simp

lemma length_sid_run [simp]: "length (sid_run n t) = n"
  by (induction n arbitrary: t) simp_all

lemma mod_window: "i < j \<Longrightarrow> j < i + m \<Longrightarrow> (c + i) mod m \<noteq> (c + j) mod (m :: nat)"
proof
  assume "i < j" "j < i + m" "(c + i) mod m = (c + j) mod m"
  then have "m dvd j - i" using mod_eq_dvd_iff_nat [of "c + i" "c + j" m] by (simp add: eq_commute)
  then show False using \<open>i < j\<close> \<open>j < i + m\<close> by (auto dest: dvd_imp_le)
qed

section \<open>Commands over a connection that only delivers data\<close>

text \<open>The frame that \<open>SendCommand\<close> puts on the wire.\<close>

definition command_frame :: "Transport \<Rightarrow> bytes \<Rightarrow> FINSFrame" where
  "command_frame t cmd =
     \<lparr>ff_Header = DefaultCommandHeader (t_srcAddr t) (t_dstAddr t) (fst (nextSID t)),
      ff_CommandCode = un_be16 (slice cmd 0 2), ff_EndCode = 0, ff_Data = drop 2 cmd\<rparr>"

lemma SendCommand_chunks:
  assumes "transport_inv t" and "t_accumulator t = Some acc" and "2 \<le> length cmd"
    and "env_write env w (wire_frame (command_frame t cmd)) = (None, w1)"
    and "env_events env w1 = (map Received cs, w2)"
  shows "\<exists>t'. SendCommand env t w cmd =
      (case first_with (fst (nextSID t)) (fst (frames_of (acc @ concat cs))) of
         Some f \<Rightarrow> Ok f | None \<Rightarrow> Err ErrResponseTimeout, t', w2) \<and>
    transport_inv t' \<and> t_accumulator t' = Some (snd (frames_of (acc @ concat cs))) \<and>
    t_sidCounter t' = fst (nextSID t) \<and> t_srcAddr t' = t_srcAddr t \<and> t_dstAddr t' = t_dstAddr t"
proof -
  define sid where "sid = fst (nextSID t)"
  define t2 where "t2 = register sid (snd (nextSID t))"
  obtain c where "t_conn t = Some c"
    using assms(1,2) by (auto simp: transport_inv_def link_ok_def)
  then have link: "t_connected t" "t_conn t = Some c" "frames_of acc = ([], acc)"
    using assms(1,2) by (auto simp: transport_inv_def link_ok_def)
  have ok2: "chans_ok t2" "t_responseChans t2 sid = Some (length (t_chans t))" "t_accumulator t2 = Some acc"
    using assms(1,2) chans_ok_register [of "snd (nextSID t)"] by (simp_all add: t2_def transport_inv_def)
  have "SendCommand env t w cmd = await_response env (length (t_chans t)) sid (map Received cs) t2 w2"
    using assms(3-5) link(1,2)
    by (simp add: SendCommand_def split_beta Let_def sid_def t2_def command_frame_def wire_frame_def)
  moreover obtain rc chs where a: "await_response env (length (t_chans t)) sid (map Received cs) t2 w2 =
      (case first_with sid (fst (frames_of (acc @ concat cs))) of
         Some f \<Rightarrow> Ok f | None \<Rightarrow> Err ErrResponseTimeout,
       t2\<lparr>t_responseChans := rc, t_chans := chs, t_accumulator := Some (snd (frames_of (acc @ concat cs)))\<rparr>, w2)"
    using await_chunks [OF ok2 link(3), of env cs w2] by blast
  ultimately have sc: "SendCommand env t w cmd =
      (case first_with sid (fst (frames_of (acc @ concat cs))) of
         Some f \<Rightarrow> Ok f | None \<Rightarrow> Err ErrResponseTimeout,
       t2\<lparr>t_responseChans := rc, t_chans := chs, t_accumulator := Some (snd (frames_of (acc @ concat cs)))\<rparr>, w2)"
    by (simp only:)
  moreover have "transport_inv (t2\<lparr>t_responseChans := rc, t_chans := chs,
      t_accumulator := Some (snd (frames_of (acc @ concat cs)))\<rparr>)"
    using SendCommand_transport_inv [OF assms(1) sc] .
  ultimately show ?thesis by (simp add: t2_def sid_def nextSID_counter)
qed

section \<open>Backoff\<close>

text \<open>An environment in which the next \<open>f\<close> dials fail and that records the waits.\<close>

definition flaky_env :: "(nat \<times> int list) Env" where
  "flaky_env =
     \<lparr>env_dial = (\<lambda>(f, ws) _ _. case f of 0 \<Rightarrow> (Inr (''local'', ''plc''), (0, ws))
                                 | Suc f' \<Rightarrow> (Inl ''refused'', (f', ws))),
      env_write = (\<lambda>w _. (None, w)), env_events = (\<lambda>w. ([], w)), env_close = id,
      env_now = (\<lambda>w. (0, w)), env_after = (\<lambda>(f, ws) d. (None, (f, ws @ [d]))),
      env_sleep = (\<lambda>w _. w)\<rparr>"

text \<open>The wait after attempt \<open>k\<close>.\<close>

definition backoff :: "int \<Rightarrow> int \<Rightarrow> nat \<Rightarrow> int" where
  "backoff base cap k = (if k = 0 then base else min (base * 2 ^ k) cap)"

lemma backoff_next:
  assumes "0 < base" and "base \<le> cap" and "cap < 2 ^ 62"
  shows "(if int64 (backoff base cap k * 2) > cap then cap else int64 (backoff base cap k * 2)) =
    backoff base cap (Suc k)"
proof -
  have "0 < backoff base cap k" "backoff base cap k \<le> cap" using assms by (auto simp: backoff_def)
  then have "int64 (backoff base cap k * 2) = backoff base cap k * 2"
    using assms(3) by (intro int64_id) simp_all
  moreover have "min (backoff base cap k * 2) cap = min (base * 2 ^ Suc k) cap"
  proof (cases k)
    case (Suc j)
    have "0 < base * 2 ^ k" using assms(1) by simp
    then show ?thesis using Suc assms(1,2) by (auto simp: backoff_def min_def mult.commute mult.left_commute)
  qed (simp add: backoff_def)
  moreover have "backoff base cap (Suc k) = min (base * 2 ^ Suc k) cap" by (simp add: backoff_def)
  ultimately show ?thesis by (auto simp: min_def split: if_splits)
qed

lemma reconnect_loop_flaky:
  assumes "0 < base" and "base \<le> t_maxBackoff t" and "t_maxBackoff t < 2 ^ 62" and "\<not> t_connected t"
    and "0 < n"
  shows "\<exists>t' fw. reconnect_loop flaky_env n (backoff base (t_maxBackoff t) k) t (f, ws) =
      (if f < n then Ok () else Err (ErrMsg ''failed to reconnect''), t',
       (fw, ws @ map (backoff base (t_maxBackoff t)) [k..<k + min f (n - 1)])) \<and>
    t_connected t' = (f < n) \<and>
    t_reconnectCount t' = t_reconnectCount t + (if f < n then 1 else 0)"
  using assms
proof (induction n arbitrary: k t f ws)
  case (Suc n)
  show ?case
  proof (cases f)
    case 0
    then show ?thesis
      using Suc.prems(4) by (simp add: Connect_def flaky_env_def Let_def startHeartbeat_def)
  next
    case (Suc f')
    let ?t = "t\<lparr>t_closed := False\<rparr>"
    have c: "Connect flaky_env t (f, ws) = (Err (ErrDial ''refused''), ?t, (f', ws))"
      using Suc.prems(4) Suc by (simp add: Connect_def flaky_env_def)
    show ?thesis
    proof (cases "n = 0")
      case True
      then show ?thesis using c Suc Suc.prems(4) by simp
    next
      case False
      have step: "reconnect_loop flaky_env (Suc n) (backoff base (t_maxBackoff t) k) t (f, ws) =
          reconnect_loop flaky_env n (backoff base (t_maxBackoff t) (Suc k)) ?t
            (f', ws @ [backoff base (t_maxBackoff t) k])"
      proof -
        have "env_after flaky_env (f', ws) d = (None, (f', ws @ [d]))" for d by (simp add: flaky_env_def)
        then have "reconnect_loop flaky_env (Suc n) (backoff base (t_maxBackoff t) k) t (f, ws) =
            reconnect_loop flaky_env n
              (if int64 (backoff base (t_maxBackoff t) k * 2) > t_maxBackoff t then t_maxBackoff t
               else int64 (backoff base (t_maxBackoff t) k * 2)) ?t
              (f', ws @ [backoff base (t_maxBackoff t) k])"
          using c False by (simp add: Let_def)
        then show ?thesis unfolding backoff_next [OF Suc.prems(1-3), of k] .
      qed
      obtain t' fw where
        "reconnect_loop flaky_env n (backoff base (t_maxBackoff t) (Suc k)) ?t
          (f', ws @ [backoff base (t_maxBackoff t) k]) =
          (if f' < n then Ok () else Err (ErrMsg ''failed to reconnect''), t',
           (fw, (ws @ [backoff base (t_maxBackoff t) k]) @
             map (backoff base (t_maxBackoff t)) [Suc k..<Suc k + min f' (n - 1)]))"
        "t_connected t' = (f' < n)"
        "t_reconnectCount t' = t_reconnectCount t + (if f' < n then 1 else 0)"
        using Suc.IH [of ?t "Suc k" f' "ws @ [backoff base (t_maxBackoff t) k]"] Suc.prems False by auto
      moreover have "[k..<k + min f (Suc n - 1)] = k # [Suc k..<Suc k + min f' (n - 1)]"
      proof -
        have "min f (Suc n - 1) = Suc (min f' (n - 1))" using Suc False by (cases n) simp_all
        moreover have "[k..<k + Suc i] = k # [Suc k..<Suc k + i]" for i
          by (simp add: upt_conv_Cons del: upt_Suc)
        ultimately show ?thesis by (simp only:)
      qed
      ultimately show ?thesis
        unfolding step using Suc by (intro exI [of _ t'] exI [of _ fw]) simp
    qed
  qed
qed simp

section \<open>Properties of the transport\<close>



text \<open>C26. Service IDs: any 255 successive ones are pairwise distinct and none is zero, and the next
  one repeats the first, so a response can be matched to its command as long as fewer than 255
  later commands were sent.\<close>

theorem nextSID_window:
  "distinct (sid_run 255 t) \<and> 0 \<notin> set (sid_run n t) \<and> sid_run 256 t ! 255 = sid_run 256 t ! 0"
proof (intro conjI)
  show "distinct (sid_run 255 t)"
    unfolding distinct_conv_nth
  proof (intro allI impI)
    fix i j
    assume "i < length (sid_run 255 t)" "j < length (sid_run 255 t)" "i \<noteq> j"
    then have "unat (sid_run 255 t ! i) \<noteq> unat (sid_run 255 t ! j)"
      using mod_window [of i j 255 "unat (t_sidCounter t)"] mod_window [of j i 255 "unat (t_sidCounter t)"]
      by (simp add: sid_run_nth neq_iff eq_commute) linarith
    then show "sid_run 255 t ! i \<noteq> sid_run 255 t ! j" by auto
  qed
  show "0 \<notin> set (sid_run n t)"
  proof
    assume "0 \<in> set (sid_run n t)"
    then obtain k where "k < n" "sid_run n t ! k = 0" by (auto simp: in_set_conv_nth)
    then show False using sid_run_nth [of k n t] by simp
  qed
  have "unat (sid_run 256 t ! 255) = unat (sid_run 256 t ! 0)"
    using sid_run_nth [of 255 256 t] sid_run_nth [of 0 256 t] by (simp add: mod_add_self2)
  then show "sid_run 256 t ! 255 = sid_run 256 t ! 0" by (simp add: word_unat_eq_iff)
qed

text \<open>C4. A command over a connection that delivers the peer's bytes in any chunks returns the first
  frame with the command's service ID that the bytes hold (after what the read loop had kept),
  and reports a timeout when there is none; the frame sent is the command with the
  transport's addresses and a fresh service ID.\<close>

theorem SendCommand_correlates:
  assumes "transport_inv t" and "t_accumulator t = Some acc" and "2 \<le> length cmd"
    and "env_write env w (wire_frame (command_frame t cmd)) = (None, w1)"
    and "env_events env w1 = (map Received cs, w2)"
  shows "fst (SendCommand env t w cmd) =
    (case first_with (fst (nextSID t)) (fst (frames_of (acc @ concat cs))) of
       Some f \<Rightarrow> Ok f | None \<Rightarrow> Err ErrResponseTimeout)"
  using SendCommand_chunks [OF assms] by auto

theorem SendCommand_correlates_witness:
  "let t = initial_transport\<lparr>t_conn := Some ([], []), t_connected := True, t_accumulator := Some []\<rparr>
   in fst (SendCommand flaky_env t (0, []) [0x06, 0x01]) = Err ErrResponseTimeout"
proof -
  let ?t = "initial_transport\<lparr>t_conn := Some ([], []), t_connected := True, t_accumulator := Some []\<rparr>"
  have "transport_inv ?t"
    by (rule transport_invI) (simp_all add: link_ok_def initial_transport_def)
  then show ?thesis
    using SendCommand_correlates [of ?t "[]" "[0x06, 0x01]" flaky_env "(0, [])" "(0, [])" "[]" "(0, [])"]
    by (simp add: flaky_env_def first_with_def)
qed

text \<open>C25. \<open>Reconnect\<close> against a peer that refuses the first \<open>f\<close> dials: it succeeds exactly
  when \<open>f\<close> is below the number of retries, then the transport is connected and the counter
  goes up by one; between attempts it waits the retry interval, doubled each time up to the
  maximal backoff, and after the last attempt it does not wait.\<close>

theorem Reconnect_backoff:
  assumes "\<not> t_connected t" and "0 < t_maxRetries t" and "0 < t_retryInterval t"
    and "t_retryInterval t \<le> t_maxBackoff t" and "t_maxBackoff t < 2 ^ 62"
  shows "\<exists>t' fw. Reconnect flaky_env t (f, []) =
      (if int f < t_maxRetries t then Ok () else Err (ErrMsg ''failed to reconnect''), t',
       (fw, map (backoff (t_retryInterval t) (t_maxBackoff t)) [0..<min f (nat (t_maxRetries t) - 1)])) \<and>
    t_connected t' = (int f < t_maxRetries t) \<and>
    t_reconnectCount t' = t_reconnectCount t + (if int f < t_maxRetries t then 1 else 0)"
proof -
  have "backoff (t_retryInterval t) (t_maxBackoff t) 0 = t_retryInterval t" by (simp add: backoff_def)
  then show ?thesis
    using reconnect_loop_flaky [OF assms(3-5,1), of "nat (t_maxRetries t)" 0 f "[]"] assms(1,2)
    by (simp add: Reconnect_def Disconnect_def zless_nat_eq_int_zless)
qed

theorem Reconnect_backoff_witness:
  "\<exists>t' fw. Reconnect flaky_env initial_transport (2, []) = (Ok (), t', (fw, [1000000000, 2000000000])) \<and>
     t_connected t'"
proof -
  have "map (backoff 1000000000 30000000000) [0..<2] = [1000000000, 2000000000]"
    by (simp add: backoff_def upt_rec)
  then show ?thesis
    using Reconnect_backoff [of initial_transport 2] by (auto simp: initial_transport_def)
qed

end
