(* ===== verification/Fins_Session.thy ===== *)
theory Fins_Session
  imports Fins_Transport_Safety
begin

text \<open>
  A client session: the transport of \<open>transport.go\<close> talking to the mock PLC of
  \<open>mock_plc.go\<close> over a connection that cuts the byte stream into arbitrary chunks. The locale
  \<open>plc_session\<close> is the contract of a client's memory access as byte and bit images; it is
  interpreted on the transport connected to the mock.
\<close>

section \<open>Interface: memory access of a client\<close>

locale plc_session =
  fixes read_words :: "'s \<Rightarrow> u8 \<Rightarrow> u16 \<Rightarrow> u16 \<Rightarrow> (FinsError, bytes) go \<times> 's"
    and write_words :: "'s \<Rightarrow> u8 \<Rightarrow> u16 \<Rightarrow> u16 \<Rightarrow> bytes \<Rightarrow> (FinsError, unit) go \<times> 's"
    and read_flags :: "'s \<Rightarrow> u8 \<Rightarrow> u16 \<Rightarrow> u8 \<Rightarrow> u16 \<Rightarrow> (FinsError, bool list) go \<times> 's"
    and write_flags :: "'s \<Rightarrow> u8 \<Rightarrow> u16 \<Rightarrow> u8 \<Rightarrow> bool list \<Rightarrow> (FinsError, unit) go \<times> 's"
    and image :: "'s \<Rightarrow> u8 \<rightharpoonup> bytes"
    and flags :: "'s \<Rightarrow> u8 \<rightharpoonup> bool list"
    and live :: "'s \<Rightarrow> bool"
  assumes read_words_ok: "live s \<Longrightarrow> image s c = Some bs \<Longrightarrow> 2 * (unat a + unat n) \<le> length bs \<Longrightarrow>
      fst (read_words s c a n) = Ok (slice bs (2 * unat a) (2 * (unat a + unat n)))"
    and read_words_exceeds: "live s \<Longrightarrow> image s c = Some bs \<Longrightarrow>
      length bs < 2 * (unat a + unat n) \<Longrightarrow> \<exists>e. fst (read_words s c a n) = Err e"
    and read_words_keeps: "live s \<Longrightarrow> live (snd (read_words s c a n)) \<and>
      image (snd (read_words s c a n)) = image s \<and> flags (snd (read_words s c a n)) = flags s"
    and write_words_ok: "live s \<Longrightarrow> image s c = Some bs \<Longrightarrow> 2 * (unat a + unat n) \<le> length bs \<Longrightarrow>
      length d \<le> 2 * unat n \<Longrightarrow> fst (write_words s c a n d) = Ok () \<and>
      image (snd (write_words s c a n d)) = (image s)(c \<mapsto> copy_at bs (2 * unat a) d)"
    and write_words_live: "live s \<Longrightarrow> length d \<le> 2 * unat n \<Longrightarrow> live (snd (write_words s c a n d))"
    and read_flags_ok: "live s \<Longrightarrow> flags s c = Some bl \<Longrightarrow>
      unat a * 16 + unat k + unat n \<le> length bl \<Longrightarrow>
      fst (read_flags s c a k n) = Ok (slice bl (unat a * 16 + unat k) (unat a * 16 + unat k + unat n))"
    and read_flags_keeps: "live s \<Longrightarrow> live (snd (read_flags s c a k n)) \<and>
      image (snd (read_flags s c a k n)) = image s \<and> flags (snd (read_flags s c a k n)) = flags s"
    and write_flags_ok: "live s \<Longrightarrow> flags s c = Some bl \<Longrightarrow>
      unat a * 16 + unat k + length vs \<le> length bl \<Longrightarrow> length vs < 65536 \<Longrightarrow>
      fst (write_flags s c a k vs) = Ok () \<and>
      flags (snd (write_flags s c a k vs)) = (flags s)(c \<mapsto> copy_at bl (unat a * 16 + unat k) vs)"
    and write_flags_live: "live s \<Longrightarrow> length vs < 65536 \<Longrightarrow> live (snd (write_flags s c a k vs))"
begin

text \<open>One read of a range and a read of each part of it give the same bytes.\<close>

lemma batch_read:
  assumes "live s" and "fst (read_words s c a n) = Ok bs" and "image s c = Some im"
    and "unat a \<le> unat b" and "unat b + unat k \<le> unat a + unat n"
  shows "fst (read_words (snd (read_words s c a n)) c b k) =
    Ok (slice bs (2 * (unat b - unat a)) (2 * (unat b - unat a + unat k)))"
proof -
  have range: "2 * (unat a + unat n) \<le> length im"
  proof (rule ccontr)
    assume "\<not> 2 * (unat a + unat n) \<le> length im"
    then obtain e where "fst (read_words s c a n) = Err e"
      using read_words_exceeds [OF assms(1,3), of a n] by auto
    then show False using assms(2) by simp
  qed
  then have bs: "bs = slice im (2 * unat a) (2 * (unat a + unat n))"
    using read_words_ok [OF assms(1,3)] assms(2) by simp
  have "live (snd (read_words s c a n))" "image (snd (read_words s c a n)) c = Some im"
    using read_words_keeps [OF assms(1)] assms(3) by simp_all
  then have "fst (read_words (snd (read_words s c a n)) c b k) =
      Ok (slice im (2 * unat b) (2 * (unat b + unat k)))"
    using read_words_ok [of "snd (read_words s c a n)" c im b k] range assms(5) by simp
  moreover have "slice (slice im (2 * unat a) (2 * (unat a + unat n)))
      (2 * (unat b - unat a)) (2 * (unat b - unat a + unat k)) =
      slice im (2 * unat a + 2 * (unat b - unat a)) (2 * unat a + 2 * (unat b - unat a + unat k))"
    using range assms(4,5) by (intro slice_slice) simp_all
  moreover have "2 * unat a + 2 * (unat b - unat a) = 2 * unat b"
    "2 * unat a + 2 * (unat b - unat a + unat k) = 2 * (unat b + unat k)"
    using assms(4) by simp_all
  ultimately show ?thesis by (simp add: bs)
qed

text \<open>A write is read back; it leaves the other areas and the other words alone.\<close>

lemma read_after_write:
  assumes "live s" and "image s c = Some im" and "2 * (unat a + unat n) \<le> length im"
    and "length d = 2 * unat n"
  shows "fst (write_words s c a n d) = Ok () \<and>
    fst (read_words (snd (write_words s c a n d)) c a n) = Ok d"
proof -
  let ?s = "snd (write_words s c a n d)"
  have w: "fst (write_words s c a n d) = Ok ()" "image ?s c = Some (copy_at im (2 * unat a) d)"
    using write_words_ok [OF assms(1-3), of d] assms(4) by simp_all
  have "live ?s" using write_words_live [OF assms(1)] assms(4) by simp
  then have "fst (read_words ?s c a n) =
      Ok (slice (copy_at im (2 * unat a) d) (2 * unat a) (2 * (unat a + unat n)))"
    using read_words_ok [of ?s c "copy_at im (2 * unat a) d" a n] w(2) assms(3,4) by simp
  moreover have "slice (copy_at im (2 * unat a) d) (2 * unat a) (2 * unat a + length d) = d"
    using assms(3,4) by (intro slice_copy_at_same) simp_all
  ultimately show ?thesis using w(1) assms(4) by (simp add: distrib_left)
qed

lemma read_other_after_write:
  assumes "live s" and "image s c = Some im" and "2 * (unat a + unat n) \<le> length im"
    and "length d = 2 * unat n" and "image s c' = Some im'" and "2 * (unat b + unat k) \<le> length im'"
    and "c' \<noteq> c \<or> unat b + unat k \<le> unat a \<or> unat a + unat n \<le> unat b"
  shows "fst (read_words (snd (write_words s c a n d)) c' b k) = fst (read_words s c' b k)"
proof -
  let ?s = "snd (write_words s c a n d)"
  have im: "image ?s = (image s)(c \<mapsto> copy_at im (2 * unat a) d)"
    using write_words_ok [OF assms(1-3), of d] assms(4) by simp
  have live: "live ?s" using write_words_live [OF assms(1)] assms(4) by simp
  have "fst (read_words s c' b k) = Ok (slice im' (2 * unat b) (2 * (unat b + unat k)))"
    using read_words_ok [OF assms(1,5,6)] .
  moreover have "fst (read_words ?s c' b k) = Ok (slice im' (2 * unat b) (2 * (unat b + unat k)))"
  proof (cases "c' = c")
    case True
    have "slice (copy_at im (2 * unat a) d) (2 * unat b) (2 * (unat b + unat k)) =
        slice im (2 * unat b) (2 * (unat b + unat k))"
      using assms(2,3,4,5,6,7) True by (intro slice_copy_at_disjoint) auto
    then show ?thesis
      using read_words_ok [OF live, of c "copy_at im (2 * unat a) d" b k] im True assms(2,3,4,5,6) by simp
  next
    case False
    then show ?thesis using read_words_ok [OF live, of c' im' b k] im assms(5,6) by simp
  qed
  ultimately show ?thesis by simp
qed

text \<open>Bits: what was written is read back.\<close>

lemma flag_after_write:
  assumes "live s" and "flags s c = Some bl" and "unat a * 16 + unat k + length vs \<le> length bl"
    and "length vs < 65536"
  shows "fst (write_flags s c a k vs) = Ok () \<and>
    fst (read_flags (snd (write_flags s c a k vs)) c a k (word_of_nat (length vs))) = Ok vs"
proof -
  let ?s = "snd (write_flags s c a k vs)"
  have w: "fst (write_flags s c a k vs) = Ok ()"
      "flags ?s c = Some (copy_at bl (unat a * 16 + unat k) vs)"
    using write_flags_ok [OF assms] by simp_all
  have n: "unat (word_of_nat (length vs) :: u16) = length vs"
    using assms(4) by (simp add: unsigned_of_nat take_bit_nat_eq_self)
  have "fst (read_flags ?s c a k (word_of_nat (length vs))) =
      Ok (slice (copy_at bl (unat a * 16 + unat k) vs) (unat a * 16 + unat k)
        (unat a * 16 + unat k + length vs))"
    using read_flags_ok [of ?s c "copy_at bl (unat a * 16 + unat k) vs" a k "word_of_nat (length vs)"]
      w(2) assms(3) n write_flags_live [OF assms(1,4)] by simp
  then show ?thesis
    using w(1) slice_copy_at_same [of "unat a * 16 + unat k" vs bl] assms(3) by simp
qed

end

section \<open>The mock PLC as the network\<close>

text \<open>The world is the PLC, the unprocessed bytes of its connection loop, the bytes on their way
  to the client, and the clock. \<open>cuts\<close> decides where the bytes to the client are cut.\<close>

record MockNet =
  mn_plc :: MockPLC
  mn_acc :: bytes
  mn_out :: bytes
  mn_time :: int

fun cut_chunks :: "nat list \<Rightarrow> bytes \<Rightarrow> bytes list" where
  "cut_chunks [] bs = [bs]"
| "cut_chunks (k # ks) bs = take k bs # cut_chunks ks (drop k bs)"

definition mock_env :: "(bytes \<Rightarrow> nat list) \<Rightarrow> MockNet Env" where
  "mock_env cuts =
     \<lparr>env_dial = (\<lambda>w _ _. (Inr (''client'', ''mock''), w\<lparr>mn_acc := [], mn_out := []\<rparr>)),
      env_write = (\<lambda>w bs.
        case handleConnection_read (mn_plc w) (mn_acc w) bs of
          (Ok (m, out), acc) \<Rightarrow> (None, w\<lparr>mn_plc := m, mn_acc := acc, mn_out := mn_out w @ out\<rparr>)
        | _ \<Rightarrow> (Some ''broken pipe'', w)),
      env_events = (\<lambda>w. (map Received (cut_chunks (cuts (mn_out w)) (mn_out w)), w\<lparr>mn_out := []\<rparr>)),
      env_close = id,
      env_now = (\<lambda>w. (mn_time w, w)),
      env_after = (\<lambda>w d. (None, w\<lparr>mn_time := mn_time w + d\<rparr>)),
      env_sleep = (\<lambda>w d. w\<lparr>mn_time := mn_time w + d\<rparr>)\<rparr>"

lemma concat_cut_chunks [simp]: "concat (cut_chunks ks bs) = bs"
  by (induction ks arbitrary: bs) simp_all

text \<open>A session is live: the client is connected, nothing is on its way, the PLC is intact.\<close>

definition session_live :: "Transport \<times> MockNet \<Rightarrow> bool" where
  "session_live s \<longleftrightarrow> (case s of (t, w) \<Rightarrow>
     transport_inv t \<and> t_accumulator t = Some [] \<and> mn_acc w = [] \<and> mn_out w = [] \<and> mock_wf (mn_plc w))"

lemma mock_serves:
  assumes "frame_fits f" and "mock_handleRequest m f = Ok (resp, m')"
  shows "handleConnection_read m [] (wire_frame f) = (Ok (m', wire_frame resp), [])"
  using assms frames_of_wire_frame [OF assms(1), of "[]"]
  by (simp add: handleConnection_read_def readLoop_read_def readLoop_inner_frames mock_dispatch_def
      wire_frame_def)

lemma SendCommand_mock:
  assumes "session_live (t, w)" and "2 \<le> length cmd" and "length cmd < 2 ^ 31"
    and "mock_handleRequest (mn_plc w) (command_frame t cmd) = Ok (resp, m')" and "frame_fits resp"
  shows "\<exists>t'. SendCommand (mock_env cuts) t w cmd = (Ok resp, t', w\<lparr>mn_plc := m'\<rparr>) \<and>
    session_live (t', w\<lparr>mn_plc := m'\<rparr>)"
proof -
  have inv: "transport_inv t" "t_accumulator t = Some []" and w: "mn_acc w = []" "mn_out w = []"
      and wf: "mock_wf (mn_plc w)"
    using assms(1) by (simp_all add: session_live_def)
  obtain resp0 m0 where "mock_handleRequest (mn_plc w) (command_frame t cmd) = Ok (resp0, m0)"
      "mock_wf m0" "SID (ff_Header resp0) = SID (ff_Header (command_frame t cmd))"
    using mock_request_answered [OF wf] by blast
  then have resp: "mock_wf m'" "SID (ff_Header resp) = fst (nextSID t)"
    using assms(4) by (simp_all add: command_frame_def DefaultCommandHeader_def)
  have "frame_fits (command_frame t cmd)" using assms(3) by (simp add: frame_fits_def command_frame_def)
  then have served: "handleConnection_read (mn_plc w) [] (wire_frame (command_frame t cmd)) =
      (Ok (m', wire_frame resp), [])"
    using mock_serves assms(4) by blast
  define w1 where "w1 = w\<lparr>mn_plc := m', mn_acc := [], mn_out := wire_frame resp\<rparr>"
  have wr: "env_write (mock_env cuts) w (wire_frame (command_frame t cmd)) = (None, w1)"
    using served w by (simp add: mock_env_def w1_def)
  have w2: "w1\<lparr>mn_out := []\<rparr> = w\<lparr>mn_plc := m'\<rparr>" using w by (cases w) (simp add: w1_def)
  have evs: "env_events (mock_env cuts) w1 =
      (map Received (cut_chunks (cuts (wire_frame resp)) (wire_frame resp)), w\<lparr>mn_plc := m'\<rparr>)"
    using w2 by (simp add: mock_env_def w1_def)
  have "frames_of (wire_frame resp) = ([resp], [])" using frames_of_wire_frame [OF assms(5), of "[]"] by simp
  moreover have "first_with (fst (nextSID t)) [resp] = Some resp" using resp by (simp add: first_with_def)
  ultimately show ?thesis
    using SendCommand_chunks [OF inv assms(2) wr evs] w resp(1) by (auto simp: session_live_def)
qed

lemma length_mock_readMemory: "length (fst (mock_readMemory m a n)) \<le> 2 * unat n"
  by (auto simp: mock_readMemory_def Let_def slice_def split: option.split prod.split)

definition response_to :: "FINSFrame \<Rightarrow> u16 \<Rightarrow> bytes \<Rightarrow> FINSFrame" where
  "response_to req e d =
     \<lparr>ff_Header = DefaultResponseHeader (ff_Header req), ff_CommandCode = ff_CommandCode req,
      ff_EndCode = e, ff_Data = d\<rparr>"

lemma mock_read_request:
  "mock_handleRequest m (command_frame t (EncodeReadCommand a n)) =
     Ok (response_to (command_frame t (EncodeReadCommand a n)) (snd (mock_readMemory m a n))
           (fst (mock_readMemory m a n)), m)"
proof -
  have d: "ff_Data (command_frame t (EncodeReadCommand a n)) = EncodeMemoryAddress a @ be16 n"
    and c: "ff_CommandCode (command_frame t (EncodeReadCommand a n)) = MRC_MEMORY_AREA_READ"
    by (simp_all add: command_frame_def EncodeReadCommand_def slice_def)
  have "slice (EncodeMemoryAddress a @ be16 n) 0 4 = EncodeMemoryAddress a"
    "slice (EncodeMemoryAddress a @ be16 n) 4 6 = be16 n"
    by (simp_all add: slice_def)
  then show ?thesis
    using DecodeMemoryAddress_EncodeMemoryAddress [of a "[]"]
    by (simp add: mock_handleRequest_def d c Let_def response_to_def split_beta)
qed

lemma mock_write_request:
  "mock_handleRequest m (command_frame t (EncodeWriteCommand a n d)) =
     Ok (response_to (command_frame t (EncodeWriteCommand a n d)) (snd (mock_writeMemory m a n d)) [],
         fst (mock_writeMemory m a n d))"
proof -
  have d: "ff_Data (command_frame t (EncodeWriteCommand a n d)) = EncodeMemoryAddress a @ be16 n @ d"
    and c: "ff_CommandCode (command_frame t (EncodeWriteCommand a n d)) = MRC_MEMORY_AREA_WRITE"
    by (simp_all add: command_frame_def EncodeWriteCommand_def slice_def)
  have "slice (EncodeMemoryAddress a @ be16 n @ d) 0 4 = EncodeMemoryAddress a"
    "slice (EncodeMemoryAddress a @ be16 n @ d) 4 6 = be16 n"
    "drop 6 (EncodeMemoryAddress a @ be16 n @ d) = d"
    by (simp_all add: slice_def)
  then show ?thesis
    using DecodeMemoryAddress_EncodeMemoryAddress [of a "[]"]
    by (simp add: mock_handleRequest_def d c Let_def response_to_def split_beta fins_consts)
qed

lemma SendCommand_read_mock:
  assumes "session_live (t, w)"
  shows "\<exists>t'. SendCommand (mock_env cuts) t w (EncodeReadCommand a n) =
      (Ok (response_to (command_frame t (EncodeReadCommand a n)) (snd (mock_readMemory (mn_plc w) a n))
           (fst (mock_readMemory (mn_plc w) a n))), t', w) \<and> session_live (t', w)"
proof -
  have "unat n < 65536" using unsigned_less [of n] by simp
  then have "frame_fits (response_to (command_frame t (EncodeReadCommand a n))
      (snd (mock_readMemory (mn_plc w) a n)) (fst (mock_readMemory (mn_plc w) a n)))"
    using length_mock_readMemory [of "mn_plc w" a n] by (simp add: frame_fits_def response_to_def)
  then show ?thesis
    using SendCommand_mock [OF assms _ _ mock_read_request, of a n cuts] by simp
qed

lemma SendCommand_write_mock:
  assumes "session_live (t, w)" and "length d \<le> 2 * unat n"
  shows "\<exists>t'. SendCommand (mock_env cuts) t w (EncodeWriteCommand a n d) =
      (Ok (response_to (command_frame t (EncodeWriteCommand a n d))
         (snd (mock_writeMemory (mn_plc w) a n d)) []), t',
       w\<lparr>mn_plc := fst (mock_writeMemory (mn_plc w) a n d)\<rparr>) \<and>
    session_live (t', w\<lparr>mn_plc := fst (mock_writeMemory (mn_plc w) a n d)\<rparr>)"
proof -
  have "unat n < 65536" using unsigned_less [of n] by simp
  then show ?thesis
    using SendCommand_mock [OF assms(1) _ _ mock_write_request, of a n d cuts] assms(2)
    by (simp add: frame_fits_def response_to_def)
qed

lemma check_end_code_response:
  "check_end_code (response_to req e d) =
     (if e = 0 then Ok (response_to req e d) else Err (ErrFINS (EndCodeText e) e))"
  by (simp add: check_end_code_def response_to_def END_CODE_NORMAL_def)

lemma ReadMemory_mock:
  assumes "session_live (t, w)" and "mock_readMemory (mn_plc w) (NewMemoryAddress c a) n = (d, e)"
  shows "\<exists>t'. ReadMemory (mock_env cuts) t w c a n =
    (if e = 0 then Ok d else Err (ErrFINS (EndCodeText e) e), t', w) \<and> session_live (t', w)"
  using SendCommand_read_mock [OF assms(1), of cuts "NewMemoryAddress c a" n] assms(2)
  by (auto simp: ReadMemory_def check_end_code_response) (simp_all add: response_to_def)

lemma WriteMemory_mock:
  assumes "session_live (t, w)" and "mock_writeMemory (mn_plc w) (NewMemoryAddress c a) n d = (m', e)"
    and "length d \<le> 2 * unat n"
  shows "\<exists>t'. WriteMemory (mock_env cuts) t w c a n d =
    (if e = 0 then Ok () else Err (ErrFINS (EndCodeText e) e), t', w\<lparr>mn_plc := m'\<rparr>) \<and>
    session_live (t', w\<lparr>mn_plc := m'\<rparr>)"
  using SendCommand_write_mock [OF assms(1,3), of cuts "NewMemoryAddress c a"] assms(2)
  by (auto simp: WriteMemory_def check_end_code_response)

lemma ReadBits_mock:
  assumes "session_live (t, w)" and "mock_readMemory (mn_plc w) (NewMemoryAddressWithBit c a k) n = (d, e)"
  shows "\<exists>t'. ReadBits (mock_env cuts) t w c a k n =
    (if e = 0 then Ok (map (\<lambda>i. i < length d \<and> d ! i AND 1 \<noteq> 0) [0..<unat n])
     else Err (ErrFINS (EndCodeText e) e), t', w) \<and> session_live (t', w)"
  using SendCommand_read_mock [OF assms(1), of cuts "NewMemoryAddressWithBit c a k" n] assms(2)
  by (auto simp: ReadBits_def check_end_code_response) (simp_all add: response_to_def)

lemma WriteBits_mock:
  assumes "session_live (t, w)" and "length vs < 65536"
    and "mock_writeMemory (mn_plc w) (NewMemoryAddressWithBit c a k) (word_of_nat (length vs))
      (map (\<lambda>v. if v then 1 else 0) vs) = (m', e)"
  shows "\<exists>t'. WriteBits (mock_env cuts) t w c a k vs =
    (if e = 0 then Ok () else Err (ErrFINS (EndCodeText e) e), t', w\<lparr>mn_plc := m'\<rparr>) \<and>
    session_live (t', w\<lparr>mn_plc := m'\<rparr>)"
proof -
  have "unat (word_of_nat (length vs) :: u16) = length vs"
    using assms(2) by (simp add: unsigned_of_nat take_bit_nat_eq_self)
  then show ?thesis
    using SendCommand_write_mock [OF assms(1), of "map (\<lambda>v. if v then 1 else 0) vs"
        "word_of_nat (length vs)" cuts "NewMemoryAddressWithBit c a k"] assms(3)
    by (auto simp: WriteBits_def check_end_code_response)
qed

section \<open>The session implements the contract\<close>

definition session_image :: "Transport \<times> MockNet \<Rightarrow> u8 \<rightharpoonup> bytes" where
  "session_image s = mock_img (mn_plc (snd s))"

definition area_flags :: "bytes \<Rightarrow> bool list" where
  "area_flags area = map (\<lambda>p. read_bit area p \<noteq> 0) [0..<8 * length area]"

definition session_flags :: "Transport \<times> MockNet \<Rightarrow> u8 \<rightharpoonup> bool list" where
  "session_flags s c = map_option (\<lambda>(ar, _). area_flags (area_bytes (mn_plc (snd s)) ar)) (getBitArea c)"

lemma getArea_inj: "getArea c = Some (ar, n) \<Longrightarrow> getArea c' = Some (ar, n') \<Longrightarrow> c' = c"
  by (auto simp: getArea_def fins_consts split: if_splits)

lemma getBitArea_inj: "getBitArea c = Some (ar, n) \<Longrightarrow> getBitArea c' = Some (ar, n') \<Longrightarrow> c' = c"
  by (auto simp: getBitArea_def fins_consts split: if_splits)

lemma mock_img_set:
  assumes "getArea c = Some (ar, k)"
  shows "mock_img (area_set m ar bs) = (mock_img m)(c \<mapsto> bs)"
proof
  fix c'
  show "mock_img (area_set m ar bs) c' = ((mock_img m)(c \<mapsto> bs)) c'"
    using assms getArea_inj [OF assms, of c']
    by (cases "getArea c'") (auto simp: mock_img_def area_bytes_set)
qed

lemma session_flags_set:
  assumes "getBitArea c = Some (ar, k)"
  shows "session_flags (t', w\<lparr>mn_plc := area_set (mn_plc w) ar bs\<rparr>) =
    (session_flags (t, w))(c \<mapsto> area_flags bs)"
proof
  fix c'
  show "session_flags (t', w\<lparr>mn_plc := area_set (mn_plc w) ar bs\<rparr>) c' =
      ((session_flags (t, w))(c \<mapsto> area_flags bs)) c'"
    using assms getBitArea_inj [OF assms, of c']
    by (cases "getBitArea c'") (auto simp: session_flags_def area_bytes_set)
qed

lemma word_write_image:
  assumes "mock_wf m" and "mock_img m c = Some bs" and "2 * (unat a + unat n) \<le> length bs"
    and "length d \<le> 2 * unat n"
  shows "\<exists>m'. mock_writeMemory m (NewMemoryAddress c a) n d = (m', 0) \<and>
    mock_img m' = (mock_img m)(c \<mapsto> copy_at bs (2 * unat a) d)"
proof -
  obtain ar k where ar: "getArea c = Some (ar, k)" "bs = area_bytes m ar"
    using assms(2) by (auto simp: mock_img_def)
  have "mock_writeMemory m (NewMemoryAddress c a) n d = (area_set m ar (copy_at bs (2 * unat a) d), 0)"
    using ar assms(3,4) getArea_Some [OF ar(1)]
    by (simp add: mock_writeMemory_def NewMemoryAddress_def Let_def END_CODE_NORMAL_def algebra_simps)
  then show ?thesis using mock_img_set [OF ar(1)] by simp
qed

lemma read_bit_and_1: "read_bit area p AND 1 \<noteq> 0 \<longleftrightarrow> read_bit area p \<noteq> 0"
  by (simp add: read_bit_def)

lemma bit_read_flags:
  assumes "mock_wf m" and "getBitArea c = Some (ar, k)"
    and "unat a * 16 + unat b + unat n \<le> length (area_flags (area_bytes m ar))"
  shows "\<exists>d. mock_readMemory m (NewMemoryAddressWithBit c a b) n = (d, 0) \<and>
    map (\<lambda>i. i < length d \<and> d ! i AND 1 \<noteq> 0) [0..<unat n] =
      slice (area_flags (area_bytes m ar)) (unat a * 16 + unat b) (unat a * 16 + unat b + unat n)"
proof -
  let ?p = "unat a * 16 + unat b"
  have k: "k = area_words ar * 16" "IsBitArea c" "\<not> IsWordArea c" using getBitArea_Some [OF assms(2)] by simp_all
  have len: "length (area_bytes m ar) = area_words ar * 2" using mock_wf_area [OF assms(1)] .
  have r: "mock_readMemory m (NewMemoryAddressWithBit c a b) n =
      (map (\<lambda>i. read_bit (area_bytes m ar) (?p + i)) [0..<unat n], 0)"
    using assms(2,3) k len
    by (simp add: mock_readMemory_def NewMemoryAddressWithBit_def Let_def area_flags_def END_CODE_NORMAL_def)
  moreover have "map (\<lambda>i. i < length d \<and> d ! i AND 1 \<noteq> 0) [0..<unat n] =
      slice (area_flags (area_bytes m ar)) ?p (?p + unat n)"
    if "d = map (\<lambda>i. read_bit (area_bytes m ar) (?p + i)) [0..<unat n]" for d
    using that assms(3)
    by (intro nth_equalityI) (simp_all add: read_bit_and_1 area_flags_def)
  ultimately show ?thesis by blast
qed

lemma area_flags_write:
  assumes "length area = n * 2" and "p + length vs \<le> n * 16"
  shows "area_flags (write_bits area p (map (\<lambda>v. if v then 1 else 0) vs)) = copy_at (area_flags area) p vs"
proof (rule nth_equalityI)
  show "length (area_flags (write_bits area p (map (\<lambda>v. if v then 1 else 0) vs))) =
      length (copy_at (area_flags area) p vs)"
    using assms by (simp add: area_flags_def)
next
  fix q
  assume "q < length (area_flags (write_bits area p (map (\<lambda>v. if v then 1 else 0) vs)))"
  then have q: "q < n * 16" using assms(1) by (simp add: area_flags_def)
  have "(map (\<lambda>v. if v then 1 else 0 :: u8) vs ! (q - p) \<noteq> 0) = vs ! (q - p)" if "p \<le> q" "q < p + length vs"
    using that by simp
  then show "area_flags (write_bits area p (map (\<lambda>v. if v then 1 else 0) vs)) ! q =
      copy_at (area_flags area) p vs ! q"
    using read_bit_write_bits [of p "map (\<lambda>v. if v then 1 else 0) vs" n q area] assms q
    by (auto simp: area_flags_def nth_copy_at)
qed

lemma bit_write_flags:
  assumes "mock_wf m" and "getBitArea c = Some (ar, k)" and "length vs < 65536"
    and "unat a * 16 + unat b + length vs \<le> length (area_flags (area_bytes m ar))"
  shows "\<exists>m' bs. mock_writeMemory m (NewMemoryAddressWithBit c a b) (word_of_nat (length vs))
      (map (\<lambda>v. if v then 1 else 0) vs) = (m', 0) \<and> m' = area_set m ar bs \<and>
    area_flags bs = copy_at (area_flags (area_bytes m ar)) (unat a * 16 + unat b) vs"
proof -
  have k: "k = area_words ar * 16" "IsBitArea c" "\<not> IsWordArea c" using getBitArea_Some [OF assms(2)] by simp_all
  have len: "length (area_bytes m ar) = area_words ar * 2" using mock_wf_area [OF assms(1)] .
  have n: "unat (word_of_nat (length vs) :: u16) = length vs"
    using assms(3) by (simp add: unsigned_of_nat take_bit_nat_eq_self)
  have "mock_writeMemory m (NewMemoryAddressWithBit c a b) (word_of_nat (length vs))
      (map (\<lambda>v. if v then 1 else 0) vs) =
      (area_set m ar (write_bits (area_bytes m ar) (unat a * 16 + unat b)
         (map (\<lambda>v. if v then 1 else 0) vs)), 0)"
    using assms(2,4) k len n
    by (simp add: mock_writeMemory_def NewMemoryAddressWithBit_def Let_def area_flags_def END_CODE_NORMAL_def)
  moreover have "length (area_flags (area_bytes m ar)) = area_words ar * 16" by (simp add: area_flags_def len)
  ultimately show ?thesis
    using area_flags_write [OF len, of "unat a * 16 + unat b" vs] assms(4) by auto
qed

interpretation session: plc_session
  "\<lambda>s. case s of (t, w) \<Rightarrow> ReadMemory (mock_env cuts) t w"
  "\<lambda>s. case s of (t, w) \<Rightarrow> WriteMemory (mock_env cuts) t w"
  "\<lambda>s. case s of (t, w) \<Rightarrow> ReadBits (mock_env cuts) t w"
  "\<lambda>s. case s of (t, w) \<Rightarrow> WriteBits (mock_env cuts) t w"
  session_image session_flags session_live for cuts
proof (unfold_locales, goal_cases)
  case (1 s c bs a n)
  obtain t w where s: "s = (t, w)" by fastforce
  have "mock_readMemory (mn_plc w) (NewMemoryAddress c a) n =
      (slice bs (2 * unat a) (2 * (unat a + unat n)), 0)"
    using mock_mem.rd_image [of "mn_plc w" "NewMemoryAddress c a" bs n] 1
    by (simp add: s session_live_def session_image_def NewMemoryAddress_def)
  from ReadMemory_mock [OF _ this, of t cuts] show ?case using 1(1) by (auto simp: s)
next
  case (2 s c bs a n)
  obtain t w where s: "s = (t, w)" by fastforce
  have "mock_readMemory (mn_plc w) (NewMemoryAddress c a) n = ([], 0x1104)"
    using mock_mem.rd_exceeds [of "mn_plc w" "NewMemoryAddress c a" bs n] 2
    by (simp add: s session_live_def session_image_def NewMemoryAddress_def)
  from ReadMemory_mock [OF _ this, of t cuts] show ?case using 2(1) by (auto simp: s)
next
  case (3 s c a n)
  obtain t w where s: "s = (t, w)" by fastforce
  obtain d e where "mock_readMemory (mn_plc w) (NewMemoryAddress c a) n = (d, e)" by fastforce
  from ReadMemory_mock [OF _ this, of t cuts] show ?case
    using 3 by (auto simp: s session_image_def session_flags_def fun_eq_iff)
next
  case (4 s c bs a n d)
  obtain t w where s: "s = (t, w)" by fastforce
  obtain m' where "mock_writeMemory (mn_plc w) (NewMemoryAddress c a) n d = (m', 0)"
      "mock_img m' = (mock_img (mn_plc w))(c \<mapsto> copy_at bs (2 * unat a) d)"
    using word_write_image [of "mn_plc w" c bs a n d] 4 by (auto simp: s session_live_def session_image_def)
  from WriteMemory_mock [OF _ this(1), of t cuts] this(2) show ?case
    using 4 by (auto simp: s session_image_def)
next
  case (5 s d n c a)
  obtain t w where s: "s = (t, w)" by fastforce
  obtain m' e where "mock_writeMemory (mn_plc w) (NewMemoryAddress c a) n d = (m', e)" by fastforce
  from WriteMemory_mock [OF _ this, of t cuts] show ?case using 5 by (auto simp: s)
next
  case (6 s c bl a k n)
  obtain t w where s: "s = (t, w)" by fastforce
  obtain ar x where ar: "getBitArea c = Some (ar, x)" "bl = area_flags (area_bytes (mn_plc w) ar)"
    using 6(2) by (auto simp: s session_flags_def)
  obtain d where "mock_readMemory (mn_plc w) (NewMemoryAddressWithBit c a k) n = (d, 0)"
      "map (\<lambda>i. i < length d \<and> d ! i AND 1 \<noteq> 0) [0..<unat n] =
        slice bl (unat a * 16 + unat k) (unat a * 16 + unat k + unat n)"
    using bit_read_flags [OF _ ar(1), of "mn_plc w" a k n] 6(1,3) ar(2) by (auto simp: s session_live_def)
  from ReadBits_mock [OF _ this(1), of t cuts] this(2) show ?case using 6(1) by (auto simp: s)
next
  case (7 s c a k n)
  obtain t w where s: "s = (t, w)" by fastforce
  obtain d e where "mock_readMemory (mn_plc w) (NewMemoryAddressWithBit c a k) n = (d, e)" by fastforce
  from ReadBits_mock [OF _ this, of t cuts] show ?case
    using 7 by (auto simp: s session_image_def session_flags_def fun_eq_iff)
next
  case (8 s c bl a k vs)
  obtain t w where s: "s = (t, w)" by fastforce
  obtain ar x where ar: "getBitArea c = Some (ar, x)" "bl = area_flags (area_bytes (mn_plc w) ar)"
    using 8(2) by (auto simp: s session_flags_def)
  obtain m' bs where m': "mock_writeMemory (mn_plc w) (NewMemoryAddressWithBit c a k)
      (word_of_nat (length vs)) (map (\<lambda>v. if v then 1 else 0) vs) = (m', 0)"
      "m' = area_set (mn_plc w) ar bs" "area_flags bs = copy_at bl (unat a * 16 + unat k) vs"
    using bit_write_flags [OF _ ar(1) 8(4), of "mn_plc w" a k] 8(1,3) ar(2) by (auto simp: s session_live_def)
  from WriteBits_mock [OF _ 8(4) this(1), of t cuts] this(2,3) show ?case
    using 8(1) session_flags_set [OF ar(1), of _ w bs t]
    by (auto simp: s)
next
  case (9 s vs c a k)
  obtain t w where s: "s = (t, w)" by fastforce
  obtain m' e where "mock_writeMemory (mn_plc w) (NewMemoryAddressWithBit c a k)
      (word_of_nat (length vs)) (map (\<lambda>v. if v then 1 else 0) vs) = (m', e)" by fastforce
  from WriteBits_mock [OF _ 9(2) this, of t cuts] show ?case using 9 by (auto simp: s)
qed

text \<open>Connecting to the mock opens a live session.\<close>

lemma Connect_session:
  assumes "transport_inv t" and "\<not> t_connected t" and "mock_wf (mn_plc w)"
  shows "\<exists>t' w'. Connect (mock_env cuts) t w = (Ok (), t', w') \<and> session_live (t', w') \<and> mn_plc w' = mn_plc w"
proof -
  obtain r t' w' where c: "Connect (mock_env cuts) t w = (r, t', w')" by (cases "Connect (mock_env cuts) t w")
  have "r = Ok () \<and> t_accumulator t' = Some [] \<and> mn_acc w' = [] \<and> mn_out w' = [] \<and> mn_plc w' = mn_plc w"
    using c assms(2) by (auto simp: Connect_def mock_env_def Let_def startHeartbeat_def split: if_splits)
  then show ?thesis using c Connect_inv [OF assms(1) c] assms(3) by (auto simp: session_live_def)
qed

definition fresh_net :: MockNet where
  "fresh_net = \<lparr>mn_plc = NewMockPLC, mn_acc = [], mn_out = [], mn_time = 0\<rparr>"

lemma fresh_session:
  "\<exists>t w. Connect (mock_env cuts) initial_transport fresh_net = (Ok (), t, w) \<and> session_live (t, w) \<and>
     mn_plc w = NewMockPLC"
proof -
  have "transport_inv initial_transport"
    by (rule transport_invI) (simp_all add: link_ok_def initial_transport_def)
  then show ?thesis
    using Connect_session [of initial_transport fresh_net cuts] mock_wf_New
    by (simp add: initial_transport_def fresh_net_def)
qed

section \<open>Properties\<close>

text \<open>C17. Client and PLC end to end: over a live session, whatever the chunks in which the responses
  arrive, a word write that fits the area succeeds, reading the range back returns the written
  bytes, and the session stays live.\<close>

theorem session_read_after_write:
  assumes "session_live (t, w)" and "getArea c = Some (ar, words)" and "unat a + unat n \<le> words"
    and "length d = 2 * unat n" and "WriteMemory (mock_env cuts) t w c a n d = (r1, t1, w1)"
    and "ReadMemory (mock_env cuts) t1 w1 c a n = (r2, t2, w2)"
  shows "r1 = Ok () \<and> r2 = Ok d \<and> session_live (t2, w2)"
proof -
  have im: "session_image (t, w) c = Some (area_bytes (mn_plc w) ar)"
    using assms(2) by (simp add: session_image_def mock_img_def)
  have "mock_wf (mn_plc w)" using assms(1) by (simp add: session_live_def)
  then have len: "2 * (unat a + unat n) \<le> length (area_bytes (mn_plc w) ar)"
    using assms(3) getArea_Some [OF assms(2)] by (simp add: mock_wf_area)
  have "r1 = Ok () \<and> r2 = Ok d"
    using session.read_after_write [OF assms(1) im len assms(4), of cuts] assms(5,6) by simp
  moreover have "session_live (t1, w1)"
    using session.write_words_live [OF assms(1), of d n cuts c a] assms(4,5) by simp
  then have "session_live (t2, w2)" using session.read_words_keeps [of "(t1, w1)" cuts c a n] assms(6) by simp
  ultimately show ?thesis by simp
qed

theorem session_read_after_write_witness:
  "\<exists>t w t1 w1 t2 w2. Connect (mock_env (\<lambda>_. [3, 11])) initial_transport fresh_net = (Ok (), t, w) \<and>
     WriteMemory (mock_env (\<lambda>_. [3, 11])) t w MemoryAreaDMWord 100 2 [1, 2, 3, 4] = (Ok (), t1, w1) \<and>
     ReadMemory (mock_env (\<lambda>_. [3, 11])) t1 w1 MemoryAreaDMWord 100 2 = (Ok [1, 2, 3, 4], t2, w2)"
proof -
  let ?env = "mock_env (\<lambda>_. [3, 11])"
  obtain t w where c: "Connect ?env initial_transport fresh_net = (Ok (), t, w)" "session_live (t, w)"
    using fresh_session by blast
  obtain r1 t1 w1 where 1: "WriteMemory ?env t w MemoryAreaDMWord 100 2 [1, 2, 3, 4] = (r1, t1, w1)"
    by (cases "WriteMemory ?env t w MemoryAreaDMWord 100 2 [1, 2, 3, 4]")
  obtain r2 t2 w2 where 2: "ReadMemory ?env t1 w1 MemoryAreaDMWord 100 2 = (r2, t2, w2)"
    by (cases "ReadMemory ?env t1 w1 MemoryAreaDMWord 100 2")
  have "r1 = Ok () \<and> r2 = Ok [1, 2, 3, 4]"
    using session_read_after_write [OF c(2) _ _ _ 1 2, of AreaDM MockDMWordSize]
    by (simp add: getArea_def mock_sizes)
  then show ?thesis using c 1 2 by blast
qed

text \<open>C18. A word write changes nothing else: over a live session, a read that fits any area and lies
  outside the written range gives after the write what it gave before it.\<close>

theorem session_write_frame:
  assumes "session_live (t, w)" and "getArea c = Some (ar, words)" and "unat a + unat n \<le> words"
    and "length d = 2 * unat n" and "getArea c' = Some (ar', words')" and "unat b + unat k \<le> words'"
    and "c' \<noteq> c \<or> unat b + unat k \<le> unat a \<or> unat a + unat n \<le> unat b"
    and "WriteMemory (mock_env cuts) t w c a n d = (r1, t1, w1)"
  shows "fst (ReadMemory (mock_env cuts) t1 w1 c' b k) = fst (ReadMemory (mock_env cuts) t w c' b k)"
proof -
  have wf: "mock_wf (mn_plc w)" using assms(1) by (simp add: session_live_def)
  have im: "session_image (t, w) c = Some (area_bytes (mn_plc w) ar)"
      "session_image (t, w) c' = Some (area_bytes (mn_plc w) ar')"
    using assms(2,5) by (simp_all add: session_image_def mock_img_def)
  have len: "2 * (unat a + unat n) \<le> length (area_bytes (mn_plc w) ar)"
      "2 * (unat b + unat k) \<le> length (area_bytes (mn_plc w) ar')"
    using assms(3,6) getArea_Some [OF assms(2)] getArea_Some [OF assms(5)] wf by (simp_all add: mock_wf_area)
  show ?thesis
    using session.read_other_after_write [OF assms(1) im(1) len(1) assms(4) im(2) len(2) assms(7), of cuts]
      assms(8) by simp
qed

theorem session_write_frame_witness:
  "\<exists>t w t1 w1. Connect (mock_env (\<lambda>_. [])) initial_transport fresh_net = (Ok (), t, w) \<and>
     WriteMemory (mock_env (\<lambda>_. [])) t w MemoryAreaDMWord 100 1 [1, 2] = (Ok (), t1, w1) \<and>
     fst (ReadMemory (mock_env (\<lambda>_. [])) t1 w1 MemoryAreaCIOWord 100 1) =
       fst (ReadMemory (mock_env (\<lambda>_. [])) t w MemoryAreaCIOWord 100 1)"
proof -
  let ?env = "mock_env (\<lambda>_. [])"
  obtain t w where c: "Connect ?env initial_transport fresh_net = (Ok (), t, w)" "session_live (t, w)"
      "mn_plc w = NewMockPLC"
    using fresh_session by blast
  obtain r1 t1 w1 where 1: "WriteMemory ?env t w MemoryAreaDMWord 100 1 [1, 2] = (r1, t1, w1)"
    by (cases "WriteMemory ?env t w MemoryAreaDMWord 100 1 [1, 2]")
  have "session_image (t, w) MemoryAreaDMWord = Some (dmArea NewMockPLC)"
    by (simp add: session_image_def mock_img_def getArea_def c(3))
  then have "r1 = Ok ()"
    using session.write_words_ok [OF c(2), of MemoryAreaDMWord "dmArea NewMockPLC" 100 1 "[1, 2]" "\<lambda>_. []"] 1
    by (simp add: NewMockPLC_def mock_sizes)
  moreover have "fst (ReadMemory ?env t1 w1 MemoryAreaCIOWord 100 1) =
      fst (ReadMemory ?env t w MemoryAreaCIOWord 100 1)"
    using session_write_frame [OF c(2) _ _ _ _ _ _ 1, of AreaDM MockDMWordSize MemoryAreaCIOWord AreaCIO
        MockCIOWordSize 100 1]
    by (simp add: getArea_def mock_sizes fins_consts)
  ultimately show ?thesis using c 1 by blast
qed

text \<open>C19. Bits end to end: over a live session, bits written through a bit area that fit it are
  read back as written.\<close>

theorem session_bits_after_write:
  assumes "session_live (t, w)" and "getBitArea c = Some (ar, maxBits)"
    and "unat a * 16 + unat k + length vs \<le> maxBits" and "length vs < 65536"
    and "WriteBits (mock_env cuts) t w c a k vs = (r1, t1, w1)"
    and "ReadBits (mock_env cuts) t1 w1 c a k (word_of_nat (length vs)) = (r2, t2, w2)"
  shows "r1 = Ok () \<and> r2 = Ok vs"
proof -
  have fl: "session_flags (t, w) c = Some (area_flags (area_bytes (mn_plc w) ar))"
    using assms(2) by (simp add: session_flags_def)
  have "mock_wf (mn_plc w)" using assms(1) by (simp add: session_live_def)
  then have "unat a * 16 + unat k + length vs \<le> length (area_flags (area_bytes (mn_plc w) ar))"
    using assms(3) getBitArea_Some [OF assms(2)] by (simp add: area_flags_def mock_wf_area)
  from session.flag_after_write [OF assms(1) fl this assms(4), of cuts] show ?thesis using assms(5,6) by simp
qed

theorem session_bits_after_write_witness:
  "\<exists>t w t1 w1 t2 w2. session_live (t, w) \<and>
     WriteBits (mock_env (\<lambda>_. [1])) t w MemoryAreaWRBit 3 14 [True, False, True] = (Ok (), t1, w1) \<and>
     ReadBits (mock_env (\<lambda>_. [1])) t1 w1 MemoryAreaWRBit 3 14 3 = (Ok [True, False, True], t2, w2)"
proof -
  let ?env = "mock_env (\<lambda>_. [1])"
  obtain t w where c: "session_live (t, w)" using fresh_session by blast
  obtain r1 t1 w1 where 1: "WriteBits ?env t w MemoryAreaWRBit 3 14 [True, False, True] = (r1, t1, w1)"
    by (cases "WriteBits ?env t w MemoryAreaWRBit 3 14 [True, False, True]")
  obtain r2 t2 w2 where 2: "ReadBits ?env t1 w1 MemoryAreaWRBit 3 14
      (word_of_nat (length [True, False, True])) = (r2, t2, w2)"
    by (cases "ReadBits ?env t1 w1 MemoryAreaWRBit 3 14 (word_of_nat (length [True, False, True]))")
  have "r1 = Ok () \<and> r2 = Ok [True, False, True]"
    using session_bits_after_write [OF c _ _ _ 1 2, of AreaW "MockWWordSize * 16"]
    by (simp add: getBitArea_def mock_sizes fins_consts)
  moreover have "(word_of_nat (length [True, False, True]) :: u16) = 3" by simp
  ultimately show ?thesis using c 1 2 by metis
qed

end
