(* ===== verification/Fins_Scheduler_Live.thy ===== *)
theory Fins_Scheduler_Live
  imports Fins_Scheduler_Groups Fins_Session
begin

text \<open>
  The scheduler over a live session with the mock PLC: what each point should read is defined
  from the PLC's memory alone, and reading a batch gives exactly that for every point, however
  the points are grouped. Then writing a point and reading it back.
\<close>

section \<open>What a point should read\<close>

text \<open>A point is ready when its range lies in an area of the PLC: a bit address in a bit area, or
  a word range in a word area, with data type STRING at a string address.\<close>

definition bit_code :: "ParsedAddress \<Rightarrow> u8" where
  "bit_code a = (case GetBitAreaCode (pa_AreaCode a) of Ok c \<Rightarrow> c | _ \<Rightarrow> pa_AreaCode a)"

definition core_size :: "Point \<times> ParsedAddress \<Rightarrow> int" where
  "core_size pa = point_size \<lparr>gp_point = fst pa, gp_parsed = snd pa, gp_offset = 0\<rparr>"

definition core_ready :: "(u8 \<rightharpoonup> bytes) \<Rightarrow> (u8 \<rightharpoonup> bool list) \<Rightarrow> Point \<times> ParsedAddress \<Rightarrow> bool" where
  "core_ready im fl pa \<longleftrightarrow> (case pa of (p, a) \<Rightarrow>
     0 \<le> pa_Address a \<and> pa_Address a < 65536 \<and>
     (if point_isBit p a
      then 0 \<le> pa_Bit a \<and> pa_Bit a \<le> 15 \<and>
        (case fl (bit_code a) of Some bl \<Rightarrow> nat (pa_Address a) * 16 + nat (pa_Bit a) < length bl | None \<Rightarrow> False)
      else (pa_IsString a \<longrightarrow> pt_DataType p = DataTypeSTRING) \<and> 0 < core_size pa \<and>
        pa_Address a + (core_size pa + 1) div 2 \<le> 65535 \<and>
        (case im (pa_AreaCode a) of
           Some bs \<Rightarrow> 2 * (pa_Address a + (core_size pa + 1) div 2) \<le> int (length bs) | None \<Rightarrow> False)))"

text \<open>Its value is decoded from the memory at its own address alone.\<close>

definition core_value ::
  "(u8 \<rightharpoonup> bytes) \<Rightarrow> (u8 \<rightharpoonup> bool list) \<Rightarrow> Point \<times> ParsedAddress \<Rightarrow> (FinsError, GoValue) go" where
  "core_value im fl pa = (case pa of (p, a) \<Rightarrow>
     if point_isBit p a then Ok (VBool (the (fl (bit_code a)) ! (nat (pa_Address a) * 16 + nat (pa_Bit a))))
     else DecodeValue (slice (the (im (pa_AreaCode a))) (2 * nat (pa_Address a))
              (2 * nat (pa_Address a) + nat (core_size pa)))
            (if pa_IsString a then DataTypeSTRING else pt_DataType p) (Some a))"

definition shows_value :: "Value option \<Rightarrow> (FinsError, GoValue) go \<Rightarrow> bool" where
  "shows_value v r \<longleftrightarrow> (case v of None \<Rightarrow> False
     | Some x \<Rightarrow> (case r of Ok y \<Rightarrow> val_Value x = y \<and> val_Quality x = QualityGood
                   | Err _ \<Rightarrow> val_Value x = VNil \<and> val_Quality x = QualityBad
                   | Panic \<Rightarrow> False))"

lemma DecodeValue_not_Panic: "DecodeValue data dt addr \<noteq> Panic"
  by (cases dt) (simp_all add: DecodeValue_def decode_bool_def decode_sized_def Let_def)

lemma core_size_gp: "core_size (gp_core gp) = point_size gp"
  by (simp add: core_size_def gp_core_def point_size_def Let_def)

lemma core_ready_fits: "core_ready im fl (gp_core gp) \<Longrightarrow> \<not> point_isBit (gp_point gp) (gp_parsed gp) \<Longrightarrow> gp_fits gp"
  by (simp add: core_ready_def gp_fits_def core_size_gp gp_core_def [of gp] split_beta)
    (simp add: core_size_gp gp_core_def [symmetric])

section \<open>Decoding out of a batch\<close>

lemma offset_bound: "a + k \<le> s + n \<Longrightarrow> z \<le> 2 * k \<Longrightarrow> 2 * (a - s) + z \<le> 2 * (n :: int)"
  unfolding right_diff_distrib by linarith

lemma decode_in_batch:
  assumes "group_covers mb g" and "gp \<in> set (pg_points g)"
    and "2 * (unat (pg_startAddr g) + unat (pg_count g)) \<le> length bs"
    and "data = slice bs (2 * unat (pg_startAddr g)) (2 * (unat (pg_startAddr g) + unat (pg_count g)))"
    and "pa_IsString (gp_parsed gp) \<longrightarrow> pt_DataType (gp_point gp) = DataTypeSTRING"
  shows "decodePointValue data gp g =
    DecodeValue (slice bs (2 * nat (pa_Address (gp_parsed gp)))
        (2 * nat (pa_Address (gp_parsed gp)) + nat (point_size gp)))
      (if pa_IsString (gp_parsed gp) then DataTypeSTRING else pt_DataType (gp_point gp)) (Some (gp_parsed gp))"
proof -
  let ?a = "pa_Address (gp_parsed gp)" and ?s = "uint (pg_startAddr g)" and ?n = "uint (pg_count g)"
  have cov: "gp_fits gp" "?s \<le> ?a" "gp_offset gp = 2 * (?a - ?s)" "?a + word_count gp \<le> ?s + ?n" "\<not> pg_isBit g"
    using assms(1,2) by (auto simp: group_covers_def)
  note wc = gp_fits_word_count [OF cov(1)]
  have size: "0 < point_size gp" "point_size gp \<le> 2 * word_count gp" using cov(1) wc by (auto simp: gp_fits_def)
  have s: "?s = int (unat (pg_startAddr g))" and n: "?n = int (unat (pg_count g))" by simp_all
  have len: "length data = 2 * unat (pg_count g)" using assms(3,4) by simp
  have hi: "gp_offset gp + point_size gp \<le> int (length data)" proof -
    have "int (length data) = 2 * ?n" using len n by simp
    then show ?thesis using offset_bound [OF cov(4) size(2)] by (simp only: cov(3))
  qed
  have "?s \<ge> 0" by simp
  then have bound: "0 \<le> gp_offset gp" "gp_offset gp + point_size gp < 9223372036854775808"
    using cov(2) wc size unfolding cov(3) right_diff_distrib by linarith+
  then have i64: "int64 (gp_offset gp + point_size gp) = gp_offset gp + point_size gp"
    using size(1) by (intro int64_small) simp_all
  have nat: "2 * unat (pg_startAddr g) + nat (gp_offset gp) = 2 * nat ?a"
  proof -
    obtain k where "?a = ?s + int k" using cov(2) by (metis zle_iff_zadd)
    then have "?a = int (unat (pg_startAddr g) + k)" "gp_offset gp = int (2 * k)"
      using cov(3) by simp_all
    then show ?thesis by (simp only: nat_int distrib_left)
  qed
  have "slice data (nat (gp_offset gp)) (nat (gp_offset gp + point_size gp)) =
      slice bs (2 * unat (pg_startAddr g) + nat (gp_offset gp))
        (2 * unat (pg_startAddr g) + nat (gp_offset gp + point_size gp))"
    unfolding assms(4) using hi len by (intro slice_slice) (simp add: nat_le_iff)
  also have "\<dots> = slice bs (2 * nat ?a) (2 * nat ?a + nat (point_size gp))"
    using bound(1) size(1) by (simp only: nat [symmetric] nat_add_distrib less_imp_le add.assoc)
  finally have sl: "slice data (nat (gp_offset gp)) (nat (gp_offset gp + point_size gp)) =
      slice bs (2 * nat ?a) (2 * nat ?a + nat (point_size gp))" .
  show ?thesis
  proof (cases "pa_IsString (gp_parsed gp)")
    case True
    then have "point_size gp = pa_StringLen (gp_parsed gp)"
      using assms(5) by (simp add: point_size_def DataTypeSize_def)
    then show ?thesis
      using True cov(5) i64 hi bound(1) size(1) sl by (simp add: decodePointValue_def Let_def)
  next
    case False
    then have "(let ts = (case DataTypeSize (pt_DataType (gp_point gp)) of Ok n \<Rightarrow> int n | _ \<Rightarrow> 0)
        in if ts = 0 then 2 else ts) = point_size gp"
      by (simp add: point_size_def Let_def)
    then show ?thesis
      using False cov(5) i64 hi bound(1) size(1) sl by (simp add: decodePointValue_def Let_def)
  qed
qed

lemma decode_points_values:
  assumes "\<forall>gp \<in> set gps. decodePointValue data gp g \<noteq> Panic"
    and "distinct (map (\<lambda>gp. pt_ID (gp_point gp)) gps)"
  shows "\<exists>res. decode_points results now data g gps = Ok res \<and>
    (\<forall>gp \<in> set gps. shows_value (res (pt_ID (gp_point gp))) (decodePointValue data gp g)) \<and>
    (\<forall>x. x \<notin> (\<lambda>gp. pt_ID (gp_point gp)) ` set gps \<longrightarrow> res x = results x)"
  using assms
proof (induction gps arbitrary: results)
  case (Cons gp gps)
  define v where "v = (case decodePointValue data gp g of
      Ok v \<Rightarrow> \<lparr>val_Value = v, val_Quality = QualityGood, val_TS = now\<rparr> | _ \<Rightarrow> bad_value now)"
  have step: "decode_points results now data g (gp # gps) =
      decode_points (results(pt_ID (gp_point gp) \<mapsto> v)) now data g gps"
    using Cons.prems(1) by (auto simp: v_def split: go.split)
  have v: "shows_value (Some v) (decodePointValue data gp g)"
    using Cons.prems(1) by (auto simp: v_def shows_value_def bad_value_def split: go.split)
  obtain res where "decode_points (results(pt_ID (gp_point gp) \<mapsto> v)) now data g gps = Ok res"
      "\<forall>gp \<in> set gps. shows_value (res (pt_ID (gp_point gp))) (decodePointValue data gp g)"
      and keep: "\<forall>x. x \<notin> (\<lambda>gp. pt_ID (gp_point gp)) ` set gps \<longrightarrow> res x = (results(pt_ID (gp_point gp) \<mapsto> v)) x"
    using Cons.IH [of "results(pt_ID (gp_point gp) \<mapsto> v)"] Cons.prems by (auto simp: fun_upd_def)
  moreover have "res (pt_ID (gp_point gp)) = Some v" using keep Cons.prems(2) by auto
  ultimately show ?case using step v by auto
qed simp

section \<open>Reading over a live session\<close>

definition group_ready :: "int \<Rightarrow> (u8 \<rightharpoonup> bytes) \<Rightarrow> (u8 \<rightharpoonup> bool list) \<Rightarrow> pointGroup \<Rightarrow> bool" where
  "group_ready mb im fl g \<longleftrightarrow>
     (\<forall>gp \<in> set (pg_points g). core_ready im fl (gp_core gp) \<and>
        group_key (gp_point gp) (gp_parsed gp) = (pg_areaCode g, pg_isBit g)) \<and>
     (if pg_isBit g then \<exists>gp. pg_points g = [gp] else group_covers mb g)"

lemma group_key_simps:
  "point_isBit p a \<Longrightarrow> group_key p a = (bit_code a, True)"
  "\<not> point_isBit p a \<Longrightarrow> group_key p a = (pa_AreaCode a, False)"
  by (simp_all add: group_key_def bit_code_def)

lemma groups_map_points:
  assumes "(k, gps) \<in> set (groups_map pps)" and "gp \<in> set gps"
  shows "group_key (gp_point gp) (gp_parsed gp) = k \<and> gp_offset gp = 0 \<and> gp_core gp \<in> set (parsed_cores pps)"
proof -
  have "gp \<in># mset (concat (map snd (groups_map pps)))" using assms by force
  then have "gp_core gp \<in># image_mset gp_core (mset (concat (map snd (groups_map pps))))" by simp
  then have "gp_core gp \<in> set (parsed_cores pps)"
    using groups_map_ok [of pps] unfolding groups_ok_def by (simp only: set_mset_mset)
  then show ?thesis using groups_map_ok [of pps] assms by (auto simp: groups_ok_def keyed_def)
qed

lemma set_sort_points: "set (sort_points ties gps) = set gps"
  using mset_permute [of ties gps] by (metis mset_eq_setD mset_sort sort_points_def)

lemma word_groups_points:
  assumes "g \<in> set (word_groups c mb gps)" and "gp \<in> set (pg_points g)"
  shows "gp_core gp \<in> gp_core ` set gps"
proof -
  have "gp_core gp \<in> set (group_cores (word_groups c mb gps))"
    using assms by (auto simp: group_cores_def)
  then show ?thesis unfolding cores_word_groups by simp
qed

lemma groupPoints_ready:
  assumes "\<forall>pa \<in> set (parsed_cores pps). core_ready im fl pa" and "g \<in> set (groupPoints order ties s pps)"
  shows "group_ready (int64 (s_maxFrameLength s * 2)) im fl g"
proof -
  have "set (permute order (groups_map pps)) = set (groups_map pps)" by (metis mset_eq_setD mset_permute)
  then obtain c isBit gps where k: "((c, isBit), gps) \<in> set (groups_map pps)"
      and g: "g \<in> set (if isBit then bit_groups c (sort_points (ties (c, isBit)) gps)
        else word_groups c (int64 (s_maxFrameLength s * 2)) (sort_points (ties (c, isBit)) gps))"
    using assms(2) by (auto simp: groupPoints_def Let_def)
  have gps: "group_key (gp_point gp) (gp_parsed gp) = (c, isBit) \<and> gp_offset gp = 0 \<and>
      core_ready im fl (gp_core gp)" if "gp \<in> set gps" for gp
    using groups_map_points [OF k that] assms(1) by auto
  have core: "group_key (gp_point q) (gp_parsed q) = group_key (gp_point p) (gp_parsed p)"
    if "gp_core q = gp_core p" for p q
    using that by (simp add: gp_core_def)
  show ?thesis
  proof (cases isBit)
    case True
    then show ?thesis using g gps set_sort_points [of "ties (c, True)" gps] by (auto simp: bit_groups_def group_ready_def)
  next
    case False
    have fits: "\<forall>gp \<in> set gps. gp_fits gp \<and> gp_offset gp = 0"
    proof
      fix gp assume gp: "gp \<in> set gps"
      then have "\<not> point_isBit (gp_point gp) (gp_parsed gp)"
        using gps [OF gp] False group_key_simps(1) by fastforce
      then show "gp_fits gp \<and> gp_offset gp = 0" using gps [OF gp] core_ready_fits by blast
    qed
    have cov: "group_covers (int64 (s_maxFrameLength s * 2)) g" "pg_areaCode g = c"
      using word_groups_cover [OF fits] g False by auto
    have "core_ready im fl (gp_core gp) \<and> group_key (gp_point gp) (gp_parsed gp) = (c, isBit)"
      if gp: "gp \<in> set (pg_points g)" for gp
    proof -
      have "gp_core gp \<in> gp_core ` set (sort_points (ties (c, isBit)) gps)"
        using word_groups_points [OF _ gp] g False by simp
      then obtain p where "p \<in> set gps" "gp_core gp = gp_core p" by (auto simp: set_sort_points)
      then show ?thesis using gps [of p] core [of gp p] by simp
    qed
    then show ?thesis using cov False by (auto simp: group_ready_def group_covers_def)
  qed
qed

lemma wait_mock: "waitMinInterval (mock_env cuts) s w = (s1, w1) \<Longrightarrow> \<exists>x. w1 = w\<lparr>mn_time := x\<rparr>"
  by (auto simp: waitMinInterval_def mock_env_def Let_def split: if_splits intro: exI [of _ "mn_time w"])

lemma session_time [simp]:
  "session_live (t, w\<lparr>mn_time := x\<rparr>) = session_live (t, w)"
  "session_image (t, w\<lparr>mn_time := x\<rparr>) = session_image (t, w)"
  "session_flags (t, w\<lparr>mn_time := x\<rparr>) = session_flags (t, w)"
  by (simp_all add: session_live_def session_image_def session_flags_def fun_eq_iff)

text \<open>The data of a group, and each of its points decoded from them.\<close>

lemma word_group_data:
  assumes "session_live (t, w)" and "group_ready mb (session_image (t, w)) (session_flags (t, w)) g" and "\<not> pg_isBit g"
  shows "\<exists>data t' w'. readWordGroup (mock_env cuts) t w g = (Ok data, t', w') \<and> session_live (t', w') \<and>
    session_image (t', w') = session_image (t, w) \<and> session_flags (t', w') = session_flags (t, w) \<and>
    (\<forall>gp \<in> set (pg_points g). decodePointValue data gp g =
       core_value (session_image (t, w)) (session_flags (t, w)) (gp_core gp))"
proof -
  let ?im = "session_image (t, w)" and ?fl = "session_flags (t, w)"
  have cov: "group_covers mb g" using assms(2,3) by (simp add: group_ready_def)
  have pt: "core_ready ?im ?fl (gp_core gp) \<and> \<not> point_isBit (gp_point gp) (gp_parsed gp) \<and>
      pa_AreaCode (gp_parsed gp) = pg_areaCode g" if "gp \<in> set (pg_points g)" for gp
    using assms(2,3) that group_key_simps [of "gp_point gp" "gp_parsed gp"]
    by (cases "point_isBit (gp_point gp) (gp_parsed gp)") (auto simp: group_ready_def)
  obtain gp where gp: "gp \<in> set (pg_points g)"
      "uint (pg_startAddr g) + uint (pg_count g) = pa_Address (gp_parsed gp) + word_count gp"
    using cov by (auto simp: group_covers_def)
  have fits: "gp_fits gp" using cov gp(1) by (auto simp: group_covers_def)
  obtain bs where bs: "?im (pg_areaCode g) = Some bs"
      "2 * (pa_Address (gp_parsed gp) + (point_size gp + 1) div 2) \<le> int (length bs)"
    using pt [OF gp(1)] by (auto simp: core_ready_def core_size_gp [unfolded gp_core_def] gp_core_def split: option.splits)
  have "int (2 * (unat (pg_startAddr g) + unat (pg_count g))) \<le> int (length bs)"
    using bs(2) gp(2) gp_fits_word_count [OF fits] by simp
  then have len: "2 * (unat (pg_startAddr g) + unat (pg_count g)) \<le> length bs" by linarith
  obtain r t' w' where rd: "ReadMemory (mock_env cuts) t w (pg_areaCode g) (pg_startAddr g) (pg_count g) = (r, t', w')"
    by (cases "ReadMemory (mock_env cuts) t w (pg_areaCode g) (pg_startAddr g) (pg_count g)")
  have r: "r = Ok (slice bs (2 * unat (pg_startAddr g)) (2 * (unat (pg_startAddr g) + unat (pg_count g))))"
    using session.read_words_ok [OF assms(1) bs(1) len, of cuts] rd by simp
  have keep: "session_live (t', w')" "session_image (t', w') = ?im" "session_flags (t', w') = ?fl"
    using session.read_words_keeps [OF assms(1), of cuts "pg_areaCode g" "pg_startAddr g" "pg_count g"] rd by auto
  have "decodePointValue (slice bs (2 * unat (pg_startAddr g)) (2 * (unat (pg_startAddr g) + unat (pg_count g)))) q g =
      core_value ?im ?fl (gp_core q)" if "q \<in> set (pg_points g)" for q
  proof -
    have "pa_IsString (gp_parsed q) \<longrightarrow> pt_DataType (gp_point q) = DataTypeSTRING"
      using pt [OF that] by (auto simp: core_ready_def gp_core_def)
    then show ?thesis
      using decode_in_batch [OF cov that len refl] pt [OF that] bs(1)
      by (simp add: core_value_def gp_core_def core_size_gp [unfolded gp_core_def])
  qed
  then show ?thesis using r rd keep by (auto simp: readWordGroup_def)
qed

lemma bit_group_data:
  assumes "session_live (t, w)" and "group_ready mb (session_image (t, w)) (session_flags (t, w)) g" and "pg_isBit g"
  shows "\<exists>data t' w'. readBitGroup (mock_env cuts) t w g = (Ok data, t', w') \<and> session_live (t', w') \<and>
    session_image (t', w') = session_image (t, w) \<and> session_flags (t', w') = session_flags (t, w) \<and>
    (\<forall>gp \<in> set (pg_points g). decodePointValue data gp g =
       core_value (session_image (t, w)) (session_flags (t, w)) (gp_core gp))"
proof -
  let ?im = "session_image (t, w)" and ?fl = "session_flags (t, w)"
  obtain gp where gp: "pg_points g = [gp]" "core_ready ?im ?fl (gp_core gp)"
      "group_key (gp_point gp) (gp_parsed gp) = (pg_areaCode g, True)"
    using assms(2,3) by (auto simp: group_ready_def)
  let ?a = "pa_Address (gp_parsed gp)" and ?b = "pa_Bit (gp_parsed gp)"
  have bit: "point_isBit (gp_point gp) (gp_parsed gp)" "pg_areaCode g = bit_code (gp_parsed gp)"
    using gp(3) group_key_simps [of "gp_point gp" "gp_parsed gp"]
    by (cases "point_isBit (gp_point gp) (gp_parsed gp)"; simp)+
  obtain bl where bl: "?fl (pg_areaCode g) = Some bl" "nat ?a * 16 + nat ?b < length bl"
      "0 \<le> ?a" "?a < 65536" "0 \<le> ?b" "?b \<le> 15"
    using gp(2) bit by (auto simp: core_ready_def gp_core_def split: option.splits)
  have a: "unat (word_of_int ?a :: u16) = nat ?a" using bl(3,4) uint16_small [of ?a] by (metis unat_eq_nat_uint)
  have b: "unat (word_of_int ?b :: u8) = nat ?b"
    using bl(5,6) by (simp add: unat_eq_nat_uint unsigned_of_int take_bit_int_eq_self)
  obtain r t' w' where rd: "ReadBits (mock_env cuts) t w (pg_areaCode g) (word_of_int ?a) (word_of_int ?b) 1 = (r, t', w')"
    by (cases "ReadBits (mock_env cuts) t w (pg_areaCode g) (word_of_int ?a) (word_of_int ?b) 1")
  have "slice bl (nat ?a * 16 + nat ?b) (nat ?a * 16 + nat ?b + 1) = [bl ! (nat ?a * 16 + nat ?b)]"
    using bl(2) by (simp add: slice_def take_Suc_conv_app_nth)
  then have r: "r = Ok [bl ! (nat ?a * 16 + nat ?b)]"
    using session.read_flags_ok [OF assms(1) bl(1), of "word_of_int ?a" "word_of_int ?b" 1 cuts] rd a b bl(2) by simp
  have keep: "session_live (t', w')" "session_image (t', w') = ?im" "session_flags (t', w') = ?fl"
    using session.read_flags_keeps [OF assms(1), of cuts "pg_areaCode g" "word_of_int ?a" "word_of_int ?b" 1] rd by auto
  show ?thesis
    using r rd keep gp(1) bit bl(1) assms(3)
    by (auto simp: readBitGroup_def decodePointValue_def decode_bool_def core_value_def gp_core_def)
qed

lemma core_value_not_Panic: "core_value im fl pa \<noteq> Panic"
  using DecodeValue_not_Panic by (simp add: core_value_def split: prod.split)

text \<open>One group, and then all groups, over a live session.\<close>

definition gp_id :: "groupedPoint \<Rightarrow> string" where
  "gp_id gp = pt_ID (gp_point gp)"

lemma read_group_live:
  assumes "session_live (t, w)" and "group_ready mb (session_image (t, w)) (session_flags (t, w)) g"
    and "distinct (map gp_id (pg_points g))"
  shows "\<exists>res s' t' w'. read_group (mock_env cuts) results s t w g = (Ok res, s', t', w') \<and>
    session_live (t', w') \<and> session_image (t', w') = session_image (t, w) \<and>
    session_flags (t', w') = session_flags (t, w) \<and> s_failureCount s' = s_failureCount s \<and>
    (\<forall>gp \<in> set (pg_points g). shows_value (res (gp_id gp))
       (core_value (session_image (t, w)) (session_flags (t, w)) (gp_core gp))) \<and>
    (\<forall>x. x \<notin> gp_id ` set (pg_points g) \<longrightarrow> res x = results x)"
proof -
  obtain s1 w1 where m: "waitMinInterval (mock_env cuts) s w = (s1, w1)" by fastforce
  obtain x where w1: "w1 = w\<lparr>mn_time := x\<rparr>" using wait_mock [OF m] by blast
  have live: "session_live (t, w1)" "group_ready mb (session_image (t, w1)) (session_flags (t, w1)) g"
    using assms(1,2) by (simp_all add: w1)
  obtain data t' w' where d: "(if pg_isBit g then readBitGroup (mock_env cuts) t w1 g
        else readWordGroup (mock_env cuts) t w1 g) = (Ok data, t', w')"
      and keep: "session_live (t', w')" "session_image (t', w') = session_image (t, w)"
        "session_flags (t', w') = session_flags (t, w)"
      and val: "\<forall>gp \<in> set (pg_points g). decodePointValue data gp g =
        core_value (session_image (t, w)) (session_flags (t, w)) (gp_core gp)"
    using word_group_data [OF live, of cuts] bit_group_data [OF live, of cuts] by (cases "pg_isBit g") (auto simp: w1)
  obtain now where n: "env_now (mock_env cuts) w' = (now, w')" by (simp add: mock_env_def)
  obtain res where "decode_points results now data g (pg_points g) = Ok res"
      "\<forall>gp \<in> set (pg_points g). shows_value (res (pt_ID (gp_point gp))) (decodePointValue data gp g)"
      "\<forall>x. x \<notin> (\<lambda>gp. pt_ID (gp_point gp)) ` set (pg_points g) \<longrightarrow> res x = results x"
    using decode_points_values [of "pg_points g" data g results now] val core_value_not_Panic assms(3)
    by (auto simp: gp_id_def [abs_def])
  moreover have "read_group (mock_env cuts) results s t w g =
      (decode_points results now data g (pg_points g),
       s1\<lparr>s_totalRequests := s_totalRequests s1 + 1, s_successCount := s_successCount s1 + 1\<rparr>, t', w')"
    by (simp add: read_group_def m d n)
  ultimately show ?thesis
    using keep val waitMinInterval_stats [OF m] by (auto simp: gp_id_def)
qed

lemma read_groups_live:
  assumes "session_live (t, w)" and "im = session_image (t, w)" and "fl = session_flags (t, w)"
    and "\<forall>g \<in> set gs. group_ready mb im fl g"
    and "distinct (map (\<lambda>(p, _). pt_ID p) (group_cores gs))"
  shows "\<exists>res s' t' w'. read_groups (mock_env cuts) results s t w gs = (Ok res, s', t', w') \<and>
    session_live (t', w') \<and> session_image (t', w') = im \<and> session_flags (t', w') = fl \<and>
    s_failureCount s' = s_failureCount s \<and>
    (\<forall>(p, a) \<in> set (group_cores gs). shows_value (res (pt_ID p)) (core_value im fl (p, a))) \<and>
    (\<forall>x. x \<notin> core_ids (group_cores gs) \<longrightarrow> res x = results x)"
  using assms
proof (induction gs arbitrary: results s t w)
  case (Cons g gs)
  have ids: "map gp_id (pg_points g) = map (\<lambda>(p, _). pt_ID p) (map gp_core (pg_points g))"
    by (simp add: gp_id_def gp_core_def)
  have dist: "distinct (map gp_id (pg_points g))" "distinct (map (\<lambda>(p, _). pt_ID p) (group_cores gs))"
      "gp_id ` set (pg_points g) \<inter> core_ids (group_cores gs) = {}"
    using Cons.prems(5) unfolding ids by (auto simp: core_ids_def gp_id_def gp_core_def)
  obtain res1 s1 t1 w1 where 1: "read_group (mock_env cuts) results s t w g = (Ok res1, s1, t1, w1)"
      "session_live (t1, w1)" "im = session_image (t1, w1)" "fl = session_flags (t1, w1)"
      "s_failureCount s1 = s_failureCount s"
      "\<forall>gp \<in> set (pg_points g). shows_value (res1 (gp_id gp)) (core_value im fl (gp_core gp))"
      "\<forall>x. x \<notin> gp_id ` set (pg_points g) \<longrightarrow> res1 x = results x"
    using read_group_live [OF Cons.prems(1) _ dist(1), of mb cuts results s] Cons.prems(2-4) by auto
  obtain res s' t' w' where 2: "read_groups (mock_env cuts) res1 s1 t1 w1 gs = (Ok res, s', t', w')"
      "session_live (t', w')" "session_image (t', w') = im" "session_flags (t', w') = fl"
      "s_failureCount s' = s_failureCount s1"
      "\<forall>(p, a) \<in> set (group_cores gs). shows_value (res (pt_ID p)) (core_value im fl (p, a))"
      "\<forall>x. x \<notin> core_ids (group_cores gs) \<longrightarrow> res x = res1 x"
    using Cons.IH [OF 1(2-4), of res1 s1] Cons.prems(4) dist(2) by auto
  have "shows_value (res (gp_id gp)) (core_value im fl (gp_core gp))" if "gp \<in> set (pg_points g)" for gp
    using 1(6) 2(7) dist(3) that by (metis disjoint_iff imageI)
  then have "\<forall>(p, a) \<in> set (group_cores (g # gs)). shows_value (res (pt_ID p)) (core_value im fl (p, a))"
    using 2(6) by (auto simp: gp_core_def gp_id_def)
  moreover have "\<forall>x. x \<notin> core_ids (group_cores (g # gs)) \<longrightarrow> res x = results x"
  proof -
    have "core_ids (map gp_core (pg_points g)) = gp_id ` set (pg_points g)"
      by (auto simp: core_ids_def gp_id_def gp_core_def image_iff)
    then show ?thesis using 1(7) 2(7) by (simp add: core_ids_append)
  qed
  ultimately show ?case using 1(1,5) 2(1-5) by simp
qed (simp add: core_ids_def)

text \<open>All points parse: the scheduler sees exactly the points with their addresses.\<close>

lemma parse_points_all:
  assumes "\<forall>p \<in> set ps. ParseAddress d (pt_Address p) = Ok (f p)"
  shows "parse_points env d results ps w = (map (\<lambda>p. (p, Ok (f p))) ps, results, w)"
  using assms by (induction ps) simp_all

lemma parsed_cores_all: "parsed_cores (map (\<lambda>p. (p, Ok (f p))) ps) = map (\<lambda>p. (p, f p)) ps"
  by (induction ps) simp_all

lemma ReadPoints_live:
  assumes "session_live (t, w)" and "distinct (map pt_ID points)"
    and "\<forall>p \<in> set points. ParseAddress (s_decoder s) (pt_Address p) = Ok (f p) \<and>
      core_ready (session_image (t, w)) (session_flags (t, w)) (p, f p)"
  shows "\<exists>res s' t' w'. ReadPoints (mock_env cuts) order ties s t w points = (Ok res, s', t', w') \<and>
    session_live (t', w') \<and> session_image (t', w') = session_image (t, w) \<and>
    session_flags (t', w') = session_flags (t, w) \<and> s_failureCount s' = s_failureCount s \<and>
    (\<forall>p \<in> set points. shows_value (res (pt_ID p))
       (core_value (session_image (t, w)) (session_flags (t, w)) (p, f p)))"
proof (cases "points = []")
  case True
  then show ?thesis using assms(1) by (simp add: ReadPoints_def)
next
  case False
  let ?pps = "map (\<lambda>p. (p, Ok (f p))) points"
  let ?gs = "groupPoints order ties s ?pps"
  have pp: "parse_points (mock_env cuts) (s_decoder s) Map.empty points w = (?pps, Map.empty, w)"
    using assms(3) by (intro parse_points_all) simp
  have cores: "mset (group_cores ?gs) = mset (map (\<lambda>p. (p, f p)) points)"
    using groupPoints_cores [of order ties s ?pps] by (simp add: parsed_cores_all)
  have "mset (map (\<lambda>(p, _). pt_ID p) (group_cores ?gs)) = mset (map pt_ID points)"
    using arg_cong [OF cores, of "image_mset (\<lambda>(p, _). pt_ID p)"] by (simp add: image_mset.compositionality comp_def)
  then have dist: "distinct (map (\<lambda>(p, _). pt_ID p) (group_cores ?gs))"
    using assms(2) by (metis mset_eq_imp_distinct_iff)
  have ready: "\<forall>g \<in> set ?gs. group_ready (int64 (s_maxFrameLength s * 2)) (session_image (t, w)) (session_flags (t, w)) g"
    using assms(3) by (intro ballI groupPoints_ready [of ?pps]) (auto simp: parsed_cores_all)
  have "set (group_cores ?gs) = (\<lambda>p. (p, f p)) ` set points" using cores by (metis mset_eq_setD set_map)
  then show ?thesis
    using read_groups_live [OF assms(1) refl refl ready dist, of cuts Map.empty s] False pp
    by (auto simp: ReadPoints_def)
qed

section \<open>Writing over a live session\<close>

text \<open>A value that may be written to a point: a bool at a bit address, otherwise a value of the
  point's data type, a string only at a string address that has room for it.\<close>

definition writable_value :: "Point \<Rightarrow> ParsedAddress \<Rightarrow> GoValue \<Rightarrow> bool" where
  "writable_value p a v \<longleftrightarrow>
     (if pa_IsBit a then \<exists>b. v = VBool b
      else pt_DataType p \<noteq> DataTypeBIT \<and> encodable (Some a) (pt_DataType p) v \<and>
        (pt_DataType p = DataTypeSTRING \<longrightarrow> pa_IsString a))"

lemma core_ready_range:
  assumes "core_ready im fl (p, a)" and "\<not> point_isBit p a"
  shows "\<exists>bs. im (pa_AreaCode a) = Some bs \<and> 0 < core_size (p, a) \<and> 0 \<le> pa_Address a \<and>
    pa_Address a + (core_size (p, a) + 1) div 2 \<le> 65535 \<and>
    2 * (pa_Address a + (core_size (p, a) + 1) div 2) \<le> int (length bs) \<and>
    unat (word_of_int (pa_Address a) :: u16) = nat (pa_Address a)"
proof -
  have "0 \<le> pa_Address a" "pa_Address a < 65536" using assms by (simp_all add: core_ready_def)
  then have "unat (word_of_int (pa_Address a) :: u16) = nat (pa_Address a)"
    using uint16_small [of "pa_Address a"] by (metis unat_eq_nat_uint)
  then show ?thesis using assms by (auto simp: core_ready_def split: option.splits)
qed

text \<open>The payload of a word write: it has room for the value, and the value decodes from it.\<close>

lemma write_payload_ok:
  assumes "canonical a" and "core_ready im fl (p, a)" and "\<not> point_isBit p a" and "writable_value p a v"
  shows "\<exists>enc n d. EncodeValue oob v (pt_DataType p) (Some a) = Ok enc \<and> write_payload p a enc = (n, d) \<and>
    int (unat n) = (core_size (p, a) + 1) div 2 \<and> nat (core_size (p, a)) \<le> length d \<and> length d \<le> 2 * unat n \<and>
    DecodeValue (take (nat (core_size (p, a))) d)
      (if pa_IsString a then DataTypeSTRING else pt_DataType p) (Some a) = Ok v"
proof -
  have nb: "\<not> pa_IsBit a" "pt_DataType p \<noteq> DataTypeBIT" using assms(3) by (simp_all add: point_isBit_def)
  have enc: "encodable (Some a) (pt_DataType p) v" "pt_DataType p = DataTypeSTRING \<longrightarrow> pa_IsString a"
    using assms(4) nb by (simp_all add: writable_value_def)
  have ty: "typed_value (pt_DataType p) v" "\<not> addr_is_bit (Some a)"
    using enc nb by (simp_all add: encodable_def addr_is_bit_def)
  have size: "0 < core_size (p, a)" "pa_Address a + (core_size (p, a) + 1) div 2 \<le> 65535" "0 \<le> pa_Address a"
    using core_ready_range [OF assms(2,3)] by auto
  have str: "pa_IsString a \<longrightarrow> pt_DataType p = DataTypeSTRING"
    using assms(2,3) by (simp add: core_ready_def)
  show ?thesis
  proof (cases "pt_DataType p = DataTypeSTRING")
    case True
    then obtain s where v: "v = VString s" using ty(1) by (cases v) (auto simp: typed_value_def)
    have L: "pa_IsString a" "0 < pa_StringLen a" "core_size (p, a) = pa_StringLen a"
      using True enc(2) assms(1) by (auto simp: canonical_def parsed_ok_def core_size_def point_size_def DataTypeSize_def)
    have s: "0 \<notin> set s" "addr_string_len (Some a) > 0 \<longrightarrow> int (length s) \<le> addr_string_len (Some a)"
      using enc(1) v by (auto simp: encodable_def)
    define e where "e = s @ replicate (nat (pa_StringLen a) - length s) 0"
    have e: "EncodeValue oob v (pt_DataType p) (Some a) = Ok e" "length e = nat (pa_StringLen a)"
      using string_encode [OF ty(2) s(2), of oob] v True L(2) s(2) by (auto simp: e_def addr_string_len_def)
    have dec: "DecodeValue e DataTypeSTRING (Some a) = Ok v"
      unfolding e_def v by (rule string_decode [OF s(1) ty(2) s(2)])
    define n where "n = (word_of_int (int64 (pa_StringLen a + 1) div 2) :: u16)"
    have half: "(pa_StringLen a + 1) div 2 \<le> 65535" "0 \<le> (pa_StringLen a + 1) div 2" using size L by simp_all
    then have "int64 (pa_StringLen a + 1) = pa_StringLen a + 1" using L(2) by (intro int64_small) simp_all
    then have n: "uint n = (pa_StringLen a + 1) div 2" using half uint16_small by (simp add: n_def)
    then have un: "int (unat n) = (pa_StringLen a + 1) div 2" by simp
    then have "nat (pa_StringLen a) \<le> 2 * unat n" using L(2) by (simp add: nat_le_iff)
    then show ?thesis
      using e dec un L True
      by (auto simp: write_payload_def Let_def n_def [symmetric])
  next
    case False
    obtain k where k: "DataTypeSize (pt_DataType p) = Ok k" "0 < k" "k \<le> 8"
      using ty(1) nb(2) False by (cases "pt_DataType p"; cases v) (auto simp: DataTypeSize_def typed_value_def)
    have cs: "core_size (p, a) = int k" using k by (simp add: core_size_def point_size_def)
    obtain e where e: "EncodeValue oob v (pt_DataType p) (Some a) = Ok e" "length e = k"
        "DecodeValue e (pt_DataType p) (Some a) = Ok v"
      using numeric_roundtrip [OF ty k(1,2), of oob "[]"] by auto
    have un: "unat (word_of_nat ((k + 1) div 2) :: u16) = (k + 1) div 2"
      using k(3) by (simp add: unsigned_of_nat take_bit_nat_eq_self)
    have pay: "write_payload p a e = (word_of_nat ((k + 1) div 2), e)"
      using False e(2) by (simp add: write_payload_def)
    have "int ((k + 1) div 2) = (int k + 1) div 2" "k \<le> 2 * ((k + 1) div 2)" by simp_all
    then show ?thesis
      using e pay un cs str False by (intro exI [of _ e] exI [of _ "word_of_nat ((k + 1) div 2)"]) simp
  qed
qed

lemma WritePoint_word_live:
  assumes "session_live (t, w)" and "ParseAddress (s_decoder s) (pt_Address p) = Ok a" and "canonical a"
    and "core_ready (session_image (t, w)) (session_flags (t, w)) (p, a)" and "\<not> point_isBit p a"
    and "writable_value p a v"
  shows "\<exists>s' t' w'. WritePoint oob (mock_env cuts) s t w p v = (Ok (), s', t', w') \<and> session_live (t', w') \<and>
    s_decoder s' = s_decoder s \<and>
    core_ready (session_image (t', w')) (session_flags (t', w')) (p, a) \<and>
    core_value (session_image (t', w')) (session_flags (t', w')) (p, a) = Ok v"
proof -
  let ?c = "pa_AreaCode a" and ?a = "nat (pa_Address a)" and ?z = "nat (core_size (p, a))"
  obtain enc n d where e: "EncodeValue oob v (pt_DataType p) (Some a) = Ok enc" "write_payload p a enc = (n, d)"
      "int (unat n) = (core_size (p, a) + 1) div 2" "?z \<le> length d" "length d \<le> 2 * unat n"
      "DecodeValue (take ?z d) (if pa_IsString a then DataTypeSTRING else pt_DataType p) (Some a) = Ok v"
    using write_payload_ok [OF assms(3-6), of oob] by blast
  obtain bs where bs: "session_image (t, w) ?c = Some bs" "0 < core_size (p, a)" "0 \<le> pa_Address a"
      "2 * (pa_Address a + (core_size (p, a) + 1) div 2) \<le> int (length bs)"
      "unat (word_of_int (pa_Address a) :: u16) = ?a"
    using core_ready_range [OF assms(4,5)] by blast
  obtain s1 w1 where m: "waitMinInterval (mock_env cuts) (s\<lparr>s_totalRequests := s_totalRequests s + 1\<rparr>) w = (s1, w1)"
    by fastforce
  obtain x where w1: "w1 = w\<lparr>mn_time := x\<rparr>" using wait_mock [OF m] by blast
  have live: "session_live (t, w1)" "session_image (t, w1) ?c = Some bs" using assms(1) bs(1) by (simp_all add: w1)
  have len: "2 * (unat (word_of_int (pa_Address a) :: u16) + unat n) \<le> length bs"
  proof -
    have "int (2 * (?a + unat n)) \<le> int (length bs)" using bs(3,4) e(3) by simp
    then show ?thesis unfolding bs(5) by (simp only: of_nat_le_iff)
  qed
  obtain r t' w' where wm: "WriteMemory (mock_env cuts) t w1 ?c (word_of_int (pa_Address a)) n d = (r, t', w')"
    by (cases "WriteMemory (mock_env cuts) t w1 ?c (word_of_int (pa_Address a)) n d")
  have r: "r = Ok ()" "session_image (t', w') = (session_image (t, w1))(?c \<mapsto> copy_at bs (2 * ?a) d)"
    using session.write_words_ok [OF live len e(5), of cuts] wm bs(5) by simp_all
  have live': "session_live (t', w')" using session.write_words_live [OF live(1) e(5), of cuts] wm by (metis snd_conv split_conv)
  have wp: "WritePoint oob (mock_env cuts) s t w p v = (Ok (), count_success s1, t', w')"
    using assms(2,5) e(1,2) m wm r(1) by (simp add: WritePoint_def)
  have im: "session_image (t', w') ?c = Some (copy_at bs (2 * ?a) d)" using r(2) by simp
  have fit: "2 * ?a + length d \<le> length bs" using len e(5) bs(5) by simp
  have "slice (copy_at bs (2 * ?a) d) (2 * ?a) (2 * ?a + ?z) = take ?z d"
    using slice_copy_at_prefix [OF fit, of "2 * ?a + ?z"] e(4) by simp
  then have val: "core_value (session_image (t', w')) (session_flags (t', w')) (p, a) = Ok v"
    using im assms(5) e(6) by (simp add: core_value_def)
  have "core_ready (session_image (t', w')) (session_flags (t', w')) (p, a)"
    using assms(4,5) bs(1) im fit by (simp add: core_ready_def)
  then show ?thesis
    using wp live' val waitMinInterval_stats [OF m] by (simp add: count_success_def)
qed

lemma WritePoint_bit_live:
  assumes "session_live (t, w)" and "ParseAddress (s_decoder s) (pt_Address p) = Ok a" and "canonical a"
    and "core_ready (session_image (t, w)) (session_flags (t, w)) (p, a)" and "point_isBit p a"
    and "writable_value p a v"
  shows "\<exists>s' t' w'. WritePoint oob (mock_env cuts) s t w p v = (Ok (), s', t', w') \<and> session_live (t', w') \<and>
    s_decoder s' = s_decoder s \<and>
    core_ready (session_image (t', w')) (session_flags (t', w')) (p, a) \<and>
    core_value (session_image (t', w')) (session_flags (t', w')) (p, a) = Ok v"
proof -
  let ?c = "bit_code a" and ?i = "nat (pa_Address a) * 16 + nat (pa_Bit a)"
  obtain bl where bl: "session_flags (t, w) ?c = Some bl" "?i < length bl" "0 \<le> pa_Address a" "pa_Address a < 65536"
      "0 \<le> pa_Bit a" "pa_Bit a \<le> 15"
    using assms(4,5) by (auto simp: core_ready_def split: option.splits)
  have "pa_IsBit a" using bl(5) assms(3) by (auto simp: canonical_def parsed_ok_def split: if_splits)
  then obtain b where v: "v = VBool b" using assms(6) by (auto simp: writable_value_def)
  obtain enc where enc: "EncodeValue oob v (pt_DataType p) (Some a) = Ok enc" "(enc \<noteq> [] \<and> enc ! 0 \<noteq> 0) = b"
    using \<open>pa_IsBit a\<close> by (auto simp: v EncodeValue_def addr_is_bit_def)
  have addr: "unat (word_of_int (pa_Address a) :: u16) = nat (pa_Address a)"
      "unat (word_of_int (pa_Bit a) :: u8) = nat (pa_Bit a)"
    using bl(3-6) uint16_small [of "pa_Address a"]
    by (simp_all add: unat_eq_nat_uint unsigned_of_int take_bit_int_eq_self)
  obtain s1 w1 where m: "waitMinInterval (mock_env cuts) (s\<lparr>s_totalRequests := s_totalRequests s + 1\<rparr>) w = (s1, w1)"
    by fastforce
  obtain x where w1: "w1 = w\<lparr>mn_time := x\<rparr>" using wait_mock [OF m] by blast
  have live: "session_live (t, w1)" "session_flags (t, w1) ?c = Some bl" using assms(1) bl(1) by (simp_all add: w1)
  obtain r t' w' where wb: "WriteBits (mock_env cuts) t w1 ?c (word_of_int (pa_Address a)) (word_of_int (pa_Bit a)) [b] = (r, t', w')"
    by (cases "WriteBits (mock_env cuts) t w1 ?c (word_of_int (pa_Address a)) (word_of_int (pa_Bit a)) [b]")
  have r: "r = Ok ()" "session_flags (t', w') = (session_flags (t, w1))(?c \<mapsto> copy_at bl ?i [b])"
    using session.write_flags_ok [OF live, of "word_of_int (pa_Address a)" "word_of_int (pa_Bit a)" "[b]" cuts] wb addr bl(2)
    by simp_all
  have live': "session_live (t', w')"
    using session.write_flags_live [OF live(1), of "[b]" cuts ?c "word_of_int (pa_Address a)" "word_of_int (pa_Bit a)"] wb by simp
  have wp: "WritePoint oob (mock_env cuts) s t w p v = (Ok (), count_success s1, t', w')"
    using assms(2,5) enc m wb r(1) by (simp add: WritePoint_def bit_code_def)
  have fl: "session_flags (t', w') ?c = Some (copy_at bl ?i [b])" using r(2) by simp
  have "copy_at bl ?i [b] ! ?i = b" using bl(2) by (simp add: nth_copy_at)
  then have "core_value (session_image (t', w')) (session_flags (t', w')) (p, a) = Ok v"
    using fl assms(5) by (simp add: core_value_def v)
  moreover have "core_ready (session_image (t', w')) (session_flags (t', w')) (p, a)"
    using assms(5) bl fl by (simp add: core_ready_def)
  ultimately show ?thesis
    using wp live' waitMinInterval_stats [OF m] by (simp add: count_success_def)
qed


section \<open>A sample point\<close>

text \<open>A concrete session for the witnesses: the address D100 read as a 16-bit number.\<close>

definition d100 :: ParsedAddress where
  "d100 = \<lparr>pa_Area = ''D'', pa_AreaCode = MemoryAreaDMWord, pa_EMNumber = 0, pa_Address = 100, pa_Bit = -1,
     pa_StringLen = 0, pa_ByteOrder = ByteOrderHigh, pa_IsBit = False, pa_IsString = False\<rparr>"

definition speed_point :: Point where
  "speed_point = \<lparr>pt_ID = ''speed'', pt_Address = ''D100'', pt_DataType = DataTypeUINT16, pt_Attribute = ''RW''\<rparr>"

lemma speed_parse: "ParseAddress NewDecoder (pt_Address speed_point) = Ok d100"
  by code_simp

lemma d100_simps [simp]:
  "pa_AreaCode d100 = MemoryAreaDMWord" "pa_Address d100 = 100" "\<not> pa_IsBit d100" "\<not> pa_IsString d100"
  by (simp_all add: d100_def)

lemma speed_point_simps [simp]:
  "pt_ID speed_point = ''speed''" "pt_DataType speed_point = DataTypeUINT16" "\<not> point_isBit speed_point d100"
  by (simp_all add: speed_point_def point_isBit_def)

lemma speed_size [simp]: "point_size \<lparr>gp_point = speed_point, gp_parsed = d100, gp_offset = 0\<rparr> = 2"
  by (simp add: point_size_def DataTypeSize_def)

lemma speed_ready:
  assumes "mn_plc w = NewMockPLC"
  shows "core_ready (session_image (t, w)) fl (speed_point, d100)"
  using assms
  by (simp add: core_ready_def core_size_def session_image_def mock_img_def getArea_def NewMockPLC_def mock_sizes)


section \<open>Properties\<close>

text \<open>C20. No requested point is forgotten and none is invented: whatever the network does,
  \<open>ReadPoints\<close> never returns an error, and a result it returns has a value for exactly the
  IDs of the requested points, for every order of the map iteration and of the sort.\<close>

theorem ReadPoints_complete:
  "case fst (ReadPoints env order ties s t w points) of
     Ok res \<Rightarrow> dom res = pt_ID ` set points
   | Err _ \<Rightarrow> False
   | Panic \<Rightarrow> points \<noteq> []"
proof (cases "ReadPoints env order ties s t w points")
  case (fields r s' t' w')
  then show ?thesis
    using ReadPoints_result [OF fields] by (cases r) (auto simp: ReadPoints_def)
qed

text \<open>C2. Batching is invisible: over a live session, a read of any set of points with distinct
  IDs whose ranges lie in the PLC's areas returns for each point exactly the value decoded from
  the memory at its own address, with good quality when it decodes and bad quality when it does
  not; the other points of the batch, the frame limit, the order of the map iteration, the ties of
  the sort and the chunks of the network do not matter. Nothing is written and nothing fails.\<close>

theorem ReadPoints_batch_transparent:
  assumes "session_live (t, w)" and "distinct (map pt_ID points)"
    and "\<forall>p \<in> set points. \<exists>a. ParseAddress (s_decoder s) (pt_Address p) = Ok a \<and>
      core_ready (session_image (t, w)) (session_flags (t, w)) (p, a)"
  shows "\<exists>res s' t' w'. ReadPoints (mock_env cuts) order ties s t w points = (Ok res, s', t', w') \<and>
    session_live (t', w') \<and> session_image (t', w') = session_image (t, w) \<and>
    s_failureCount s' = s_failureCount s \<and>
    (\<forall>p \<in> set points. \<exists>a. ParseAddress (s_decoder s) (pt_Address p) = Ok a \<and>
       shows_value (res (pt_ID p)) (core_value (session_image (t, w)) (session_flags (t, w)) (p, a)))"
proof -
  obtain f where f: "\<forall>p \<in> set points. ParseAddress (s_decoder s) (pt_Address p) = Ok (f p) \<and>
      core_ready (session_image (t, w)) (session_flags (t, w)) (p, f p)"
    using assms(3) by metis
  from ReadPoints_live [OF assms(1,2) f, of cuts order ties] show ?thesis using f by fastforce
qed

theorem ReadPoints_batch_transparent_witness:
  "\<exists>t w res s' t' w' a. Connect (mock_env (\<lambda>_. [5])) initial_transport fresh_net = (Ok (), t, w) \<and>
     ReadPoints (mock_env (\<lambda>_. [5])) [] (\<lambda>_. []) (NewScheduler (\<lambda>_ _. 0) NewDecoder Map.empty) t w [speed_point] =
       (Ok res, s', t', w') \<and>
     ParseAddress NewDecoder (pt_Address speed_point) = Ok a \<and>
     shows_value (res ''speed'') (core_value (session_image (t, w)) (session_flags (t, w)) (speed_point, a))"
proof -
  let ?env = "mock_env (\<lambda>_. [5])" and ?s = "NewScheduler (\<lambda>_ _. 0) NewDecoder Map.empty"
  have d: "s_decoder ?s = NewDecoder" by (simp add: NewScheduler_def)
  obtain t w where c: "Connect ?env initial_transport fresh_net = (Ok (), t, w)" "session_live (t, w)"
      "mn_plc w = NewMockPLC"
    using fresh_session by blast
  have "\<forall>p \<in> set [speed_point]. \<exists>a. ParseAddress (s_decoder ?s) (pt_Address p) = Ok a \<and>
      core_ready (session_image (t, w)) (session_flags (t, w)) (p, a)"
    using speed_parse speed_ready [OF c(3)] d by simp
  from ReadPoints_batch_transparent [OF c(2) _ this, of "\<lambda>_. [5]" "[]" "\<lambda>_. []"] show ?thesis
    using c(1) d by fastforce
qed





text \<open>C11. Requests stay within the frame limit: when the word points of a request fit the 16-bit
  address space, every word group covers all its points at the recorded offsets, ends with one
  of them, and asks for at most the configured number of words, unless its first point alone
  needs more.\<close>

theorem groupPoints_bounded:
  assumes "\<forall>(p, a) \<in> set (parsed_cores pps). \<not> point_isBit p a \<longrightarrow>
      gp_fits \<lparr>gp_point = p, gp_parsed = a, gp_offset = 0\<rparr>"
    and "g \<in> set (groupPoints order ties s pps)" and "\<not> pg_isBit g"
  shows "group_covers (int64 (s_maxFrameLength s * 2)) g"
proof -
  have "set (permute order (groups_map pps)) = set (groups_map pps)" by (metis mset_eq_setD mset_permute)
  then obtain c isBit gps where k: "((c, isBit), gps) \<in> set (groups_map pps)"
      and g: "g \<in> set (if isBit then bit_groups c (sort_points (ties (c, isBit)) gps)
        else word_groups c (int64 (s_maxFrameLength s * 2)) (sort_points (ties (c, isBit)) gps))"
    using assms(2) by (auto simp: groupPoints_def Let_def)
  have nb: "\<not> isBit" using g assms(3) by (auto simp: bit_groups_def split: if_splits)
  have "gp_fits gp \<and> gp_offset gp = 0" if gp: "gp \<in> set gps" for gp
  proof -
    have core: "group_key (gp_point gp) (gp_parsed gp) = (c, isBit)" "gp_offset gp = 0" "gp_core gp \<in> set (parsed_cores pps)"
      using groups_map_points [OF k gp] by simp_all
    have "\<not> point_isBit (gp_point gp) (gp_parsed gp)" using core(1) nb group_key_simps(1) by fastforce
    then have "gp_fits \<lparr>gp_point = gp_point gp, gp_parsed = gp_parsed gp, gp_offset = 0\<rparr>"
      using assms(1) core(3) by (auto simp: gp_core_def)
    then show ?thesis using core(2) by (cases gp) simp
  qed
  then show ?thesis using word_groups_cover [of gps] g nb by auto
qed

theorem groupPoints_bounded_witness:
  "\<exists>g. groupPoints [] (\<lambda>_. []) (NewScheduler (\<lambda>_ _. 0) NewDecoder Map.empty) [(speed_point, Ok d100)] = [g] \<and>
     group_covers 128 g"
proof -
  let ?s = "NewScheduler (\<lambda>_ _. 0) NewDecoder Map.empty"
  obtain g where g: "groupPoints [] (\<lambda>_. []) ?s [(speed_point, Ok d100)] = [g]" "\<not> pg_isBit g"
    by (simp add: groupPoints_def groups_map_def group_key_def word_groups_def sort_points_def pack_point_def Let_def)
  have "gp_fits \<lparr>gp_point = speed_point, gp_parsed = d100, gp_offset = 0\<rparr>"
    by (simp add: gp_fits_def)
  then have "group_covers (int64 (s_maxFrameLength ?s * 2)) g"
    using groupPoints_bounded [of "[(speed_point, Ok d100)]" g "[]" "\<lambda>_. []" ?s] g by simp
  moreover have "int64 (s_maxFrameLength ?s * 2) = 128" by (simp add: NewScheduler_def cfg_int_def)
  ultimately show ?thesis using g(1) by simp
qed

end
