(* ===== verification/Fins_Driver_Correct.thy ===== *)
theory Fins_Driver_Correct
  imports Fins_Driver Fins_Scheduler_Live
begin

text \<open>
  The driver as a whole: its invariant in every state an application can reach, the results of
  reads whatever the state of the link, and reads and writes over the mock PLC across the loss of
  the connection.
\<close>

section \<open>The components under the driver\<close>

lemma memory_ops_inv:
  assumes "transport_inv t"
  shows "ReadMemory env t w c a n = (r, t', w') \<Longrightarrow> transport_inv t'"
    and "WriteMemory env t w c a n d = (r', t', w') \<Longrightarrow> transport_inv t'"
    and "ReadBits env t w c a k n = (r'', t', w') \<Longrightarrow> transport_inv t'"
    and "WriteBits env t w c a k vs = (r', t', w') \<Longrightarrow> transport_inv t'"
  using SendCommand_transport_inv [OF assms]
  by (auto simp: ReadMemory_def WriteMemory_def ReadBits_def WriteBits_def split: prod.splits)

lemma waitMinInterval_decoder: "waitMinInterval env s w = (s', w') \<Longrightarrow> s_decoder s' = s_decoder s"
  by (simp add: waitMinInterval_stats)

lemma read_group_inv:
  assumes "transport_inv t" and "read_group env res s t w g = (r, s', t', w')"
  shows "transport_inv t' \<and> s_decoder s' = s_decoder s"
proof -
  obtain s1 w1 where m: "waitMinInterval env s w = (s1, w1)" by fastforce
  obtain r1 t1 w2 where g: "(if pg_isBit g then readBitGroup env t w1 g else readWordGroup env t w1 g) = (r1, t1, w2)"
    by (metis prod_cases3)
  have "transport_inv t1"
    using g assms(1) memory_ops_inv [OF assms(1)]
    by (auto simp: readBitGroup_def readWordGroup_def split: if_splits list.splits prod.splits)
  then show ?thesis
    using assms(2) waitMinInterval_decoder [OF m] unfolding read_group_def m g Let_def split_conv
    by (auto split: go.splits prod.splits)
qed

lemma read_groups_inv:
  "transport_inv t \<Longrightarrow> read_groups env res s t w gs = (r, s', t', w') \<Longrightarrow> transport_inv t' \<and> s_decoder s' = s_decoder s"
proof (induction gs arbitrary: res s t w)
  case (Cons g gs)
  obtain r1 s1 t1 w1 where g: "read_group env res s t w g = (r1, s1, t1, w1)"
    by (cases "read_group env res s t w g")
  then show ?case
    using read_group_inv [OF Cons.prems(1) g] Cons.prems(2) Cons.IH by (cases r1) auto
qed simp

lemma ReadPoints_inv:
  assumes "transport_inv t" and "ReadPoints env order ties s t w points = (r, s', t', w')"
  shows "transport_inv t' \<and> s_decoder s' = s_decoder s"
  using assms
  by (auto simp: ReadPoints_def dest: read_groups_inv [OF assms(1)] split: if_splits prod.splits)

lemma WritePoint_inv:
  assumes "transport_inv t" and "WritePoint oob env s t w p v = (r, s', t', w')"
  shows "transport_inv t' \<and> s_decoder s' = s_decoder s"
proof -
  let ?s = "s\<lparr>s_totalRequests := s_totalRequests s + 1\<rparr>"
  obtain s1 w1 where m: "waitMinInterval env ?s w = (s1, w1)" by fastforce
  show ?thesis
    using assms(2) assms(1) memory_ops_inv(2,4) [OF assms(1)] waitMinInterval_decoder [OF m]
    unfolding WritePoint_def Let_def m split_conv
    by (auto simp: count_failure_def count_success_def split: go.splits prod.splits if_splits)
qed

section \<open>The invariant of the driver\<close>

definition driver_inv :: "FinsTCPDriver \<Rightarrow> bool" where
  "driver_inv d \<longleftrightarrow>
     (if d_initialized d
      then (\<exists>t s. d_transport d = Some t \<and> d_scheduler d = Some s \<and> d_decoder d = Some NewDecoder \<and>
              transport_inv t \<and> s_decoder s = NewDecoder)
      else d_transport d = None \<and> d_scheduler d = None)"

lemma driver_invE:
  assumes "driver_inv d" and "d_initialized d"
  obtains t s where "d_transport d = Some t" "d_scheduler d = Some s" "d_decoder d = Some NewDecoder"
    "transport_inv t" "s_decoder s = NewDecoder"
  using assms by (auto simp: driver_inv_def)

lemma driver_inv_update:
  assumes "driver_inv d" and "d_initialized d" and "transport_inv t'" and "s_decoder s' = NewDecoder"
  shows "driver_inv (d\<lparr>d_transport := Some t', d_scheduler := Some s'\<rparr>)" "driver_inv (d\<lparr>d_transport := Some t'\<rparr>)"
  using assms by (auto simp: driver_inv_def)

lemma driver_inv_transport: "driver_inv d \<Longrightarrow> d_transport d = Some t \<Longrightarrow> d_initialized d \<and> transport_inv t"
  by (auto simp: driver_inv_def split: if_splits)

lemma driver_inv_set_transport:
  "driver_inv d \<Longrightarrow> d_transport d = Some t \<Longrightarrow> transport_inv t' \<Longrightarrow> driver_inv (d\<lparr>d_transport := Some t'\<rparr>)"
  by (auto simp: driver_inv_def split: if_splits)

text \<open>The operations of an application on a driver, the rounds of the heartbeat and the events of
  the network between calls.\<close>

inductive driver_reach :: "'w Env \<Rightarrow> FinsTCPDriver \<Rightarrow> 'w \<Rightarrow> bool" for env :: "'w Env" where
  driver_new: "driver_reach env NewFinsTCPDriver w"
| driver_init: "driver_reach env d w \<Longrightarrow> Driver_Init oob d cfg = (r, d') \<Longrightarrow> driver_reach env d' w"
| driver_connect: "driver_reach env d w \<Longrightarrow> Driver_Connect env d w = (r, d', w') \<Longrightarrow> driver_reach env d' w'"
| driver_disconnect: "driver_reach env d w \<Longrightarrow> Driver_Disconnect env d w = (r, d', w') \<Longrightarrow> driver_reach env d' w'"
| driver_reconnect: "driver_reach env d w \<Longrightarrow> Driver_Reconnect env d w = (r, d', w') \<Longrightarrow> driver_reach env d' w'"
| driver_read: "driver_reach env d w \<Longrightarrow> Driver_ReadPoints env order ties d w points = (r, d', w') \<Longrightarrow>
    driver_reach env d' w'"
| driver_write: "driver_reach env d w \<Longrightarrow> Driver_WritePoint oob env d w p v = (r, d', w') \<Longrightarrow> driver_reach env d' w'"
| driver_slave: "driver_reach env d w \<Longrightarrow> driver_reach env (SetSlaveID d n) w"
| driver_device: "driver_reach env d w \<Longrightarrow> driver_reach env (SetDeviceConfig d cfg) w"
| driver_heartbeat: "driver_reach env d w \<Longrightarrow> d_transport d = Some t \<Longrightarrow> heartbeat_step env k t w = (t', w') \<Longrightarrow>
    driver_reach env (d\<lparr>d_transport := Some t'\<rparr>) w'"
| driver_event: "driver_reach env d w \<Longrightarrow> d_transport d = Some t \<Longrightarrow> readLoop_event env ev t w = (Ok t', w') \<Longrightarrow>
    driver_reach env (d\<lparr>d_transport := Some t'\<rparr>) w'"

lemma NewTransport_not_Panic: "NewTransport oob cfg \<noteq> Panic"
  by (auto simp: NewTransport_def loadConfig_def split: option.splits GoValue.splits)

lemma Driver_Init_inv: "driver_inv d \<Longrightarrow> Driver_Init oob d cfg = (r, d') \<Longrightarrow> driver_inv d' \<and> r \<noteq> Panic"
  using NewTransport_not_Panic NewTransport_inv
  by (auto simp: Driver_Init_def driver_inv_def Let_def NewScheduler_def split: if_splits go.splits)

lemma on_transport_inv:
  assumes "driver_inv d" and "on_transport f d w = (r, d', w')" and "d_transport d \<noteq> None"
    and "\<And>t r t' w'. transport_inv t \<Longrightarrow> f t w = (r, t', w') \<Longrightarrow> transport_inv t' \<and> r \<noteq> Panic"
  shows "driver_inv d' \<and> r \<noteq> Panic"
proof -
  obtain t where t: "d_transport d = Some t" "transport_inv t" "d_initialized d"
    using assms(1,3) driver_inv_transport by blast
  obtain r1 t1 w1 where f: "f t w = (r1, t1, w1)" by (cases "f t w")
  show ?thesis
    using assms(1,2) t f assms(4) [OF t(2) f] by (auto simp: on_transport_def driver_inv_def)
qed

lemma Disconnect_not_Panic: "fst (Disconnect env t w) \<noteq> Panic"
  by (auto simp: Disconnect_def Let_def split: prod.splits)

lemma reconnect_loop_not_Panic: "transport_inv t \<Longrightarrow> fst (reconnect_loop env n i t w) \<noteq> Panic"
proof (induction n arbitrary: i t w)
  case (Suc n)
  obtain r1 t1 w1 where c: "Connect env t w = (r1, t1, w1)" by (cases "Connect env t w")
  note ci = Connect_inv [OF Suc.prems c]
  then show ?case using c Suc.IH [of t1] by (cases r1) (auto simp: Let_def split: option.splits prod.splits)
qed simp

lemma Reconnect_not_Panic: "transport_inv t \<Longrightarrow> fst (Reconnect env t w) \<noteq> Panic"
  by (auto simp: Reconnect_def dest: Disconnect_inv reconnect_loop_not_Panic split: prod.splits)

lemma ensure_connected_inv:
  assumes "transport_inv t" and "ensure_connected env t w = (r, t', w')"
  shows "transport_inv t' \<and> r \<noteq> Panic"
  using assms Reconnect_not_Panic [OF assms(1), of env w]
  by (auto simp: ensure_connected_def dest: Reconnect_inv split: if_splits)


lemma Driver_ReadPoints_inv:
  assumes "driver_inv d" and "Driver_ReadPoints env order ties d w points = (r, d', w')"
  shows "driver_inv d'"
proof (cases "d_initialized d")
  case True
  then obtain t s where ts: "d_transport d = Some t" "d_scheduler d = Some s" "transport_inv t" "s_decoder s = NewDecoder"
    using assms(1) by (auto elim: driver_invE)
  obtain r1 t1 w1 where e: "ensure_connected env t w = (r1, t1, w1)" by (cases "ensure_connected env t w")
  have t1: "transport_inv t1" using ensure_connected_inv [OF ts(3) e] by simp
  show ?thesis
    using assms(2) True ts e t1
    by (auto simp: Driver_ReadPoints_def intro!: driver_inv_update [OF assms(1) True]
        dest!: ReadPoints_inv [OF t1] split: go.splits prod.splits)
next
  case False
  then show ?thesis using assms by (simp add: Driver_ReadPoints_def)
qed

lemma Driver_WritePoint_inv:
  assumes "driver_inv d" and "Driver_WritePoint oob env d w p v = (r, d', w')"
  shows "driver_inv d'"
proof (cases "d_initialized d")
  case True
  then obtain t s where ts: "d_transport d = Some t" "d_scheduler d = Some s" "transport_inv t" "s_decoder s = NewDecoder"
    using assms(1) by (auto elim: driver_invE)
  obtain r1 t1 w1 where e: "ensure_connected env t w = (r1, t1, w1)" by (cases "ensure_connected env t w")
  have t1: "transport_inv t1" using ensure_connected_inv [OF ts(3) e] by simp
  show ?thesis
    using assms(2) True ts e t1
    by (auto simp: Driver_WritePoint_def intro!: driver_inv_update [OF assms(1) True]
        dest!: WritePoint_inv [OF t1] split: go.splits prod.splits)
next
  case False
  then show ?thesis using assms by (simp add: Driver_WritePoint_def)
qed

lemma guarded_inv:
  assumes "driver_inv d" and "(if d_transport d = None then (e, d, w) else on_transport f d w) = (r, d', w')"
    and "e \<noteq> Panic" and "\<And>t r t' w'. transport_inv t \<Longrightarrow> f t w = (r, t', w') \<Longrightarrow> transport_inv t' \<and> r \<noteq> Panic"
  shows "driver_inv d' \<and> r \<noteq> Panic"
proof (cases "d_transport d = None")
  case True
  then show ?thesis using assms(1-3) by simp
next
  case False
  with assms(2) have "on_transport f d w = (r, d', w')" by simp
  then show ?thesis using False by (rule on_transport_inv [OF assms(1)]) (rule assms(4))
qed

lemma driver_link_inv:
  assumes "driver_inv d"
  shows "Driver_Connect env d w = (r, d', w') \<Longrightarrow> driver_inv d' \<and> r \<noteq> Panic"
    and "Driver_Disconnect env d w = (r, d', w') \<Longrightarrow> driver_inv d' \<and> r \<noteq> Panic"
    and "Driver_Reconnect env d w = (r, d', w') \<Longrightarrow> driver_inv d' \<and> r \<noteq> Panic"
proof -
  have init: "d_initialized d \<longleftrightarrow> d_transport d \<noteq> None" using assms by (auto simp: driver_inv_def split: if_splits)
  have conn: "transport_inv t' \<and> r \<noteq> Panic" if "transport_inv t" "Connect env t w = (r, t', w')" for t r t' w'
    using Connect_inv [OF that] by simp
  show "driver_inv d' \<and> r \<noteq> Panic" if "Driver_Connect env d w = (r, d', w')"
  proof (rule guarded_inv [OF assms _ _ conn])
    show "(if d_transport d = None then (Err driver_not_initialized, d, w) else on_transport (Connect env) d w) = (r, d', w')"
      using that init by (simp add: Driver_Connect_def)
  qed simp_all
  show "driver_inv d' \<and> r \<noteq> Panic" if "Driver_Disconnect env d w = (r, d', w')"
    by (rule guarded_inv [OF assms that [unfolded Driver_Disconnect_def]]) (simp, auto dest: Disconnect_inv)
  have "transport_inv t' \<and> r \<noteq> Panic" if "transport_inv t" "Reconnect env t w = (r, t', w')" for t r t' w'
    using Reconnect_inv [OF that] Reconnect_not_Panic [OF that(1), of env w] that(2) by simp
  then show "driver_inv d' \<and> r \<noteq> Panic" if "Driver_Reconnect env d w = (r, d', w')"
    using guarded_inv [OF assms that [unfolded Driver_Reconnect_def]] by simp
qed

lemma driver_reach_inv: "driver_reach env d w \<Longrightarrow> driver_inv d"
proof (induction rule: driver_reach.induct)
  case (driver_new w)
  then show ?case by (simp add: driver_inv_def NewFinsTCPDriver_def)
next
  case (driver_heartbeat d w t k t' w')
  then show ?case 
    using driver_inv_set_transport heartbeat_inv driver_inv_transport by metis
next
  case (driver_event d w t ev t' w')
  then show ?case 
    using driver_inv_set_transport idle_event_inv driver_inv_transport by metis
next
  case (driver_slave d w n)
  then show ?case by (auto simp: SetSlaveID_def driver_inv_def)
next
  case (driver_device d w cfg)
  then show ?case by (auto simp: SetDeviceConfig_def driver_inv_def)
qed (erule (1) Driver_Init_inv [THEN conjunct1] driver_link_inv [THEN conjunct1]
      Driver_ReadPoints_inv Driver_WritePoint_inv)+

section \<open>Reading and reconnecting\<close>

lemma all_bad_dom: "dom (all_bad now points) = pt_ID ` set points"
proof -
  have "dom (foldl (\<lambda>res p. res(pt_ID p \<mapsto> bad_value now)) m ps) = dom m \<union> pt_ID ` set ps" for m :: results and ps
    by (induction ps arbitrary: m) auto
  from this [of Map.empty points] show ?thesis by (simp add: all_bad_def)
qed

lemma all_bad_quality: "\<forall>v \<in> ran (all_bad now points). val_Quality v = QualityBad"
proof -
  have "ran (foldl (\<lambda>res p. res(pt_ID p \<mapsto> bad_value now)) m ps) \<subseteq> ran m \<union> {bad_value now}" for m :: results and ps
  proof (induction ps arbitrary: m)
    case (Cons p ps)
    have "ran (m(pt_ID p \<mapsto> bad_value now)) \<subseteq> ran m \<union> {bad_value now}" by (auto simp: ran_def)
    then show ?case using Cons.IH [of "m(pt_ID p \<mapsto> bad_value now)"] unfolding foldl_Cons by blast
  qed auto
  from this [of Map.empty points] show ?thesis by (auto simp: all_bad_def bad_value_def)
qed

text \<open>A driver over the mock network: it is connected, or it can reconnect.\<close>

definition recoverable :: "Transport \<Rightarrow> MockNet \<Rightarrow> bool" where
  "recoverable t w \<longleftrightarrow>
     session_live (t, w) \<or>
     transport_inv t \<and> \<not> t_connected t \<and> 0 < t_maxRetries t \<and> mock_wf (mn_plc w)"

lemma ensure_connected_session:
  assumes "recoverable t w"
  shows "\<exists>t' w'. ensure_connected (mock_env cuts) t w = (Ok (), t', w') \<and> session_live (t', w') \<and> mn_plc w' = mn_plc w"
proof (cases "t_connected t")
  case True
  then show ?thesis using assms by (auto simp: recoverable_def ensure_connected_def IsConnected_def)
next
  case False
  then have r: "transport_inv t" "0 < t_maxRetries t" "mock_wf (mn_plc w)"
    using assms by (auto simp: recoverable_def session_live_def transport_inv_def link_ok_def)
  obtain n where n: "nat (t_maxRetries t) = Suc n" using r(2) by (metis gr0_implies_Suc zero_less_nat_eq)
  obtain t' w' where c: "Connect (mock_env cuts) t w = (Ok (), t', w')" "session_live (t', w')" "mn_plc w' = mn_plc w"
    using Connect_session [OF r(1) False r(3)] by blast
  have "session_live (t'\<lparr>t_reconnectCount := t_reconnectCount t' + 1\<rparr>, w')"
    using c(2) by (auto simp: session_live_def transport_inv_def link_ok_def chans_ok_empty)
  then show ?thesis
    using c False n by (simp add: ensure_connected_def IsConnected_def Reconnect_def Disconnect_def)
qed

lemma session_of_plc:
  "mn_plc w' = mn_plc w \<Longrightarrow> session_image (t', w') = session_image (t, w)"
  "mn_plc w' = mn_plc w \<Longrightarrow> session_flags (t', w') = session_flags (t, w)"
  by (auto simp: session_image_def session_flags_def fun_eq_iff)

lemma Driver_read_live:
  assumes "d_initialized d" and "d_transport d = Some t" and "d_scheduler d = Some s" and "s_decoder s = NewDecoder"
    and "recoverable t w" and "distinct (map pt_ID points)"
    and "\<forall>p \<in> set points. \<exists>a. ParseAddress NewDecoder (pt_Address p) = Ok a \<and>
      core_ready (session_image (t, w)) (session_flags (t, w)) (p, a)"
  shows "\<exists>res d' w'. Driver_ReadPoints (mock_env cuts) order ties d w points = (Ok res, d', w') \<and>
    Driver_IsConnected d' \<and> session_image (the (d_transport d'), w') = session_image (t, w) \<and>
    (\<forall>p \<in> set points. \<exists>a. ParseAddress NewDecoder (pt_Address p) = Ok a \<and>
       shows_value (res (pt_ID p)) (core_value (session_image (t, w)) (session_flags (t, w)) (p, a)))"
proof -
  obtain t1 w1 where e: "ensure_connected (mock_env cuts) t w = (Ok (), t1, w1)" "session_live (t1, w1)"
      "mn_plc w1 = mn_plc w"
    using ensure_connected_session [OF assms(5)] by blast
  note same = session_of_plc [OF e(3), of t1 t]
  obtain f where f: "\<forall>p \<in> set points. ParseAddress (s_decoder s) (pt_Address p) = Ok (f p) \<and>
      core_ready (session_image (t1, w1)) (session_flags (t1, w1)) (p, f p)"
    using assms(4,7) same by metis
  obtain res s' t' w' where r: "ReadPoints (mock_env cuts) order ties s t1 w1 points = (Ok res, s', t', w')"
      "session_live (t', w')" "session_image (t', w') = session_image (t, w)"
      "\<forall>p \<in> set points. shows_value (res (pt_ID p)) (core_value (session_image (t, w)) (session_flags (t, w)) (p, f p))"
    using ReadPoints_live [OF e(2) assms(6) f, of cuts order ties] same by metis
  have "t_connected t'" using r(2) by (auto simp: session_live_def transport_inv_def link_ok_def)
  moreover have "Driver_ReadPoints (mock_env cuts) order ties d w points =
      (Ok res, d\<lparr>d_transport := Some t', d_scheduler := Some s'\<rparr>, w')"
    using assms(1-3) e(1) r(1) by (simp add: Driver_ReadPoints_def)
  ultimately show ?thesis
    using r(3,4) f assms(4) by (fastforce simp: Driver_IsConnected_def IsConnected_def)
qed


section \<open>The retry limit is kept\<close>

lemma dispatch_retries:
  "foldl dispatchResponse (Ok t) fs = Ok t' \<Longrightarrow> t_maxRetries t' = t_maxRetries t"
proof (induction fs arbitrary: t)
  case (Cons f fs)
  have stuck: "foldl dispatchResponse r gs = r" if "r = Panic \<or> (\<exists>e. r = Err e)" for r gs
    using that by (induction gs) (auto simp: dispatchResponse_def)
  obtain t1 where t1: "dispatchResponse (Ok t) f = Ok t1"
    using Cons.prems stuck [of "dispatchResponse (Ok t) f" fs] by (cases "dispatchResponse (Ok t) f") auto
  then have "t_maxRetries t1 = t_maxRetries t"
    by (auto simp: dispatchResponse_def Let_def split: option.splits if_splits)
  then show ?case using Cons t1 by simp
qed simp

lemma readLoop_event_retries:
  assumes "readLoop_event env ev t w = (Ok t', w')"
  shows "t_maxRetries t' = t_maxRetries t"
proof (cases "\<exists>acc buf. t_accumulator t = Some acc \<and> ev = Received buf")
  case True
  then obtain acc buf where acc: "t_accumulator t = Some acc" "ev = Received buf" by blast
  let ?st = "foldl dispatchResponse (Ok t) (fst (frames_of (acc @ buf)))"
  have "go_bind ?st (\<lambda>t'. Ok (t'\<lparr>t_accumulator := Some (snd (frames_of (acc @ buf)))\<rparr>)) = Ok t'"
    using assms acc by (simp add: readLoop_event_def readLoop_read_def readLoop_inner_frames)
  then show ?thesis using dispatch_retries [of t "fst (frames_of (acc @ buf))"] by (cases ?st) auto
next
  case False
  then show ?thesis
    using assms by (auto simp: readLoop_event_def Let_def split: option.splits net_event.splits if_splits prod.splits)
qed

lemma after_wait_retries: "after_wait env r evs t w = (r', t', w') \<Longrightarrow> t_maxRetries t' = t_maxRetries t"
proof (induction evs arbitrary: t w)
  case (Cons ev evs)
  then show ?case
    using readLoop_event_retries [of env ev t w] by (auto split: go.splits prod.splits)
qed simp

lemma await_response_retries: "await_response env i sid evs t w = (r, t', w') \<Longrightarrow> t_maxRetries t' = t_maxRetries t"
proof (induction evs arbitrary: t w)
  case (Cons ev evs)
  show ?case
  proof (cases "(\<exists>e. ev = ContextDone e) \<or> ev = TimerFired")
    case True
    then show ?thesis using Cons.prems by (auto dest!: after_wait_retries simp: unregister_def)
  next
    case False
    obtain r1 w1 where e: "readLoop_event env ev t w = (r1, w1)" by fastforce
    show ?thesis
    proof (cases r1)
      case (Ok t1)
      have k: "t_maxRetries t1 = t_maxRetries t" using readLoop_event_retries e Ok by simp
      have "(let ch = t_chans t1 ! i in
          case ch_buf ch of
            Some f \<Rightarrow> after_wait env (Ok f) evs (unregister sid (t1\<lparr>t_chans := (t_chans t1)[i := ch\<lparr>ch_buf := None\<rparr>]\<rparr>)) w1
          | None \<Rightarrow> if ch_closed ch then after_wait env (Err ErrConnectionClosed) evs (unregister sid t1) w1
              else await_response env i sid evs t1 w1) = (r, t', w')"
        using Cons.prems False e Ok by (cases ev) simp_all
      then show ?thesis
        using k Cons.IH [of t1 w1]
        by (auto dest!: after_wait_retries simp: unregister_def Let_def split: option.splits if_splits)
    qed (use Cons.prems False e in \<open>cases ev; simp\<close>)+
  qed
qed (auto simp: unregister_def)

lemma SendCommand_retries: "SendCommand env t w cmd = (r, t', w') \<Longrightarrow> t_maxRetries t' = t_maxRetries t"
  by (auto dest!: await_response_retries simp: SendCommand_def nextSID_def unregister_def register_def Let_def
      split: if_splits option.splits prod.splits)

lemma WritePoint_retries:
  assumes "WritePoint oob env s t w p v = (r, s', t', w')"
  shows "t_maxRetries t' = t_maxRetries t"
proof -
  let ?s = "s\<lparr>s_totalRequests := s_totalRequests s + 1\<rparr>"
  obtain s1 w1 where m: "waitMinInterval env ?s w = (s1, w1)" by fastforce
  show ?thesis
    using assms unfolding WritePoint_def Let_def m split_conv
    by (auto dest: SendCommand_retries simp: WriteMemory_def WriteBits_def split: go.splits prod.splits if_splits)
qed

section \<open>A sample driver\<close>

definition sample_config :: DriverConfig where
  "sample_config = \<lparr>dc_Protocol = ''fins'', dc_Config = Some [''plcIP'' \<mapsto> VString [49]]\<rparr>"

lemma fresh_driver:
  "\<exists>d t s. Driver_Init (\<lambda>_ _. 0) NewFinsTCPDriver sample_config = (Ok (), d) \<and> d_initialized d \<and>
     d_transport d = Some t \<and> d_scheduler d = Some s \<and> s_decoder s = NewDecoder \<and>
     recoverable t fresh_net \<and> \<not> t_connected t \<and> 0 < t_maxRetries t"
proof -
  obtain t where t: "NewTransport (\<lambda>_ _. 0) [''plcIP'' \<mapsto> VString [49]] = Ok t" "t_maxRetries t = 3" "\<not> t_connected t"
    by (simp add: NewTransport_def loadConfig_def cfg_int_def initial_transport_def)
  then show ?thesis
    using NewTransport_inv [OF t(1)] mock_wf_New
    by (simp add: Driver_Init_def NewFinsTCPDriver_def sample_config_def NewScheduler_def recoverable_def fresh_net_def)
qed

lemma connected_driver:
  "\<exists>d d1 t s w. Driver_Init (\<lambda>_ _. 0) NewFinsTCPDriver sample_config = (Ok (), d) \<and>
     Driver_Connect (mock_env cuts) d fresh_net = (Ok (), d1, w) \<and> d_initialized d1 \<and> d_transport d1 = Some t \<and>
     d_scheduler d1 = Some s \<and> s_decoder s = NewDecoder \<and> session_live (t, w) \<and> 0 < t_maxRetries t \<and>
     mn_plc w = NewMockPLC"
proof -
  obtain d t s where d: "Driver_Init (\<lambda>_ _. 0) NewFinsTCPDriver sample_config = (Ok (), d)" "d_initialized d"
      "d_transport d = Some t" "d_scheduler d = Some s" "s_decoder s = NewDecoder" "recoverable t fresh_net"
      "\<not> t_connected t" "0 < t_maxRetries t"
    using fresh_driver by blast
  have "transport_inv t" using d(6) by (auto simp: recoverable_def session_live_def)
  then obtain t' w' where c: "Connect (mock_env cuts) t fresh_net = (Ok (), t', w')" "session_live (t', w')"
      "mn_plc w' = NewMockPLC"
    using Connect_session [of t fresh_net cuts] d(7) mock_wf_New by (auto simp: fresh_net_def)
  moreover have "t_maxRetries t' = t_maxRetries t"
    using c(1) d(7) by (auto simp: Connect_def startHeartbeat_def Let_def split: sum.splits prod.splits)
  ultimately show ?thesis using d by (simp add: Driver_Connect_def on_transport_def)
qed

section \<open>Properties\<close>





text \<open>C8. Recovery: an initialised driver whose link to the mock PLC is up, or down with at least one retry
  configured, answers a read of points in range with their values from the PLC's memory, and
  is connected afterwards.\<close>

theorem Driver_ReadPoints_recovers:
  assumes "d_initialized d" and "d_transport d = Some t" and "d_scheduler d = Some s" and "s_decoder s = NewDecoder"
    and "recoverable t w" and "distinct (map pt_ID points)"
    and "\<forall>p \<in> set points. \<exists>a. ParseAddress NewDecoder (pt_Address p) = Ok a \<and>
      core_ready (session_image (t, w)) (session_flags (t, w)) (p, a)"
  shows "\<exists>res d' w'. Driver_ReadPoints (mock_env cuts) order ties d w points = (Ok res, d', w') \<and>
    Driver_IsConnected d' \<and> session_image (the (d_transport d'), w') = session_image (t, w) \<and>
    (\<forall>p \<in> set points. \<exists>a. ParseAddress NewDecoder (pt_Address p) = Ok a \<and>
       shows_value (res (pt_ID p)) (core_value (session_image (t, w)) (session_flags (t, w)) (p, a)))"
  by (rule Driver_read_live [OF assms])

theorem Driver_ReadPoints_recovers_witness:
  "\<exists>d res d' w'. Driver_Init (\<lambda>_ _. 0) NewFinsTCPDriver sample_config = (Ok (), d) \<and> \<not> Driver_IsConnected d \<and>
     Driver_ReadPoints (mock_env (\<lambda>_. [7])) [] (\<lambda>_. []) d fresh_net [speed_point] = (Ok res, d', w') \<and>
     Driver_IsConnected d'"
proof -
  obtain d t s where d: "Driver_Init (\<lambda>_ _. 0) NewFinsTCPDriver sample_config = (Ok (), d)" "d_initialized d"
      "d_transport d = Some t" "d_scheduler d = Some s" "s_decoder s = NewDecoder" "recoverable t fresh_net"
      "\<not> t_connected t"
    using fresh_driver by blast
  have "\<forall>p \<in> set [speed_point]. \<exists>a. ParseAddress NewDecoder (pt_Address p) = Ok a \<and>
      core_ready (session_image (t, fresh_net)) (session_flags (t, fresh_net)) (p, a)"
    using speed_parse speed_ready by (simp add: fresh_net_def)
  from Driver_ReadPoints_recovers [OF d(2-6) _ this, of "\<lambda>_. [7]" "[]" "\<lambda>_. []"] show ?thesis
    using d(1,3,7) by (auto simp: Driver_IsConnected_def IsConnected_def)
qed



text \<open>C23. The life cycle is guarded: before a successful \<open>Init\<close>, connecting, reading and writing return
  the error \<open>driver not initialized\<close> and change nothing; \<open>Init\<close> succeeds exactly when it is the
  first and the merged configuration has the PLC's address as a string; a failed one leaves a
  driver that initialises once the address is supplied, and a repeated one changes nothing.\<close>

theorem driver_lifecycle:
  "(\<not> IsInitialized d \<longrightarrow>
      Driver_Connect env d w = (Err driver_not_initialized, d, w) \<and>
      Driver_ReadPoints env order ties d w points = (Err driver_not_initialized, d, w) \<and>
      Driver_WritePoint oob env d w p v = (Err driver_not_initialized, d, w)) \<and>
   (fst (Driver_Init oob d cfg) = Ok () \<longleftrightarrow> \<not> IsInitialized d \<and>
      (\<exists>ip. (d_deviceCfg d ++ (case dc_Config cfg of Some m \<Rightarrow> m | None \<Rightarrow> Map.empty)) ''plcIP'' = Some (VString ip))) \<and>
   (IsInitialized (snd (Driver_Init oob d cfg)) \<longleftrightarrow> IsInitialized d \<or> fst (Driver_Init oob d cfg) = Ok ()) \<and>
   (\<not> IsInitialized (snd (Driver_Init oob d cfg)) \<longrightarrow>
      fst (Driver_Init oob (SetDeviceConfig (snd (Driver_Init oob d cfg)) [''plcIP'' \<mapsto> VString ip])
        \<lparr>dc_Protocol = [], dc_Config = None\<rparr>) = Ok ()) \<and>
   (IsInitialized d \<longrightarrow> snd (Driver_Init oob d cfg) = d)"
proof -
  define c where "c = d_deviceCfg d ++ (case dc_Config cfg of Some m \<Rightarrow> m | None \<Rightarrow> Map.empty)"
  have cfg: "(case dc_Config cfg of Some m \<Rightarrow> d_deviceCfg d ++ m | None \<Rightarrow> d_deviceCfg d) = c"
    by (simp add: c_def split: option.split)
  have "\<exists>T. NewTransport oob c = (case c ''plcIP'' of Some (VString v) \<Rightarrow> Ok T | _ \<Rightarrow> Err (ErrMsg ''plcIP is required''))"
    by (simp add: NewTransport_def loadConfig_def split: option.split GoValue.split)
  then obtain T where nt: "NewTransport oob c =
      (case c ''plcIP'' of Some (VString v) \<Rightarrow> Ok T | _ \<Rightarrow> Err (ErrMsg ''plcIP is required''))" by blast
  have init: "Driver_Init oob d cfg =
      (if d_initialized d then (Err (ErrMsg ''driver already initialized''), d)
       else let d1 = d\<lparr>d_config := cfg, d_deviceCfg := c, d_decoder := Some NewDecoder\<rparr>
         in case c ''plcIP'' of
              Some (VString v) \<Rightarrow> (Ok (), d1\<lparr>d_transport := Some T,
                 d_scheduler := Some (NewScheduler oob NewDecoder c), d_initialized := True\<rparr>)
            | _ \<Rightarrow> (Err (ErrMsg ''plcIP is required''), d1))"
    unfolding Driver_Init_def cfg Let_def by (simp add: nt split: option.split GoValue.split)
  show ?thesis
    unfolding c_def [symmetric]
  proof (intro conjI)
    show "fst (Driver_Init oob d cfg) = Ok () \<longleftrightarrow> \<not> IsInitialized d \<and> (\<exists>ip. c ''plcIP'' = Some (VString ip))"
      "IsInitialized (snd (Driver_Init oob d cfg)) \<longleftrightarrow> IsInitialized d \<or> fst (Driver_Init oob d cfg) = Ok ()"
      unfolding init by (auto simp: IsInitialized_def Let_def split: option.splits GoValue.splits)
    show "\<not> IsInitialized (snd (Driver_Init oob d cfg)) \<longrightarrow>
      fst (Driver_Init oob (SetDeviceConfig (snd (Driver_Init oob d cfg)) [''plcIP'' \<mapsto> VString ip])
        \<lparr>dc_Protocol = [], dc_Config = None\<rparr>) = Ok ()"
      by (simp add: Driver_Init_def SetDeviceConfig_def IsInitialized_def Let_def NewTransport_def loadConfig_def)
  qed (simp_all add: Driver_Connect_def Driver_ReadPoints_def Driver_WritePoint_def Driver_Init_def IsInitialized_def)
qed

theorem driver_lifecycle_witness:
  "fst (Driver_Init (\<lambda>_ _. 0) NewFinsTCPDriver \<lparr>dc_Protocol = [], dc_Config = None\<rparr>) \<noteq> Ok () \<and>
   Driver_Connect (mock_env (\<lambda>_. [])) NewFinsTCPDriver fresh_net = (Err driver_not_initialized, NewFinsTCPDriver, fresh_net)"
  using driver_lifecycle [of NewFinsTCPDriver "mock_env (\<lambda>_. [])" fresh_net "[]" "\<lambda>_. []" "[]" "\<lambda>_ _. 0" speed_point VNil
      "\<lparr>dc_Protocol = [], dc_Config = None\<rparr>"]
  by (simp add: IsInitialized_def NewFinsTCPDriver_def)

end
