(* ===== verification/Cmd_Tcp_Client.thy ===== *)
theory Cmd_Tcp_Client
  imports Fins_Driver_Correct
begin

text \<open>
  The self-test program of \<open>cmd/tcp/client/main.go\<close>: it opens a driver on a PLC, runs ten tests of
  reading and writing points, and exits with the verdict. A test is a computation over the driver
  and the world that ends in nothing, an error or a panic; the lines it prints are left out. The
  tests are shown to pass against the mock PLC whatever its memory holds.
\<close>

section \<open>Tests as computations\<close>

text \<open>The errors of the tests: one constructor for each message, with what is printed into it.\<close>

datatype TestError =
    ReadPointsFailed FinsError
  | WritePointFailed FinsError
  | PointNotFound string
  | PointBadQuality string Quality
  | ValueMismatch GoValue GoValue
  | HealthIsNot HealthStatus
  | ConnectionDown

type_synonym 'w driver_state = "FinsTCPDriver \<times> 'w"
type_synonym ('w, 'a) driver_test = "'w driver_state \<Rightarrow> (TestError, 'a) go \<times> 'w driver_state"

text \<open>The order of map iterations and of equal elements in one \<open>ReadPoints\<close>.\<close>

type_synonym read_order = "nat list \<times> (groupKey \<Rightarrow> nat list)"

definition test_bind :: "('w, 'a) driver_test \<Rightarrow> ('a \<Rightarrow> ('w, 'b) driver_test) \<Rightarrow> ('w, 'b) driver_test" where
  "test_bind m f st =
     (case m st of (Ok x, st') \<Rightarrow> f x st' | (Err e, st') \<Rightarrow> (Err e, st') | (Panic, st') \<Rightarrow> (Panic, st'))"

definition wrap_error :: "('e \<Rightarrow> 'f) \<Rightarrow> ('e, 'a) go \<Rightarrow> ('f, 'a) go" where
  "wrap_error g r = (case r of Ok x \<Rightarrow> Ok x | Err e \<Rightarrow> Err (g e) | Panic \<Rightarrow> Panic)"

definition read_points :: "'w Env \<Rightarrow> read_order \<Rightarrow> Point list \<Rightarrow> ('w, results) driver_test" where
  "read_points env ro points st =
     (case Driver_ReadPoints env (fst ro) (snd ro) (fst st) (snd st) points of
        (r, st') \<Rightarrow> (wrap_error ReadPointsFailed r, st'))"

definition write_point :: "float_oob \<Rightarrow> 'w Env \<Rightarrow> Point \<Rightarrow> GoValue \<Rightarrow> ('w, unit) driver_test" where
  "write_point oob env point v st =
     (case Driver_WritePoint oob env (fst st) (snd st) point v of
        (r, st') \<Rightarrow> (wrap_error WritePointFailed r, st'))"

definition check_good :: "results \<Rightarrow> Point \<Rightarrow> (TestError, unit) go" where
  "check_good results p =
     (case results (pt_ID p) of
        None \<Rightarrow> Err (PointNotFound (pt_ID p))
      | Some v \<Rightarrow> if val_Quality v \<noteq> QualityGood then Err (PointBadQuality (pt_ID p) (val_Quality v)) else Ok ())"

fun check_all_good :: "results \<Rightarrow> Point list \<Rightarrow> (TestError, unit) go" where
  "check_all_good results [] = Ok ()"
| "check_all_good results (p # points) = go_bind (check_good results p) (\<lambda>_. check_all_good results points)"

text \<open>The comparison \<open>val.Value != testVal\<close>; the one floating-point value that is compared is
  neither zero nor a NaN, so that equality of numbers is equality of bit patterns.\<close>

definition check_value :: "results \<Rightarrow> string \<Rightarrow> GoValue \<Rightarrow> (TestError, unit) go" where
  "check_value results i testVal =
     (case results i of
        None \<Rightarrow> Err (PointNotFound i)
      | Some v \<Rightarrow> if val_Value v \<noteq> testVal then Err (ValueMismatch testVal (val_Value v)) else Ok ())"

section \<open>The tests\<close>

definition test_point :: "string \<Rightarrow> string \<Rightarrow> DataType \<Rightarrow> Point" where
  "test_point i address dt = \<lparr>pt_ID = i, pt_Address = address, pt_DataType = dt, pt_Attribute = ''''\<rparr>"

definition uint16_points :: "Point list" where
  "uint16_points =
     [test_point ''D100'' ''D100'' DataTypeUINT16, test_point ''D101'' ''D101'' DataTypeUINT16,
      test_point ''D102'' ''D102'' DataTypeUINT16]"

definition testReadPointsUINT16 :: "'w Env \<Rightarrow> read_order \<Rightarrow> ('w, unit) driver_test" where
  "testReadPointsUINT16 env ro =
     test_bind (read_points env ro uint16_points) (\<lambda>results. Pair (check_all_good results uint16_points))"

definition float_point :: Point where
  "float_point = test_point ''D200'' ''D200'' DataTypeFLOAT"

definition testReadPointsFLOAT :: "'w Env \<Rightarrow> read_order \<Rightarrow> ('w, unit) driver_test" where
  "testReadPointsFLOAT env ro =
     test_bind (read_points env ro [float_point]) (\<lambda>results. Pair (check_good results float_point))"

definition bit_points :: "Point list" where
  "bit_points =
     [test_point ''CIO0.0'' ''CIO0.0'' DataTypeBIT, test_point ''CIO0.1'' ''CIO0.1'' DataTypeBIT,
      test_point ''CIO0.2'' ''CIO0.2'' DataTypeBIT]"

definition testReadPointsBIT :: "'w Env \<Rightarrow> read_order \<Rightarrow> ('w, unit) driver_test" where
  "testReadPointsBIT env ro =
     test_bind (read_points env ro bit_points) (\<lambda>results. Pair (check_all_good results bit_points))"

text \<open>The body that the tests of writing share: write, read back, compare under the point's ID.\<close>

definition write_read_check ::
  "float_oob \<Rightarrow> 'w Env \<Rightarrow> read_order \<Rightarrow> Point \<Rightarrow> GoValue \<Rightarrow> ('w, unit) driver_test" where
  "write_read_check oob env ro point testVal =
     test_bind (write_point oob env point testVal) (\<lambda>_.
       test_bind (read_points env ro [point]) (\<lambda>results. Pair (check_value results (pt_ID point) testVal)))"

definition testWriteReadPointUINT16 :: "float_oob \<Rightarrow> 'w Env \<Rightarrow> read_order \<Rightarrow> ('w, unit) driver_test" where
  "testWriteReadPointUINT16 oob env ro =
     write_read_check oob env ro (test_point ''D300'' ''D300'' DataTypeUINT16) (VUint16 54321)"

text \<open>\<open>float32(3.14159)\<close> has the bit pattern \<open>0x40490FD0\<close>.\<close>

definition testWriteReadPointFLOAT :: "float_oob \<Rightarrow> 'w Env \<Rightarrow> read_order \<Rightarrow> ('w, unit) driver_test" where
  "testWriteReadPointFLOAT oob env ro =
     write_read_check oob env ro (test_point ''D400'' ''D400'' DataTypeFLOAT) (VFloat32 0x40490FD0)"

definition testWriteReadPointBIT :: "float_oob \<Rightarrow> 'w Env \<Rightarrow> read_order \<Rightarrow> read_order \<Rightarrow> ('w, unit) driver_test" where
  "testWriteReadPointBIT oob env ro ro' =
     (let point = test_point ''CIO100.0'' ''CIO100.0'' DataTypeBIT in
      test_bind (write_read_check oob env ro point (VBool True)) (\<lambda>_.
        write_read_check oob env ro' point (VBool False)))"

definition testWriteReadPointINT32 :: "float_oob \<Rightarrow> 'w Env \<Rightarrow> read_order \<Rightarrow> ('w, unit) driver_test" where
  "testWriteReadPointINT32 oob env ro =
     write_read_check oob env ro (test_point ''D500'' ''D500'' DataTypeINT32) (VInt32 (- 123456789))"

definition testWriteReadPointSTRING :: "float_oob \<Rightarrow> 'w Env \<Rightarrow> read_order \<Rightarrow> ('w, unit) driver_test" where
  "testWriteReadPointSTRING oob env ro =
     write_read_check oob env ro (test_point ''D600'' ''D600.20L'' DataTypeSTRING)
       (VString (map of_char ''Hello FINS TCP''))"

definition testHealthCheck :: "('w, unit) driver_test" where
  "testHealthCheck st =
     (case Driver_Health (fst st) of
        Ok health \<Rightarrow> if health \<noteq> HealthStatusUp then Err (HealthIsNot health) else Ok ()
      | Err _ \<Rightarrow> Panic
      | Panic \<Rightarrow> Panic, st)"

definition testConnectionMetrics :: "('w, unit) driver_test" where
  "testConnectionMetrics st =
     (if \<not> cm_Connected (GetConnectionMetrics (fst st)) then Err ConnectionDown else Ok (), st)"

definition testCases :: "float_oob \<Rightarrow> 'w Env \<Rightarrow> (nat \<Rightarrow> read_order) \<Rightarrow> ('w, unit) driver_test list" where
  "testCases oob env ro =
     [testReadPointsUINT16 env (ro 0), testReadPointsFLOAT env (ro 1), testReadPointsBIT env (ro 2),
      testWriteReadPointUINT16 oob env (ro 3), testWriteReadPointFLOAT oob env (ro 4),
      testWriteReadPointBIT oob env (ro 5) (ro 6), testWriteReadPointINT32 oob env (ro 7),
      testWriteReadPointSTRING oob env (ro 8), testHealthCheck, testConnectionMetrics]"

section \<open>The program\<close>

text \<open>The loop over the tests counts passes and failures; a panic ends it.\<close>

fun run_tests :: "('w, unit) driver_test list \<Rightarrow> nat \<Rightarrow> nat \<Rightarrow> 'w driver_state \<Rightarrow> (nat \<times> nat) option \<times> 'w driver_state" where
  "run_tests [] passCount failCount st = (Some (passCount, failCount), st)"
| "run_tests (tc # tests) passCount failCount st =
     (case tc st of
        (Ok _, st') \<Rightarrow> run_tests tests (passCount + 1) failCount st'
      | (Err _, st') \<Rightarrow> run_tests tests passCount (failCount + 1) st'
      | (Panic, st') \<Rightarrow> (None, st'))"

text \<open>\<open>strconv.Atoi\<close> on any text: an optional sign and at least one digit.\<close>

definition strconv_Atoi :: "string \<Rightarrow> int option" where
  "strconv_Atoi s =
     (let digits = (case s of c # cs \<Rightarrow> if c = CHR ''-'' \<or> c = CHR ''+'' then cs else s | [] \<Rightarrow> []);
          v = (if take 1 s = ''-'' then - digits_value digits else digits_value digits)
      in if digits = [] \<or> \<not> list_all is_digit digits \<or> v < - (2 ^ 63) \<or> 2 ^ 63 \<le> v then None else Some v)"

datatype exit_status = Exited nat | Crashed

text \<open>\<open>log.Fatalf\<close> and \<open>os.Exit\<close> end the program without running deferred calls, so the driver
  is disconnected only after a passed run and after a panic.\<close>

definition client_main ::
  "float_oob \<Rightarrow> 'w Env \<Rightarrow> (nat \<Rightarrow> read_order) \<Rightarrow> string list \<Rightarrow> 'w \<Rightarrow> exit_status \<times> 'w driver_state" where
  "client_main oob env ro args w =
     (if length args < 3 then (Exited 1, NewFinsTCPDriver, w)
      else case strconv_Atoi (args ! 2) of
        None \<Rightarrow> (Exited 1, NewFinsTCPDriver, w)
      | Some plcPort \<Rightarrow>
        (let cfg = \<lparr>dc_Protocol = ''omron-fins-tcp'',
               dc_Config = Some [''plcIP'' \<mapsto> VString (map of_char (args ! 1)), ''plcPort'' \<mapsto> VInt plcPort,
                 ''timeout'' \<mapsto> VInt 3000]\<rparr>
         in case Driver_Init oob NewFinsTCPDriver cfg of
              (Ok _, d) \<Rightarrow>
                (case Driver_Connect env d w of
                   (Ok _, d1, w1) \<Rightarrow>
                     (case run_tests (testCases oob env ro) 0 0 (d1, w1) of
                        (Some (passCount, failCount), d2, w2) \<Rightarrow>
                          if failCount > 0 then (Exited 1, d2, w2)
                          else (case Driver_Disconnect env d2 w2 of
                                  (Panic, st) \<Rightarrow> (Crashed, st)
                                | (_, st) \<Rightarrow> (Exited 0, st))
                      | (None, d2, w2) \<Rightarrow> (Crashed, snd (Driver_Disconnect env d2 w2)))
                 | (Err _, d1, w1) \<Rightarrow> (Exited 1, d1, w1)
                 | (Panic, d1, w1) \<Rightarrow> (Crashed, d1, w1))
            | (Err _, d) \<Rightarrow> (Exited 1, d, w)
            | (Panic, d) \<Rightarrow> (Crashed, d, w)))"

section \<open>A driver with a live session\<close>

definition driver_live :: "MockNet driver_state \<Rightarrow> bool" where
  "driver_live st \<longleftrightarrow> (case st of (d, w) \<Rightarrow>
     d_initialized d \<and> (\<exists>t s. d_transport d = Some t \<and> d_scheduler d = Some s \<and> s_decoder s = NewDecoder \<and>
       session_live (t, w)))"

text \<open>A point whose address lies in the mock's areas, whatever they hold.\<close>

definition mock_point :: "Point \<Rightarrow> ParsedAddress \<Rightarrow> bool" where
  "mock_point p a \<longleftrightarrow> ParseAddress NewDecoder (pt_Address p) = Ok a \<and>
     (\<forall>t w. mock_wf (mn_plc w) \<longrightarrow> core_ready (session_image (t, w)) (session_flags (t, w)) (p, a))"

text \<open>What a point should read, from the memory of the mock alone.\<close>

definition mock_value :: "MockNet \<Rightarrow> Point \<Rightarrow> ParsedAddress \<Rightarrow> (FinsError, GoValue) go" where
  "mock_value w p a =
     core_value (session_image (initial_transport, w)) (session_flags (initial_transport, w)) (p, a)"

lemma mock_value_session: "core_value (session_image (t, w)) (session_flags (t, w)) (p, a) = mock_value w p a"
  unfolding mock_value_def using session_of_plc [of w w t initial_transport] by simp

lemma driver_live_read:
  assumes "driver_live st" and "distinct (map pt_ID points)" and "\<forall>p \<in> set points. mock_point p (f p)"
  shows "\<exists>res st'. Driver_ReadPoints (mock_env cuts) order ties (fst st) (snd st) points = (Ok res, st') \<and>
    driver_live st' \<and> (\<forall>p \<in> set points. shows_value (res (pt_ID p)) (mock_value (snd st) p (f p)))"
proof -
  obtain d w t s where st: "st = (d, w)" "d_initialized d" "d_transport d = Some t" "d_scheduler d = Some s"
      "s_decoder s = NewDecoder" "session_live (t, w)"
    using assms(1) by (auto simp: driver_live_def)
  have up: "IsConnected t" and inv: "transport_inv t"
    using st(6) by (auto simp: session_live_def transport_inv_def link_ok_def IsConnected_def)
  have ready: "\<forall>p \<in> set points. ParseAddress (s_decoder s) (pt_Address p) = Ok (f p) \<and>
      core_ready (session_image (t, w)) (session_flags (t, w)) (p, f p)"
    using assms(3) st(5,6) by (auto simp: mock_point_def session_live_def)
  obtain res s' t' w' where r: "ReadPoints (mock_env cuts) order ties s t w points = (Ok res, s', t', w')"
      "session_live (t', w')"
      "\<forall>p \<in> set points. shows_value (res (pt_ID p)) (mock_value w p (f p))"
    using ReadPoints_live [OF st(6) assms(2) ready, of cuts order ties] by (auto simp: mock_value_session)
  have "s_decoder s' = NewDecoder" using ReadPoints_inv [OF inv r(1)] st(5) by simp
  then have "Driver_ReadPoints (mock_env cuts) order ties d w points =
      (Ok res, d\<lparr>d_transport := Some t', d_scheduler := Some s'\<rparr>, w') \<and>
      driver_live (d\<lparr>d_transport := Some t', d_scheduler := Some s'\<rparr>, w')"
    using st(2-4) up r(1,2) by (simp add: Driver_ReadPoints_def ensure_connected_def driver_live_def)
  then show ?thesis using r(3) st(1) by fastforce
qed

lemma driver_live_write:
  assumes "driver_live st" and "mock_point p a" and "writable_value p a v"
  shows "\<exists>st'. Driver_WritePoint oob (mock_env cuts) (fst st) (snd st) p v = (Ok (), st') \<and> driver_live st' \<and>
    mock_value (snd st') p a = Ok v"
proof -
  obtain d w t s where st: "st = (d, w)" "d_initialized d" "d_transport d = Some t" "d_scheduler d = Some s"
      "s_decoder s = NewDecoder" "session_live (t, w)"
    using assms(1) by (auto simp: driver_live_def)
  have up: "IsConnected t"
    using st(6) by (auto simp: session_live_def transport_inv_def link_ok_def IsConnected_def)
  have parse: "ParseAddress (s_decoder s) (pt_Address p) = Ok a" using assms(2) st(5) by (simp add: mock_point_def)
  have can: "canonical a" using assms(2) ParseAddress_canonical by (auto simp: mock_point_def)
  have ready: "core_ready (session_image (t, w)) (session_flags (t, w)) (p, a)"
    using assms(2) st(6) by (auto simp: mock_point_def session_live_def)
  obtain s1 t1 w1 where wp: "WritePoint oob (mock_env cuts) s t w p v = (Ok (), s1, t1, w1)"
      "session_live (t1, w1)" "s_decoder s1 = NewDecoder"
      "mock_value w1 p a = Ok v"
    using WritePoint_word_live [OF st(6) parse can ready _ assms(3), of oob cuts]
      WritePoint_bit_live [OF st(6) parse can ready _ assms(3), of oob cuts] st(5)
    by (cases "point_isBit p a") (auto simp: mock_value_session)
  have "Driver_WritePoint oob (mock_env cuts) d w p v = (Ok (), d\<lparr>d_transport := Some t1, d_scheduler := Some s1\<rparr>, w1)"
    using st(2-4) up wp(1) by (simp add: Driver_WritePoint_def ensure_connected_def)
  then show ?thesis using st wp by (fastforce simp: driver_live_def)
qed

section \<open>Passing tests\<close>

text \<open>A test passes when on every live driver it ends without an error and leaves the driver live.\<close>

definition passes :: "(MockNet, unit) driver_test \<Rightarrow> bool" where
  "passes tc \<longleftrightarrow> (\<forall>st. driver_live st \<longrightarrow> (\<exists>st'. tc st = (Ok (), st') \<and> driver_live st'))"

lemma passesI: "(\<And>st. driver_live st \<Longrightarrow> \<exists>st'. tc st = (Ok (), st') \<and> driver_live st') \<Longrightarrow> passes tc"
  by (simp add: passes_def)

lemma passesD: "passes tc \<Longrightarrow> driver_live st \<Longrightarrow> \<exists>st'. tc st = (Ok (), st') \<and> driver_live st'"
  unfolding passes_def by blast

lemma passes_bind: "passes t1 \<Longrightarrow> passes t2 \<Longrightarrow> passes (test_bind t1 (\<lambda>_. t2))"
  by (force simp: passes_def test_bind_def)

lemma run_tests_pass:
  "\<forall>tc \<in> set tests. passes tc \<Longrightarrow> driver_live st \<Longrightarrow>
   \<exists>st'. run_tests tests n m st = (Some (n + length tests, m), st') \<and> driver_live st'"
proof (induction tests arbitrary: n st)
  case (Cons tc tests)
  obtain st1 where st1: "tc st = (Ok (), st1)" "driver_live st1" using Cons.prems passesD by fastforce
  from Cons.IH [OF _ st1(2), of "n + 1"] show ?case using st1(1) Cons.prems(1) by auto
qed simp

lemma check_all_good_ok:
  "\<forall>p \<in> set points. \<exists>v. results (pt_ID p) = Some v \<and> val_Quality v = QualityGood \<Longrightarrow> check_all_good results points = Ok ()"
  by (induction points) (auto simp: check_good_def)

text \<open>A point whose type has a size decodes whatever the memory holds; so does a bit.\<close>

lemma mock_value_decodes:
  assumes "mock_point p a" and "mock_wf (mn_plc w)"
    and "point_isBit p a \<or> \<not> pa_IsString a \<and> \<not> pa_IsBit a \<and> (\<exists>n>0. DataTypeSize (pt_DataType p) = Ok n)"
  shows "\<exists>v. mock_value w p a = Ok v"
proof (cases "point_isBit p a")
  case True
  then show ?thesis by (simp add: mock_value_def core_value_def)
next
  case False
  then obtain n where n: "\<not> pa_IsString a" "\<not> pa_IsBit a" "n > 0" "DataTypeSize (pt_DataType p) = Ok n" using assms(3) by blast
  have ready: "core_ready (session_image (initial_transport, w)) (session_flags (initial_transport, w)) (p, a)"
    using assms(1,2) by (simp add: mock_point_def)
  have size: "core_size (p, a) = int n" using n by (simp add: core_size_def point_size_def)
  from core_ready_range [OF ready False] obtain bs where
      bs: "session_image (initial_transport, w) (pa_AreaCode a) = Some bs"
        "2 * (pa_Address a + (int n + 1) div 2) \<le> int (length bs)" "0 \<le> pa_Address a"
    using size by auto
  have "int n \<le> 2 * ((int n + 1) div 2)" by simp
  then have "int (2 * nat (pa_Address a) + n) \<le> int (length bs)" using bs(2,3) by simp
  then have "2 * nat (pa_Address a) + n \<le> length bs" by (simp only: of_nat_le_iff)
  then have len: "length (slice bs (2 * nat (pa_Address a)) (2 * nat (pa_Address a) + n)) = n" by simp
  have "\<exists>v. DecodeValue data (pt_DataType p) (Some a) = Ok v" if "length data = n" for data
    using that n by (cases "pt_DataType p")
      (auto simp: DecodeValue_def DataTypeSize_def decode_sized_def decode_bool_def addr_is_bit_def Let_def)
  from this [OF len] show ?thesis using False n(1) bs(1) size by (simp add: mock_value_def core_value_def)
qed

lemma read_points_good:
  assumes "driver_live st" and "distinct (map pt_ID points)" and "\<forall>p \<in> set points. mock_point p (f p)"
    and "\<forall>p \<in> set points. point_isBit p (f p) \<or>
      \<not> pa_IsString (f p) \<and> \<not> pa_IsBit (f p) \<and> (\<exists>n>0. DataTypeSize (pt_DataType p) = Ok n)"
  shows "\<exists>results st'. read_points (mock_env cuts) ro points st = (Ok results, st') \<and> driver_live st' \<and>
    (\<forall>p \<in> set points. \<exists>v. results (pt_ID p) = Some v \<and> val_Quality v = QualityGood)"
proof -
  obtain res st' where r: "Driver_ReadPoints (mock_env cuts) (fst ro) (snd ro) (fst st) (snd st) points = (Ok res, st')"
      "driver_live st'" "\<forall>p \<in> set points. shows_value (res (pt_ID p)) (mock_value (snd st) p (f p))"
    using driver_live_read [OF assms(1-3)] by blast
  have wf: "mock_wf (mn_plc (snd st))" using assms(1) by (auto simp: driver_live_def session_live_def)
  have "\<exists>v. res (pt_ID p) = Some v \<and> val_Quality v = QualityGood" if "p \<in> set points" for p
  proof -
    have "mock_point p (f p)" using that assms(3) by blast
    from mock_value_decodes [OF this wf bspec [OF assms(4) that]] obtain y where "mock_value (snd st) p (f p) = Ok y" by blast
    then show ?thesis using r(3) that by (fastforce simp: shows_value_def split: option.splits)
  qed
  then show ?thesis using r by (simp add: read_points_def wrap_error_def)
qed

lemma write_read_check_passes:
  assumes "mock_point p a" and "writable_value p a v"
  shows "passes (write_read_check oob (mock_env cuts) ro p v)"
proof (rule passesI)
  fix st
  assume "driver_live st"
  from driver_live_write [OF this assms] obtain st1 where
      w: "Driver_WritePoint oob (mock_env cuts) (fst st) (snd st) p v = (Ok (), st1)" "driver_live st1"
        "mock_value (snd st1) p a = Ok v"
    by blast
  from driver_live_read [OF w(2), of "[p]" "\<lambda>_. a" cuts "fst ro" "snd ro"] obtain res st2 where
      r: "Driver_ReadPoints (mock_env cuts) (fst ro) (snd ro) (fst st1) (snd st1) [p] = (Ok res, st2)" "driver_live st2"
        "shows_value (res (pt_ID p)) (Ok v)"
    using assms(1) w(3) by auto
  have "check_value res (pt_ID p) v = Ok ()"
    using r(3) by (auto simp: check_value_def shows_value_def split: option.splits)
  then show "\<exists>st'. write_read_check oob (mock_env cuts) ro p v st = (Ok (), st') \<and> driver_live st'"
    using w(1) r(1,2) by (simp add: write_read_check_def test_bind_def write_point_def read_points_def wrap_error_def)
qed


section \<open>The points of the tests\<close>

text \<open>The addresses of the tests: a word of the DM area, a string of 20 bytes there, a bit of the CIO
  area.\<close>

definition word_at :: "int \<Rightarrow> ParsedAddress" where
  "word_at n = d100\<lparr>pa_Address := n\<rparr>"

definition string_at :: "int \<Rightarrow> int \<Rightarrow> ParsedAddress" where
  "string_at n len = d100\<lparr>pa_Address := n, pa_StringLen := len, pa_ByteOrder := ByteOrderLow, pa_IsString := True\<rparr>"

definition bit_at :: "int \<Rightarrow> int \<Rightarrow> ParsedAddress" where
  "bit_at n k = \<lparr>pa_Area = ''CIO'', pa_AreaCode = MemoryAreaCIOWord, pa_EMNumber = 0, pa_Address = n, pa_Bit = k,
     pa_StringLen = 0, pa_ByteOrder = ByteOrderHigh, pa_IsBit = True, pa_IsString = False\<rparr>"

lemma test_addresses:
  "ParseAddress NewDecoder ''D100'' = Ok (word_at 100)" "ParseAddress NewDecoder ''D101'' = Ok (word_at 101)"
  "ParseAddress NewDecoder ''D102'' = Ok (word_at 102)" "ParseAddress NewDecoder ''D200'' = Ok (word_at 200)"
  "ParseAddress NewDecoder ''D300'' = Ok (word_at 300)" "ParseAddress NewDecoder ''D400'' = Ok (word_at 400)"
  "ParseAddress NewDecoder ''D500'' = Ok (word_at 500)"
  "ParseAddress NewDecoder ''D600.20L'' = Ok (string_at 600 20)"
  "ParseAddress NewDecoder ''CIO0.0'' = Ok (bit_at 0 0)" "ParseAddress NewDecoder ''CIO0.1'' = Ok (bit_at 0 1)"
  "ParseAddress NewDecoder ''CIO0.2'' = Ok (bit_at 0 2)" "ParseAddress NewDecoder ''CIO100.0'' = Ok (bit_at 100 0)"
  by code_simp+

lemma at_simps [simp]:
  "pa_AreaCode (word_at n) = MemoryAreaDMWord" "pa_Address (word_at n) = n" "\<not> pa_IsBit (word_at n)" "\<not> pa_IsString (word_at n)"
  "pa_AreaCode (string_at n l) = MemoryAreaDMWord" "pa_Address (string_at n l) = n" "\<not> pa_IsBit (string_at n l)"
  "pa_IsString (string_at n l)" "pa_StringLen (string_at n l) = l"
  "pa_AreaCode (bit_at n k) = MemoryAreaCIOWord" "pa_Address (bit_at n k) = n" "pa_IsBit (bit_at n k)" "pa_Bit (bit_at n k) = k"
  by (simp_all add: word_at_def string_at_def bit_at_def d100_def)

lemma test_point_simps [simp]:
  "pt_ID (test_point i ad dt) = i" "pt_Address (test_point i ad dt) = ad" "pt_DataType (test_point i ad dt) = dt"
  by (simp_all add: test_point_def)

lemma mock_images:
  assumes "mock_wf (mn_plc w)"
  shows "\<exists>bs. session_image (t, w) MemoryAreaDMWord = Some bs \<and> length bs = 65536"
    and "\<exists>bl. session_flags (t, w) MemoryAreaCIOBit = Some bl \<and> length bl = 98304"
  using assms
  by (simp_all add: session_image_def session_flags_def mock_img_def getArea_def getBitArea_def mock_wf_def mock_sizes
      area_flags_def area_consts)

lemma mock_point_word:
  assumes "ParseAddress NewDecoder ad = Ok (word_at n)" and "dt \<noteq> DataTypeBIT" and "DataTypeSize dt = Ok k" and "0 < k"
    and "0 \<le> n" and "2 * n + int k + 1 \<le> 65536"
  shows "mock_point (test_point i ad dt) (word_at n)"
proof -
  have size: "core_size (test_point i ad dt, word_at n) = int k" using assms(3,4) by (simp add: core_size_def point_size_def)
  have "(int k + 1) div 2 \<le> (65536 - 2 * n) div 2" using assms(6) by (intro zdiv_mono1) simp_all
  then have "2 * (n + (int k + 1) div 2) \<le> 65536" by simp
  moreover from this have "n + (int k + 1) div 2 \<le> 65535" by simp
  moreover have "\<not> point_isBit (test_point i ad dt) (word_at n)" using assms(2) by (simp add: point_isBit_def)
  ultimately have "core_ready (session_image (t, w)) (session_flags (t, w)) (test_point i ad dt, word_at n)"
    if "mock_wf (mn_plc w)" for t w
    using mock_images(1) [OF that, of t] size assms(4-6) by (auto simp: core_ready_def)
  then show ?thesis using assms(1) by (simp add: mock_point_def)
qed

lemma mock_point_string:
  assumes "ParseAddress NewDecoder ad = Ok (string_at n l)" and "0 < l" and "0 \<le> n" and "2 * n + l + 1 \<le> 65536"
  shows "mock_point (test_point i ad DataTypeSTRING) (string_at n l)"
proof -
  have size: "core_size (test_point i ad DataTypeSTRING, string_at n l) = l"
    using assms(2) by (simp add: core_size_def point_size_def DataTypeSize_def)
  have "(l + 1) div 2 \<le> (65536 - 2 * n) div 2" using assms(4) by (intro zdiv_mono1) simp_all
  then have "2 * (n + (l + 1) div 2) \<le> 65536" by simp
  moreover from this have "n + (l + 1) div 2 \<le> 65535" by simp
  moreover have "\<not> point_isBit (test_point i ad DataTypeSTRING) (string_at n l)" by (simp add: point_isBit_def)
  ultimately have "core_ready (session_image (t, w)) (session_flags (t, w)) (test_point i ad DataTypeSTRING, string_at n l)"
    if "mock_wf (mn_plc w)" for t w
    using mock_images(1) [OF that, of t] size assms(2-4) by (auto simp: core_ready_def)
  then show ?thesis using assms(1) by (simp add: mock_point_def)
qed

lemma mock_point_bit:
  assumes "ParseAddress NewDecoder ad = Ok (bit_at n k)" and "0 \<le> k" and "k \<le> 15" and "0 \<le> n" and "n < 6144"
  shows "mock_point (test_point i ad DataTypeBIT) (bit_at n k)"
proof -
  have code: "bit_code (bit_at n k) = MemoryAreaCIOBit" by (simp add: bit_code_def GetBitAreaCode_def area_consts)
  have "point_isBit (test_point i ad DataTypeBIT) (bit_at n k)" by (simp add: point_isBit_def)
  moreover have "nat n * 16 + nat k < 98304" using assms by linarith
  ultimately have "core_ready (session_image (t, w)) (session_flags (t, w)) (test_point i ad DataTypeBIT, bit_at n k)"
    if "mock_wf (mn_plc w)" for t w
    using mock_images(2) [OF that, of t] code assms(2-5) by (auto simp: core_ready_def)
  then show ?thesis using assms(1) by (simp add: mock_point_def)
qed

text \<open>Reading a list of points, each at its own address.\<close>

lemma read_test_passes:
  assumes "distinct (map pt_ID points)" and "\<forall>p \<in> set points. mock_point p (f p)"
    and "\<forall>p \<in> set points. point_isBit p (f p) \<or>
      \<not> pa_IsString (f p) \<and> \<not> pa_IsBit (f p) \<and> (\<exists>n>0. DataTypeSize (pt_DataType p) = Ok n)"
    and "tc = test_bind (read_points (mock_env cuts) ro points) (\<lambda>results. Pair (check results))"
    and "\<And>results. \<forall>p \<in> set points. \<exists>v. results (pt_ID p) = Some v \<and> val_Quality v = QualityGood \<Longrightarrow> check results = Ok ()"
  shows "passes tc"
proof (rule passesI)
  fix st
  assume "driver_live st"
  from read_points_good [OF this assms(1-3), of cuts ro] obtain results st' where
      "read_points (mock_env cuts) ro points st = (Ok results, st')" "driver_live st'"
      "\<forall>p \<in> set points. \<exists>v. results (pt_ID p) = Some v \<and> val_Quality v = QualityGood"
    by blast
  then show "\<exists>st'. tc st = (Ok (), st') \<and> driver_live st'" using assms(4,5) by (auto simp: test_bind_def)
qed


text \<open>Each test passes.\<close>

lemma reading_tests_pass:
  "passes (testReadPointsUINT16 (mock_env cuts) ro)" "passes (testReadPointsFLOAT (mock_env cuts) ro)"
  "passes (testReadPointsBIT (mock_env cuts) ro)"
proof -
  have w: "mock_point (test_point i ad DataTypeUINT16) (word_at n)"
    if "ParseAddress NewDecoder ad = Ok (word_at n)" "0 \<le> n" "n < 32000" for i ad n
    using that by (intro mock_point_word [where k = 2]) (simp_all add: DataTypeSize_def)
  have sz: "DataTypeSize DataTypeUINT16 = Ok 2" "DataTypeSize DataTypeFLOAT = Ok 4" by (simp_all add: DataTypeSize_def)
  let ?f = "\<lambda>p. word_at (if pt_ID p = ''D100'' then 100 else if pt_ID p = ''D101'' then 101 else 102)"
  show "passes (testReadPointsUINT16 (mock_env cuts) ro)"
    by (rule read_test_passes [OF _ _ _ testReadPointsUINT16_def check_all_good_ok, where f = ?f])
      (simp_all add: uint16_points_def w test_addresses sz)
  show "passes (testReadPointsFLOAT (mock_env cuts) ro)"
    by (rule read_test_passes [OF _ _ _ testReadPointsFLOAT_def, where f = "\<lambda>_. word_at 200"])
      (auto simp: float_point_def test_addresses sz check_good_def intro: mock_point_word [where k = 4])
  let ?g = "\<lambda>p. bit_at 0 (if pt_ID p = ''CIO0.0'' then 0 else if pt_ID p = ''CIO0.1'' then 1 else 2)"
  show "passes (testReadPointsBIT (mock_env cuts) ro)"
    by (rule read_test_passes [OF _ _ _ testReadPointsBIT_def check_all_good_ok, where f = ?g])
      (simp_all add: bit_points_def mock_point_bit test_addresses point_isBit_def)
qed

lemma writing_tests_pass:
  "passes (testWriteReadPointUINT16 oob (mock_env cuts) ro)" "passes (testWriteReadPointFLOAT oob (mock_env cuts) ro)"
  "passes (testWriteReadPointBIT oob (mock_env cuts) ro ro')" "passes (testWriteReadPointINT32 oob (mock_env cuts) ro)"
  "passes (testWriteReadPointSTRING oob (mock_env cuts) ro)"
proof -
  have wv: "writable_value (test_point i ad dt) (word_at n) v" if "typed_value dt v" "dt \<noteq> DataTypeBIT" "dt \<noteq> DataTypeSTRING" for i ad dt n v
    using that by (auto simp: writable_value_def encodable_def addr_is_bit_def typed_value_def)
  show "passes (testWriteReadPointUINT16 oob (mock_env cuts) ro)"
    unfolding testWriteReadPointUINT16_def
    by (rule write_read_check_passes [OF mock_point_word [where k = 2] wv], rule test_addresses) (simp_all add: DataTypeSize_def typed_value_def)
  show "passes (testWriteReadPointFLOAT oob (mock_env cuts) ro)"
    unfolding testWriteReadPointFLOAT_def
    by (rule write_read_check_passes [OF mock_point_word [where k = 4] wv], rule test_addresses) (simp_all add: DataTypeSize_def typed_value_def)
  show "passes (testWriteReadPointINT32 oob (mock_env cuts) ro)"
    unfolding testWriteReadPointINT32_def
    by (rule write_read_check_passes [OF mock_point_word [where k = 4] wv], rule test_addresses) (simp_all add: DataTypeSize_def typed_value_def)
  have "passes (write_read_check oob (mock_env cuts) ro (test_point ''CIO100.0'' ''CIO100.0'' DataTypeBIT) (VBool b))" for ro b
    by (rule write_read_check_passes [OF mock_point_bit, OF test_addresses(12)]) (simp_all add: writable_value_def)
  then show "passes (testWriteReadPointBIT oob (mock_env cuts) ro ro')"
    unfolding testWriteReadPointBIT_def Let_def by (intro passes_bind)
  show "passes (testWriteReadPointSTRING oob (mock_env cuts) ro)"
    unfolding testWriteReadPointSTRING_def
    by (rule write_read_check_passes [OF mock_point_string, OF test_addresses(8)])
      (simp_all add: writable_value_def encodable_def addr_is_bit_def typed_value_def addr_string_len_def)
qed

lemma status_tests_pass: "passes testHealthCheck" "passes testConnectionMetrics"
proof -
  have "\<exists>t s. d_transport (fst st) = Some t \<and> d_scheduler (fst st) = Some s \<and> d_initialized (fst st) \<and> t_connected t"
    if "driver_live st" for st
    using that by (auto simp: driver_live_def session_live_def transport_inv_def link_ok_def)
  then show "passes testHealthCheck" "passes testConnectionMetrics"
    by (intro passesI; fastforce simp: testHealthCheck_def Driver_Health_def Scheduler_Health_def IsConnected_def
        testConnectionMetrics_def GetConnectionMetrics_def GetMetrics_def)+
qed

lemma testCases_pass: "\<forall>tc \<in> set (testCases oob (mock_env cuts) ro). passes tc"
  unfolding testCases_def using reading_tests_pass writing_tests_pass status_tests_pass by auto


section \<open>Properties\<close>

text \<open>C9. The self-test program passes: given an address and a port that is a number, on a mock PLC whose memory
  has any contents, with any chunks on the network and any order of map iteration, the driver
  connects, all ten tests of reading and writing points end without an error, and the program
  disconnects the driver and exits with status zero; without such arguments it exits with one.\<close>

theorem client_main_passes:
  assumes "mock_wf (mn_plc w)"
  shows "case client_main oob (mock_env cuts) ro args w of (r, d, w') \<Rightarrow>
    if 3 \<le> length args \<and> strconv_Atoi (args ! 2) \<noteq> None
    then r = Exited 0 \<and> IsInitialized d \<and> \<not> Driver_IsConnected d \<and> mock_wf (mn_plc w')
    else r = Exited 1 \<and> w' = w"
proof (cases "3 \<le> length args \<and> strconv_Atoi (args ! 2) \<noteq> None")
  case True
  then obtain port where port: "strconv_Atoi (args ! 2) = Some port" by auto
  let ?c = "[''plcIP'' \<mapsto> VString (map of_char (args ! 1)), ''plcPort'' \<mapsto> VInt port, ''timeout'' \<mapsto> VInt 3000]"
  let ?cfg = "\<lparr>dc_Protocol = ''omron-fins-tcp'', dc_Config = Some ?c\<rparr>"
  obtain t where t: "NewTransport oob ?c = Ok t" "\<not> t_connected t"
    by (simp add: NewTransport_def loadConfig_def initial_transport_def)
  obtain d s where d: "Driver_Init oob NewFinsTCPDriver ?cfg = (Ok (), d)" "d_initialized d" "d_transport d = Some t"
      "d_scheduler d = Some s" "s_decoder s = NewDecoder"
    using t(1) by (simp add: Driver_Init_def NewFinsTCPDriver_def NewScheduler_def)
  obtain t1 w1 where c: "Connect (mock_env cuts) t w = (Ok (), t1, w1)" "session_live (t1, w1)"
    using Connect_session [OF NewTransport_inv [OF t(1)] t(2) assms] by blast
  let ?d1 = "d\<lparr>d_transport := Some t1\<rparr>"
  have conn: "Driver_Connect (mock_env cuts) d w = (Ok (), ?d1, w1)"
    using d c(1) by (simp add: Driver_Connect_def on_transport_def)
  have "driver_live (?d1, w1)" using d c(2) by (simp add: driver_live_def)
  from run_tests_pass [OF testCases_pass [of oob cuts ro] this, of 0 0] obtain d2 w2 n where
      run: "run_tests (testCases oob (mock_env cuts) ro) 0 0 (?d1, w1) = (Some (n, 0), d2, w2)" "driver_live (d2, w2)"
    by auto
  from run(2) obtain t2 where t2: "d_initialized d2" "d_transport d2 = Some t2" "transport_inv t2" "mock_wf (mn_plc w2)"
    by (auto simp: driver_live_def session_live_def)
  obtain r t3 w3 where disc: "Disconnect (mock_env cuts) t2 w2 = (r, t3, w3)" by (cases "Disconnect (mock_env cuts) t2 w2")
  have t3: "r = Ok ()" "\<not> t_connected t3" using Disconnect_inv [OF t2(3) disc] by simp_all
  have plc: "mn_plc w3 = mn_plc w2"
    using disc by (auto simp: Disconnect_def mock_env_def close_chans_def Let_def split: if_splits)
  have "Driver_Disconnect (mock_env cuts) d2 w2 = (Ok (), d2\<lparr>d_transport := Some t3\<rparr>, w3)"
    using t2(2) disc t3(1) by (simp add: Driver_Disconnect_def on_transport_def)
  then have "client_main oob (mock_env cuts) ro args w = (Exited 0, d2\<lparr>d_transport := Some t3\<rparr>, w3)"
    using True port d(1) conn run(1) by (simp add: client_main_def Let_def)
  then show ?thesis
    using True t2 t3 plc by (simp add: IsInitialized_def Driver_IsConnected_def IsConnected_def)
next
  case False
  then show ?thesis by (auto simp: client_main_def split: option.splits)
qed

theorem client_main_passes_witness:
  "fst (client_main (\<lambda>_ _. 0) (mock_env (\<lambda>_. [1, 2, 3])) (\<lambda>_. ([], \<lambda>_. [])) [''tcp-client'', ''127.0.0.1'', ''9600''] fresh_net)
     = Exited 0"
proof -
  have "strconv_Atoi ''9600'' = Some 9600" by code_simp
  moreover have "mock_wf (mn_plc fresh_net)" using mock_wf_New by (simp add: fresh_net_def)
  ultimately show ?thesis
    using client_main_passes [where w = fresh_net and oob = "\<lambda>_ _. 0" and cuts = "\<lambda>_. [1, 2, 3]" and ro = "\<lambda>_. ([], \<lambda>_. [])"
        and args = "[''tcp-client'', ''127.0.0.1'', ''9600'']"]
    by (auto split: prod.splits)
qed

end
