(* ===== verification/Fins_Refinement.thy ===== *)
theory Fins_Refinement
  imports Fins_Session
begin

text \<open>
  The protocol stack as a refinement: an application that works through \<open>SendCommand\<close>, frames,
  service IDs, chunked reads and the connection loop of the PLC sees exactly what it would see
  if it called \<open>readMemory\<close> and \<open>writeMemory\<close> of the PLC directly.
\<close>

section \<open>The specification: direct calls on the PLC\<close>

datatype MemOp =
    OpRead u8 u16 u16
  | OpWrite u8 u16 u16 bytes
  | OpReadBits u8 u16 u8 u16
  | OpWriteBits u8 u16 u8 "bool list"

datatype MemResult = Words bytes | Bits "bool list" | Written | Refused FinsError | Crashed

text \<open>Requests whose data do not exceed what the request announces.\<close>

fun op_ok :: "MemOp \<Rightarrow> bool" where
  "op_ok (OpWrite c a n d) \<longleftrightarrow> length d \<le> 2 * unat n"
| "op_ok (OpWriteBits c a k vs) \<longleftrightarrow> length vs < 65536"
| "op_ok _ \<longleftrightarrow> True"

definition refused :: "u16 \<Rightarrow> MemResult \<Rightarrow> MemResult" where
  "refused e r = (if e = 0 then r else Refused (ErrFINS (EndCodeText e) e))"

fun spec_step :: "MockPLC \<Rightarrow> MemOp \<Rightarrow> MemResult \<times> MockPLC" where
  "spec_step m (OpRead c a n) =
     (case mock_readMemory m (NewMemoryAddress c a) n of (d, e) \<Rightarrow> (refused e (Words d), m))"
| "spec_step m (OpWrite c a n d) =
     (case mock_writeMemory m (NewMemoryAddress c a) n d of (m', e) \<Rightarrow> (refused e Written, m'))"
| "spec_step m (OpReadBits c a k n) =
     (case mock_readMemory m (NewMemoryAddressWithBit c a k) n of
        (d, e) \<Rightarrow> (refused e (Bits (map (\<lambda>i. i < length d \<and> d ! i AND 1 \<noteq> 0) [0..<unat n])), m))"
| "spec_step m (OpWriteBits c a k vs) =
     (case mock_writeMemory m (NewMemoryAddressWithBit c a k) (word_of_nat (length vs))
        (map (\<lambda>v. if v then 1 else 0) vs) of (m', e) \<Rightarrow> (refused e Written, m'))"

fun spec_run :: "MockPLC \<Rightarrow> MemOp list \<Rightarrow> MemResult list \<times> MockPLC" where
  "spec_run m [] = ([], m)"
| "spec_run m (p # ps) = (let (r, m1) = spec_step m p; (rs, m2) = spec_run m1 ps in (r # rs, m2))"

section \<open>The implementation: requests over a connection\<close>

definition outcome :: "('a \<Rightarrow> MemResult) \<Rightarrow> (FinsError, 'a) go \<Rightarrow> MemResult" where
  "outcome f r = (case r of Ok x \<Rightarrow> f x | Err e \<Rightarrow> Refused e | Panic \<Rightarrow> Crashed)"

fun client_step :: "'w Env \<Rightarrow> Transport \<times> 'w \<Rightarrow> MemOp \<Rightarrow> MemResult \<times> Transport \<times> 'w" where
  "client_step env (t, w) (OpRead c a n) = apfst (outcome Words) (ReadMemory env t w c a n)"
| "client_step env (t, w) (OpWrite c a n d) = apfst (outcome (\<lambda>_. Written)) (WriteMemory env t w c a n d)"
| "client_step env (t, w) (OpReadBits c a k n) = apfst (outcome Bits) (ReadBits env t w c a k n)"
| "client_step env (t, w) (OpWriteBits c a k vs) = apfst (outcome (\<lambda>_. Written)) (WriteBits env t w c a k vs)"

fun client_run :: "'w Env \<Rightarrow> Transport \<times> 'w \<Rightarrow> MemOp list \<Rightarrow> MemResult list \<times> Transport \<times> 'w" where
  "client_run env s [] = ([], s)"
| "client_run env s (p # ps) =
     (let (r, s1) = client_step env s p; (rs, s2) = client_run env s1 ps in (r # rs, s2))"

section \<open>Simulation\<close>

lemma client_step_refines:
  assumes "session_live (t, w)" and "op_ok p"
  shows "\<exists>t'. client_step (mock_env cuts) (t, w) p =
      (fst (spec_step (mn_plc w) p), t', w\<lparr>mn_plc := snd (spec_step (mn_plc w) p)\<rparr>) \<and>
    session_live (t', w\<lparr>mn_plc := snd (spec_step (mn_plc w) p)\<rparr>)"
proof (cases p)
  case (OpRead c a n)
  obtain d e where "mock_readMemory (mn_plc w) (NewMemoryAddress c a) n = (d, e)" by fastforce
  then show ?thesis
    using ReadMemory_mock [OF assms(1), of c a n d e cuts] OpRead by (auto simp: refused_def outcome_def)
next
  case (OpWrite c a n d)
  obtain m' e where "mock_writeMemory (mn_plc w) (NewMemoryAddress c a) n d = (m', e)" by fastforce
  then show ?thesis
    using WriteMemory_mock [OF assms(1), of c a n d m' e cuts] OpWrite assms(2) by (auto simp: refused_def outcome_def)
next
  case (OpReadBits c a k n)
  obtain d e where "mock_readMemory (mn_plc w) (NewMemoryAddressWithBit c a k) n = (d, e)" by fastforce
  then show ?thesis
    using ReadBits_mock [OF assms(1), of c a k n d e cuts] OpReadBits by (auto simp: refused_def outcome_def)
next
  case (OpWriteBits c a k vs)
  obtain m' e where "mock_writeMemory (mn_plc w) (NewMemoryAddressWithBit c a k) (word_of_nat (length vs))
      (map (\<lambda>v. if v then 1 else 0) vs) = (m', e)" by fastforce
  then show ?thesis
    using WriteBits_mock [OF assms(1), of vs c a k m' e cuts] OpWriteBits assms(2) by (auto simp: refused_def outcome_def)
qed

text \<open>C1. The protocol stack is transparent: over a live session, any sequence of word and bit reads and
  writes gives, request by request, the results and refusals that the same calls on the PLC's
  memory give directly, and leaves the PLC in the same state, however the responses are cut into
  chunks; the session stays live.\<close>

theorem client_refines_plc:
  assumes "session_live (t, w)" and "list_all op_ok ps"
  shows "\<exists>t'. client_run (mock_env cuts) (t, w) ps =
      (fst (spec_run (mn_plc w) ps), t', w\<lparr>mn_plc := snd (spec_run (mn_plc w) ps)\<rparr>) \<and>
    session_live (t', w\<lparr>mn_plc := snd (spec_run (mn_plc w) ps)\<rparr>)"
  using assms
proof (induction ps arbitrary: t w)
  case (Cons p ps)
  obtain t1 where 1: "client_step (mock_env cuts) (t, w) p =
      (fst (spec_step (mn_plc w) p), t1, w\<lparr>mn_plc := snd (spec_step (mn_plc w) p)\<rparr>)"
      "session_live (t1, w\<lparr>mn_plc := snd (spec_step (mn_plc w) p)\<rparr>)"
    using client_step_refines [of t w p cuts] Cons.prems by auto
  from Cons.IH [OF 1(2)] obtain t2 where
      "client_run (mock_env cuts) (t1, w\<lparr>mn_plc := snd (spec_step (mn_plc w) p)\<rparr>) ps =
      (fst (spec_run (snd (spec_step (mn_plc w) p)) ps), t2, w\<lparr>mn_plc := snd (spec_run (snd (spec_step (mn_plc w) p)) ps)\<rparr>)"
      "session_live (t2, w\<lparr>mn_plc := snd (spec_run (snd (spec_step (mn_plc w) p)) ps)\<rparr>)"
    using Cons.prems(2) by auto
  then show ?case using 1(1) by (simp add: split_beta Let_def)
qed simp

theorem client_refines_plc_witness:
  "\<exists>t w. session_live (t, w) \<and>
     fst (client_run (mock_env (\<lambda>_. [2, 5])) (t, w) [OpWrite MemoryAreaDMWord 7 1 [1, 2], OpRead MemoryAreaDMWord 7 1]) =
       fst (spec_run (mn_plc w) [OpWrite MemoryAreaDMWord 7 1 [1, 2], OpRead MemoryAreaDMWord 7 1])"
proof -
  obtain t w where c: "session_live (t, w)" using fresh_session by blast
  from client_refines_plc [OF c, of "[OpWrite MemoryAreaDMWord 7 1 [1, 2], OpRead MemoryAreaDMWord 7 1]" "\<lambda>_. [2, 5]"]
  show ?thesis using c by force
qed

end
