(* ===== verification/Cmd_Tcp_Server.thy ===== *)
theory Cmd_Tcp_Server
  imports Fins_MockPLC
begin

text \<open>
  The standalone TCP server of \<open>cmd/tcp/server/main.go\<close>. Its frame, header and address types are
  copies of those of \<open>protocol.go\<close>, so their records are shared; its codecs, its memory and its
  connection loop are its own. Bit area codes are served as words.
\<close>

section \<open>State\<close>

definition ct_MockDMWordSize :: nat where "ct_MockDMWordSize = 32768"
definition ct_MockCIOWordSize :: nat where "ct_MockCIOWordSize = 6144"
definition ct_MockWWordSize :: nat where "ct_MockWWordSize = 512"
definition ct_MockHWordSize :: nat where "ct_MockHWordSize = 512"
definition ct_MockAWordSize :: nat where "ct_MockAWordSize = 512"

lemmas ct_sizes = ct_MockDMWordSize_def ct_MockCIOWordSize_def ct_MockWWordSize_def ct_MockHWordSize_def
  ct_MockAWordSize_def

datatype ct_area = CtDM | CtCIO | CtW | CtH | CtA

text \<open>The areas as a function of their names.\<close>

record TcpPLCServer =
  ct_areas :: "ct_area \<Rightarrow> bytes"
  ct_srcAddr :: FINSAddress
  ct_dstAddr :: FINSAddress
  ct_closed :: bool

fun ct_words :: "ct_area \<Rightarrow> nat" where
  "ct_words CtDM = ct_MockDMWordSize"
| "ct_words CtCIO = ct_MockCIOWordSize"
| "ct_words CtW = ct_MockWWordSize"
| "ct_words CtH = ct_MockHWordSize"
| "ct_words CtA = ct_MockAWordSize"

definition ct_NewPLCServer :: TcpPLCServer where
  "ct_NewPLCServer =
     \<lparr>ct_areas = (\<lambda>ar. replicate (ct_words ar * 2) 0),
      ct_srcAddr = \<lparr>fa_Network = 0, fa_Node = 1, fa_Unit = 0\<rparr>,
      ct_dstAddr = \<lparr>fa_Network = 0, fa_Node = 2, fa_Unit = 0\<rparr>, ct_closed = False\<rparr>"

section \<open>Codecs\<close>

definition ct_encodeFINSTCPFrame :: "bytes \<Rightarrow> bytes" where
  "ct_encodeFINSTCPFrame finsData =
     [0x46, 0x49, 0x4E, 0x53] @ be32 (word_of_nat (length finsData + 4)) @ be16 0 @ be16 0 @ finsData"

definition ct_decodeFINSFrame :: "bytes \<Rightarrow> FINSFrame option" where
  "ct_decodeFINSFrame data =
     (if length data < 14 then None
      else Some
        \<lparr>ff_Header =
           \<lparr>ICF = data ! 0, RSV = data ! 1, GCT = data ! 2,
            Dest = \<lparr>fa_Network = data ! 3, fa_Node = data ! 4, fa_Unit = data ! 5\<rparr>,
            Src = \<lparr>fa_Network = data ! 6, fa_Node = data ! 7, fa_Unit = data ! 8\<rparr>,
            SID = data ! 9\<rparr>,
         ff_CommandCode = un_be16 (slice data 10 12), ff_EndCode = un_be16 (slice data 12 14),
         ff_Data = drop 14 data\<rparr>)"

definition ct_encodeFINSFrame :: "FINSFrame \<Rightarrow> bytes" where
  "ct_encodeFINSFrame f =
     (let h = ff_Header f in
      [ICF h, RSV h, GCT h, fa_Network (Dest h), fa_Node (Dest h), fa_Unit (Dest h),
       fa_Network (Src h), fa_Node (Src h), fa_Unit (Src h), SID h]
      @ be16 (ff_CommandCode f) @ be16 (ff_EndCode f) @ ff_Data f)"

definition ct_decodeMemoryAddress :: "bytes \<Rightarrow> MemoryAddress" where
  "ct_decodeMemoryAddress data =
     \<lparr>ma_Area = data ! 0, ma_Address = un_be16 (slice data 1 3), ma_BitOffset = data ! 3\<rparr>"

section \<open>Memory\<close>

definition ct_area_of :: "u8 \<Rightarrow> ct_area option" where
  "ct_area_of c =
     (if c = 0x30 then Some CtCIO else if c = 0x31 then Some CtW else if c = 0x32 then Some CtH
      else if c = 0x33 then Some CtA else if c = 0x02 then Some CtDM else if c = 0x82 then Some CtDM
      else if c = 0xb0 then Some CtCIO else if c = 0xb1 then Some CtW else if c = 0xb2 then Some CtH
      else if c = 0xb3 then Some CtA else None)"

definition ct_readMemory :: "TcpPLCServer \<Rightarrow> MemoryAddress \<Rightarrow> u16 \<Rightarrow> bytes \<times> u16" where
  "ct_readMemory s m count =
     (case ct_area_of (ma_Area m) of
        None \<Rightarrow> ([], 0x1101)
      | Some ar \<Rightarrow>
          let byteOffset = unat (ma_Address m) * 2; byteCount = unat count * 2 in
          if byteOffset + byteCount > ct_words ar * 2 then ([], 0x1104)
          else (slice (ct_areas s ar) byteOffset (byteOffset + byteCount), 0x0000))"

text \<open>The auxiliary area is read-only; a write copies as many bytes as the request has, at most
  those of the range.\<close>

definition ct_writeMemory :: "TcpPLCServer \<Rightarrow> MemoryAddress \<Rightarrow> u16 \<Rightarrow> bytes \<Rightarrow> u16 \<times> TcpPLCServer" where
  "ct_writeMemory s m count data =
     (case ct_area_of (ma_Area m) of
        None \<Rightarrow> (0x1101, s)
      | Some CtA \<Rightarrow> (0x2101, s)
      | Some ar \<Rightarrow>
          let byteOffset = unat (ma_Address m) * 2; byteCount = unat count * 2 in
          if byteOffset + byteCount > ct_words ar * 2 then (0x1104, s)
          else (0x0000, s\<lparr>ct_areas := (ct_areas s)(ar :=
                  copy_at (ct_areas s ar) byteOffset (take byteCount data))\<rparr>))"

section \<open>Requests\<close>

definition ct_handleRequest :: "TcpPLCServer \<Rightarrow> FINSFrame \<Rightarrow> FINSFrame \<times> TcpPLCServer" where
  "ct_handleRequest s req =
     (let d = ff_Data req;
          (data, endCode, s') =
            (if ff_CommandCode req = 0x0101 then
               (if length d < 6 then ([], 0x1002, s)
                else case ct_readMemory s (ct_decodeMemoryAddress (slice d 0 4)) (un_be16 (slice d 4 6)) of
                  (data, e) \<Rightarrow> (data, e, s))
             else if ff_CommandCode req = 0x0102 then
               (if length d < 6 then ([], 0x1002, s)
                else case ct_writeMemory s (ct_decodeMemoryAddress (slice d 0 4)) (un_be16 (slice d 4 6)) (drop 6 d) of
                  (e, s') \<Rightarrow> ([], e, s'))
             else ([], 0x0401, s));
          h = ff_Header req
      in (\<lparr>ff_Header = \<lparr>ICF = ICF h OR 0x40, RSV = RSV h, GCT = GCT h, Dest = Src h, Src = Dest h, SID = SID h\<rparr>,
           ff_CommandCode = ff_CommandCode req, ff_EndCode = endCode, ff_Data = data\<rparr>, s'))"

text \<open>The inner loop over the accumulator; the bytes written to the connection are collected in
  \<open>out\<close>. A length field below four makes the bounds of the slice cross: a panic, which ends the
  server.\<close>

function ct_connection :: "TcpPLCServer \<Rightarrow> bytes \<Rightarrow> bytes \<Rightarrow> (FinsError, TcpPLCServer \<times> bytes) go \<times> bytes" where
  "ct_connection s out accumulator =
     (if length accumulator < 12 then (Ok (s, out), accumulator)
      else if slice accumulator 0 4 \<noteq> [0x46, 0x49, 0x4E, 0x53] then ct_connection s out (drop 1 accumulator)
      else
        let frameLen = unat (un_be32 (slice accumulator 4 8)); totalLen = 12 + frameLen - 4 in
        if length accumulator < totalLen then (Ok (s, out), accumulator)
        else if 12 + frameLen - 4 < 12 then (Panic, accumulator)
        else
          case ct_decodeFINSFrame (slice accumulator 12 (12 + frameLen - 4)) of
            None \<Rightarrow> ct_connection s out (drop totalLen accumulator)
          | Some req \<Rightarrow>
              (case ct_handleRequest s req of
                 (resp, s') \<Rightarrow>
                   ct_connection s' (out @ ct_encodeFINSTCPFrame (ct_encodeFINSFrame resp)) (drop totalLen accumulator)))"
  by pat_completeness auto
termination
  by (relation "measure (\<lambda>(s, out, acc). length acc)") auto

declare ct_connection.simps [simp del]

definition ct_Close :: "TcpPLCServer \<Rightarrow> TcpPLCServer" where
  "ct_Close s = s\<lparr>ct_closed := True\<rparr>"

section \<open>Agreement with the driver's codecs\<close>

lemma ct_codecs:
  "ct_encodeFINSTCPFrame d = EncodeFINSTCPFrame TCPCommandFINSFrame 0 d"
  "ct_encodeFINSFrame f = EncodeFINSFrame (ff_Header f) (ff_CommandCode f) (ff_EndCode f) (ff_Data f)"
  "ct_decodeFINSFrame d = (case DecodeFINSFrame d of Ok f \<Rightarrow> Some f | _ \<Rightarrow> None)"
  by (simp_all add: ct_encodeFINSTCPFrame_def EncodeFINSTCPFrame_def fins_magic_def TCPCommandFINSFrame_def
      ct_encodeFINSFrame_def EncodeFINSFrame_def encode_header_def Let_def ct_decodeFINSFrame_def DecodeFINSFrame_def
      decode_header_def)

section \<open>Serving a request\<close>

lemma ct_connection_frame:
  assumes "length d + 18 < 2 ^ 32"
  shows "ct_connection s out (EncodeFINSTCPFrame c e (EncodeFINSFrame h code ec d) @ rest) =
    (case ct_handleRequest s \<lparr>ff_Header = h, ff_CommandCode = code, ff_EndCode = ec, ff_Data = d\<rparr> of
       (resp, s') \<Rightarrow> ct_connection s' (out @ ct_encodeFINSTCPFrame (ct_encodeFINSFrame resp)) rest)"
proof -
  let ?f = "EncodeFINSFrame h code ec d"
  let ?acc = "EncodeFINSTCPFrame c e ?f @ rest"
  have len: "length ?acc = 26 + length d + length rest" by (simp add: EncodeFINSTCPFrame_def fins_magic_def)
  have magic: "slice ?acc 0 4 = [0x46, 0x49, 0x4E, 0x53]"
    by (simp add: EncodeFINSTCPFrame_def fins_magic_def slice_def)
  have be: "length (be32 x) = 4" for x by simp
  have "slice ?acc 4 8 = be32 (word_of_nat (14 + length d + 4))"
    by (simp add: EncodeFINSTCPFrame_def fins_magic_def slice_def)
  moreover have "unat (word_of_nat (14 + length d + 4) :: u32) = 18 + length d"
    unfolding unat_of_nat using assms by simp
  ultimately have fl: "unat (un_be32 (slice ?acc 4 8)) = 18 + length d" by (simp only: un_be32_be32)
  have data: "slice ?acc 12 (26 + length d) = ?f"
    by (simp add: EncodeFINSTCPFrame_def fins_magic_def slice_def)
  have "length (EncodeFINSTCPFrame c e ?f) = 26 + length d" by (simp add: EncodeFINSTCPFrame_def fins_magic_def)
  then have rest: "drop (26 + length d) ?acc = rest" by simp
  have dec: "ct_decodeFINSFrame ?f = Some \<lparr>ff_Header = h, ff_CommandCode = code, ff_EndCode = ec, ff_Data = d\<rparr>"
    by (simp add: ct_codecs DecodeFINSFrame_EncodeFINSFrame)
  have tot: "12 + (18 + length d) - 4 = 26 + length d" by simp
  show ?thesis
    unfolding ct_connection.simps [of s out ?acc] Let_def fl tot data rest dec magic
    using len by simp
qed

text \<open>The payload of a memory command.\<close>

lemma ct_memory_payload:
  "slice (EncodeMemoryAddress m @ be16 n @ d) 0 4 = EncodeMemoryAddress m"
  "slice (EncodeMemoryAddress m @ be16 n @ d) 4 6 = be16 n"
  "drop 6 (EncodeMemoryAddress m @ be16 n @ d) = d"
  "ct_decodeMemoryAddress (EncodeMemoryAddress m) = m"
proof -
  have "slice (EncodeMemoryAddress m) 1 3 = be16 (ma_Address m)"
    by (simp add: EncodeMemoryAddress_def slice_def)
  moreover have "EncodeMemoryAddress m ! 0 = ma_Area m" "EncodeMemoryAddress m ! 3 = ma_BitOffset m"
    by (simp_all add: EncodeMemoryAddress_def be16_eq)
  ultimately show "ct_decodeMemoryAddress (EncodeMemoryAddress m) = m"
    by (cases m) (simp add: ct_decodeMemoryAddress_def)
qed (simp_all add: slice_def)

definition ct_response :: "FINSHeader \<Rightarrow> u16 \<Rightarrow> u16 \<Rightarrow> bytes \<Rightarrow> bytes" where
  "ct_response h code e d =
     EncodeFINSTCPFrame TCPCommandFINSFrame 0 (EncodeFINSFrame
       \<lparr>ICF = ICF h OR 0x40, RSV = RSV h, GCT = GCT h, Dest = Src h, Src = Dest h, SID = SID h\<rparr> code e d)"

lemma ct_serve_read:
  assumes "ct_readMemory s m n = (d, e)"
  shows "ct_connection s out (EncodeFINSTCPFrame c ec (EncodeFINSFrame h 0x0101 0 (EncodeMemoryAddress m @ be16 n)) @ rest) =
    ct_connection s (out @ ct_response h 0x0101 e d) rest"
proof -
  have "(EncodeMemoryAddress m @ be16 n) = EncodeMemoryAddress m @ be16 n @ []" by simp
  then show ?thesis
    using assms ct_connection_frame [of "EncodeMemoryAddress m @ be16 n" s out c ec h "0x0101" 0 rest]
      ct_memory_payload(1,2) [of m n "[]"]
    by (simp add: ct_handleRequest_def Let_def ct_codecs ct_response_def ct_memory_payload(4))
qed

lemma ct_serve_write:
  assumes "ct_writeMemory s m n d = (e, s')" and "length d < 2 ^ 31"
  shows "ct_connection s out (EncodeFINSTCPFrame c ec (EncodeFINSFrame h 0x0102 0 (EncodeMemoryAddress m @ be16 n @ d)) @ rest) =
    ct_connection s' (out @ ct_response h 0x0102 e []) rest"
  using assms ct_connection_frame [of "EncodeMemoryAddress m @ be16 n @ d" s out c ec h "0x0102" 0 rest]
  by (simp add: ct_handleRequest_def Let_def ct_codecs ct_response_def ct_memory_payload)

definition ct_wf :: "TcpPLCServer \<Rightarrow> bool" where
  "ct_wf s \<longleftrightarrow> (\<forall>ar. length (ct_areas s ar) = ct_words ar * 2)"

lemma ct_wf_New: "ct_wf ct_NewPLCServer"
  by (simp add: ct_wf_def ct_NewPLCServer_def)

lemma ct_writeMemory_wf: "ct_wf s \<Longrightarrow> ct_writeMemory s m n d = (e, s') \<Longrightarrow> ct_wf s'"
  by (auto simp: ct_writeMemory_def ct_wf_def Let_def split: option.splits ct_area.splits if_splits)

section \<open>The server implements the memory contract\<close>

text \<open>The word memory of the standalone server keeps the contract of \<open>Fins_MockPLC\<close>, with the auxiliary
  area not writable.\<close>

definition ct_img :: "TcpPLCServer \<Rightarrow> u8 \<Rightarrow> bytes option" where
  "ct_img s c = map_option (ct_areas s) (ct_area_of c)"

definition ct_writable :: "u8 \<Rightarrow> bool" where
  "ct_writable c \<longleftrightarrow> ct_area_of c \<noteq> Some CtA"

lemma ct_write_ok:
  assumes "ct_area_of (ma_Area m) = Some ar" and "ar \<noteq> CtA" 
  shows "ct_writeMemory s m n d =
    (if ct_words ar * 2 < unat (ma_Address m) * 2 + unat n * 2 then (0x1104, s)
     else (0, s\<lparr>ct_areas := (ct_areas s)(ar := copy_at (ct_areas s ar) (unat (ma_Address m) * 2) (take (unat n * 2) d))\<rparr>))"
  using assms by (cases ar) (simp_all add: ct_writeMemory_def Let_def)

interpretation ct_mem: plc_word_memory ct_readMemory "\<lambda>s m n d. prod.swap (ct_writeMemory s m n d)" ct_img ct_writable ct_wf
proof unfold_locales
  fix s :: TcpPLCServer and a :: MemoryAddress and bs d and n :: u16
  assume wf: "ct_wf s" and img: "ct_img s (ma_Area a) = Some bs"
  then obtain ar where ar: "ct_area_of (ma_Area a) = Some ar" "bs = ct_areas s ar" "length bs = ct_words ar * 2"
    by (auto simp: ct_img_def ct_wf_def)
  show "2 * (unat (ma_Address a) + unat n) \<le> length bs \<Longrightarrow> ct_readMemory s a n =
      (slice bs (2 * unat (ma_Address a)) (2 * (unat (ma_Address a) + unat n)), 0)"
    using ar by (simp add: ct_readMemory_def Let_def algebra_simps)
  show "length bs < 2 * (unat (ma_Address a) + unat n) \<Longrightarrow> ct_readMemory s a n = ([], 0x1104)"
    using ar by (simp add: ct_readMemory_def Let_def)
  assume "ct_writable (ma_Area a)"
  then have "ar \<noteq> CtA" using ar(1) by (simp add: ct_writable_def)
  note w = ct_write_ok [OF ar(1) this, of s n d]
  show "2 * (unat (ma_Address a) + unat n) \<le> length bs \<Longrightarrow> snd (prod.swap (ct_writeMemory s a n d)) = 0 \<and>
      ct_img (fst (prod.swap (ct_writeMemory s a n d))) (ma_Area a) =
        Some (copy_at bs (2 * unat (ma_Address a)) (take (2 * unat n) d))"
    using ar w by (simp add: ct_img_def mult.commute)
  show "length bs < 2 * (unat (ma_Address a) + unat n) \<Longrightarrow> prod.swap (ct_writeMemory s a n d) = (s, 0x1104)"
    using ar w by simp
next
  show "ct_wf s \<Longrightarrow> ct_wf (fst (prod.swap (ct_writeMemory s a n d)))" for s a n d
    using ct_writeMemory_wf [of s a n d] by (cases "ct_writeMemory s a n d") simp
qed

text \<open>A length field below four stops the server.\<close>

theorem ct_short_length_panics:
  "fst (ct_connection s [] ([0x46, 0x49, 0x4E, 0x53] @ be32 3 @ be16 0 @ be16 0)) = Panic"
  by (simp add: ct_connection.simps [of s "[]"] slice_def be32_eq be16_eq Uint_def)

definition sample_header :: FINSHeader where
  "sample_header = DefaultCommandHeader \<lparr>fa_Network = 0, fa_Node = 1, fa_Unit = 255\<rparr>
     \<lparr>fa_Network = 0, fa_Node = 1, fa_Unit = 0\<rparr> 9"

section \<open>Properties\<close>

text \<open>C39. The standalone TCP server over the wire: a stream of a write request and a request that reads
  words inside the written range, in a writable area and in range, is answered with normal
  completion and then with the written bytes, each response addressed to its request, and every
  other area keeps its contents; a write to the auxiliary area is refused and changes nothing.\<close>

theorem cmd_tcp_read_after_write:
  assumes "ct_wf s" and "ct_area_of c = Some ar" and "unat a + unat n \<le> ct_words ar" and "length d = 2 * unat n"
    and "unat a \<le> unat b" and "unat b + unat k \<le> unat a + unat n"
  shows "\<exists>s' e d'. ct_connection s []
      (EncodeFINSTCPFrame TCPCommandFINSFrame 0 (EncodeFINSFrame h1 0x0102 0
         (EncodeMemoryAddress (NewMemoryAddress c a) @ be16 n @ d)) @
       EncodeFINSTCPFrame TCPCommandFINSFrame 0 (EncodeFINSFrame h2 0x0101 0
         (EncodeMemoryAddress (NewMemoryAddress c b) @ be16 k))) =
      (Ok (s', ct_response h1 0x0102 e [] @ ct_response h2 0x0101 0 d'), []) \<and> ct_wf s' \<and>
    (if ar = CtA then e = 0x2101 \<and> s' = s
     else e = 0 \<and> d' = slice d (2 * (unat b - unat a)) (2 * (unat b - unat a + unat k)) \<and>
       (\<forall>ar'. ar' \<noteq> ar \<longrightarrow> ct_areas s' ar' = ct_areas s ar'))"
proof -
  let ?m = "NewMemoryAddress c a" and ?r = "NewMemoryAddress c b"
  have m: "ma_Area ?m = c" "ma_Address ?m = a" "ma_Area ?r = c" "ma_Address ?r = b" by (simp_all add: NewMemoryAddress_def)
  have bs: "ct_img s c = Some (ct_areas s ar)" "length (ct_areas s ar) = ct_words ar * 2"
    using assms(1,2) by (simp_all add: ct_img_def ct_wf_def)
  obtain e s' where w: "ct_writeMemory s ?m n d = (e, s')" by fastforce
  have wf': "ct_wf s'" using ct_writeMemory_wf [OF assms(1) w] .
  have "unat b + unat k \<le> ct_words ar" using assms(3,6) by simp
  then obtain d' where r: "ct_readMemory s' ?r k = (d', 0)"
    using assms(2) m by (simp add: ct_readMemory_def Let_def)
  have "unat n < 65536" using unsigned_less [of n] by simp
  then have len: "length d < 2 ^ 31" using assms(4) by simp
  have run: "ct_connection s []
      (EncodeFINSTCPFrame TCPCommandFINSFrame 0 (EncodeFINSFrame h1 0x0102 0 (EncodeMemoryAddress ?m @ be16 n @ d)) @
       EncodeFINSTCPFrame TCPCommandFINSFrame 0 (EncodeFINSFrame h2 0x0101 0 (EncodeMemoryAddress ?r @ be16 k))) =
      (Ok (s', ct_response h1 0x0102 e [] @ ct_response h2 0x0101 0 d'), [])"
    using ct_serve_write [OF w len, of "[]" TCPCommandFINSFrame 0 h1
        "EncodeFINSTCPFrame TCPCommandFINSFrame 0 (EncodeFINSFrame h2 0x0101 0 (EncodeMemoryAddress ?r @ be16 k))"]
      ct_serve_read [OF r, of "ct_response h1 0x0102 e []" TCPCommandFINSFrame 0 h2 "[]"]
    by (simp add: ct_connection.simps [of s' _ "[]"])
  have "if ar = CtA then e = 0x2101 \<and> s' = s
     else e = 0 \<and> d' = slice d (2 * (unat b - unat a)) (2 * (unat b - unat a + unat k)) \<and>
       (\<forall>ar'. ar' \<noteq> ar \<longrightarrow> ct_areas s' ar' = ct_areas s ar')"
  proof (cases "ar = CtA")
    case True
    then show ?thesis using w assms(2) m by (auto simp: ct_writeMemory_def)
  next
    case False
    have fit: "2 * (unat a + unat n) \<le> length (ct_areas s ar)" using assms(3) bs(2) by simp
    have s': "e = 0" "s' = s\<lparr>ct_areas := (ct_areas s)(ar := copy_at (ct_areas s ar) (unat a * 2) (take (unat n * 2) d))\<rparr>"
      using w ct_write_ok [of ?m ar s n d] assms(2,3) False m by auto
    have "ct_writable (ma_Area ?m)" using assms(2) False m by (simp add: ct_writable_def)
    from ct_mem.read_inside_write [OF assms(1) this, where b = ?r and k = k and n = n and d = d] show ?thesis
      using bs(1) fit assms(4-6) m w r s' False by simp
  qed
  then show ?thesis using run wf' by blast
qed

theorem cmd_tcp_read_after_write_witness:
  "\<exists>s' e d'. fst (ct_connection ct_NewPLCServer []
      (EncodeFINSTCPFrame TCPCommandFINSFrame 0 (EncodeFINSFrame sample_header 0x0102 0
         (EncodeMemoryAddress (NewMemoryAddress 0x82 100) @ be16 2 @ [1, 2, 3, 4])) @
       EncodeFINSTCPFrame TCPCommandFINSFrame 0 (EncodeFINSFrame sample_header 0x0101 0
         (EncodeMemoryAddress (NewMemoryAddress 0x82 101) @ be16 1)))) =
      Ok (s', ct_response sample_header 0x0102 e [] @ ct_response sample_header 0x0101 0 d') \<and> d' = [3, 4]"
proof -
  have "ct_area_of 0x82 = Some CtDM" by (simp add: ct_area_of_def)
  from cmd_tcp_read_after_write [OF ct_wf_New this, of 100 2 "[1, 2, 3, 4]" 101 1 sample_header sample_header] show ?thesis
    by (auto simp: ct_sizes slice_def)
qed

end
