(* ===== verification/Udp_Constants.thy ===== *)
theory Udp_Constants
  imports Fins_Prelude
begin

text \<open>
  The constants of the UDP package: command codes (\<open>command_code.go\<close>), end codes
  (\<open>end_code.go\<close>) and memory areas (\<open>memory_area.go\<close>). The memory areas are prefixed,
  since the TCP package has constants of the same names with other values.
\<close>

named_theorems udp_consts \<open>values of the constants of the UDP package\<close>

section \<open>Command codes\<close>

definition CommandCodeMemoryAreaRead :: u16 where [udp_consts]: "CommandCodeMemoryAreaRead = 0x0101"
definition CommandCodeMemoryAreaWrite :: u16 where [udp_consts]: "CommandCodeMemoryAreaWrite = 0x0102"
definition CommandCodeMemoryAreaFill :: u16 where [udp_consts]: "CommandCodeMemoryAreaFill = 0x0103"
definition CommandCodeMultipleMemoryAreaRead :: u16 where [udp_consts]: "CommandCodeMultipleMemoryAreaRead = 0x0104"
definition CommandCodeMemoryAreaTransfer :: u16 where [udp_consts]: "CommandCodeMemoryAreaTransfer = 0x0105"
definition CommandCodeParameterAreaRead :: u16 where [udp_consts]: "CommandCodeParameterAreaRead = 0x0201"
definition CommandCodeParameterAreaWrite :: u16 where [udp_consts]: "CommandCodeParameterAreaWrite = 0x0202"
definition CommandCodeParameterAreaClear :: u16 where [udp_consts]: "CommandCodeParameterAreaClear = 0x0203"
definition CommandCodeProgramAreaRead :: u16 where [udp_consts]: "CommandCodeProgramAreaRead = 0x0301"
definition CommandCodeProgramAreaWrite :: u16 where [udp_consts]: "CommandCodeProgramAreaWrite = 0x0302"
definition CommandCodeProgramAreaClear :: u16 where [udp_consts]: "CommandCodeProgramAreaClear = 0x0303"
definition CommandCodeRun :: u16 where [udp_consts]: "CommandCodeRun = 0x0401"
definition CommandCodeStop :: u16 where [udp_consts]: "CommandCodeStop = 0x0402"
definition CommandCodeCPUUnitDataRead :: u16 where [udp_consts]: "CommandCodeCPUUnitDataRead = 0x0501"
definition CommandCodeConnectionDataRead :: u16 where [udp_consts]: "CommandCodeConnectionDataRead = 0x0502"
definition CommandCodeCPUUnitStatusRead :: u16 where [udp_consts]: "CommandCodeCPUUnitStatusRead = 0x0601"
definition CommandCodeCycleTimeRead :: u16 where [udp_consts]: "CommandCodeCycleTimeRead = 0x0620"
definition CommandCodeClockRead :: u16 where [udp_consts]: "CommandCodeClockRead = 0x701"
definition CommandCodeClockWrite :: u16 where [udp_consts]: "CommandCodeClockWrite = 0x702"
definition CommandCodeMessageReadClear :: u16 where [udp_consts]: "CommandCodeMessageReadClear = 0x0920"
definition CommandCodeAccessRightAcquire :: u16 where [udp_consts]: "CommandCodeAccessRightAcquire = 0x0c01"
definition CommandCodeAccessRightForcedAcquire :: u16 where [udp_consts]: "CommandCodeAccessRightForcedAcquire = 0x0c02"
definition CommandCodeAccessRightRelease :: u16 where [udp_consts]: "CommandCodeAccessRightRelease = 0x0c03"
definition CommandCodeErrorClear :: u16 where [udp_consts]: "CommandCodeErrorClear = 0x2101"
definition CommandCodeErrorLogRead :: u16 where [udp_consts]: "CommandCodeErrorLogRead = 0x2102"
definition CommandCodeErrorLogClear :: u16 where [udp_consts]: "CommandCodeErrorLogClear = 0x2103"
definition CommandCodeFINSWriteAccessLogRead :: u16 where [udp_consts]: "CommandCodeFINSWriteAccessLogRead = 0x2140"
definition CommandCodeFINSWriteAccessLogWrite :: u16 where [udp_consts]: "CommandCodeFINSWriteAccessLogWrite = 0x2141"
definition CommandCodeFileNameRead :: u16 where [udp_consts]: "CommandCodeFileNameRead = 0x2101"
definition CommandCodeSingleFileRead :: u16 where [udp_consts]: "CommandCodeSingleFileRead = 0x2102"
definition CommandCodeSingleFileWrite :: u16 where [udp_consts]: "CommandCodeSingleFileWrite = 0x2103"
definition CommandCodeFileMemoryFormat :: u16 where [udp_consts]: "CommandCodeFileMemoryFormat = 0x2104"
definition CommandCodeFileDelete :: u16 where [udp_consts]: "CommandCodeFileDelete = 0x2105"
definition CommandCodeFileCopy :: u16 where [udp_consts]: "CommandCodeFileCopy = 0x2107"
definition CommandCodeFileNameChange :: u16 where [udp_consts]: "CommandCodeFileNameChange = 0x2108"
definition CommandCodeMemoryAreaFileTransfer :: u16 where [udp_consts]: "CommandCodeMemoryAreaFileTransfer = 0x210a"
definition CommandCodeParameterAreaFileTransfer :: u16 where [udp_consts]: "CommandCodeParameterAreaFileTransfer = 0x210b"
definition CommandCodeProgramAreaFileTransfer :: u16 where [udp_consts]: "CommandCodeProgramAreaFileTransfer = 0x210b"
definition CommandCodeDirectoryCreateDelete :: u16 where [udp_consts]: "CommandCodeDirectoryCreateDelete = 0x2115"
definition CommandCodeMemoryCassetteTransfer :: u16 where [udp_consts]: "CommandCodeMemoryCassetteTransfer = 0x2120"
definition CommandCodeForcedSetReset :: u16 where [udp_consts]: "CommandCodeForcedSetReset = 0x2301"
definition CommandCodeForcedSetResetCancel :: u16 where [udp_consts]: "CommandCodeForcedSetResetCancel = 0x2302"
definition CommandCodeConvertToCompoWayFCommand :: u16 where [udp_consts]: "CommandCodeConvertToCompoWayFCommand = 0x2803"
definition CommandCodeConvertToModbusRTUCommand :: u16 where [udp_consts]: "CommandCodeConvertToModbusRTUCommand = 0x2804"
definition CommandCodeConvertToModbusASCIICommand :: u16 where [udp_consts]: "CommandCodeConvertToModbusASCIICommand = 0x2805"

section \<open>End codes\<close>

definition EndCodeNormalCompletion :: u16 where [udp_consts]: "EndCodeNormalCompletion = 0x0000"
definition EndCodeServiceInterrupted :: u16 where [udp_consts]: "EndCodeServiceInterrupted = 0x0001"
definition EndCodeLocalNodeNotInNetwork :: u16 where [udp_consts]: "EndCodeLocalNodeNotInNetwork = 0x0101"
definition EndCodeTokenTimeout :: u16 where [udp_consts]: "EndCodeTokenTimeout = 0x0102"
definition EndCodeRetriesFailed :: u16 where [udp_consts]: "EndCodeRetriesFailed = 0x0103"
definition EndCodeTooManySendFrames :: u16 where [udp_consts]: "EndCodeTooManySendFrames = 0x0104"
definition EndCodeNodeAddressRangeError :: u16 where [udp_consts]: "EndCodeNodeAddressRangeError = 0x0105"
definition EndCodeNodeAddressRangeDuplication :: u16 where [udp_consts]: "EndCodeNodeAddressRangeDuplication = 0x0106"
definition EndCodeDestinationNodeNotInNetwork :: u16 where [udp_consts]: "EndCodeDestinationNodeNotInNetwork = 0x0201"
definition EndCodeUnitMissing :: u16 where [udp_consts]: "EndCodeUnitMissing = 0x0202"
definition EndCodeThirdNodeMissing :: u16 where [udp_consts]: "EndCodeThirdNodeMissing = 0x0203"
definition EndCodeDestinationNodeBusy :: u16 where [udp_consts]: "EndCodeDestinationNodeBusy = 0x0204"
definition EndCodeResponseTimeout :: u16 where [udp_consts]: "EndCodeResponseTimeout = 0x0205"
definition EndCodeCommunicationsControllerError :: u16 where [udp_consts]: "EndCodeCommunicationsControllerError = 0x0301"
definition EndCodeCPUUnitError :: u16 where [udp_consts]: "EndCodeCPUUnitError = 0x0302"
definition EndCodeControllerError :: u16 where [udp_consts]: "EndCodeControllerError = 0x0303"
definition EndCodeUnitNumberError :: u16 where [udp_consts]: "EndCodeUnitNumberError = 0x0304"
definition EndCodeUndefinedCommand :: u16 where [udp_consts]: "EndCodeUndefinedCommand = 0x0401"
definition EndCodeNotSupportedByModelVersion :: u16 where [udp_consts]: "EndCodeNotSupportedByModelVersion = 0x0402"
definition EndCodeDestinationAddressSettingError :: u16 where [udp_consts]: "EndCodeDestinationAddressSettingError = 0x0501"
definition EndCodeNoRoutingTables :: u16 where [udp_consts]: "EndCodeNoRoutingTables = 0x0502"
definition EndCodeRoutingTableError :: u16 where [udp_consts]: "EndCodeRoutingTableError = 0x0503"
definition EndCodeTooManyRelays :: u16 where [udp_consts]: "EndCodeTooManyRelays = 0x0504"
definition EndCodeCommandTooLong :: u16 where [udp_consts]: "EndCodeCommandTooLong = 0x1001"
definition EndCodeCommandTooShort :: u16 where [udp_consts]: "EndCodeCommandTooShort = 0x1002"
definition EndCodeElementsDataDontMatch :: u16 where [udp_consts]: "EndCodeElementsDataDontMatch = 0x1003"
definition EndCodeCommandFormatError :: u16 where [udp_consts]: "EndCodeCommandFormatError = 0x1004"
definition EndCodeHeaderError :: u16 where [udp_consts]: "EndCodeHeaderError = 0x1005"
definition EndCodeAreaClassificationMissing :: u16 where [udp_consts]: "EndCodeAreaClassificationMissing = 0x1101"
definition EndCodeAccessSizeError :: u16 where [udp_consts]: "EndCodeAccessSizeError = 0x1102"
definition EndCodeAddressRangeError :: u16 where [udp_consts]: "EndCodeAddressRangeError = 0x1103"
definition EndCodeAddressRangeExceeded :: u16 where [udp_consts]: "EndCodeAddressRangeExceeded = 0x1104"
definition EndCodeProgramMissing :: u16 where [udp_consts]: "EndCodeProgramMissing = 0x1106"
definition EndCodeRelationalError :: u16 where [udp_consts]: "EndCodeRelationalError = 0x1109"
definition EndCodeDuplicateDataAccess :: u16 where [udp_consts]: "EndCodeDuplicateDataAccess = 0x110a"
definition EndCodeResponseTooBig :: u16 where [udp_consts]: "EndCodeResponseTooBig = 0x110b"
definition EndCodeParameterError :: u16 where [udp_consts]: "EndCodeParameterError = 0x110c"
definition EndCodeReadNotPossibleProtected :: u16 where [udp_consts]: "EndCodeReadNotPossibleProtected = 0x2002"
definition EndCodeReadNotPossibleTableMissing :: u16 where [udp_consts]: "EndCodeReadNotPossibleTableMissing = 0x2003"
definition EndCodeReadNotPossibleDataMissing :: u16 where [udp_consts]: "EndCodeReadNotPossibleDataMissing = 0x2004"
definition EndCodeReadNotPossibleProgramMissing :: u16 where [udp_consts]: "EndCodeReadNotPossibleProgramMissing = 0x2005"
definition EndCodeReadNotPossibleFileMissing :: u16 where [udp_consts]: "EndCodeReadNotPossibleFileMissing = 0x2006"
definition EndCodeReadNotPossibleDataMismatch :: u16 where [udp_consts]: "EndCodeReadNotPossibleDataMismatch = 0x2007"
definition EndCodeWriteNotPossibleReadOnly :: u16 where [udp_consts]: "EndCodeWriteNotPossibleReadOnly = 0x2101"
definition EndCodeWriteNotPossibleProtected :: u16 where [udp_consts]: "EndCodeWriteNotPossibleProtected = 0x2102"
definition EndCodeWriteNotPossibleCannotRegister :: u16 where [udp_consts]: "EndCodeWriteNotPossibleCannotRegister = 0x2103"
definition EndCodeWriteNotPossibleProgramMissing :: u16 where [udp_consts]: "EndCodeWriteNotPossibleProgramMissing = 0x2105"
definition EndCodeWriteNotPossibleFileMissing :: u16 where [udp_consts]: "EndCodeWriteNotPossibleFileMissing = 0x2106"
definition EndCodeWriteNotPossibleFileNameAlreadyExists :: u16 where [udp_consts]: "EndCodeWriteNotPossibleFileNameAlreadyExists = 0x2107"
definition EndCodeWriteNotPossibleCannotChange :: u16 where [udp_consts]: "EndCodeWriteNotPossibleCannotChange = 0x2108"
definition EndCodeNotExecutableInCurrentModeNotPossibleDuringExecution :: u16 where [udp_consts]: "EndCodeNotExecutableInCurrentModeNotPossibleDuringExecution = 0x2201"
definition EndCodeNotExecutableInCurrentModeNotPossibleWhileRunning :: u16 where [udp_consts]: "EndCodeNotExecutableInCurrentModeNotPossibleWhileRunning = 0x2202"
definition EndCodeNotExecutableInCurrentModeWrongPLCModeInProgram :: u16 where [udp_consts]: "EndCodeNotExecutableInCurrentModeWrongPLCModeInProgram = 0x2203"
definition EndCodeNotExecutableInCurrentModeWrongPLCModeInDebug :: u16 where [udp_consts]: "EndCodeNotExecutableInCurrentModeWrongPLCModeInDebug = 0x2204"
definition EndCodeNotExecutableInCurrentModeWrongPLCModeInMonitor :: u16 where [udp_consts]: "EndCodeNotExecutableInCurrentModeWrongPLCModeInMonitor = 0x2205"
definition EndCodeNotExecutableInCurrentModeWrongPLCModeInRun :: u16 where [udp_consts]: "EndCodeNotExecutableInCurrentModeWrongPLCModeInRun = 0x2206"
definition EndCodeNotExecutableInCurrentModeSpecifiedNodeNotPollingNode :: u16 where [udp_consts]: "EndCodeNotExecutableInCurrentModeSpecifiedNodeNotPollingNode = 0x2207"
definition EndCodeNotExecutableInCurrentModeStepCannotBeExecuted :: u16 where [udp_consts]: "EndCodeNotExecutableInCurrentModeStepCannotBeExecuted = 0x2208"
definition EndCodeNoSuchDeviceFileDeviceMissing :: u16 where [udp_consts]: "EndCodeNoSuchDeviceFileDeviceMissing = 0x2301"
definition EndCodeNoSuchDeviceMemoryMissing :: u16 where [udp_consts]: "EndCodeNoSuchDeviceMemoryMissing = 0x2302"
definition EndCodeNoSuchDeviceClockMissing :: u16 where [udp_consts]: "EndCodeNoSuchDeviceClockMissing = 0x2303"
definition EndCodeCannotStartStopTableMissing :: u16 where [udp_consts]: "EndCodeCannotStartStopTableMissing = 0x2401"
definition EndCodeUnitErrorMemoryError :: u16 where [udp_consts]: "EndCodeUnitErrorMemoryError = 0x2502"
definition EndCodeUnitErrorIOError :: u16 where [udp_consts]: "EndCodeUnitErrorIOError = 0x2503"
definition EndCodeUnitErrorTooManyIOPoints :: u16 where [udp_consts]: "EndCodeUnitErrorTooManyIOPoints = 0x2504"
definition EndCodeUnitErrorCPUBusError :: u16 where [udp_consts]: "EndCodeUnitErrorCPUBusError = 0x2505"
definition EndCodeUnitErrorIODuplication :: u16 where [udp_consts]: "EndCodeUnitErrorIODuplication = 0x2506"
definition EndCodeUnitErrorIOBusError :: u16 where [udp_consts]: "EndCodeUnitErrorIOBusError = 0x2507"
definition EndCodeUnitErrorSYSMACBUS2Error :: u16 where [udp_consts]: "EndCodeUnitErrorSYSMACBUS2Error = 0x2509"
definition EndCodeUnitErrorCPUBusUnitError :: u16 where [udp_consts]: "EndCodeUnitErrorCPUBusUnitError = 0x250a"
definition EndCodeUnitErrorSYSMACBusNumberDuplication :: u16 where [udp_consts]: "EndCodeUnitErrorSYSMACBusNumberDuplication = 0x250d"
definition EndCodeUnitErrorMemoryStatusError :: u16 where [udp_consts]: "EndCodeUnitErrorMemoryStatusError = 0x250f"
definition EndCodeUnitErrorSYSMACBusTerminatorMissing :: u16 where [udp_consts]: "EndCodeUnitErrorSYSMACBusTerminatorMissing = 0x2510"
definition EndCodeCommandErrorNoProtection :: u16 where [udp_consts]: "EndCodeCommandErrorNoProtection = 0x2601"
definition EndCodeCommandErrorIncorrectPassword :: u16 where [udp_consts]: "EndCodeCommandErrorIncorrectPassword = 0x2602"
definition EndCodeCommandErrorProtected :: u16 where [udp_consts]: "EndCodeCommandErrorProtected = 0x2604"
definition EndCodeCommandErrorServiceAlreadyExecuting :: u16 where [udp_consts]: "EndCodeCommandErrorServiceAlreadyExecuting = 0x2605"
definition EndCodeCommandErrorServiceStopped :: u16 where [udp_consts]: "EndCodeCommandErrorServiceStopped = 0x2606"
definition EndCodeCommandErrorNoExecutionRight :: u16 where [udp_consts]: "EndCodeCommandErrorNoExecutionRight = 0x2607"
definition EndCodeCommandErrorSettingsNotComplete :: u16 where [udp_consts]: "EndCodeCommandErrorSettingsNotComplete = 0x2608"
definition EndCodeCommandErrorNecessaryItemsNotSet :: u16 where [udp_consts]: "EndCodeCommandErrorNecessaryItemsNotSet = 0x2609"
definition EndCodeCommandErrorNumberAlreadyDefined :: u16 where [udp_consts]: "EndCodeCommandErrorNumberAlreadyDefined = 0x260a"
definition EndCodeCommandErrorErrorWillNotClear :: u16 where [udp_consts]: "EndCodeCommandErrorErrorWillNotClear = 0x260b"
definition EndCodeAccessWriteErrorNoAccessRight :: u16 where [udp_consts]: "EndCodeAccessWriteErrorNoAccessRight = 0x3001"
definition EndCodeAbortServiceAborted :: u16 where [udp_consts]: "EndCodeAbortServiceAborted = 0x4001"

section \<open>Memory areas\<close>

definition Udp_MemoryAreaCIOBit :: u8 where [udp_consts]: "Udp_MemoryAreaCIOBit = 0x30"
definition Udp_MemoryAreaWRBit :: u8 where [udp_consts]: "Udp_MemoryAreaWRBit = 0x31"
definition Udp_MemoryAreaHRBit :: u8 where [udp_consts]: "Udp_MemoryAreaHRBit = 0x32"
definition Udp_MemoryAreaARBit :: u8 where [udp_consts]: "Udp_MemoryAreaARBit = 0x33"
definition Udp_MemoryAreaCIOWord :: u8 where [udp_consts]: "Udp_MemoryAreaCIOWord = 0xb0"
definition Udp_MemoryAreaWRWord :: u8 where [udp_consts]: "Udp_MemoryAreaWRWord = 0xb1"
definition Udp_MemoryAreaHRWord :: u8 where [udp_consts]: "Udp_MemoryAreaHRWord = 0xb2"
definition Udp_MemoryAreaARWord :: u8 where [udp_consts]: "Udp_MemoryAreaARWord = 0xb3"
definition Udp_MemoryAreaTimerCounterCompletionFlag :: u8 where [udp_consts]: "Udp_MemoryAreaTimerCounterCompletionFlag = 0x09"
definition Udp_MemoryAreaTimerCounterPV :: u8 where [udp_consts]: "Udp_MemoryAreaTimerCounterPV = 0x89"
definition Udp_MemoryAreaDMBit :: u8 where [udp_consts]: "Udp_MemoryAreaDMBit = 0x02"
definition Udp_MemoryAreaDMWord :: u8 where [udp_consts]: "Udp_MemoryAreaDMWord = 0x82"
definition Udp_MemoryAreaTaskBit :: u8 where [udp_consts]: "Udp_MemoryAreaTaskBit = 0x06"
definition Udp_MemoryAreaTaskStatus :: u8 where [udp_consts]: "Udp_MemoryAreaTaskStatus = 0x46"
definition Udp_MemoryAreaIndexRegisterPV :: u8 where [udp_consts]: "Udp_MemoryAreaIndexRegisterPV = 0xdc"
definition Udp_MemoryAreaDataRegisterPV :: u8 where [udp_consts]: "Udp_MemoryAreaDataRegisterPV = 0xbc"
definition Udp_MemoryAreaClockPulsesConditionFlagsBit :: u8 where [udp_consts]: "Udp_MemoryAreaClockPulsesConditionFlagsBit = 0x07"

end
