(* ===== verification/Udp_Codec.thy ===== *)
theory Udp_Codec
  imports Udp_Constants Go_Runtime
begin

text \<open>
  Headers, requests, responses and BCD numbers of the UDP package (\<open>address.go\<close>,
  \<open>header.go\<close>, \<open>error.go\<close>, \<open>driver.go\<close>). Requests and responses keep their data as
  slices with spare capacity, because client and server re-slice them beyond their length.
\<close>

section \<open>Data\<close>

record finsAddress =
  ua_network :: u8
  ua_node :: u8
  ua_unit :: u8

record Header =
  h_messageType :: u8
  h_responseRequired :: bool
  h_src :: finsAddress
  h_dst :: finsAddress
  h_serviceID :: u8
  h_gatewayCount :: u8

record request =
  rq_header :: Header
  rq_commandCode :: u16
  rq_data :: gslice

record response =
  rs_header :: Header
  rs_commandCode :: u16
  rs_endCode :: u16
  rs_data :: gslice

record memoryAddress =
  ma_memoryArea :: u8
  ma_address :: u16
  ma_bitOffset :: u8

text \<open>The errors of \<open>error.go\<close>, the end code error of the client, and a failed write.\<close>

datatype UdpError =
    ResponseTimeoutError int
  | IncompatibleMemoryAreaError u8
  | BCDBadDigitError string u64
  | BCDOverflowError
  | EndCodeError u16
  | WriteError string

text \<open>Numbers in base 16 without leading zeros, and the texts of the errors.\<close>

fun hex :: "string \<Rightarrow> nat \<Rightarrow> string" where
  "hex digits n = (if n < 16 then [digits ! n] else hex digits (n div 16) @ [digits ! (n mod 16)])"

fun UdpError_Error :: "UdpError \<Rightarrow> string" where
  "UdpError_Error (ResponseTimeoutError d) =
     ''Response timeout of '' @ (if d < 0 then ''-'' else []) @ dec (nat \<bar>d\<bar>) @ '' has been reached''"
| "UdpError_Error (IncompatibleMemoryAreaError area) =
     ''The memory area is incompatible with the data type to be read: 0x'' @ hex ''0123456789ABCDEF'' (unat area)"
| "UdpError_Error (BCDBadDigitError v val) = ''Bad digit in BCD decoding: '' @ v @ '' = '' @ dec (unat val)"
| "UdpError_Error BCDOverflowError = ''Overflow occurred in BCD decoding''"
| "UdpError_Error (EndCodeError e) =
     ''error reported by destination, end code 0x'' @ hex ''0123456789abcdef'' (unat e)"
| "UdpError_Error (WriteError e) = e"

definition Udp_MessageTypeCommand :: u8 where [udp_consts]: "Udp_MessageTypeCommand = 0"
definition Udp_MessageTypeResponse :: u8 where [udp_consts]: "Udp_MessageTypeResponse = 1"

definition defaultHeader :: "u8 \<Rightarrow> bool \<Rightarrow> finsAddress \<Rightarrow> finsAddress \<Rightarrow> u8 \<Rightarrow> Header" where
  "defaultHeader messageType responseRequired src dst serviceID =
     \<lparr>h_messageType = messageType, h_responseRequired = responseRequired, h_src = src, h_dst = dst,
      h_serviceID = serviceID, h_gatewayCount = 2\<rparr>"

definition defaultCommandHeader :: "finsAddress \<Rightarrow> finsAddress \<Rightarrow> u8 \<Rightarrow> Header" where
  "defaultCommandHeader src dst serviceID = defaultHeader Udp_MessageTypeCommand True src dst serviceID"

definition defaultResponseHeader :: "Header \<Rightarrow> Header" where
  "defaultResponseHeader commandHeader =
     defaultHeader Udp_MessageTypeResponse False (h_dst commandHeader) (h_src commandHeader) (h_serviceID commandHeader)"

section \<open>Commands\<close>

definition memAddrWithBitOffset :: "u8 \<Rightarrow> u16 \<Rightarrow> u8 \<Rightarrow> memoryAddress" where
  "memAddrWithBitOffset memoryArea address bitOffset =
     \<lparr>ma_memoryArea = memoryArea, ma_address = address, ma_bitOffset = bitOffset\<rparr>"

definition memAddr :: "u8 \<Rightarrow> u16 \<Rightarrow> memoryAddress" where
  "memAddr memoryArea address = memAddrWithBitOffset memoryArea address 0"

definition encodeMemoryAddress :: "memoryAddress \<Rightarrow> bytes" where
  "encodeMemoryAddress m = [ma_memoryArea m] @ be16 (ma_address m) @ [ma_bitOffset m]"

definition readCommand :: "memoryAddress \<Rightarrow> u16 \<Rightarrow> bytes" where
  "readCommand m itemCount = be16 CommandCodeMemoryAreaRead @ encodeMemoryAddress m @ be16 itemCount"

definition writeCommand :: "memoryAddress \<Rightarrow> u16 \<Rightarrow> bytes \<Rightarrow> bytes" where
  "writeCommand m itemCount bs =
     be16 CommandCodeMemoryAreaWrite @ encodeMemoryAddress m @ be16 itemCount @ bs"

definition clockReadCommand :: bytes where
  "clockReadCommand = be16 CommandCodeClockRead"

text \<open>\<open>s[a:b]\<close> and \<open>s[a:]\<close> as outcomes.\<close>

definition gs_sub :: "gslice \<Rightarrow> nat \<Rightarrow> nat \<Rightarrow> ('e, gslice) go" where
  "gs_sub s a b = (case gs_slice s a b of Some t \<Rightarrow> Ok t | None \<Rightarrow> Panic)"

definition gs_tail :: "gslice \<Rightarrow> nat \<Rightarrow> ('e, gslice) go" where
  "gs_tail s a = (case gs_from s a of Some t \<Rightarrow> Ok t | None \<Rightarrow> Panic)"

definition decodeMemoryAddress :: "bytes \<Rightarrow> (UdpError, memoryAddress) go" where
  "decodeMemoryAddress data =
     (if length data < 4 then Panic
      else Ok \<lparr>ma_memoryArea = data ! 0, ma_address = un_be16 (slice data 1 3), ma_bitOffset = data ! 3\<rparr>)"

section \<open>Headers\<close>

definition icfBridgesBit :: nat where [udp_consts]: "icfBridgesBit = 7"
definition icfMessageTypeBit :: nat where [udp_consts]: "icfMessageTypeBit = 6"
definition icfResponseRequiredBit :: nat where [udp_consts]: "icfResponseRequiredBit = 0"

text \<open>In Go the operators \<open>&\<close> and \<open><<\<close> have the same precedence and associate to the
  left: \<open>icf&1<<k\<close> is \<open>(icf&1)<<k\<close>, so both tests look at bit 0.\<close>

definition decodeHeader :: "bytes \<Rightarrow> (UdpError, Header) go" where
  "decodeHeader bs =
     (if length bs < 10 then Panic
      else
        let icf = bs ! 0 in
        Ok \<lparr>h_messageType = (if push_bit icfMessageTypeBit (icf AND 1) = 0
                             then Udp_MessageTypeCommand else Udp_MessageTypeResponse),
            h_responseRequired = (push_bit icfResponseRequiredBit (icf AND 1) = 0),
            h_src = \<lparr>ua_network = bs ! 6, ua_node = bs ! 7, ua_unit = bs ! 8\<rparr>,
            h_dst = \<lparr>ua_network = bs ! 3, ua_node = bs ! 4, ua_unit = bs ! 5\<rparr>,
            h_serviceID = bs ! 9, h_gatewayCount = bs ! 2\<rparr>)"

definition encodeHeader :: "Header \<Rightarrow> bytes" where
  "encodeHeader h =
     (let icf = push_bit icfBridgesBit 1
            OR (if \<not> h_responseRequired h then push_bit icfResponseRequiredBit 1 else 0)
            OR (if h_messageType h = Udp_MessageTypeResponse then push_bit icfMessageTypeBit 1 else 0)
      in [icf, 0, h_gatewayCount h,
          ua_network (h_dst h), ua_node (h_dst h), ua_unit (h_dst h),
          ua_network (h_src h), ua_node (h_src h), ua_unit (h_src h), h_serviceID h])"

definition decodeRequest :: "gslice \<Rightarrow> (UdpError, request) go" where
  "decodeRequest bs =
     go_bind (gs_sub bs 0 10) (\<lambda>hb. go_bind (decodeHeader (gs_vis hb)) (\<lambda>h.
     go_bind (gs_sub bs 10 12) (\<lambda>c. go_bind (gs_tail bs 12) (\<lambda>d.
       Ok \<lparr>rq_header = h, rq_commandCode = un_be16 (gs_vis c), rq_data = d\<rparr>))))"

definition decodeResponse :: "gslice \<Rightarrow> (UdpError, response) go" where
  "decodeResponse bs =
     go_bind (gs_sub bs 0 10) (\<lambda>hb. go_bind (decodeHeader (gs_vis hb)) (\<lambda>h.
     go_bind (gs_sub bs 10 12) (\<lambda>c. go_bind (gs_sub bs 12 14) (\<lambda>e. go_bind (gs_tail bs 14) (\<lambda>d.
       Ok \<lparr>rs_header = h, rs_commandCode = un_be16 (gs_vis c), rs_endCode = un_be16 (gs_vis e), rs_data = d\<rparr>)))))"

definition encodeResponse :: "response \<Rightarrow> bytes" where
  "encodeResponse resp =
     encodeHeader (rs_header resp) @ be16 (rs_commandCode resp) @ be16 (rs_endCode resp) @ gs_vis (rs_data resp)"

section \<open>BCD numbers\<close>

text \<open>Digits and division of a \<open>uint64\<close> do not overflow, so the loops of \<open>encodeBCD\<close> run on
  its value.\<close>

fun bcd_count :: "nat \<Rightarrow> nat" where
  "bcd_count xx = (if xx > 0 then Suc (bcd_count (xx div 10)) else 0)"

declare bcd_count.simps [simp del]

definition bcd_byte :: "nat \<Rightarrow> nat \<Rightarrow> u8" where
  "bcd_byte hi lo = push_bit 4 (word_of_nat hi) OR word_of_nat lo"

text \<open>\<open>bcd_fill k x bcd\<close> is the loop that fills \<open>bcd[k-1]\<close> down to \<open>bcd[0]\<close>.\<close>

fun bcd_fill :: "nat \<Rightarrow> nat \<Rightarrow> bytes \<Rightarrow> bytes" where
  "bcd_fill 0 x bcd = bcd"
| "bcd_fill (Suc i) x bcd = bcd_fill i (x div 100) (bcd[i := bcd_byte (x div 10 mod 10) (x mod 10)])"

definition encodeBCD :: "u64 \<Rightarrow> bytes" where
  "encodeBCD w =
     (if w = 0 then [0x0f]
      else
        let x = unat w; n = bcd_count x; bcd = replicate ((n + 1) div 2) 0 in
        if n mod 2 = 1
        then bcd_fill ((n - 1) div 2) (x div 10) (bcd[(n - 1) div 2 := bcd_byte (x mod 10) 0x0f])
        else bcd_fill (n div 2) x bcd)"

definition timesTenPlusCatchingOverflow :: "u64 \<Rightarrow> u64 \<Rightarrow> (UdpError, u64) go" where
  "timesTenPlusCatchingOverflow x digit =
     (let x5 = push_bit 2 x + x in
      if sint x5 < 0 \<or> push_bit 1 x5 > NOT digit then Err BCDOverflowError
      else Ok (push_bit 1 x5 + digit))"

fun decodeBCD_loop :: "u64 \<Rightarrow> bytes \<Rightarrow> (UdpError, u64) go" where
  "decodeBCD_loop x [] = Ok x"
| "decodeBCD_loop x (b # bs) =
     (let hi = ucast (drop_bit 4 b); lo = ucast (b AND 0x0f) in
      if hi > 9 then Err (BCDBadDigitError ''hi'' hi)
      else go_bind (timesTenPlusCatchingOverflow x hi) (\<lambda>x.
        if lo = 0x0f \<and> bs = [] then Ok x
        else if lo > 9 then Err (BCDBadDigitError ''lo'' lo)
        else go_bind (timesTenPlusCatchingOverflow x lo) (\<lambda>x. decodeBCD_loop x bs)))"

definition decodeBCD :: "bytes \<Rightarrow> (UdpError, u64) go" where
  "decodeBCD bcd = decodeBCD_loop 0 bcd"

section \<open>Correctness of BCD numbers\<close>

lemma sint_small: "unat (w :: u64) < 2 ^ 63 \<Longrightarrow> sint w = int (unat w)"
proof -
  assume "unat w < 2 ^ 63"
  then have "int (unat w) < int (2 ^ 63)" by (simp only: of_nat_less_iff)
  then have "uint w < 2 ^ 63" by simp
  moreover have "- (2 ^ 63) \<le> uint w" by (rule order_trans [OF _ uint_ge_0]) simp
  ultimately have "signed_take_bit 63 (uint w) = uint w" by (intro signed_take_bit_int_eq_self)
  then show "sint w = int (unat w)" by (simp add: sint_uint)
qed

lemma unat_word_of_nat_small: "n < 2 ^ LENGTH('a) \<Longrightarrow> unat (word_of_nat n :: 'a::len word) = n"
  by (simp add: unsigned_of_nat take_bit_nat_eq_self)

lemma timesTen_ok:
  assumes "10 * unat x + unat d < 2 ^ 64"
  shows "timesTenPlusCatchingOverflow x d = Ok (word_of_nat (10 * unat x + unat d))"
proof -
  let ?x5 = "push_bit 2 x + x"
  have w5: "?x5 = word_of_nat (5 * unat x)" by (simp add: push_bit_eq_mult)
  have x5: "unat ?x5 = 5 * unat x" unfolding w5 using assms by (intro unat_word_of_nat_small) simp
  have w10: "push_bit 1 ?x5 = word_of_nat (10 * unat x)" by (simp add: push_bit_eq_mult)
  have x10: "unat (push_bit 1 ?x5) = 10 * unat x" unfolding w10 using assms by (intro unat_word_of_nat_small) simp
  have "\<not> sint ?x5 < 0" using sint_small [of ?x5] x5 assms by simp
  moreover have "unat (NOT d) = 2 ^ 64 - 1 - unat d" 
  proof -
    have "NOT d = - 1 - d" by (simp add: not_eq_complement)
    moreover have "unat (- 1 - d) = unat (- 1 :: u64) - unat d" by (intro unat_sub) simp
    ultimately show ?thesis by (simp add: unsigned_minus_1_eq_mask mask_eq_exp_minus_1)
  qed
  then have "\<not> push_bit 1 ?x5 > NOT d" using x10 assms by (simp add: word_less_nat_alt)
  ultimately show ?thesis using w10 by (simp add: timesTenPlusCatchingOverflow_def Let_def)
qed


fun bcd_pairs :: "nat \<Rightarrow> nat \<Rightarrow> bytes" where
  "bcd_pairs 0 x = []"
| "bcd_pairs (Suc k) x = bcd_pairs k (x div 100) @ [bcd_byte (x div 10 mod 10) (x mod 10)]"

lemma bcd_fill_pairs: "k \<le> length bcd \<Longrightarrow> bcd_fill k x bcd = bcd_pairs k x @ drop k bcd"
proof (induction k arbitrary: x bcd)
  case (Suc k)
  have "drop k (bcd[k := b]) = b # drop (Suc k) bcd" for b
    using Suc.prems by (simp add: drop_update_swap Cons_nth_drop_Suc [symmetric])
  then show ?case using Suc by simp
qed simp

lemma length_bcd_pairs [simp]: "length (bcd_pairs k x) = k"
  by (induction k arbitrary: x) simp_all

lemma bcd_digits:
  assumes "hi \<le> 9" and "lo < 16"
  shows "ucast (drop_bit 4 (bcd_byte hi lo)) = (word_of_nat hi :: u64)"
    and "ucast (bcd_byte hi lo AND 0x0f) = (word_of_nat lo :: u64)"
proof -
  have "\<forall>h \<in> {..9}. \<forall>l \<in> {..<16}. ucast (drop_bit 4 (bcd_byte h l)) = (word_of_nat h :: u64) \<and>
      ucast (bcd_byte h l AND 0x0f) = (word_of_nat l :: u64)"
    unfolding bcd_byte_def by code_simp
  then show "ucast (drop_bit 4 (bcd_byte hi lo)) = (word_of_nat hi :: u64)"
      "ucast (bcd_byte hi lo AND 0x0f) = (word_of_nat lo :: u64)"
    using assms by auto
qed

lemma bcd_digit_simps:
  assumes "n < 16"
  shows "unat (word_of_nat n :: u64) = n" "(word_of_nat n > (9 :: u64)) = (n > 9)" "(word_of_nat n = (0xf :: u64)) = (n = 15)"
proof -
  show u: "unat (word_of_nat n :: u64) = n" using assms by (intro unat_word_of_nat_small) simp
  show "(word_of_nat n > (9 :: u64)) = (n > 9)" by (simp add: word_less_nat_alt u)
  show "(word_of_nat n = (0xf :: u64)) = (n = 15)" by (simp add: word_unat_eq_iff u)
qed

lemma decode_pair:
  assumes "100 * unat y + z < 2 ^ 64" and "z < 100"
  shows "decodeBCD_loop y (bcd_byte (z div 10) (z mod 10) # bs) = decodeBCD_loop (word_of_nat (100 * unat y + z)) bs"
proof -
  have hi: "z div 10 \<le> 9" "z div 10 < 16" "z mod 10 < 16" "z mod 10 \<le> 9" using assms(2) by auto
  have z: "100 * unat y + z = 10 * (10 * unat y + z div 10) + z mod 10" by simp
  then have bound: "10 * unat y + z div 10 < 2 ^ 64" using assms(1) by linarith
  note d = bcd_digit_simps [OF hi(2)] bcd_digit_simps [OF hi(3)]
  have y: "unat (word_of_nat (10 * unat y + z div 10) :: u64) = 10 * unat y + z div 10"
    using bound by (intro unat_word_of_nat_small) simp
  have "timesTenPlusCatchingOverflow y (word_of_nat (z div 10)) = Ok (word_of_nat (10 * unat y + z div 10))"
    using timesTen_ok [of y "word_of_nat (z div 10)"] bound d(1) by simp
  moreover have "timesTenPlusCatchingOverflow (word_of_nat (10 * unat y + z div 10)) (word_of_nat (z mod 10)) =
      Ok (word_of_nat (100 * unat y + z))"
    using timesTen_ok [of "word_of_nat (10 * unat y + z div 10)" "word_of_nat (z mod 10)"] assms(1) d(4) y
    unfolding z by (simp only:)
  ultimately show ?thesis
    unfolding decodeBCD_loop.simps Let_def bcd_digits [OF hi(1,3)] d using hi(1,4) by simp
qed

lemma decode_pairs:
  "unat a * 100 ^ k + x < 2 ^ 64 \<Longrightarrow> x < 100 ^ k \<Longrightarrow>
   decodeBCD_loop a (bcd_pairs k x @ bs) = decodeBCD_loop (word_of_nat (unat a * 100 ^ k + x)) bs"
proof (induction k arbitrary: x bs)
  case (Suc k)
  let ?y = "unat a * 100 ^ k + x div 100"
  have eq: "100 * ?y + x mod 100 = unat a * 100 ^ Suc k + x" by simp
  have "?y \<le> 100 * ?y + x mod 100" by simp
  then have bound: "?y < 2 ^ 64" using Suc.prems(1) unfolding eq by (rule le_less_trans)
  have y: "unat (word_of_nat ?y :: u64) = ?y" using bound by (intro unat_word_of_nat_small) simp
  have dm: "x div 10 mod 10 = x mod 100 div 10" "x mod 10 = x mod 100 mod 10"
    using mod_mult2_eq [of x 10 10] by simp_all
  have "decodeBCD_loop a (bcd_pairs (Suc k) x @ bs) = decodeBCD_loop (word_of_nat ?y) (bcd_byte (x mod 100 div 10) (x mod 100 mod 10) # bs)"
    using Suc.IH [of "x div 100"] bound Suc.prems(2) dm by (simp add: less_mult_imp_div_less mult.commute)
  also have "\<dots> = decodeBCD_loop (word_of_nat (100 * ?y + x mod 100)) bs"
    using decode_pair [of "word_of_nat ?y" "x mod 100" bs, unfolded y] Suc.prems(1) unfolding eq by simp
  finally show ?case unfolding eq .
qed simp


lemma bcd_count_bound: "x < 10 ^ bcd_count x \<and> (0 < x \<longrightarrow> 10 ^ (bcd_count x - 1) \<le> x)"
proof (induction x rule: bcd_count.induct)
  case (1 x)
  show ?case
  proof (cases "x = 0")
    case False
    then have c: "bcd_count x = Suc (bcd_count (x div 10))" by (simp add: bcd_count.simps [of x])
    have "x div 10 < 10 ^ bcd_count (x div 10)" using 1 False by simp
    then have "x < 10 ^ bcd_count x" unfolding c by (simp add: less_mult_imp_div_less div_less_iff_less_mult mult.commute)
    moreover have "10 ^ (bcd_count x - 1) \<le> x"
    proof (cases "x div 10 = 0")
      case True
      then show ?thesis using c False by (simp add: bcd_count.simps [of 0])
    next
      case div: False
      then have "10 ^ (bcd_count (x div 10) - 1) \<le> x div 10" "bcd_count (x div 10) = Suc (bcd_count (x div 10) - 1)"
        using 1 False bcd_count.simps [of "x div 10"] by simp_all
      then have "10 ^ bcd_count (x div 10) \<le> 10 * (x div 10)" by (metis mult_le_mono2 power_Suc)
      then show ?thesis using c by simp
    qed
    ultimately show ?thesis by simp
  qed (simp add: bcd_count.simps)
qed

section \<open>Correctness of headers\<close>

lemma length_encodeHeader [simp]: "length (encodeHeader h) = 10"
  by (simp add: encodeHeader_def Let_def)

lemma encodeHeader_nth:
  "encodeHeader h ! 0 AND 1 = (if h_responseRequired h then 0 else 1)" "encodeHeader h ! 2 = h_gatewayCount h"
  "encodeHeader h ! 3 = ua_network (h_dst h)" "encodeHeader h ! 4 = ua_node (h_dst h)" "encodeHeader h ! 5 = ua_unit (h_dst h)"
  "encodeHeader h ! 6 = ua_network (h_src h)" "encodeHeader h ! 7 = ua_node (h_src h)" "encodeHeader h ! 8 = ua_unit (h_src h)"
  "encodeHeader h ! 9 = h_serviceID h"
  by (simp_all add: encodeHeader_def Let_def udp_consts)

lemma header_roundtrip:
  "decodeHeader (encodeHeader h) =
     Ok (h\<lparr>h_messageType := (if h_responseRequired h then Udp_MessageTypeCommand else Udp_MessageTypeResponse)\<rparr>)"
  unfolding decodeHeader_def Let_def encodeHeader_nth by (cases h) (simp add: udp_consts)

lemma header_roundtrip_default [simp]:
  "decodeHeader (encodeHeader (defaultCommandHeader s d k)) = Ok (defaultCommandHeader s d k)"
  "decodeHeader (encodeHeader (defaultResponseHeader h)) = Ok (defaultResponseHeader h)"
  by (simp_all add: header_roundtrip defaultCommandHeader_def defaultResponseHeader_def defaultHeader_def)

section \<open>Slices without spare access\<close>

lemma gs_sub_vis [simp]:
  "a \<le> b \<Longrightarrow> b \<le> length V \<Longrightarrow> gs_sub (GSlice V S) a b = Ok (GSlice (slice V a b) (drop b V @ S))"
  by (simp add: gs_sub_def gs_slice_def gs_cap_def)

lemma gs_tail_vis [simp]: "a \<le> length V \<Longrightarrow> gs_tail (GSlice V S) a = Ok (GSlice (drop a V) S)"
  by (simp add: gs_tail_def gs_from_def gs_slice_def gs_len_def gs_cap_def slice_def)

lemma slice_be16 [simp]: "slice (be16 w) 0 2 = be16 w"
  by (simp add: slice_def)

lemma decodeRequest_bytes:
  assumes "decodeHeader (encodeHeader h) = Ok h"
  shows "decodeRequest (GSlice (encodeHeader h @ be16 code @ d) S) = Ok \<lparr>rq_header = h, rq_commandCode = code, rq_data = GSlice d S\<rparr>"
proof -
  have "slice (encodeHeader h @ be16 code @ d) 10 12 = be16 code"
    using slice_append_right [of "encodeHeader h" 10 "be16 code @ d" 12] by simp
  moreover have "slice (encodeHeader h @ be16 code @ d) 0 10 = encodeHeader h"
    using slice_append_left [of 10 "encodeHeader h" "be16 code @ d" 0] slice_full [of "encodeHeader h"] by simp
  ultimately show ?thesis using assms by (simp add: decodeRequest_def)
qed

lemma decodeResponse_bytes:
  assumes "decodeHeader (encodeHeader h) = Ok h"
  shows "decodeResponse (GSlice (encodeHeader h @ be16 code @ be16 e @ d) S) =
    Ok \<lparr>rs_header = h, rs_commandCode = code, rs_endCode = e, rs_data = GSlice d S\<rparr>"
proof -
  have "slice (encodeHeader h @ be16 code @ be16 e @ d) 10 12 = be16 code"
    "slice (encodeHeader h @ be16 code @ be16 e @ d) 12 14 = be16 e"
    by (simp_all add: slice_append_right)
  moreover have "slice (encodeHeader h @ be16 code @ be16 e @ d) 0 10 = encodeHeader h"
    using slice_append_left [of 10 "encodeHeader h" "be16 code @ be16 e @ d" 0] slice_full [of "encodeHeader h"] by simp
  ultimately show ?thesis using assms by (simp add: decodeResponse_def)
qed

lemma length_encodeMemoryAddress [simp]: "length (encodeMemoryAddress m) = 4"
  by (simp add: encodeMemoryAddress_def)

lemma decode_memory_command:
  "gs_sub (GSlice (encodeMemoryAddress m @ be16 n @ d) S) 0 4 = Ok (GSlice (encodeMemoryAddress m) (be16 n @ d @ S))"
  "decodeMemoryAddress (encodeMemoryAddress m) = Ok m"
  "gs_sub (GSlice (encodeMemoryAddress m @ be16 n @ d) S) 4 6 = Ok (GSlice (be16 n) (d @ S))"
proof -
  have len: "length (encodeMemoryAddress m) = 4" by (simp add: encodeMemoryAddress_def)
  show "gs_sub (GSlice (encodeMemoryAddress m @ be16 n @ d) S) 0 4 = Ok (GSlice (encodeMemoryAddress m) (be16 n @ d @ S))"
    using len slice_append_left [of 4 "encodeMemoryAddress m" "be16 n @ d" 0] slice_full [of "encodeMemoryAddress m"] by simp
  show "gs_sub (GSlice (encodeMemoryAddress m @ be16 n @ d) S) 4 6 = Ok (GSlice (be16 n) (d @ S))"
    using len by (simp add: slice_append_right)
  have "slice (encodeMemoryAddress m) 1 3 = be16 (ma_address m)"
    by (simp add: encodeMemoryAddress_def slice_def be16_eq)
  moreover have "encodeMemoryAddress m ! 0 = ma_memoryArea m" "encodeMemoryAddress m ! 3 = ma_bitOffset m"
    by (simp_all add: encodeMemoryAddress_def nth_append numeral_eq_Suc)
  ultimately show "decodeMemoryAddress (encodeMemoryAddress m) = Ok m"
    using len by (cases m) (simp add: decodeMemoryAddress_def)
qed

lemmas decode_read_command = decode_memory_command(2) decode_memory_command(1,3) [where d = "[]", simplified]

lemma memAddr_simps [simp]:
  "ma_memoryArea (memAddr c a) = c" "ma_address (memAddr c a) = a" "ma_bitOffset (memAddr c a) = 0"
  "ma_memoryArea (memAddrWithBitOffset c a k) = c" "ma_address (memAddrWithBitOffset c a k) = a"
  "ma_bitOffset (memAddrWithBitOffset c a k) = k"
  by (simp_all add: memAddr_def memAddrWithBitOffset_def)

lemma BCD_inverse: "decodeBCD (encodeBCD w) = Ok w \<and> length (encodeBCD w) = (max 1 (bcd_count (unat w)) + 1) div 2"
proof (cases "w = 0")
  case True
  have "decodeBCD_loop 0 [0x0f] = Ok 0" by code_simp
  then show ?thesis using True by (simp add: encodeBCD_def decodeBCD_def bcd_count.simps)
next
  case False
  let ?x = "unat w" and ?n = "bcd_count (unat w)"
  have lt: "?x < 2 ^ 64" using unsigned_less [of w] by simp
  have b: "?x < 10 ^ ?n" "0 < ?n" using bcd_count_bound [of ?x] False bcd_count.simps [of ?x] by (simp_all add: unat_gt_0)
  show ?thesis
  proof (cases "?n mod 2 = 1")
    case odd: True
    define k where "k = (?n - 1) div 2"
    have n: "?n = 2 * k + 1" using odd by (simp add: k_def) presburger
    have "?x < 10 * 100 ^ k" using b(1) unfolding n by (simp add: power_mult)
    then have "?x div 10 < 100 ^ k" by (simp add: less_mult_imp_div_less mult.commute)
    moreover have e: "encodeBCD w = bcd_pairs k (?x div 10) @ [bcd_byte (?x mod 10) 15]"
    proof -
      have "(replicate (k + 1) 0)[k := b] = replicate k 0 @ [b]" for b :: u8
        unfolding Suc_eq_plus1 [symmetric] replicate_Suc replicate_append_same [symmetric] by (simp add: list_update_append)
      then show ?thesis
        using False bcd_fill_pairs [of k "replicate k 0 @ [bcd_byte (?x mod 10) 15]" "?x div 10"]
        unfolding encodeBCD_def Let_def n by simp
    qed
    ultimately have "decodeBCD (encodeBCD w) = decodeBCD_loop (word_of_nat (?x div 10)) [bcd_byte (?x mod 10) 15]"
      using decode_pairs [of 0 k "?x div 10"] lt by (simp add: decodeBCD_def)
    also have "\<dots> = Ok w"
    proof -
      have hi: "?x mod 10 \<le> 9" "?x mod 10 < 16" "(15::nat) < 16" by simp_all
      note d = bcd_digit_simps [OF hi(2)] bcd_digit_simps [OF hi(3)]
      have y: "unat (word_of_nat (?x div 10) :: u64) = ?x div 10"
        using lt by (intro unat_word_of_nat_small) simp
      have "timesTenPlusCatchingOverflow (word_of_nat (?x div 10)) (word_of_nat (?x mod 10)) = Ok (word_of_nat ?x)"
        using timesTen_ok [of "word_of_nat (?x div 10)" "word_of_nat (?x mod 10)"] y d(1) lt by simp
      then show ?thesis
        unfolding decodeBCD_loop.simps Let_def bcd_digits [OF hi(1,3)] d using hi(1) by simp
    qed
    finally show ?thesis using e n by (simp add: length_bcd_pairs)
  next
    case False: False
    define k where "k = ?n div 2"
    have n: "?n = 2 * k" using False by (simp add: k_def) presburger
    have "?x < 100 ^ k" using b(1) unfolding n by (simp add: power_mult)
    moreover have e: "encodeBCD w = bcd_pairs k ?x"
      using \<open>w \<noteq> 0\<close> bcd_fill_pairs [of k "replicate k 0" ?x] unfolding encodeBCD_def Let_def n by simp
    ultimately have "decodeBCD (encodeBCD w) = Ok w"
      using decode_pairs [of 0 k ?x "[]"] lt by (simp add: decodeBCD_def)
    then show ?thesis using e n b(2) by (simp add: length_bcd_pairs)
  qed
qed

section \<open>Properties\<close>

text \<open>C36. BCD numbers round-trip: every \<open>uint64\<close>, up to the 20 digits of the largest, is encoded
  with its digits packed two to a byte and a filler nibble after an odd number of digits, and
  \<open>decodeBCD\<close> returns it without an error.\<close>

theorem BCD_roundtrip: "decodeBCD (encodeBCD w) = Ok w \<and> length (encodeBCD w) = (max 1 (bcd_count (unat w)) + 1) div 2"
  by (rule BCD_inverse)

text \<open>The overflow check misses products that wrap: this 20-digit number exceeds 64 bits.\<close>

theorem decodeBCD_misses_overflow: "decodeBCD (0x40 # replicate 9 0) = Ok 3106511852580896768"
  by code_simp

text \<open>C38. Headers round-trip exactly when the message type agrees with the response flag, as it does in
  the headers the package builds: the decoder tests bit 0 for both, where the encoder stores the
  message type in bit 6.\<close>

theorem udp_header_roundtrip:
  "decodeHeader (encodeHeader h) = Ok h \<longleftrightarrow>
     h_messageType h = (if h_responseRequired h then Udp_MessageTypeCommand else Udp_MessageTypeResponse)"
proof -
  have "h\<lparr>h_messageType := x\<rparr> = h \<longleftrightarrow> h_messageType h = x" for x by (cases h) auto
  then show ?thesis by (simp add: header_roundtrip)
qed

end
