(* ===== verification/Udp_Client.thy ===== *)
theory Udp_Client
  imports Udp_Codec
begin

text \<open>
  The client of \<open>client.go\<close>. The socket is a parameter: sending a datagram, and the datagrams
  the listening goroutine receives until the caller's timer fires. The goroutine hands a response
  over on an unbuffered channel, so it blocks for good on a channel nobody receives from: that is
  the state \<open>Blocked\<close>. A call that never returns has the result \<open>None\<close>; \<open>log.Fatal\<close> ends
  the program as a panic does.
\<close>

section \<open>State\<close>

datatype listener = Listening | Blocked | Stopped

text \<open>Channels are numbered in the order of their creation; a cell of \<open>c_resp\<close> without one is
  a nil channel.\<close>

record Client =
  c_dst :: finsAddress
  c_src :: finsAddress
  c_sid :: u8
  c_closed :: bool
  c_responseTimeoutMs :: int
  c_byteOrder :: byte_order
  c_resp :: "nat option list"
  c_chans :: nat
  c_listener :: listener

datatype udp_event = Datagram bytes | UdpReadError

record 'w UdpEnv =
  udp_write :: "'w \<Rightarrow> bytes \<Rightarrow> string option \<times> 'w"
  udp_events :: "'w \<Rightarrow> int \<Rightarrow> udp_event list \<times> 'w"

definition DEFAULT_RESPONSE_TIMEOUT :: int where
  "DEFAULT_RESPONSE_TIMEOUT = 20"

text \<open>The client once its socket is open.\<close>

definition NewClient :: "finsAddress \<Rightarrow> finsAddress \<Rightarrow> Client" where
  "NewClient localAddr plcAddr =
     \<lparr>c_dst = plcAddr, c_src = localAddr, c_sid = 0, c_closed = False,
      c_responseTimeoutMs = DEFAULT_RESPONSE_TIMEOUT, c_byteOrder = BigEndian,
      c_resp = replicate 256 None, c_chans = 0, c_listener = Listening\<rparr>"

definition SetByteOrder :: "Client \<Rightarrow> byte_order \<Rightarrow> Client" where
  "SetByteOrder c bo = c\<lparr>c_byteOrder := bo\<rparr>"

definition SetTimeoutMs :: "Client \<Rightarrow> u64 \<Rightarrow> Client" where
  "SetTimeoutMs c t = c\<lparr>c_responseTimeoutMs := sint t\<rparr>"

definition Client_Close :: "Client \<Rightarrow> Client" where
  "Client_Close c = c\<lparr>c_closed := True\<rparr>"

section \<open>The listening goroutine\<close>

text \<open>One turn of \<open>listenLoop\<close> while a caller waits on the channel \<open>awaited\<close>, or nobody
  does. A received response is handed over, or the goroutine blocks. The buffer of 2048 bytes is new
  in every turn.\<close>

definition listen_event ::
  "nat option \<Rightarrow> Client \<Rightarrow> udp_event \<Rightarrow> (UdpError, Client \<times> response option) go" where
  "listen_event awaited c ev =
     (if c_listener c \<noteq> Listening then Ok (c, None)
      else case ev of
        UdpReadError \<Rightarrow> if c_closed c then Ok (c\<lparr>c_listener := Stopped\<rparr>, None) else Panic
      | Datagram d \<Rightarrow>
          let n = min 2048 (length d) in
          if n > 0
          then go_bind (decodeResponse (GSlice (take n d) (replicate (2048 - n) 0))) (\<lambda>ans.
            let ch = c_resp c ! unat (h_serviceID (rs_header ans)) in
            if ch \<noteq> None \<and> ch = awaited then Ok (c, Some ans) else Ok (c\<lparr>c_listener := Blocked\<rparr>, None))
          else Ok (c, None))"

fun idle_events :: "Client \<Rightarrow> udp_event list \<Rightarrow> (UdpError, Client) go" where
  "idle_events c [] = Ok c"
| "idle_events c (ev # evs) = go_bind (listen_event None c ev) (\<lambda>(c', _). idle_events c' evs)"

text \<open>The wait for a response on the channel \<open>ch\<close>; the rest of the events finds no receiver.\<close>

fun await_events :: "nat \<Rightarrow> Client \<Rightarrow> udp_event list \<Rightarrow> (UdpError, Client \<times> response option) go" where
  "await_events ch c [] = Ok (c, None)"
| "await_events ch c (ev # evs) =
     go_bind (listen_event (Some ch) c ev) (\<lambda>(c', r).
       case r of
         Some ans \<Rightarrow> go_bind (idle_events c' evs) (\<lambda>c''. Ok (c'', Some ans))
       | None \<Rightarrow> await_events ch c' evs)"

section \<open>Sending\<close>

definition incrementSid :: "Client \<Rightarrow> u8 \<times> Client" where
  "incrementSid c =
     (let sid = c_sid c + 1 in
      (sid, c\<lparr>c_sid := sid, c_resp := (c_resp c)[unat sid := Some (c_chans c)], c_chans := Suc (c_chans c)\<rparr>))"

definition nextHeader :: "Client \<Rightarrow> Header \<times> Client" where
  "nextHeader c = (case incrementSid c of (sid, c') \<Rightarrow> (defaultCommandHeader (c_src c') (c_dst c') sid, c'))"

definition Udp_sendCommand ::
  "'w UdpEnv \<Rightarrow> Client \<Rightarrow> 'w \<Rightarrow> bytes \<Rightarrow> (UdpError, response) go option \<times> Client \<times> 'w" where
  "Udp_sendCommand env c w command =
     (let (header, c1) = nextHeader c; bts = encodeHeader header @ command in
      case udp_write env w bts of
        (Some e, w1) \<Rightarrow> (Some (Err (WriteError e)), c1, w1)
      | (None, w1) \<Rightarrow>
          let (evs, w2) = udp_events env w1 (int64 (c_responseTimeoutMs c1 * 1000000)) in
          case await_events (c_chans c) c1 evs of
            Ok (c2, Some r) \<Rightarrow> (Some (Ok r), c2, w2)
          | Ok (c2, None) \<Rightarrow>
              if c_responseTimeoutMs c1 > 0
              then (Some (Err (ResponseTimeoutError (c_responseTimeoutMs c1))), c2, w2)
              else (None, c2, w2)
          | Err e \<Rightarrow> (Some (Err e), c1, w2)
          | Panic \<Rightarrow> (Some Panic, c1, w2))"

definition checkResponse :: "(UdpError, response) go \<Rightarrow> (UdpError, response) go" where
  "checkResponse r =
     go_bind r (\<lambda>r. if rs_endCode r \<noteq> EndCodeNormalCompletion then Err (EndCodeError (rs_endCode r)) else Ok r)"

text \<open>A command whose response is checked and then read.\<close>

definition command_then ::
  "'w UdpEnv \<Rightarrow> Client \<Rightarrow> 'w \<Rightarrow> bytes \<Rightarrow> (response \<Rightarrow> (UdpError, 'a) go) \<Rightarrow>
     (UdpError, 'a) go option \<times> Client \<times> 'w" where
  "command_then env c w command f =
     (case Udp_sendCommand env c w command of
        (r, c', w') \<Rightarrow> (map_option (\<lambda>r. go_bind (checkResponse r) f) r, c', w'))"

section \<open>Memory areas\<close>

definition checkIsWordMemoryArea :: "u8 \<Rightarrow> bool" where
  "checkIsWordMemoryArea memoryArea \<longleftrightarrow>
     memoryArea = Udp_MemoryAreaDMWord \<or> memoryArea = Udp_MemoryAreaARWord \<or>
     memoryArea = Udp_MemoryAreaHRWord \<or> memoryArea = Udp_MemoryAreaWRWord"

definition checkIsBitMemoryArea :: "u8 \<Rightarrow> bool" where
  "checkIsBitMemoryArea memoryArea \<longleftrightarrow>
     memoryArea = Udp_MemoryAreaDMBit \<or> memoryArea = Udp_MemoryAreaARBit \<or>
     memoryArea = Udp_MemoryAreaHRBit \<or> memoryArea = Udp_MemoryAreaWRBit"

definition guard_area ::
  "bool \<Rightarrow> u8 \<Rightarrow> Client \<Rightarrow> 'w \<Rightarrow> (UdpError, 'a) go option \<times> Client \<times> 'w \<Rightarrow>
     (UdpError, 'a) go option \<times> Client \<times> 'w" where
  "guard_area ok memoryArea c w res =
     (if \<not> ok then (Some (Err (IncompatibleMemoryAreaError memoryArea)), c, w) else res)"

section \<open>Reading\<close>

fun go_map :: "('a \<Rightarrow> ('e, 'b) go) \<Rightarrow> 'a list \<Rightarrow> ('e, 'b list) go" where
  "go_map f [] = Ok []"
| "go_map f (x # xs) = go_bind (f x) (\<lambda>y. go_bind (go_map f xs) (\<lambda>ys. Ok (y # ys)))"

definition ReadWords ::
  "'w UdpEnv \<Rightarrow> Client \<Rightarrow> 'w \<Rightarrow> u8 \<Rightarrow> u16 \<Rightarrow> u16 \<Rightarrow> (UdpError, u16 list) go option \<times> Client \<times> 'w" where
  "ReadWords env c w memoryArea address readCount =
     guard_area (checkIsWordMemoryArea memoryArea) memoryArea c w
       (command_then env c w (readCommand (memAddr memoryArea address) readCount) (\<lambda>r.
          go_map (\<lambda>i. go_bind (gs_sub (rs_data r) (i * 2) (i * 2 + 2)) (\<lambda>s. Ok (Uint (c_byteOrder c) (gs_vis s))))
            [0..<unat readCount]))"

definition ReadBytes ::
  "'w UdpEnv \<Rightarrow> Client \<Rightarrow> 'w \<Rightarrow> u8 \<Rightarrow> u16 \<Rightarrow> u16 \<Rightarrow> (UdpError, bytes) go option \<times> Client \<times> 'w" where
  "ReadBytes env c w memoryArea address readCount =
     guard_area (checkIsWordMemoryArea memoryArea) memoryArea c w
       (command_then env c w (readCommand (memAddr memoryArea address) readCount) (\<lambda>r. Ok (gs_vis (rs_data r))))"

definition ReadString ::
  "'w UdpEnv \<Rightarrow> Client \<Rightarrow> 'w \<Rightarrow> u8 \<Rightarrow> u16 \<Rightarrow> u16 \<Rightarrow> (UdpError, bytes) go option \<times> Client \<times> 'w" where
  "ReadString env c w memoryArea address readCount =
     (case ReadBytes env c w memoryArea address readCount of
        (r, c', w') \<Rightarrow> (map_option (\<lambda>r. go_bind r (\<lambda>data. Ok (takeWhile (\<lambda>b. b \<noteq> 0) data))) r, c', w'))"

definition Udp_ReadBits ::
  "'w UdpEnv \<Rightarrow> Client \<Rightarrow> 'w \<Rightarrow> u8 \<Rightarrow> u16 \<Rightarrow> u8 \<Rightarrow> u16 \<Rightarrow> (UdpError, bool list) go option \<times> Client \<times> 'w" where
  "Udp_ReadBits env c w memoryArea address bitOffset readCount =
     guard_area (checkIsBitMemoryArea memoryArea) memoryArea c w
       (command_then env c w (readCommand (memAddrWithBitOffset memoryArea address bitOffset) readCount) (\<lambda>r.
          go_map (\<lambda>i. if i < gs_len (rs_data r) then Ok (gs_vis (rs_data r) ! i AND 1 > 0) else Panic)
            [0..<unat readCount]))"

text \<open>A field of the clock; an error of \<open>decodeBCD\<close> is dropped and leaves zero.\<close>

definition clock_field :: "response \<Rightarrow> nat \<Rightarrow> (UdpError, u64) go" where
  "clock_field r i =
     go_bind (gs_sub (rs_data r) i (i + 1)) (\<lambda>s. Ok (case decodeBCD (gs_vis s) of Ok x \<Rightarrow> x | _ \<Rightarrow> 0))"

text \<open>\<open>ReadClock\<close> up to the arguments of \<open>time.Date\<close>: year, month, day, hour, minute, second.\<close>

definition ReadClock :: "'w UdpEnv \<Rightarrow> Client \<Rightarrow> 'w \<Rightarrow> (UdpError, u64 list) go option \<times> Client \<times> 'w" where
  "ReadClock env c w =
     command_then env c w clockReadCommand (\<lambda>r.
       go_bind (clock_field r 0) (\<lambda>year.
       go_bind (go_map (clock_field r) [1..<6]) (\<lambda>rest.
         Ok ((if year < 50 then year + 2000 else year + 1900) # rest))))"

section \<open>Writing\<close>

text \<open>\<open>2*l\<close> is computed as a \<open>uint16\<close>: from 32768 words on the buffer is too short for the loop
  that fills it.\<close>

definition WriteWords ::
  "'w UdpEnv \<Rightarrow> Client \<Rightarrow> 'w \<Rightarrow> u8 \<Rightarrow> u16 \<Rightarrow> u16 list \<Rightarrow> (UdpError, unit) go option \<times> Client \<times> 'w" where
  "WriteWords env c w memoryArea address data =
     guard_area (checkIsWordMemoryArea memoryArea) memoryArea c w
       (let l = word_of_nat (length data) :: u16 in
        if unat (2 * l) < 2 * unat l then (Some Panic, c, w)
        else command_then env c w
               (writeCommand (memAddr memoryArea address) l
                 (concat (map (PutUint (c_byteOrder c) 2) (take (unat l) data))))
               (\<lambda>_. Ok ()))"

definition WriteString ::
  "'w UdpEnv \<Rightarrow> Client \<Rightarrow> 'w \<Rightarrow> u8 \<Rightarrow> u16 \<Rightarrow> bytes \<Rightarrow> (UdpError, unit) go option \<times> Client \<times> 'w" where
  "WriteString env c w memoryArea address s =
     guard_area (checkIsWordMemoryArea memoryArea) memoryArea c w
       (command_then env c w
          (writeCommand (memAddr memoryArea address) (word_of_nat ((length s + 1) div 2)) (s @ replicate (length s) 0))
          (\<lambda>_. Ok ()))"

definition WriteBytes ::
  "'w UdpEnv \<Rightarrow> Client \<Rightarrow> 'w \<Rightarrow> u8 \<Rightarrow> u16 \<Rightarrow> bytes \<Rightarrow> (UdpError, unit) go option \<times> Client \<times> 'w" where
  "WriteBytes env c w memoryArea address b =
     guard_area (checkIsWordMemoryArea memoryArea) memoryArea c w
       (let itemCount = word_of_nat (length b div 2) :: u16;
            itemCount' = (if length b mod 2 \<noteq> 0 then itemCount + 1 else itemCount)
        in command_then env c w (writeCommand (memAddr memoryArea address) itemCount' b) (\<lambda>_. Ok ()))"

definition Udp_WriteBits ::
  "'w UdpEnv \<Rightarrow> Client \<Rightarrow> 'w \<Rightarrow> u8 \<Rightarrow> u16 \<Rightarrow> u8 \<Rightarrow> bool list \<Rightarrow> (UdpError, unit) go option \<times> Client \<times> 'w" where
  "Udp_WriteBits env c w memoryArea address bitOffset data =
     guard_area (checkIsBitMemoryArea memoryArea) memoryArea c w
       (let l = word_of_nat (length data) :: u16
        in command_then env c w
             (writeCommand (memAddrWithBitOffset memoryArea address bitOffset) l
               (map (\<lambda>d. if d then 1 else 0) (take (unat l) data)))
             (\<lambda>_. Ok ()))"

definition bitTwiddle ::
  "'w UdpEnv \<Rightarrow> Client \<Rightarrow> 'w \<Rightarrow> u8 \<Rightarrow> u16 \<Rightarrow> u8 \<Rightarrow> u8 \<Rightarrow> (UdpError, unit) go option \<times> Client \<times> 'w" where
  "bitTwiddle env c w memoryArea address bitOffset v =
     guard_area (checkIsBitMemoryArea memoryArea) memoryArea c w
       (command_then env c w (writeCommand (memAddrWithBitOffset memoryArea address bitOffset) 1 [v]) (\<lambda>_. Ok ()))"

definition SetBit ::
  "'w UdpEnv \<Rightarrow> Client \<Rightarrow> 'w \<Rightarrow> u8 \<Rightarrow> u16 \<Rightarrow> u8 \<Rightarrow> (UdpError, unit) go option \<times> Client \<times> 'w" where
  "SetBit env c w memoryArea address bitOffset = bitTwiddle env c w memoryArea address bitOffset 1"

definition ResetBit ::
  "'w UdpEnv \<Rightarrow> Client \<Rightarrow> 'w \<Rightarrow> u8 \<Rightarrow> u16 \<Rightarrow> u8 \<Rightarrow> (UdpError, unit) go option \<times> Client \<times> 'w" where
  "ResetBit env c w memoryArea address bitOffset = bitTwiddle env c w memoryArea address bitOffset 0"

definition ToggleBit ::
  "'w UdpEnv \<Rightarrow> Client \<Rightarrow> 'w \<Rightarrow> u8 \<Rightarrow> u16 \<Rightarrow> u8 \<Rightarrow> (UdpError, unit) go option \<times> Client \<times> 'w" where
  "ToggleBit env c w memoryArea address bitOffset =
     (case Udp_ReadBits env c w memoryArea address bitOffset 1 of
        (Some (Ok b), c', w') \<Rightarrow> bitTwiddle env c' w' memoryArea address bitOffset (if b ! 0 then 0 else 1)
      | (Some (Err e), c', w') \<Rightarrow> (Some (Err e), c', w')
      | (Some Panic, c', w') \<Rightarrow> (Some Panic, c', w')
      | (None, c', w') \<Rightarrow> (None, c', w'))"

end
