(* ===== verification/Udp_Server.thy ===== *)
theory Udp_Server
  imports Udp_Codec
begin

text \<open>
  The PLC simulator of \<open>server.go\<close>. Its index computations are done in \<open>uint16\<close> and wrap.
  The receive loop reads every datagram into the same buffer of 1024 bytes, so the spare
  capacity of a request's data holds bytes of earlier datagrams.
\<close>

section \<open>State\<close>

record Server =
  sv_dmarea :: bytes
  sv_bitdmarea :: bytes
  sv_closed :: bool

definition DM_AREA_SIZE :: u16 where [udp_consts]: "DM_AREA_SIZE = 32768"

text \<open>The simulator once its socket is open.\<close>

definition NewPLCSimulator :: Server where
  "NewPLCSimulator =
     \<lparr>sv_dmarea = replicate (unat DM_AREA_SIZE) 0, sv_bitdmarea = replicate (unat DM_AREA_SIZE) 0, sv_closed = False\<rparr>"

text \<open>The fields of \<open>time.Now()\<close> that the clock command sends.\<close>

record Clock =
  ck_year :: nat
  ck_month :: nat
  ck_day :: nat
  ck_hour :: nat
  ck_minute :: nat
  ck_second :: nat

section \<open>Requests\<close>

text \<open>\<open>area[lo:hi]\<close> and \<open>copy(area[lo:hi], data[6:6+n])\<close> with \<open>uint16\<close> bounds.\<close>

definition area_read :: "bytes \<Rightarrow> u16 \<Rightarrow> u16 \<Rightarrow> (UdpError, bytes) go" where
  "area_read area lo hi =
     (if unat lo \<le> unat hi \<and> unat hi \<le> length area then Ok (slice area (unat lo) (unat hi)) else Panic)"

definition area_write :: "bytes \<Rightarrow> u16 \<Rightarrow> u16 \<Rightarrow> gslice \<Rightarrow> u16 \<Rightarrow> (UdpError, bytes) go" where
  "area_write area lo hi data n =
     (if unat lo \<le> unat hi \<and> unat hi \<le> length area
      then go_bind (gs_sub data 6 (unat (6 + n))) (\<lambda>src.
             Ok (copy_at area (unat lo) (take (unat hi - unat lo) (gs_vis src))))
      else Panic)"

definition clock_data :: "Clock \<Rightarrow> bytes" where
  "clock_data now =
     encodeBCD (word_of_nat (ck_year now mod 100)) @ encodeBCD (word_of_nat (ck_month now))
     @ encodeBCD (word_of_nat (ck_day now)) @ encodeBCD (word_of_nat (ck_hour now))
     @ encodeBCD (word_of_nat (ck_minute now)) @ encodeBCD (word_of_nat (ck_second now))"

text \<open>The two memory commands on the DM word area and on the DM bit area: the data of the response,
  the end code and the new state.\<close>

definition handle_words :: "Server \<Rightarrow> u16 \<Rightarrow> memoryAddress \<Rightarrow> u16 \<Rightarrow> gslice \<Rightarrow> (UdpError, bytes \<times> u16 \<times> Server) go" where
  "handle_words s commandCode m ic data =
     (if ma_address m + ic * 2 > DM_AREA_SIZE then Ok ([], EndCodeAddressRangeExceeded, s)
      else if commandCode = CommandCodeMemoryAreaRead
      then go_bind (area_read (sv_dmarea s) (ma_address m) (ma_address m + ic * 2)) (\<lambda>d.
             Ok (d, EndCodeNormalCompletion, s))
      else go_bind (area_write (sv_dmarea s) (ma_address m) (ma_address m + ic * 2) data (ic * 2)) (\<lambda>dm.
             Ok ([], EndCodeNormalCompletion, s\<lparr>sv_dmarea := dm\<rparr>)))"

definition handle_bits :: "Server \<Rightarrow> u16 \<Rightarrow> memoryAddress \<Rightarrow> u16 \<Rightarrow> gslice \<Rightarrow> (UdpError, bytes \<times> u16 \<times> Server) go" where
  "handle_bits s commandCode m ic data =
     (if ma_address m + ic > DM_AREA_SIZE then Ok ([], EndCodeAddressRangeExceeded, s)
      else
        let start = ma_address m + ucast (ma_bitOffset m) in
        if commandCode = CommandCodeMemoryAreaRead
        then go_bind (area_read (sv_bitdmarea s) start (start + ic)) (\<lambda>d. Ok (d, EndCodeNormalCompletion, s))
        else go_bind (area_write (sv_bitdmarea s) start (start + ic) data ic) (\<lambda>bm.
               Ok ([], EndCodeNormalCompletion, s\<lparr>sv_bitdmarea := bm\<rparr>)))"

definition handler :: "Clock \<Rightarrow> Server \<Rightarrow> request \<Rightarrow> (UdpError, response \<times> Server) go" where
  "handler now s r =
     go_bind
       (if rq_commandCode r = CommandCodeMemoryAreaRead \<or> rq_commandCode r = CommandCodeMemoryAreaWrite
        then go_bind (gs_sub (rq_data r) 0 4) (\<lambda>ab. go_bind (decodeMemoryAddress (gs_vis ab)) (\<lambda>m.
             go_bind (gs_sub (rq_data r) 4 6) (\<lambda>ib.
               let ic = un_be16 (gs_vis ib) in
               if ma_memoryArea m = Udp_MemoryAreaDMWord then handle_words s (rq_commandCode r) m ic (rq_data r)
               else if ma_memoryArea m = Udp_MemoryAreaDMBit then handle_bits s (rq_commandCode r) m ic (rq_data r)
               else Ok ([], EndCodeNotSupportedByModelVersion, s))))
        else if rq_commandCode r = CommandCodeClockRead then Ok (clock_data now, EndCodeNormalCompletion, s)
        else Ok ([], EndCodeNotSupportedByModelVersion, s))
       (\<lambda>(data, endCode, s').
          Ok (\<lparr>rs_header = defaultResponseHeader (rq_header r), rs_commandCode = rq_commandCode r,
               rs_endCode = endCode, rs_data = GSlice data []\<rparr>, s'))"

text \<open>One turn of the receive loop: the datagram overwrites the start of the buffer, and a datagram
  with at least one byte is answered.\<close>

definition server_step :: "Clock \<Rightarrow> Server \<times> bytes \<Rightarrow> bytes \<Rightarrow> (UdpError, bytes list \<times> Server \<times> bytes) go" where
  "server_step now st datagram =
     (case st of (s, buf) \<Rightarrow>
      let rlen = min (length buf) (length datagram); buf' = copy_at buf 0 (take rlen datagram) in
      if rlen > 0
      then go_bind (decodeRequest (GSlice (take rlen buf') (drop rlen buf'))) (\<lambda>req.
           go_bind (handler now s req) (\<lambda>(resp, s'). Ok ([encodeResponse resp], s', buf')))
      else Ok ([], s, buf'))"

definition Server_Close :: "Server \<Rightarrow> Server" where
  "Server_Close s = s\<lparr>sv_closed := True\<rparr>"

section \<open>Ranges\<close>

lemma word_range:
  assumes "unat a + 2 * unat n < 65536"
  shows "unat (n * 2 :: u16) = 2 * unat n" "unat (a + n * 2 :: u16) = unat a + 2 * unat n"
proof -
  show n2: "unat (n * 2 :: u16) = 2 * unat n"
    using assms by (subst unat_mult_lem [THEN iffD1]) simp_all
  show "unat (a + n * 2 :: u16) = unat a + 2 * unat n"
    using assms n2 by (subst unat_add_lem [THEN iffD1]) simp_all
qed

lemma area_read_words:
  assumes "unat a + 2 * unat n \<le> length area" and "length area < 65536"
  shows "area_read area a (a + n * 2) = Ok (slice area (unat a) (unat a + 2 * unat n))"
  using word_range [of a n] assms by (simp add: area_read_def)

lemma area_write_words:
  assumes "unat a + 2 * unat n \<le> length area" and "length area \<le> 32768" and "2 * unat n \<le> length d"
  shows "area_write area a (a + n * 2) (GSlice (encodeMemoryAddress m @ be16 n @ d) S) (n * 2) =
    Ok (copy_at area (unat a) (take (2 * unat n) d))"
proof -
  have r: "unat (n * 2 :: u16) = 2 * unat n" "unat (a + n * 2 :: u16) = unat a + 2 * unat n"
    using word_range [of a n] assms by simp_all
  have six: "unat (6 + n * 2 :: u16) = 6 + 2 * unat n"
    using r(1) assms by (subst unat_add_lem [THEN iffD1]) simp_all
  have "(gs_sub (GSlice (encodeMemoryAddress m @ be16 n @ d) S) 6 (6 + 2 * unat n) :: (UdpError, gslice) go) =
      Ok (GSlice (take (2 * unat n) d) (drop (2 * unat n) d @ S))"
    using assms(3) by (simp add: slice_append_right) (simp add: slice_def)
  then show ?thesis using r six assms by (simp add: area_write_def)
qed

end
