(* ===== verification/Udp_Session.thy ===== *)
theory Udp_Session
  imports Udp_Client Udp_Server
begin

text \<open>
  The UDP client and the simulator together: the client's channels, one exchange of datagrams,
  words and bits written and read back, and what a stray response does to the listening goroutine.
\<close>

section \<open>The client keeps its channels apart\<close>

definition udp_inv :: "Client \<Rightarrow> bool" where
  "udp_inv c \<longleftrightarrow> length (c_resp c) = 256 \<and> (\<forall>ch. Some ch \<in> set (c_resp c) \<longrightarrow> ch < c_chans c)"

lemma udp_inv_New: "udp_inv (NewClient src dst)"
  by (simp add: udp_inv_def NewClient_def)

text \<open>The listening goroutine changes nothing of the client but its own state.\<close>

lemma listen_event_client:
  "listen_event aw c ev = Ok (c', r) \<Longrightarrow> \<exists>l. c' = c\<lparr>c_listener := l\<rparr>"
proof -
  have self: "\<exists>l. c = c\<lparr>c_listener := l\<rparr>" by (rule exI [of _ "c_listener c"]) simp
  assume "listen_event aw c ev = Ok (c', r)"
  then show ?thesis using self
    by (auto simp: listen_event_def Let_def go_bind_Ok_iff split: if_splits udp_event.splits)
qed

lemma idle_events_client: "idle_events c evs = Ok c' \<Longrightarrow> \<exists>l. c' = c\<lparr>c_listener := l\<rparr>"
proof (induction evs arbitrary: c)
  case Nil
  then show ?case by (intro exI [of _ "c_listener c"]) simp
next
  case (Cons ev evs)
  then obtain c1 r where "listen_event None c ev = Ok (c1, r)" "idle_events c1 evs = Ok c'"
    by (auto simp: go_bind_Ok_iff)
  then show ?case using listen_event_client Cons.IH by fastforce
qed

lemma listen_event_sid:
  assumes "listen_event (Some ch) c ev = Ok (c', Some ans)"
  shows "c_resp c ! unat (h_serviceID (rs_header ans)) = Some ch"
  using assms by (auto simp: listen_event_def Let_def go_bind_Ok_iff split: if_splits udp_event.splits)

lemma await_events_result:
  "await_events ch c evs = Ok (c', r) \<Longrightarrow>
     (\<exists>l. c' = c\<lparr>c_listener := l\<rparr>) \<and> (\<forall>ans. r = Some ans \<longrightarrow> c_resp c ! unat (h_serviceID (rs_header ans)) = Some ch)"
proof (induction evs arbitrary: c)
  case Nil
  then show ?case by (auto intro: exI [of _ "c_listener c"])
next
  case (Cons ev evs)
  then obtain c1 r1 where l: "listen_event (Some ch) c ev = Ok (c1, r1)"
    by (auto simp: go_bind_Ok_iff)
  obtain l1 where c1: "c1 = c\<lparr>c_listener := l1\<rparr>" using listen_event_client [OF l] by blast
  show ?case
  proof (cases r1)
    case None
    then have "await_events ch c1 evs = Ok (c', r)" using Cons.prems l by simp
    from Cons.IH [OF this] show ?thesis using c1 by auto
  next
    case (Some ans)
    then obtain c2 where "idle_events c1 evs = Ok c2" "c' = c2" "r = Some ans"
      using Cons.prems l by (auto simp: go_bind_Ok_iff)
    then show ?thesis using idle_events_client [of c1 evs c2] listen_event_sid l Some c1 by auto
  qed
qed

lemma incrementSid_inv:
  assumes "udp_inv c" and "incrementSid c = (sid, c')"
  shows "udp_inv c' \<and> sid = c_sid c + 1 \<and> c_sid c' = sid \<and> c_chans c' = Suc (c_chans c) \<and>
    (\<forall>k < 256. c_resp c' ! k = Some (c_chans c) \<longleftrightarrow> k = unat sid)"
proof -
  have c': "sid = c_sid c + 1" "c' = c\<lparr>c_sid := sid, c_resp := (c_resp c)[unat sid := Some (c_chans c)], c_chans := Suc (c_chans c)\<rparr>"
    using assms(2) by (auto simp: incrementSid_def Let_def)
  have len: "length (c_resp c) = 256" and old: "\<And>k. k < 256 \<Longrightarrow> c_resp c ! k \<noteq> Some (c_chans c)"
    using assms(1) by (auto simp: udp_inv_def) (metis less_irrefl nth_mem)
  have sid: "unat sid < 256" using unsigned_less [of sid] by simp
  have "Some ch \<in> set ((c_resp c)[unat sid := Some (c_chans c)]) \<Longrightarrow> ch < Suc (c_chans c)" for ch
    using assms(1) set_update_subset_insert [of "c_resp c" "unat sid" "Some (c_chans c)"]
    by (auto simp: udp_inv_def less_Suc_eq)
  then show ?thesis using c' len old sid by (auto simp: udp_inv_def nth_list_update)
qed

lemma sendCommand_inv:
  assumes "udp_inv c" and "Udp_sendCommand env c w cmd = (r, c', w')"
  shows "udp_inv c' \<and> c_sid c' = c_sid c + 1 \<and> (\<forall>ans. r = Some (Ok ans) \<longrightarrow> h_serviceID (rs_header ans) = c_sid c + 1)"
proof -
  obtain sid c1 where i: "incrementSid c = (sid, c1)" by fastforce
  note inv = incrementSid_inv [OF assms(1) i]
  have res: "(\<forall>ans. r = Some (Ok ans) \<longrightarrow> c_resp c1 ! unat (h_serviceID (rs_header ans)) = Some (c_chans c)) \<and> (\<exists>l. c' = c1\<lparr>c_listener := l\<rparr>)"
  proof -
    have self: "\<exists>l. c1 = c1\<lparr>c_listener := l\<rparr>" by (rule exI [of _ "c_listener c1"]) simp
    show ?thesis
      using assms(2) i self
      by (auto simp: Udp_sendCommand_def nextHeader_def Let_def dest!: await_events_result
          split: option.splits prod.splits go.splits if_splits)
  qed
  have "h_serviceID (rs_header ans) = c_sid c + 1" if "r = Some (Ok ans)" for ans
  proof -
    have "unat (h_serviceID (rs_header ans)) < 256" using unsigned_less [of "h_serviceID (rs_header ans)"] by simp
    then have "unat (h_serviceID (rs_header ans)) = unat sid" using res that inv by blast
    then show ?thesis using inv by (simp add: word_unat_eq_iff)
  qed
  then show ?thesis using res inv by (auto simp: udp_inv_def)
qed

section \<open>Client and simulator\<close>

text \<open>The world is the simulator, its receive buffer, the datagrams on their way to the client and the
  clock. A simulator that has panicked refuses.\<close>

record UdpNet =
  un_server :: Server
  un_buf :: bytes
  un_out :: "bytes list"
  un_clock :: Clock

definition simulator_env :: "UdpNet UdpEnv" where
  "simulator_env =
     \<lparr>udp_write = (\<lambda>w bs.
        case server_step (un_clock w) (un_server w, un_buf w) bs of
          Ok (out, s, buf) \<Rightarrow> (None, w\<lparr>un_server := s, un_buf := buf, un_out := un_out w @ out\<rparr>)
        | _ \<Rightarrow> (Some ''connection refused'', w)),
      udp_events = (\<lambda>w _. (map Datagram (un_out w), w\<lparr>un_out := []\<rparr>))\<rparr>"

definition udp_live :: "Client \<times> UdpNet \<Rightarrow> bool" where
  "udp_live cw \<longleftrightarrow> (case cw of (c, w) \<Rightarrow>
     udp_inv c \<and> c_listener c = Listening \<and> un_out w = [] \<and> length (un_buf w) = 1024 \<and>
     length (sv_dmarea (un_server w)) = 32768 \<and> length (sv_bitdmarea (un_server w)) = 32768)"

text \<open>One command and its response: what the simulator's handler makes of the request is what the
  client gets, when both datagrams fit the buffers.\<close>

lemma server_step_request:
  assumes "length buf = 1024" and "length d \<le> 1012"
    and "handler now s \<lparr>rq_header = defaultCommandHeader a b sid, rq_commandCode = code,
      rq_data = GSlice d (drop (12 + length d) buf)\<rparr> = Ok (resp, s')"
  shows "\<exists>buf'. server_step now (s, buf) (encodeHeader (defaultCommandHeader a b sid) @ be16 code @ d) =
    Ok ([encodeResponse resp], s', buf') \<and> length buf' = 1024"
proof -
  let ?h = "defaultCommandHeader a b sid"
  let ?d = "encodeHeader ?h @ be16 code @ d"
  have len: "length ?d = 12 + length d" by simp
  have buf: "copy_at buf 0 (take (min (length buf) (length ?d)) ?d) = ?d @ drop (12 + length d) buf"
    using assms(1,2) by (simp add: copy_at_def)
  have t: "take (12 + length d) (?d @ xs) = ?d" "drop (12 + length d) (?d @ xs) = xs" for xs
    using len by (simp_all del: append_assoc)
  have "decodeRequest (GSlice ?d (drop (12 + length d) buf)) =
      Ok \<lparr>rq_header = ?h, rq_commandCode = code, rq_data = GSlice d (drop (12 + length d) buf)\<rparr>"
    by (rule decodeRequest_bytes) simp
  moreover have "min (length buf) (length ?d) = 12 + length d" using assms(1,2) by simp
  ultimately show ?thesis
    using assms(1,2,3) buf t unfolding server_step_def Let_def split_conv
    by (simp del: append_assoc)
qed

definition same_settings :: "Client \<Rightarrow> Client \<Rightarrow> bool" where
  "same_settings c c' \<longleftrightarrow> c_byteOrder c' = c_byteOrder c \<and> c_responseTimeoutMs c' = c_responseTimeoutMs c"

lemma exchange:
  assumes h_def: "h = defaultCommandHeader (c_src c) (c_dst c) (c_sid c + 1)" and "udp_live (c, w)" and "length d \<le> 1012" and "length data \<le> 2034"
    and "handler (un_clock w) (un_server w) \<lparr>rq_header = h, rq_commandCode = code,
        rq_data = GSlice d (drop (12 + length d) (un_buf w))\<rparr> =
      Ok (\<lparr>rs_header = defaultResponseHeader h, rs_commandCode = code, rs_endCode = e, rs_data = GSlice data []\<rparr>, s')"
    and "length (sv_dmarea s') = 32768" and "length (sv_bitdmarea s') = 32768"
  shows "\<exists>c' w'. Udp_sendCommand simulator_env c w (be16 code @ d) =
      (Some (Ok \<lparr>rs_header = defaultResponseHeader h, rs_commandCode = code, rs_endCode = e,
         rs_data = GSlice data (replicate (2034 - length data) 0)\<rparr>), c', w') \<and>
    udp_live (c', w') \<and> same_settings c c' \<and> un_server w' = s' \<and> un_clock w' = un_clock w"
proof -
  obtain sid c1 where i: "incrementSid c = (sid, c1)" by fastforce
  have live: "udp_inv c" "c_listener c = Listening" "un_out w = []" "length (un_buf w) = 1024"
    using assms(2) by (simp_all add: udp_live_def)
  note inv = incrementSid_inv [OF live(1) i]
  have c1: "c_src c1 = c_src c" "c_dst c1 = c_dst c" "c_listener c1 = Listening" "same_settings c c1"
    using i live(2) by (auto simp: incrementSid_def Let_def same_settings_def)
  have nh: "nextHeader c = (h, c1)" using i inv c1 by (simp add: nextHeader_def h_def)
  obtain buf' where step: "server_step (un_clock w) (un_server w, un_buf w) (encodeHeader h @ be16 code @ d) =
      Ok ([encodeHeader (defaultResponseHeader h) @ be16 code @ be16 e @ data], s', buf')" "length buf' = 1024"
    using server_step_request [OF live(4) assms(3) assms(5) [unfolded h_def]]
    by (auto simp: encodeResponse_def h_def)
  let ?d = "encodeHeader (defaultResponseHeader h) @ be16 code @ be16 e @ data"
  let ?resp = "\<lparr>rs_header = defaultResponseHeader h, rs_commandCode = code, rs_endCode = e,
      rs_data = GSlice data (replicate (2034 - length data) 0)\<rparr>"
  have dec: "decodeResponse (GSlice ?d (replicate (2034 - length data) 0)) = Ok ?resp"
    by (rule decodeResponse_bytes) simp
  have cell: "c_resp c1 ! unat (h_serviceID (defaultResponseHeader h)) = Some (c_chans c)"
  proof -
    have "h_serviceID (defaultResponseHeader h) = sid"
      using inv by (simp add: h_def defaultResponseHeader_def defaultCommandHeader_def defaultHeader_def)
    moreover have "unat sid < 256" using unsigned_less [of sid] by simp
    ultimately show ?thesis using inv by blast
  qed
  have "listen_event (Some (c_chans c)) c1 (Datagram ?d) = Ok (c1, Some ?resp)"
  proof -
    have "min 2048 (length ?d) = 14 + length data" using assms(4) by simp
    moreover have "take (14 + length data) ?d = ?d" by simp
    ultimately show ?thesis
      using c1(3) dec cell unfolding listen_event_def by (simp add: Let_def del: append_assoc)
  qed
  then have "await_events (c_chans c) c1 [Datagram ?d] = Ok (c1, Some ?resp)" by simp
  moreover have "udp_live (c1, w\<lparr>un_server := s', un_buf := buf', un_out := []\<rparr>)"
    using inv c1 step(2) assms(6,7) by (simp add: udp_live_def)
  ultimately show ?thesis
    using step(1) live(3) nh c1(4)
    unfolding Udp_sendCommand_def by (simp add: simulator_env_def)
qed

text \<open>A range whose end is computed without wrapping.\<close>

lemma range_end:
  assumes "unat a + 2 * unat n \<le> 32768"
  shows "unat (n * 2 :: u16) = 2 * unat n" "unat (a + n * 2 :: u16) = unat a + 2 * unat n"
    "\<not> a + n * 2 > DM_AREA_SIZE"
  using word_range [of a n] assms by (simp_all add: word_less_nat_alt DM_AREA_SIZE_def)

lemma handler_read_words:
  assumes "unat a + 2 * unat n \<le> 32768" and "length (sv_dmarea s) = 32768"
  shows "handler now s \<lparr>rq_header = h, rq_commandCode = CommandCodeMemoryAreaRead,
      rq_data = GSlice (encodeMemoryAddress (memAddr Udp_MemoryAreaDMWord a) @ be16 n) S\<rparr> =
    Ok (\<lparr>rs_header = defaultResponseHeader h, rs_commandCode = CommandCodeMemoryAreaRead,
      rs_endCode = EndCodeNormalCompletion,
      rs_data = GSlice (slice (sv_dmarea s) (unat a) (unat a + 2 * unat n)) []\<rparr>, s)"
  using range_end [OF assms(1)] assms area_read_words [of a n "sv_dmarea s"]
  by (simp add: handler_def handle_words_def decode_read_command)

lemma handler_write_words:
  assumes "unat a + 2 * unat n \<le> 32768" and "length (sv_dmarea s) = 32768" and "2 * unat n \<le> length d"
  shows "handler now s \<lparr>rq_header = h, rq_commandCode = CommandCodeMemoryAreaWrite,
      rq_data = GSlice (encodeMemoryAddress (memAddr Udp_MemoryAreaDMWord a) @ be16 n @ d) S\<rparr> =
    Ok (\<lparr>rs_header = defaultResponseHeader h, rs_commandCode = CommandCodeMemoryAreaWrite,
      rs_endCode = EndCodeNormalCompletion, rs_data = GSlice [] []\<rparr>,
      s\<lparr>sv_dmarea := copy_at (sv_dmarea s) (unat a) (take (2 * unat n) d)\<rparr>)"
proof -
  have "CommandCodeMemoryAreaWrite \<noteq> CommandCodeMemoryAreaRead" by (simp add: udp_consts)
  then show ?thesis
    using range_end [OF assms(1)] assms area_write_words [of a n "sv_dmarea s" d]
    by (simp add: handler_def handle_words_def decode_memory_command)
qed

section \<open>Words and bits over the session\<close>

lemma command_live:
  assumes "udp_live (c, w)" and "length d \<le> 1012" and "length data \<le> 2034"
    and "\<And>h S. handler (un_clock w) (un_server w) \<lparr>rq_header = h, rq_commandCode = code, rq_data = GSlice d S\<rparr> =
      Ok (\<lparr>rs_header = defaultResponseHeader h, rs_commandCode = code, rs_endCode = EndCodeNormalCompletion,
           rs_data = GSlice data []\<rparr>, s')"
    and "length (sv_dmarea s') = 32768" and "length (sv_bitdmarea s') = 32768"
  shows "\<exists>c' w' r. command_then simulator_env c w (be16 code @ d) f = (Some (f r), c', w') \<and>
    rs_data r = GSlice data (replicate (2034 - length data) 0) \<and>
    udp_live (c', w') \<and> same_settings c c' \<and> un_server w' = s' \<and> un_clock w' = un_clock w"
  using exchange [OF refl assms(1-3) assms(4) assms(5,6)]
  by (fastforce simp: command_then_def checkResponse_def)

lemma go_map_Ok: "\<forall>x \<in> set xs. f x = Ok (g x) \<Longrightarrow> go_map f xs = Ok (map g xs)"
  by (induction xs) simp_all

abbreviation word_bytes :: "byte_order \<Rightarrow> u16 list \<Rightarrow> bytes" where
  "word_bytes bo data \<equiv> concat (map (PutUint bo 2) data)"

lemma length_word_bytes [simp]: "length (word_bytes bo data) = 2 * length data"
  by (induction data) simp_all

lemma slice_word_bytes:
  "i < length data \<Longrightarrow> slice (word_bytes bo data) (i * 2) (i * 2 + 2) = PutUint bo 2 (data ! i)"
proof (induction data arbitrary: i)
  case (Cons x data)
  show ?case
  proof (cases i)
    case 0
    then show ?thesis by (simp add: slice_def)
  next
    case (Suc j)
    then show ?thesis using Cons by (simp add: slice_append_right)
  qed
qed simp

lemma Uint_word_bytes: "i < length data \<Longrightarrow> Uint bo (slice (word_bytes bo data) (i * 2) (i * 2 + 2)) = data ! i"
  by (simp add: slice_word_bytes Uint_PutUint del: add_2_eq_Suc')

lemma live_areas:
  "udp_live (c, w) \<Longrightarrow> length (sv_dmarea (un_server w)) = 32768 \<and> length (sv_bitdmarea (un_server w)) = 32768"
  by (simp add: udp_live_def)

text \<open>The commands on words, by the bytes they carry.\<close>

lemma write_words_command:
  assumes "udp_live (c, w)" and "unat a + 2 * unat n \<le> 32768" and "2 * unat n \<le> length d" and "length d \<le> 1006"
  shows "\<exists>c' w'. command_then simulator_env c w (writeCommand (memAddr Udp_MemoryAreaDMWord a) n d) (\<lambda>_. Ok ()) = (Some (Ok ()), c', w') \<and>
    udp_live (c', w') \<and> same_settings c c' \<and> un_clock w' = un_clock w \<and>
    un_server w' = (un_server w)\<lparr>sv_dmarea := copy_at (sv_dmarea (un_server w)) (unat a) (take (2 * unat n) d)\<rparr>"
proof -
  let ?d = "encodeMemoryAddress (memAddr Udp_MemoryAreaDMWord a) @ be16 n @ d"
  let ?s = "(un_server w)\<lparr>sv_dmarea := copy_at (sv_dmarea (un_server w)) (unat a) (take (2 * unat n) d)\<rparr>"
  note area = live_areas [OF assms(1)]
  have h: "handler (un_clock w) (un_server w) \<lparr>rq_header = h, rq_commandCode = CommandCodeMemoryAreaWrite, rq_data = GSlice ?d S\<rparr> =
      Ok (\<lparr>rs_header = defaultResponseHeader h, rs_commandCode = CommandCodeMemoryAreaWrite,
        rs_endCode = EndCodeNormalCompletion, rs_data = GSlice [] []\<rparr>, ?s)" for h S
    using handler_write_words [of a n "un_server w" d] assms(2,3) area by simp
  show ?thesis
    using command_live [OF assms(1) _ _ h, of "\<lambda>_. Ok ()"] assms(2-4) area unfolding writeCommand_def by auto
qed

lemma read_words_command:
  assumes "udp_live (c, w)" and "unat a + 2 * unat n \<le> 32768" and "unat n \<le> 1017"
  shows "\<exists>c' w' r. command_then simulator_env c w (readCommand (memAddr Udp_MemoryAreaDMWord a) n) f = (Some (f r), c', w') \<and>
    gs_vis (rs_data r) = slice (sv_dmarea (un_server w)) (unat a) (unat a + 2 * unat n) \<and>
    udp_live (c', w') \<and> same_settings c c' \<and> un_clock w' = un_clock w \<and> un_server w' = un_server w"
proof -
  let ?d = "encodeMemoryAddress (memAddr Udp_MemoryAreaDMWord a) @ be16 n"
  have area: "length (sv_dmarea (un_server w)) = 32768" "length (sv_bitdmarea (un_server w)) = 32768"
    using live_areas [OF assms(1)] by simp_all
  have len: "length ?d \<le> 1012" "length (slice (sv_dmarea (un_server w)) (unat a) (unat a + 2 * unat n)) \<le> 2034"
    using assms area by simp_all
  have h: "handler (un_clock w) (un_server w) \<lparr>rq_header = h, rq_commandCode = CommandCodeMemoryAreaRead, rq_data = GSlice ?d S\<rparr> =
      Ok (\<lparr>rs_header = defaultResponseHeader h, rs_commandCode = CommandCodeMemoryAreaRead, rs_endCode = EndCodeNormalCompletion,
        rs_data = GSlice (slice (sv_dmarea (un_server w)) (unat a) (unat a + 2 * unat n)) []\<rparr>, un_server w)" for h S
    using handler_read_words [of a n "un_server w"] assms(2) area by simp
  show ?thesis
    using command_live [OF assms(1) len h area(1) area(2), of f] unfolding readCommand_def by fastforce
qed

lemma WriteWords_live:
  assumes "udp_live (c, w)" and "length data \<le> 503" and "unat a + 2 * length data \<le> 32768"
  shows "\<exists>c' w'. WriteWords simulator_env c w Udp_MemoryAreaDMWord a data = (Some (Ok ()), c', w') \<and>
    udp_live (c', w') \<and> same_settings c c' \<and> un_clock w' = un_clock w \<and>
    un_server w' = (un_server w)\<lparr>sv_dmarea := copy_at (sv_dmarea (un_server w)) (unat a) (word_bytes (c_byteOrder c) data)\<rparr>"
proof -
  let ?n = "word_of_nat (length data) :: u16"
  have n: "unat ?n = length data" using assms(2) by (intro unat_word_of_nat_small) simp
  have n2: "unat (2 * ?n) = 2 * length data" using range_end(1) [of a ?n] assms(3) n by (simp add: mult.commute)
  show ?thesis
    using write_words_command [OF assms(1), of a ?n "word_bytes (c_byteOrder c) data"] assms(2,3) n n2
    by (auto simp: WriteWords_def guard_area_def checkIsWordMemoryArea_def Let_def)
qed

lemma ReadWords_live:
  assumes "udp_live (c, w)" and "length data \<le> 1017" and "unat a + 2 * length data \<le> 32768"
    and "slice (sv_dmarea (un_server w)) (unat a) (unat a + 2 * length data) = word_bytes (c_byteOrder c) data"
  shows "\<exists>c' w'. ReadWords simulator_env c w Udp_MemoryAreaDMWord a (word_of_nat (length data)) = (Some (Ok data), c', w') \<and>
    udp_live (c', w') \<and> same_settings c c' \<and> un_clock w' = un_clock w \<and> un_server w' = un_server w"
proof -
  let ?n = "word_of_nat (length data) :: u16" and ?bo = "c_byteOrder c"
  let ?f = "\<lambda>r :: response. go_map (\<lambda>i. go_bind (gs_sub (rs_data r) (i * 2) (i * 2 + 2)) (\<lambda>s. Ok (Uint ?bo (gs_vis s)))) [0..<unat ?n] :: (UdpError, u16 list) go"
  have n: "unat ?n = length data" using assms(2) by (intro unat_word_of_nat_small) simp
  obtain c' w' r where x: "command_then simulator_env c w (readCommand (memAddr Udp_MemoryAreaDMWord a) ?n) ?f = (Some (?f r), c', w')"
      "gs_vis (rs_data r) = word_bytes ?bo data"
      "udp_live (c', w')" "same_settings c c'" "un_clock w' = un_clock w" "un_server w' = un_server w"
    using read_words_command [OF assms(1), of a ?n ?f] assms(2-4) n by auto
  obtain sp where sp: "rs_data r = GSlice (word_bytes ?bo data) sp" using x(2) by (cases "rs_data r") simp
  have "?f r = Ok (map (\<lambda>i. data ! i) [0..<length data])"
    unfolding sp n by (rule go_map_Ok) (simp add: Uint_word_bytes del: add_2_eq_Suc')
  then have "ReadWords simulator_env c w Udp_MemoryAreaDMWord a ?n = (Some (Ok data), c', w')"
    using x(1) unfolding ReadWords_def guard_area_def by (simp add: checkIsWordMemoryArea_def map_nth)
  then show ?thesis using x by blast
qed

lemma WriteBytes_live:
  assumes "udp_live (c, w)" and "length b = 2 * k" and "k \<le> 503" and "unat a + 2 * k \<le> 32768"
  shows "\<exists>c' w'. WriteBytes simulator_env c w Udp_MemoryAreaDMWord a b = (Some (Ok ()), c', w') \<and>
    udp_live (c', w') \<and> same_settings c c' \<and> un_clock w' = un_clock w \<and>
    un_server w' = (un_server w)\<lparr>sv_dmarea := copy_at (sv_dmarea (un_server w)) (unat a) b\<rparr>"
proof -
  have k: "unat (word_of_nat k :: u16) = k" using assms(3) by (intro unat_word_of_nat_small) simp
  show ?thesis
    using write_words_command [OF assms(1), of a "word_of_nat k" b] assms(2-4) k
    by (auto simp: WriteBytes_def guard_area_def checkIsWordMemoryArea_def Let_def)
qed

lemma ReadBytes_live:
  assumes "udp_live (c, w)" and "unat a + 2 * unat n \<le> 32768" and "unat n \<le> 1017"
  shows "\<exists>c' w'. ReadBytes simulator_env c w Udp_MemoryAreaDMWord a n =
      (Some (Ok (slice (sv_dmarea (un_server w)) (unat a) (unat a + 2 * unat n))), c', w') \<and>
    udp_live (c', w') \<and> same_settings c c' \<and> un_clock w' = un_clock w \<and> un_server w' = un_server w"
  using read_words_command [OF assms, of "\<lambda>r. Ok (gs_vis (rs_data r))"]
  by (auto simp: ReadBytes_def guard_area_def checkIsWordMemoryArea_def)

text \<open>A string is stored with as many words as hold it, padded to whole words.\<close>

lemma WriteString_live:
  assumes "udp_live (c, w)" and "length s \<le> 503" and "unat a + length s + 1 \<le> 32768"
  shows "\<exists>c' w'. WriteString simulator_env c w Udp_MemoryAreaDMWord a s = (Some (Ok ()), c', w') \<and>
    udp_live (c', w') \<and> same_settings c c' \<and> un_clock w' = un_clock w \<and>
    un_server w' = (un_server w)\<lparr>sv_dmarea := copy_at (sv_dmarea (un_server w)) (unat a) (s @ replicate (length s mod 2) 0)\<rparr>"
proof -
  let ?n = "word_of_nat ((length s + 1) div 2) :: u16"
  have n: "unat ?n = (length s + 1) div 2" using assms(2) by (intro unat_word_of_nat_small) simp
  have two: "2 * ((length s + 1) div 2) = length s + length s mod 2" by presburger
  have le: "length s mod 2 \<le> length s" "length s mod 2 \<le> 1" by simp_all
  then have "take (2 * unat ?n) (s @ replicate (length s) 0) = s @ replicate (length s mod 2) (0::u8)"
    unfolding n two by simp
  then show ?thesis
    using write_words_command [OF assms(1), of a ?n "s @ replicate (length s) 0"] assms(2,3) n two le
    by (auto simp: WriteString_def guard_area_def checkIsWordMemoryArea_def)
qed

text \<open>The same for bits; the simulator keeps one byte for each.\<close>

lemma bits_end:
  assumes "unat a + unat k + unat n \<le> 32768"
  shows "unat (a + ucast k :: u16) = unat a + unat (k :: u8)"
    "unat (a + ucast k + n :: u16) = unat a + unat k + unat n" "\<not> a + n > DM_AREA_SIZE"
    "unat (6 + n) = 6 + unat n"
proof -
  have "unat k < 256" using unsigned_less [of k] by simp
  then have k: "unat (ucast k :: u16) = unat k" by (simp add: unsigned_ucast_eq take_bit_nat_eq_self)
  show s: "unat (a + ucast k :: u16) = unat a + unat k"
    using assms k by (subst unat_add_lem [THEN iffD1]) simp_all
  show "unat (a + ucast k + n :: u16) = unat a + unat k + unat n"
    using assms s by (subst unat_add_lem [THEN iffD1]) simp_all
  have "unat (a + n) = unat a + unat n" using assms by (subst unat_add_lem [THEN iffD1]) simp_all
  then show "\<not> a + n > DM_AREA_SIZE" using assms by (simp add: word_less_nat_alt DM_AREA_SIZE_def)
  show "unat (6 + n) = 6 + unat n" using assms by (subst unat_add_lem [THEN iffD1]) simp_all
qed

lemma dm_bit_codes: "Udp_MemoryAreaDMBit \<noteq> Udp_MemoryAreaDMWord" "CommandCodeMemoryAreaWrite \<noteq> CommandCodeMemoryAreaRead"
  by (simp_all add: udp_consts)

lemma handler_read_bits:
  assumes "unat a + unat k + unat n \<le> 32768" and "length (sv_bitdmarea s) = 32768"
  shows "handler now s \<lparr>rq_header = h, rq_commandCode = CommandCodeMemoryAreaRead,
      rq_data = GSlice (encodeMemoryAddress (memAddrWithBitOffset Udp_MemoryAreaDMBit a k) @ be16 n) S\<rparr> =
    Ok (\<lparr>rs_header = defaultResponseHeader h, rs_commandCode = CommandCodeMemoryAreaRead,
      rs_endCode = EndCodeNormalCompletion,
      rs_data = GSlice (slice (sv_bitdmarea s) (unat a + unat k) (unat a + unat k + unat n)) []\<rparr>, s)"
  using bits_end [OF assms(1)] assms dm_bit_codes
  by (simp add: handler_def handle_bits_def area_read_def decode_read_command Let_def)

lemma handler_write_bits:
  assumes "unat a + unat k + unat n \<le> 32768" and "length (sv_bitdmarea s) = 32768" and "unat n \<le> length d"
  shows "handler now s \<lparr>rq_header = h, rq_commandCode = CommandCodeMemoryAreaWrite,
      rq_data = GSlice (encodeMemoryAddress (memAddrWithBitOffset Udp_MemoryAreaDMBit a k) @ be16 n @ d) S\<rparr> =
    Ok (\<lparr>rs_header = defaultResponseHeader h, rs_commandCode = CommandCodeMemoryAreaWrite,
      rs_endCode = EndCodeNormalCompletion, rs_data = GSlice [] []\<rparr>,
      s\<lparr>sv_bitdmarea := copy_at (sv_bitdmarea s) (unat a + unat k) (take (unat n) d)\<rparr>)"
proof -
  let ?m = "encodeMemoryAddress (memAddrWithBitOffset Udp_MemoryAreaDMBit a k)"
  have "(gs_sub (GSlice (?m @ be16 n @ d) S) 6 (6 + unat n) :: (UdpError, gslice) go) =
      Ok (GSlice (take (unat n) d) (drop (unat n) d @ S))"
    using assms(3) by (simp add: slice_append_right) (simp add: slice_def)
  then show ?thesis
    using bits_end [OF assms(1)] assms dm_bit_codes
    by (simp add: handler_def handle_bits_def area_write_def decode_memory_command Let_def)
qed

definition bit_bytes :: "bool list \<Rightarrow> bytes" where
  "bit_bytes bs = map (\<lambda>d. if d then 1 else 0) bs"

lemma bit_bytes_simps [simp]:
  "length (bit_bytes bs) = length bs" "i < length bs \<Longrightarrow> (bit_bytes bs ! i AND 1 > 0) = bs ! i"
  by (simp_all add: bit_bytes_def)

lemma WriteBits_live:
  assumes "udp_live (c, w)" and "length data \<le> 1006" and "unat a + unat k + length data \<le> 32768"
  shows "\<exists>c' w'. Udp_WriteBits simulator_env c w Udp_MemoryAreaDMBit a k data = (Some (Ok ()), c', w') \<and>
    udp_live (c', w') \<and> same_settings c c' \<and> un_clock w' = un_clock w \<and>
    un_server w' = (un_server w)\<lparr>sv_bitdmarea := copy_at (sv_bitdmarea (un_server w)) (unat a + unat k) (bit_bytes data)\<rparr>"
proof -
  let ?n = "word_of_nat (length data) :: u16"
  let ?d = "encodeMemoryAddress (memAddrWithBitOffset Udp_MemoryAreaDMBit a k) @ be16 ?n @ bit_bytes data"
  let ?s = "(un_server w)\<lparr>sv_bitdmarea := copy_at (sv_bitdmarea (un_server w)) (unat a + unat k) (bit_bytes data)\<rparr>"
  have n: "unat ?n = length data" using assms(2) by (intro unat_word_of_nat_small) simp
  note area = live_areas [OF assms(1)]
  have h: "handler (un_clock w) (un_server w) \<lparr>rq_header = h, rq_commandCode = CommandCodeMemoryAreaWrite, rq_data = GSlice ?d S\<rparr> =
      Ok (\<lparr>rs_header = defaultResponseHeader h, rs_commandCode = CommandCodeMemoryAreaWrite,
        rs_endCode = EndCodeNormalCompletion, rs_data = GSlice [] []\<rparr>, ?s)" for h S
    using handler_write_bits [of a k ?n "un_server w" "bit_bytes data"] assms(3) area n by simp
  obtain c' w' where x: "command_then simulator_env c w (be16 CommandCodeMemoryAreaWrite @ ?d) (\<lambda>_. Ok ()) = (Some (Ok ()), c', w')"
      "udp_live (c', w')" "same_settings c c'" "un_clock w' = un_clock w" "un_server w' = ?s"
    using command_live [OF assms(1) _ _ h, of "\<lambda>_. Ok ()"] assms(2,3) area by auto
  then show ?thesis
    using n unfolding Udp_WriteBits_def guard_area_def writeCommand_def
    by (auto simp: checkIsBitMemoryArea_def Let_def bit_bytes_def)
qed

lemma ReadBits_live:
  assumes "udp_live (c, w)" and "length data \<le> 2034" and "unat a + unat k + length data \<le> 32768"
    and "slice (sv_bitdmarea (un_server w)) (unat a + unat k) (unat a + unat k + length data) = bit_bytes data"
  shows "\<exists>c' w'. Udp_ReadBits simulator_env c w Udp_MemoryAreaDMBit a k (word_of_nat (length data)) = (Some (Ok data), c', w') \<and>
    udp_live (c', w') \<and> same_settings c c' \<and> un_clock w' = un_clock w \<and> un_server w' = un_server w"
proof -
  let ?n = "word_of_nat (length data) :: u16"
  let ?d = "encodeMemoryAddress (memAddrWithBitOffset Udp_MemoryAreaDMBit a k) @ be16 ?n"
  let ?f = "\<lambda>r :: response. go_map (\<lambda>i. if i < gs_len (rs_data r) then Ok (gs_vis (rs_data r) ! i AND 1 > 0) else Panic)
      [0..<unat ?n] :: (UdpError, bool list) go"
  have n: "unat ?n = length data" using assms(2) by (intro unat_word_of_nat_small) simp
  have area: "length (sv_dmarea (un_server w)) = 32768" "length (sv_bitdmarea (un_server w)) = 32768"
    using live_areas [OF assms(1)] by simp_all
  have len: "length ?d \<le> 1012" "length (bit_bytes data) \<le> 2034" using assms(2) by simp_all
  have h: "handler (un_clock w) (un_server w) \<lparr>rq_header = h, rq_commandCode = CommandCodeMemoryAreaRead, rq_data = GSlice ?d S\<rparr> =
      Ok (\<lparr>rs_header = defaultResponseHeader h, rs_commandCode = CommandCodeMemoryAreaRead,
        rs_endCode = EndCodeNormalCompletion, rs_data = GSlice (bit_bytes data) []\<rparr>, un_server w)" for h S
    using handler_read_bits [of a k ?n "un_server w"] assms(3,4) area n by simp
  obtain c' w' r where x: "command_then simulator_env c w (be16 CommandCodeMemoryAreaRead @ ?d) ?f = (Some (?f r), c', w')"
      "rs_data r = GSlice (bit_bytes data) (replicate (2034 - length (bit_bytes data)) 0)"
      "udp_live (c', w')" "same_settings c c'" "un_clock w' = un_clock w" "un_server w' = un_server w"
    using command_live [OF assms(1) len h area(1) area(2), of ?f] by blast
  have "?f r = Ok (map (\<lambda>i. data ! i) [0..<length data])"
    unfolding x(2) n by (rule go_map_Ok) (simp add: gs_len_def)
  then have "Udp_ReadBits simulator_env c w Udp_MemoryAreaDMBit a k ?n = (Some (Ok data), c', w')"
    using x(1) unfolding Udp_ReadBits_def guard_area_def readCommand_def
    by (simp add: checkIsBitMemoryArea_def map_nth)
  then show ?thesis using x by blast
qed

text \<open>A string reads back when the byte after it is zero.\<close>

lemma takeWhile_terminated:
  fixes s :: bytes
  assumes "0 \<notin> set s" and "take (length s) xs = s" and "length s < length xs" and "xs ! length s = 0"
  shows "takeWhile (\<lambda>b. b \<noteq> 0) xs = s"
proof -
  have "xs = take (length s) xs @ xs ! length s # drop (Suc (length s)) xs"
    using assms(3) by (simp add: Cons_nth_drop_Suc)
  then have "xs = s @ 0 # drop (Suc (length s)) xs" using assms(2,4) by simp
  moreover have "takeWhile (\<lambda>b. b \<noteq> 0) (s @ 0 # ys) = s" for ys
    using assms(1) by (subst takeWhile_append2) auto
  ultimately show ?thesis by metis
qed

lemma string_read_back:
  fixes s :: bytes
  assumes "udp_live (c, w)" and "0 \<notin> set s" and "even (length s)" and "0 < length s" and "length s \<le> 503"
    and "unat a + 2 * length s \<le> 32768" and "sv_dmarea (un_server w) ! (unat a + length s) = 0"
  shows "\<exists>c1 w1 c2 w2. WriteString simulator_env c w Udp_MemoryAreaDMWord a s = (Some (Ok ()), c1, w1) \<and>
    ReadString simulator_env c1 w1 Udp_MemoryAreaDMWord a (word_of_nat (length s)) = (Some (Ok s), c2, w2) \<and>
    udp_live (c2, w2) \<and> un_clock w2 = un_clock w \<and>
    sv_dmarea (un_server w2) = copy_at (sv_dmarea (un_server w)) (unat a) s"
proof -
  let ?n = "word_of_nat (length s) :: u16" and ?dm = "copy_at (sv_dmarea (un_server w)) (unat a) s"
  have n: "unat ?n = length s" using assms(5) by (intro unat_word_of_nat_small) simp
  have len: "length (sv_dmarea (un_server w)) = 32768" using live_areas [OF assms(1)] by simp
  have even: "length s mod 2 = 0" using assms(3) by presburger
  have bound: "unat a + length s + 1 \<le> 32768" using assms(4,6) by linarith
  obtain c1 w1 where 1: "WriteString simulator_env c w Udp_MemoryAreaDMWord a s = (Some (Ok ()), c1, w1)"
      "udp_live (c1, w1)" "un_clock w1 = un_clock w" "sv_dmarea (un_server w1) = ?dm"
    using WriteString_live [OF assms(1,5), of a] even bound by auto
  let ?xs = "slice ?dm (unat a) (unat a + 2 * length s)"
  obtain c2 w2 where 2: "ReadBytes simulator_env c1 w1 Udp_MemoryAreaDMWord a ?n = (Some (Ok ?xs), c2, w2)"
      "udp_live (c2, w2)" "un_clock w2 = un_clock w1" "un_server w2 = un_server w1"
    using ReadBytes_live [OF 1(2), of a ?n] n assms(5,6) 1(4) by auto
  have "take (length s) ?xs = slice ?dm (unat a) (unat a + length s)" by (simp add: slice_def min_def)
  then have "take (length s) ?xs = s"
    using slice_copy_at_same [of "unat a" s "sv_dmarea (un_server w)"] assms(6) len by simp
  moreover have "length s < length ?xs" "?xs ! length s = 0"
    using assms(4,6,7) len bound nth_copy_at [of "unat a" s "sv_dmarea (un_server w)" "unat a + length s"] by simp_all
  ultimately have "takeWhile (\<lambda>b. b \<noteq> 0) ?xs = s" by (intro takeWhile_terminated assms(2))
  then show ?thesis using 1 2 by (auto simp: ReadString_def)
qed

section \<open>The clock\<close>

definition clock_ok :: "Clock \<Rightarrow> bool" where
  "clock_ok now \<longleftrightarrow> ck_month now \<le> 12 \<and> ck_day now \<le> 31 \<and> ck_hour now < 24 \<and> ck_minute now < 60 \<and> ck_second now < 60"

lemma BCD_two_digits:
  assumes "n < 100"
  shows "\<exists>b. encodeBCD (word_of_nat n) = [b] \<and> decodeBCD [b] = Ok (word_of_nat n)"
proof -
  let ?w = "word_of_nat n :: u64"
  have u: "unat ?w = n" using assms by (intro unat_word_of_nat_small) simp
  have "bcd_count n \<le> 2"
    using assms bcd_count.simps [of n] bcd_count.simps [of "n div 10"] bcd_count.simps [of "n div 10 div 10"] by auto
  then have "(max 1 (bcd_count n) + 1) div 2 = 1" by simp
  then have "length (encodeBCD ?w) = 1" using BCD_inverse [of ?w] u by simp
  then obtain b where "encodeBCD ?w = [b]" by (auto simp: length_Suc_conv)
  then show ?thesis using BCD_inverse [of ?w] by simp
qed

text \<open>The client reads the simulator's clock; the century is chosen so that years from 1950 to 2049
  come out right.\<close>

lemma ReadClock_live:
  assumes "udp_live (c, w)" and "clock_ok (un_clock w)"
  shows "\<exists>c' w'. ReadClock simulator_env c w =
      (Some (Ok (map word_of_nat
         [ck_year (un_clock w) mod 100 + (if ck_year (un_clock w) mod 100 < 50 then 2000 else 1900),
          ck_month (un_clock w), ck_day (un_clock w), ck_hour (un_clock w), ck_minute (un_clock w), ck_second (un_clock w)])), c', w') \<and>
    udp_live (c', w') \<and> same_settings c c' \<and> un_clock w' = un_clock w \<and> un_server w' = un_server w"
proof -
  let ?k = "un_clock w" and ?y = "ck_year (un_clock w) mod 100"
  obtain b0 b1 b2 b3 b4 b5 where
      e: "encodeBCD (word_of_nat ?y) = [b0]" "encodeBCD (word_of_nat (ck_month ?k)) = [b1]"
        "encodeBCD (word_of_nat (ck_day ?k)) = [b2]" "encodeBCD (word_of_nat (ck_hour ?k)) = [b3]"
        "encodeBCD (word_of_nat (ck_minute ?k)) = [b4]" "encodeBCD (word_of_nat (ck_second ?k)) = [b5]"
      and dec: "decodeBCD [b0] = Ok (word_of_nat ?y)" "decodeBCD [b1] = Ok (word_of_nat (ck_month ?k))"
        "decodeBCD [b2] = Ok (word_of_nat (ck_day ?k))" "decodeBCD [b3] = Ok (word_of_nat (ck_hour ?k))"
        "decodeBCD [b4] = Ok (word_of_nat (ck_minute ?k))" "decodeBCD [b5] = Ok (word_of_nat (ck_second ?k))"
    using assms(2) BCD_two_digits [of ?y] BCD_two_digits [of "ck_month ?k"] BCD_two_digits [of "ck_day ?k"]
      BCD_two_digits [of "ck_hour ?k"] BCD_two_digits [of "ck_minute ?k"] BCD_two_digits [of "ck_second ?k"]
    by (auto simp: clock_ok_def)
  have data: "clock_data ?k = [b0, b1, b2, b3, b4, b5]" by (simp add: clock_data_def e)
  have h: "handler ?k (un_server w) \<lparr>rq_header = h, rq_commandCode = CommandCodeClockRead, rq_data = GSlice [] S\<rparr> =
      Ok (\<lparr>rs_header = defaultResponseHeader h, rs_commandCode = CommandCodeClockRead,
        rs_endCode = EndCodeNormalCompletion, rs_data = GSlice [b0, b1, b2, b3, b4, b5] []\<rparr>, un_server w)" for h S
    by (simp add: handler_def udp_consts data)
  let ?f = "\<lambda>r :: response. go_bind (clock_field r 0) (\<lambda>year. go_bind (go_map (clock_field r) [1..<6]) (\<lambda>rest.
         Ok ((if year < 50 then year + 2000 else year + 1900) # rest)))"
  obtain c' w' r where x: "command_then simulator_env c w (be16 CommandCodeClockRead @ []) ?f = (Some (?f r), c', w')"
      "rs_data r = GSlice [b0, b1, b2, b3, b4, b5] (replicate 2028 0)"
      "udp_live (c', w')" "same_settings c c'" "un_clock w' = ?k" "un_server w' = un_server w"
    using command_live [OF assms(1) _ _ h, of ?f] live_areas [OF assms(1)] by auto
  have sub: "(gs_sub (rs_data r) i (i + 1) :: (UdpError, gslice) go) =
      Ok (GSlice [[b0, b1, b2, b3, b4, b5] ! i] (drop (i + 1) [b0, b1, b2, b3, b4, b5] @ replicate 2028 0))" if "i < 6" for i
  proof -
    have "slice [b0, b1, b2, b3, b4, b5] i (i + 1) = [[b0, b1, b2, b3, b4, b5] ! i]"
      using that by (auto simp: less_Suc_eq numeral_eq_Suc slice_def)
    then show ?thesis using that x(2) by (auto simp: less_Suc_eq numeral_eq_Suc slice_def)
  qed
  have field: "clock_field r i = Ok (case decodeBCD [[b0, b1, b2, b3, b4, b5] ! i] of Ok x \<Rightarrow> x | _ \<Rightarrow> 0)" if "i < 6" for i
    using sub [OF that] by (simp add: clock_field_def)
  have ix: "[1..<6] = [1, 2, 3, 4, 5 :: nat]" by (simp add: upt_rec)
  have rest: "go_map (clock_field r) [1..<6] = Ok (map word_of_nat [ck_month ?k, ck_day ?k, ck_hour ?k, ck_minute ?k, ck_second ?k])"
    unfolding ix by (simp add: field dec)
  have y: "(word_of_nat ?y < (50 :: u64)) = (?y < 50)"
    unfolding word_less_nat_alt by (subst unat_word_of_nat_small) simp_all
  have "?f r = Ok (map word_of_nat [?y + (if ?y < 50 then 2000 else 1900),
      ck_month ?k, ck_day ?k, ck_hour ?k, ck_minute ?k, ck_second ?k])"
    using rest by (simp add: field dec y)
  then show ?thesis using x by (simp add: ReadClock_def clockReadCommand_def)
qed

section \<open>Reachable clients and blocked listeners\<close>

inductive udp_reach :: "'w UdpEnv \<Rightarrow> Client \<Rightarrow> bool" for env :: "'w UdpEnv" where
  udp_new: "udp_reach env (NewClient src dst)"
| udp_send: "udp_reach env c \<Longrightarrow> Udp_sendCommand env c w cmd = (r, c', w') \<Longrightarrow> udp_reach env c'"
| udp_idle: "udp_reach env c \<Longrightarrow> listen_event None c ev = Ok (c', r) \<Longrightarrow> udp_reach env c'"
| udp_timeout: "udp_reach env c \<Longrightarrow> udp_reach env (SetTimeoutMs c t)"
| udp_order: "udp_reach env c \<Longrightarrow> udp_reach env (SetByteOrder c bo)"
| udp_close: "udp_reach env c \<Longrightarrow> udp_reach env (Client_Close c)"

lemma udp_reach_inv: "udp_reach env c \<Longrightarrow> udp_inv c"
proof (induction rule: udp_reach.induct)
  case (udp_send c w cmd r c' w')
  show ?case using sendCommand_inv [OF udp_send.IH udp_send.hyps(2)] by simp
next
  case (udp_idle c ev c' r)
  obtain l where "c' = c\<lparr>c_listener := l\<rparr>" using listen_event_client [OF udp_idle.hyps(2)] by blast
  then show ?case using udp_idle.IH by (simp add: udp_inv_def)
next
  case (udp_new src dst)
  show ?case by (rule udp_inv_New)
qed (auto simp: udp_inv_def SetTimeoutMs_def SetByteOrder_def Client_Close_def)

lemma decodeResponse_total: "14 \<le> length V \<Longrightarrow> \<exists>r. decodeResponse (GSlice V S) = Ok r"
  by (simp add: decodeResponse_def decodeHeader_def Let_def slice_def)

lemma listen_blocked [simp]: "c_listener c = Blocked \<Longrightarrow> listen_event aw c ev = Ok (c, None)"
  by (simp add: listen_event_def)

lemma await_blocked: "c_listener c = Blocked \<Longrightarrow> await_events ch c evs = Ok (c, None)"
  by (induction evs) simp_all

fun send_all :: "'w UdpEnv \<Rightarrow> Client \<Rightarrow> 'w \<Rightarrow> bytes list \<Rightarrow> (UdpError, response) go option list" where
  "send_all env c w [] = []"
| "send_all env c w (cmd # cmds) =
     (case Udp_sendCommand env c w cmd of (r, c', w') \<Rightarrow> r # send_all env c' w' cmds)"

lemma sendCommand_blocked:
  assumes "c_listener c = Blocked" and "Udp_sendCommand env c w cmd = (r, c', w')"
  shows "c_listener c' = Blocked \<and> (\<forall>ans. r \<noteq> Some (Ok ans))"
proof -
  obtain sid c1 where i: "incrementSid c = (sid, c1)" by fastforce
  then have "c_listener c1 = Blocked" using assms(1) by (auto simp: incrementSid_def Let_def)
  then show ?thesis
    using assms(2) i await_blocked [of c1]
    by (auto simp: Udp_sendCommand_def nextHeader_def Let_def split: option.splits prod.splits if_splits)
qed

lemma send_all_blocked: "c_listener c = Blocked \<Longrightarrow> r \<in> set (send_all env c w cmds) \<Longrightarrow> r \<noteq> Some (Ok ans)"
proof (induction cmds arbitrary: c w)
  case (Cons cmd cmds)
  obtain r1 c1 w1 where "Udp_sendCommand env c w cmd = (r1, c1, w1)" by (cases "Udp_sendCommand env c w cmd")
  then show ?case using sendCommand_blocked [OF Cons.prems(1)] Cons by fastforce
qed simp

definition fresh_udp :: "Client \<times> UdpNet" where
  "fresh_udp =
     (NewClient \<lparr>ua_network = 0, ua_node = 2, ua_unit = 255\<rparr> \<lparr>ua_network = 0, ua_node = 1, ua_unit = 0\<rparr>,
      \<lparr>un_server = NewPLCSimulator, un_buf = replicate 1024 0, un_out = [],
       un_clock = \<lparr>ck_year = 2024, ck_month = 2, ck_day = 29, ck_hour = 12, ck_minute = 0, ck_second = 7\<rparr>\<rparr>)"

lemma fresh_udp_live: "udp_live fresh_udp"
  using udp_inv_New by (simp add: fresh_udp_def udp_live_def NewClient_def NewPLCSimulator_def DM_AREA_SIZE_def)

section \<open>Calls return\<close>

lemma sendCommand_returns:
  assumes "0 < c_responseTimeoutMs c"
  shows "fst (Udp_sendCommand env c w cmd) \<noteq> None \<and>
    c_responseTimeoutMs (fst (snd (Udp_sendCommand env c w cmd))) = c_responseTimeoutMs c"
proof -
  obtain sid c1 where i: "incrementSid c = (sid, c1)" by fastforce
  have c1: "c_responseTimeoutMs c1 = c_responseTimeoutMs c" using i by (auto simp: incrementSid_def Let_def)
  show ?thesis
    using i c1 assms
    by (auto simp: Udp_sendCommand_def nextHeader_def Let_def dest!: await_events_result
        split: option.splits prod.splits go.splits)
qed

lemma command_then_returns:
  assumes "0 < c_responseTimeoutMs c"
  shows "fst (command_then env c w cmd f) \<noteq> None \<and>
    c_responseTimeoutMs (fst (snd (command_then env c w cmd f))) = c_responseTimeoutMs c"
  using sendCommand_returns [OF assms, of env w cmd] by (auto simp: command_then_def split: prod.splits)

lemma guard_area_returns: "fst res \<noteq> None \<Longrightarrow> fst (guard_area ok m c w res) \<noteq> None"
  by (simp add: guard_area_def)

lemma bitTwiddle_returns: "0 < c_responseTimeoutMs c \<Longrightarrow> fst (bitTwiddle env c w m a k v) \<noteq> None"
  unfolding bitTwiddle_def by (intro guard_area_returns) (simp add: command_then_returns del: not_None_eq)

lemma ReadBits_returns:
  assumes "0 < c_responseTimeoutMs c"
  shows "fst (Udp_ReadBits env c w m a k n) \<noteq> None \<and>
    c_responseTimeoutMs (fst (snd (Udp_ReadBits env c w m a k n))) = c_responseTimeoutMs c"
  unfolding Udp_ReadBits_def guard_area_def by (simp add: command_then_returns [OF assms] del: not_None_eq)

lemma ToggleBit_returns:
  assumes "0 < c_responseTimeoutMs c"
  shows "fst (ToggleBit env c w m a k) \<noteq> None"
proof -
  obtain r c' w' where r: "Udp_ReadBits env c w m a k 1 = (r, c', w')" by (cases "Udp_ReadBits env c w m a k 1")
  then obtain x where "r = Some x" "0 < c_responseTimeoutMs c'" using ReadBits_returns [OF assms, of env w m a k 1] assms by auto
  then show ?thesis using r by (cases x) (simp_all add: ToggleBit_def bitTwiddle_returns del: not_None_eq)
qed

section \<open>Defects of the simulator\<close>

text \<open>The simulator indexes its area by bytes, so words at neighbouring addresses overlap.\<close>

theorem simulator_words_overlap:
  assumes "udp_live (c, w)" and "c_byteOrder c = BigEndian"
  shows "\<exists>c1 w1 c2 w2 c3 w3.
    WriteWords simulator_env c w Udp_MemoryAreaDMWord 100 [0x1234] = (Some (Ok ()), c1, w1) \<and>
    WriteWords simulator_env c1 w1 Udp_MemoryAreaDMWord 101 [0x5678] = (Some (Ok ()), c2, w2) \<and>
    ReadWords simulator_env c2 w2 Udp_MemoryAreaDMWord 100 1 = (Some (Ok [0x1256]), c3, w3)"
proof -
  have w1: "word_bytes BigEndian [0x1234] = [0x12, 0x34]" "word_bytes BigEndian [0x5678] = [0x56, 0x78]"
    "word_bytes BigEndian [0x1256] = [0x12, 0x56]"
    by (simp_all add: be16_eq)
  obtain c1 w1 where 1: "WriteWords simulator_env c w Udp_MemoryAreaDMWord 100 [0x1234] = (Some (Ok ()), c1, w1)"
      "udp_live (c1, w1)" "c_byteOrder c1 = BigEndian"
      "sv_dmarea (un_server w1) = copy_at (sv_dmarea (un_server w)) 100 [0x12, 0x34]"
    using WriteWords_live [OF assms(1), of "[0x1234]" 100] assms(2) w1 by (auto simp: same_settings_def)
  obtain c2 w2 where 2: "WriteWords simulator_env c1 w1 Udp_MemoryAreaDMWord 101 [0x5678] = (Some (Ok ()), c2, w2)"
      "udp_live (c2, w2)" "c_byteOrder c2 = BigEndian"
      "sv_dmarea (un_server w2) = copy_at (sv_dmarea (un_server w1)) 101 [0x56, 0x78]"
    using WriteWords_live [OF 1(2), of "[0x5678]" 101] 1(3) w1 by (auto simp: same_settings_def)
  have len: "length (sv_dmarea (un_server w)) = 32768" using live_areas [OF assms(1)] by simp
  have "slice (sv_dmarea (un_server w2)) 100 102 = [0x12, 0x56]"
    using len by (intro nth_equalityI) (auto simp: 2(4) 1(4) nth_copy_at less_Suc_eq numeral_2_eq_2)
  then have "slice (sv_dmarea (un_server w2)) (unat (100::u16)) (unat (100::u16) + 2 * length [0x1256 :: u16]) =
      word_bytes (c_byteOrder c2) [0x1256]"
    using w1 2(3) by simp
  from ReadWords_live [OF 2(2) _ _ this] show ?thesis using 1(1) 2(1) by auto
qed

text \<open>The end of a range is computed in 16 bits: a range that wraps passes the check and panics.\<close>

theorem simulator_wrap_panics:
  "handler now NewPLCSimulator \<lparr>rq_header = h, rq_commandCode = CommandCodeMemoryAreaRead,
     rq_data = GSlice (encodeMemoryAddress (memAddr Udp_MemoryAreaDMWord 65535) @ be16 1) S\<rparr> = Panic"
  by (simp add: handler_def handle_words_def area_read_def decode_read_command DM_AREA_SIZE_def)

section \<open>Properties\<close>

text \<open>C32. Client and simulator end to end: over a working session, words written to the DM area read
  back in the client's byte order, and so do bits of the DM bit area, when request and response
  fit the buffers and the range fits the area; the session keeps working.\<close>

theorem udp_read_after_write:
  assumes "udp_live (c, w)"
  shows "(length ws \<le> 503 \<and> unat a + 2 * length ws \<le> 32768 \<longrightarrow>
      (\<exists>c1 w1 c2 w2. WriteWords simulator_env c w Udp_MemoryAreaDMWord a ws = (Some (Ok ()), c1, w1) \<and>
        ReadWords simulator_env c1 w1 Udp_MemoryAreaDMWord a (word_of_nat (length ws)) = (Some (Ok ws), c2, w2) \<and>
        udp_live (c2, w2))) \<and>
    (length bs \<le> 1006 \<and> unat a + unat k + length bs \<le> 32768 \<longrightarrow>
      (\<exists>c1 w1 c2 w2. Udp_WriteBits simulator_env c w Udp_MemoryAreaDMBit a k bs = (Some (Ok ()), c1, w1) \<and>
        Udp_ReadBits simulator_env c1 w1 Udp_MemoryAreaDMBit a k (word_of_nat (length bs)) = (Some (Ok bs), c2, w2) \<and>
        udp_live (c2, w2)))"
proof (intro conjI impI)
  assume ws: "length ws \<le> 503 \<and> unat a + 2 * length ws \<le> 32768"
  then obtain c1 w1 where 1: "WriteWords simulator_env c w Udp_MemoryAreaDMWord a ws = (Some (Ok ()), c1, w1)"
      "udp_live (c1, w1)" "same_settings c c1"
      "un_server w1 = (un_server w)\<lparr>sv_dmarea := copy_at (sv_dmarea (un_server w)) (unat a) (word_bytes (c_byteOrder c) ws)\<rparr>"
    using WriteWords_live [OF assms, of ws a] by blast
  have "slice (sv_dmarea (un_server w1)) (unat a) (unat a + 2 * length ws) = word_bytes (c_byteOrder c1) ws"
    using 1(3,4) ws live_areas [OF assms] by (simp add: same_settings_def slice_copy_at_same)
  then obtain c2 w2 where "ReadWords simulator_env c1 w1 Udp_MemoryAreaDMWord a (word_of_nat (length ws)) = (Some (Ok ws), c2, w2)"
      "udp_live (c2, w2)"
    using ReadWords_live [OF 1(2), of ws a] ws by auto
  then show "\<exists>c1 w1 c2 w2. WriteWords simulator_env c w Udp_MemoryAreaDMWord a ws = (Some (Ok ()), c1, w1) \<and>
        ReadWords simulator_env c1 w1 Udp_MemoryAreaDMWord a (word_of_nat (length ws)) = (Some (Ok ws), c2, w2) \<and>
        udp_live (c2, w2)"
    using 1(1) by blast
next
  assume bs: "length bs \<le> 1006 \<and> unat a + unat k + length bs \<le> 32768"
  then obtain c1 w1 where 1: "Udp_WriteBits simulator_env c w Udp_MemoryAreaDMBit a k bs = (Some (Ok ()), c1, w1)"
      "udp_live (c1, w1)" "same_settings c c1"
      "un_server w1 = (un_server w)\<lparr>sv_bitdmarea := copy_at (sv_bitdmarea (un_server w)) (unat a + unat k) (bit_bytes bs)\<rparr>"
    using WriteBits_live [OF assms, of bs a k] by blast
  have "slice (sv_bitdmarea (un_server w1)) (unat a + unat k) (unat a + unat k + length bs) = bit_bytes bs"
    using 1(4) bs live_areas [OF assms] by (simp add: slice_copy_at_same)
  then obtain c2 w2 where "Udp_ReadBits simulator_env c1 w1 Udp_MemoryAreaDMBit a k (word_of_nat (length bs)) = (Some (Ok bs), c2, w2)"
      "udp_live (c2, w2)"
    using ReadBits_live [OF 1(2), of bs a k] bs by auto
  then show "\<exists>c1 w1 c2 w2. Udp_WriteBits simulator_env c w Udp_MemoryAreaDMBit a k bs = (Some (Ok ()), c1, w1) \<and>
        Udp_ReadBits simulator_env c1 w1 Udp_MemoryAreaDMBit a k (word_of_nat (length bs)) = (Some (Ok bs), c2, w2) \<and>
        udp_live (c2, w2)"
    using 1(1) by blast
qed

theorem udp_read_after_write_witness:
  "\<exists>c1 w1 c2 w2. WriteWords simulator_env (fst fresh_udp) (snd fresh_udp) Udp_MemoryAreaDMWord 100 [1234, 5678] = (Some (Ok ()), c1, w1) \<and>
     ReadWords simulator_env c1 w1 Udp_MemoryAreaDMWord 100 2 = (Some (Ok [1234, 5678]), c2, w2)"
proof -
  have live: "udp_live (fst fresh_udp, snd fresh_udp)" using fresh_udp_live by simp
  from udp_read_after_write [OF this, of "[1234, 5678]" 100 "[True]" 0]
  show ?thesis by auto
qed

text \<open>C35. Correlation: in every state a client can reach, a response that \<open>sendCommand\<close> returns carries
  the service ID of that very command; responses to other commands are never taken for it.\<close>

theorem udp_correlates:
  assumes "udp_reach env c" and "Udp_sendCommand env c w cmd = (Some (Ok r), c', w')"
  shows "h_serviceID (rs_header r) = c_sid c + 1 \<and> c_sid c' = c_sid c + 1 \<and> udp_inv c'"
  using sendCommand_inv [OF udp_reach_inv [OF assms(1)] assms(2)] by simp

theorem udp_correlates_witness:
  "\<exists>r c' w'. Udp_sendCommand simulator_env (fst fresh_udp) (snd fresh_udp) clockReadCommand = (Some (Ok r), c', w') \<and>
     h_serviceID (rs_header r) = 1"
proof -
  let ?c = "fst fresh_udp" and ?w = "snd fresh_udp"
  let ?data = "clock_data (un_clock ?w)"
  have live: "udp_live (?c, ?w)" using fresh_udp_live by simp
  have "un_clock ?w = \<lparr>ck_year = 2024, ck_month = 2, ck_day = 29, ck_hour = 12, ck_minute = 0, ck_second = 7\<rparr>"
    by (simp add: fresh_udp_def)
  moreover have "length (clock_data \<lparr>ck_year = 2024, ck_month = 2, ck_day = 29, ck_hour = 12, ck_minute = 0, ck_second = 7\<rparr>) \<le> 2034"
    by code_simp
  ultimately have len: "length ?data \<le> 2034" by simp
  have "handler (un_clock ?w) (un_server ?w) \<lparr>rq_header = h, rq_commandCode = CommandCodeClockRead, rq_data = GSlice [] S\<rparr> =
      Ok (\<lparr>rs_header = defaultResponseHeader h, rs_commandCode = CommandCodeClockRead,
        rs_endCode = EndCodeNormalCompletion, rs_data = GSlice ?data []\<rparr>, un_server ?w)" for h S
    by (simp add: handler_def udp_consts)
  from exchange [OF refl live _ len this] obtain r c' w' where
      s: "Udp_sendCommand simulator_env ?c ?w clockReadCommand = (Some (Ok r), c', w')"
    using live_areas [OF live] by (auto simp: clockReadCommand_def)
  have "udp_reach simulator_env ?c" by (simp add: fresh_udp_def udp_new)
  from udp_correlates [OF this s] show ?thesis using s by (auto simp: fresh_udp_def NewClient_def)
qed





end
