(* ===== verification/Cmd_Udp_Client.thy ===== *)
theory Cmd_Udp_Client
  imports Udp_Session
begin

text \<open>
  The self-test program of \<open>cmd/udp/client/main.go\<close>: it starts the PLC simulator, connects a client
  to it, runs five tests and exits with the verdict. A test is a computation over the client and
  the world; one that never returns has the result \<open>None\<close>, and the lines it prints are left out.
\<close>

section \<open>Tests as computations\<close>

datatype UdpTestError =
    UdpWriteFailed UdpError
  | UdpReadFailed UdpError
  | UdpMismatchAt nat
  | UdpStringMismatch bytes bytes

type_synonym 'w client_state = "Client \<times> 'w"
type_synonym ('w, 'a) client_test = "'w client_state \<Rightarrow> (UdpTestError, 'a) go option \<times> 'w client_state"

text \<open>A call of the client whose error is wrapped, and what follows it.\<close>

definition call_then ::
  "(UdpError \<Rightarrow> UdpTestError) \<Rightarrow> (Client \<Rightarrow> 'w \<Rightarrow> (UdpError, 'a) go option \<times> 'w client_state) \<Rightarrow>
     ('a \<Rightarrow> ('w, 'b) client_test) \<Rightarrow> ('w, 'b) client_test" where
  "call_then wrap m f st =
     (case m (fst st) (snd st) of
        (Some (Ok x), st') \<Rightarrow> f x st'
      | (Some (Err e), st') \<Rightarrow> (Some (Err (wrap e)), st')
      | (Some Panic, st') \<Rightarrow> (Some Panic, st')
      | (None, st') \<Rightarrow> (None, st'))"

text \<open>The loop \<open>for i, v := range vals\<close> that compares with \<open>toWrite[i]\<close>; an index past the end
  panics.\<close>

fun compare_from :: "'a list \<Rightarrow> nat \<Rightarrow> 'a list \<Rightarrow> (UdpTestError, unit) go" where
  "compare_from toWrite i [] = Ok ()"
| "compare_from toWrite i (v # vals) =
     (if length toWrite \<le> i then Panic
      else if v \<noteq> toWrite ! i then Err (UdpMismatchAt i)
      else compare_from toWrite (Suc i) vals)"

definition compare_with :: "'a list \<Rightarrow> 'a list \<Rightarrow> ('w, unit) client_test" where
  "compare_with toWrite vals st = (Some (compare_from toWrite 0 vals), st)"

section \<open>The tests\<close>

definition testWriteReadWords :: "'w UdpEnv \<Rightarrow> ('w, unit) client_test" where
  "testWriteReadWords env =
     (let toWrite = [1234, 5678, 9012, 3456, 7890] in
      call_then UdpWriteFailed (\<lambda>c w. WriteWords env c w Udp_MemoryAreaDMWord 100 toWrite) (\<lambda>_.
      call_then UdpReadFailed (\<lambda>c w. ReadWords env c w Udp_MemoryAreaDMWord 100 5) (compare_with toWrite)))"

definition testWriteReadBits :: "'w UdpEnv \<Rightarrow> ('w, unit) client_test" where
  "testWriteReadBits env =
     (let toWrite = [True, False, True, True, False] in
      call_then UdpWriteFailed (\<lambda>c w. Udp_WriteBits env c w Udp_MemoryAreaDMBit 200 0 toWrite) (\<lambda>_.
      call_then UdpReadFailed (\<lambda>c w. Udp_ReadBits env c w Udp_MemoryAreaDMBit 200 0 5) (compare_with toWrite)))"

definition testWriteReadBytes :: "'w UdpEnv \<Rightarrow> ('w, unit) client_test" where
  "testWriteReadBytes env =
     (let toWrite = [0x11, 0x22, 0x33, 0x44, 0x55, 0x66, 0x77, 0x88] in
      call_then UdpWriteFailed (\<lambda>c w. WriteBytes env c w Udp_MemoryAreaDMWord 300 toWrite) (\<lambda>_.
      call_then UdpReadFailed
        (\<lambda>c w. ReadBytes env c w Udp_MemoryAreaDMWord 300 (word_of_nat (length toWrite div 2))) (compare_with toWrite)))"

definition testWriteReadString :: "'w UdpEnv \<Rightarrow> ('w, unit) client_test" where
  "testWriteReadString env =
     (let testStr = map of_char ''Hello Omron FINS UDP'' in
      call_then UdpWriteFailed (\<lambda>c w. WriteString env c w Udp_MemoryAreaDMWord 400 testStr) (\<lambda>_.
      call_then UdpReadFailed (\<lambda>c w. ReadString env c w Udp_MemoryAreaDMWord 400 (word_of_nat (length testStr)))
        (\<lambda>v st. (Some (if v \<noteq> testStr then Err (UdpStringMismatch testStr v) else Ok ()), st))))"

definition testReadClock :: "'w UdpEnv \<Rightarrow> ('w, unit) client_test" where
  "testReadClock env = call_then UdpReadFailed (ReadClock env) (\<lambda>_ st. (Some (Ok ()), st))"

definition udp_testCases :: "'w UdpEnv \<Rightarrow> ('w, unit) client_test list" where
  "udp_testCases env =
     [testWriteReadWords env, testWriteReadBits env, testWriteReadBytes env, testWriteReadString env, testReadClock env]"

section \<open>The program\<close>

fun udp_run_tests ::
  "('w, unit) client_test list \<Rightarrow> nat \<Rightarrow> nat \<Rightarrow> 'w client_state \<Rightarrow> (UdpTestError, nat \<times> nat) go option \<times> 'w client_state" where
  "udp_run_tests [] passCount failCount st = (Some (Ok (passCount, failCount)), st)"
| "udp_run_tests (tc # tests) passCount failCount st =
     (case tc st of
        (Some (Ok _), st') \<Rightarrow> udp_run_tests tests (passCount + 1) failCount st'
      | (Some (Err _), st') \<Rightarrow> udp_run_tests tests passCount (failCount + 1) st'
      | (Some Panic, st') \<Rightarrow> (Some Panic, st')
      | (None, st') \<Rightarrow> (None, st'))"

datatype udp_exit = UdpExited nat | UdpCrashed | UdpHangs

text \<open>\<open>main\<close> with what opening the two sockets answers and the clock. The port argument is only
  printed: the addresses are built with port 9600. \<open>os.Exit\<close> and \<open>log.Fatalf\<close> skip the deferred
  calls that close the client and the simulator.\<close>

definition udp_client_main ::
  "string list \<Rightarrow> string option \<Rightarrow> string option \<Rightarrow> Clock \<Rightarrow> udp_exit \<times> (Client \<times> UdpNet) option" where
  "udp_client_main args listenErr dialErr now =
     (if length args < 3 then (UdpExited 1, None)
      else if listenErr \<noteq> None then (UdpExited 1, None)
      else if dialErr \<noteq> None then (UdpExited 1, None)
      else
        let c = NewClient \<lparr>ua_network = 0, ua_node = 2, ua_unit = 255\<rparr> \<lparr>ua_network = 0, ua_node = 1, ua_unit = 0\<rparr>;
            w = \<lparr>un_server = NewPLCSimulator, un_buf = replicate 1024 0, un_out = [], un_clock = now\<rparr>
        in case udp_run_tests (udp_testCases simulator_env) 0 0 (c, w) of
             (Some (Ok (passCount, failCount)), c', w') \<Rightarrow>
               if failCount > 0 then (UdpExited 1, Some (c', w'))
               else (UdpExited 0, Some (Client_Close c', w'\<lparr>un_server := Server_Close (un_server w')\<rparr>))
           | (Some _, c', w') \<Rightarrow>
               (UdpCrashed, Some (Client_Close c', w'\<lparr>un_server := Server_Close (un_server w')\<rparr>))
           | (None, c', w') \<Rightarrow> (UdpHangs, Some (c', w')))"

section \<open>Passing tests\<close>

text \<open>The condition the tests keep: the session works, the clock shows a time, and the byte after
  the string of the fourth test is zero, as \<open>ReadString\<close> looks for the end of the string.\<close>

definition sim_ready :: "Client \<times> UdpNet \<Rightarrow> bool" where
  "sim_ready st \<longleftrightarrow> (case st of (c, w) \<Rightarrow>
     udp_live (c, w) \<and> sv_dmarea (un_server w) ! 420 = 0 \<and> clock_ok (un_clock w))"

definition udp_passes :: "(UdpNet, unit) client_test \<Rightarrow> bool" where
  "udp_passes tc \<longleftrightarrow> (\<forall>st. sim_ready st \<longrightarrow> (\<exists>st'. tc st = (Some (Ok ()), st') \<and> sim_ready st'))"

lemma udp_passesI: "(\<And>c w. udp_live (c, w) \<Longrightarrow> sv_dmarea (un_server w) ! 420 = 0 \<Longrightarrow> clock_ok (un_clock w) \<Longrightarrow>
    \<exists>st'. tc (c, w) = (Some (Ok ()), st') \<and> sim_ready st') \<Longrightarrow> udp_passes tc"
  by (simp add: udp_passes_def sim_ready_def)

lemma udp_run_tests_pass:
  "\<forall>tc \<in> set tests. udp_passes tc \<Longrightarrow> sim_ready st \<Longrightarrow>
   \<exists>st'. udp_run_tests tests n m st = (Some (Ok (n + length tests, m)), st') \<and> sim_ready st'"
proof (induction tests arbitrary: n st)
  case (Cons tc tests)
  obtain st1 where st1: "tc st = (Some (Ok ()), st1)" "sim_ready st1"
    using Cons.prems unfolding udp_passes_def by (metis list.set_intros(1))
  from Cons.IH [OF _ st1(2), of "n + 1"] show ?case using st1(1) Cons.prems(1) by auto
qed simp

lemma compare_from_same: "drop i xs = vals \<Longrightarrow> compare_from xs i vals = Ok ()"
proof (induction vals arbitrary: i)
  case (Cons v vals)
  then have "i < length xs" by (metis drop_all list.distinct(1) linorder_not_less)
  then have "v = xs ! i" "drop (Suc i) xs = vals" using Cons.prems by (simp_all add: Cons_nth_drop_Suc [symmetric])
  then show ?case using Cons.IH \<open>i < length xs\<close> by simp
qed simp

lemma compare_with_same [simp]: "compare_with xs xs st = (Some (Ok ()), st)"
  by (simp add: compare_with_def compare_from_same)

lemma testWriteReadWords_passes: "udp_passes (testWriteReadWords simulator_env)"
proof (rule udp_passesI)
  fix c w
  assume st: "udp_live (c, w)" "sv_dmarea (un_server w) ! 420 = 0" "clock_ok (un_clock w)"
  let ?ws = "[1234, 5678, 9012, 3456, 7890] :: u16 list"
  obtain c1 w1 where 1: "WriteWords simulator_env c w Udp_MemoryAreaDMWord 100 ?ws = (Some (Ok ()), c1, w1)"
      "udp_live (c1, w1)" "same_settings c c1" "un_clock w1 = un_clock w"
      "sv_dmarea (un_server w1) = copy_at (sv_dmarea (un_server w)) 100 (word_bytes (c_byteOrder c) ?ws)"
    using WriteWords_live [OF st(1), of ?ws 100] by auto
  have len: "length (sv_dmarea (un_server w)) = 32768" using live_areas [OF st(1)] by simp
  have "slice (sv_dmarea (un_server w1)) (unat (100 :: u16)) (unat (100 :: u16) + 2 * length ?ws) = word_bytes (c_byteOrder c1) ?ws"
    using 1(3,5) len slice_copy_at_same [of 100 "word_bytes (c_byteOrder c) ?ws"]
    by (simp add: same_settings_def del: list.map concat.simps)
  from ReadWords_live [OF 1(2) _ _ this] obtain c2 w2 where 2:
      "ReadWords simulator_env c1 w1 Udp_MemoryAreaDMWord 100 5 = (Some (Ok ?ws), c2, w2)" "udp_live (c2, w2)"
      "un_clock w2 = un_clock w1" "un_server w2 = un_server w1"
    by auto
  have "sv_dmarea (un_server w2) ! 420 = 0" using 1(5) 2(4) st(2) len by (simp add: nth_copy_at)
  then show "\<exists>st'. testWriteReadWords simulator_env (c, w) = (Some (Ok ()), st') \<and> sim_ready st'"
    using 1(1,4) 2 st(3) by (simp add: testWriteReadWords_def call_then_def sim_ready_def Let_def)
qed

lemma testWriteReadBits_passes: "udp_passes (testWriteReadBits simulator_env)"
proof (rule udp_passesI)
  fix c w
  assume st: "udp_live (c, w)" "sv_dmarea (un_server w) ! 420 = 0" "clock_ok (un_clock w)"
  let ?bs = "[True, False, True, True, False]"
  obtain c1 w1 where 1: "Udp_WriteBits simulator_env c w Udp_MemoryAreaDMBit 200 0 ?bs = (Some (Ok ()), c1, w1)"
      "udp_live (c1, w1)" "un_clock w1 = un_clock w"
      "un_server w1 = (un_server w)\<lparr>sv_bitdmarea := copy_at (sv_bitdmarea (un_server w)) 200 (bit_bytes ?bs)\<rparr>"
    using WriteBits_live [OF st(1), of ?bs 200 0] by auto
  have "slice (sv_bitdmarea (un_server w1)) (unat (200 :: u16) + unat (0 :: u8)) (unat (200 :: u16) + unat (0 :: u8) + length ?bs) = bit_bytes ?bs"
    using 1(4) live_areas [OF st(1)] slice_copy_at_same [of 200 "bit_bytes ?bs"] by simp
  from ReadBits_live [OF 1(2) _ _ this] obtain c2 w2 where 2:
      "Udp_ReadBits simulator_env c1 w1 Udp_MemoryAreaDMBit 200 0 5 = (Some (Ok ?bs), c2, w2)" "udp_live (c2, w2)"
      "un_clock w2 = un_clock w1" "un_server w2 = un_server w1"
    by auto
  show "\<exists>st'. testWriteReadBits simulator_env (c, w) = (Some (Ok ()), st') \<and> sim_ready st'"
    using 1 2 st(2,3) by (simp add: testWriteReadBits_def call_then_def sim_ready_def Let_def)
qed

lemma testWriteReadBytes_passes: "udp_passes (testWriteReadBytes simulator_env)"
proof (rule udp_passesI)
  fix c w
  assume st: "udp_live (c, w)" "sv_dmarea (un_server w) ! 420 = 0" "clock_ok (un_clock w)"
  let ?b = "[0x11, 0x22, 0x33, 0x44, 0x55, 0x66, 0x77, 0x88] :: bytes"
  obtain c1 w1 where 1: "WriteBytes simulator_env c w Udp_MemoryAreaDMWord 300 ?b = (Some (Ok ()), c1, w1)"
      "udp_live (c1, w1)" "un_clock w1 = un_clock w"
      "sv_dmarea (un_server w1) = copy_at (sv_dmarea (un_server w)) 300 ?b"
    using WriteBytes_live [OF st(1), of ?b 4 300] by auto
  have len: "length (sv_dmarea (un_server w)) = 32768" using live_areas [OF st(1)] by simp
  have "slice (sv_dmarea (un_server w1)) 300 308 = ?b"
    using 1(4) len slice_copy_at_same [of 300 ?b "sv_dmarea (un_server w)"] by simp
  then obtain c2 w2 where 2:
      "ReadBytes simulator_env c1 w1 Udp_MemoryAreaDMWord 300 4 = (Some (Ok ?b), c2, w2)" "udp_live (c2, w2)"
      "un_clock w2 = un_clock w1" "un_server w2 = un_server w1"
    using ReadBytes_live [OF 1(2), of 300 4] by auto
  have "sv_dmarea (un_server w2) ! 420 = 0" using 1(4) 2(4) st(2) len by (simp add: nth_copy_at)
  then show "\<exists>st'. testWriteReadBytes simulator_env (c, w) = (Some (Ok ()), st') \<and> sim_ready st'"
    using 1(1,3) 2 st(3) by (simp add: testWriteReadBytes_def call_then_def sim_ready_def Let_def)
qed

lemma testWriteReadString_passes: "udp_passes (testWriteReadString simulator_env)"
proof (rule udp_passesI)
  fix c w
  assume st: "udp_live (c, w)" "sv_dmarea (un_server w) ! 420 = 0" "clock_ok (un_clock w)"
  let ?s = "map of_char ''Hello Omron FINS UDP'' :: bytes"
  have s: "length ?s = 20" "0 \<notin> set ?s" by simp_all
  obtain c1 w1 c2 w2 where r: "WriteString simulator_env c w Udp_MemoryAreaDMWord 400 ?s = (Some (Ok ()), c1, w1)"
      "ReadString simulator_env c1 w1 Udp_MemoryAreaDMWord 400 (word_of_nat (length ?s)) = (Some (Ok ?s), c2, w2)"
      "udp_live (c2, w2)" "un_clock w2 = un_clock w"
      "sv_dmarea (un_server w2) = copy_at (sv_dmarea (un_server w)) 400 ?s"
    using string_read_back [OF st(1) s(2), of 400] st(2) s(1) by auto
  have "sv_dmarea (un_server w2) ! 420 = 0"
    using r(5) st(2) live_areas [OF st(1)] s(1) by (simp add: nth_copy_at del: list.map)
  then show "\<exists>st'. testWriteReadString simulator_env (c, w) = (Some (Ok ()), st') \<and> sim_ready st'"
    using r(1-4) st(3) unfolding testWriteReadString_def Let_def by (simp add: call_then_def sim_ready_def del: list.map)
qed

lemma testReadClock_passes: "udp_passes (testReadClock simulator_env)"
proof (rule udp_passesI)
  fix c w
  assume st: "udp_live (c, w)" "sv_dmarea (un_server w) ! 420 = 0" "clock_ok (un_clock w)"
  from ReadClock_live [OF st(1,3)] show "\<exists>st'. testReadClock simulator_env (c, w) = (Some (Ok ()), st') \<and> sim_ready st'"
    using st(2,3) by (auto simp: testReadClock_def call_then_def sim_ready_def)
qed

lemma udp_testCases_pass: "\<forall>tc \<in> set (udp_testCases simulator_env). udp_passes tc"
  unfolding udp_testCases_def
  using testWriteReadWords_passes testWriteReadBits_passes testWriteReadBytes_passes testWriteReadString_passes
    testReadClock_passes by simp

section \<open>Properties\<close>

text \<open>C33. The self-test program of the UDP client: with an address and a port, when both sockets open and
  whatever time it is, words, bits, bytes and a string written to the simulator read back, the
  clock is read, and the program closes client and simulator and exits with status zero; it exits
  with one when an argument is missing or a socket does not open. It never crashes and never hangs.\<close>

theorem udp_client_main_passes:
  assumes "clock_ok now"
  shows "case udp_client_main args listenErr dialErr now of (r, st) \<Rightarrow>
    if 3 \<le> length args \<and> listenErr = None \<and> dialErr = None
    then r = UdpExited 0 \<and> (\<exists>c w. st = Some (c, w) \<and> c_closed c \<and> sv_closed (un_server w))
    else r = UdpExited 1 \<and> st = None"
proof (cases "3 \<le> length args \<and> listenErr = None \<and> dialErr = None")
  case True
  let ?c = "NewClient \<lparr>ua_network = 0, ua_node = 2, ua_unit = 255\<rparr> \<lparr>ua_network = 0, ua_node = 1, ua_unit = 0\<rparr>"
    and ?w = "\<lparr>un_server = NewPLCSimulator, un_buf = replicate 1024 0, un_out = [], un_clock = now\<rparr>"
  have "sim_ready (?c, ?w)"
    using udp_inv_New assms by (simp add: sim_ready_def udp_live_def NewClient_def NewPLCSimulator_def DM_AREA_SIZE_def)
  from udp_run_tests_pass [OF udp_testCases_pass this, of 0 0] obtain n c' w' where
      "udp_run_tests (udp_testCases simulator_env) 0 0 (?c, ?w) = (Some (Ok (n, 0)), c', w')"
    by auto
  then show ?thesis using True by (simp add: udp_client_main_def Let_def Client_Close_def Server_Close_def)
next
  case False
  then show ?thesis by (auto simp: udp_client_main_def)
qed

theorem udp_client_main_passes_witness:
  "fst (udp_client_main [''udp-client'', ''127.0.0.1'', ''9600''] None None
     \<lparr>ck_year = 2024, ck_month = 2, ck_day = 29, ck_hour = 12, ck_minute = 0, ck_second = 7\<rparr>) = UdpExited 0"
  using udp_client_main_passes [of "\<lparr>ck_year = 2024, ck_month = 2, ck_day = 29, ck_hour = 12, ck_minute = 0, ck_second = 7\<rparr>"
      "[''udp-client'', ''127.0.0.1'', ''9600'']" None None]
  by (auto simp: clock_ok_def split: prod.splits)

end
