(* ===== verification/Cmd_Udp_Server.thy ===== *)
theory Cmd_Udp_Server
  imports Udp_Server
begin

text \<open>
  The standalone UDP server of \<open>cmd/udp/server/main.go\<close>. It has its own copies of the types and
  codecs of the UDP package, modelled here again from the copies, more memory areas, and its own
  area codes and end codes. Index computations wrap at 16 bits as in the package's simulator.
\<close>

section \<open>Constants and state\<close>

definition cu_DM_AREA_SIZE :: nat where "cu_DM_AREA_SIZE = 32768"
definition cu_CIO_AREA_SIZE :: nat where "cu_CIO_AREA_SIZE = 6144"
definition cu_W_AREA_SIZE :: nat where "cu_W_AREA_SIZE = 512"
definition cu_H_AREA_SIZE :: nat where "cu_H_AREA_SIZE = 512"
definition cu_A_AREA_SIZE :: nat where "cu_A_AREA_SIZE = 512"
definition cu_BIT_DM_AREA_SIZE :: nat where "cu_BIT_DM_AREA_SIZE = 32768"

lemmas cu_sizes = cu_DM_AREA_SIZE_def cu_CIO_AREA_SIZE_def cu_W_AREA_SIZE_def cu_H_AREA_SIZE_def
  cu_A_AREA_SIZE_def cu_BIT_DM_AREA_SIZE_def

definition cu_CommandCodeMemoryAreaRead :: u16 where [udp_consts]: "cu_CommandCodeMemoryAreaRead = 0x0101"
definition cu_CommandCodeMemoryAreaWrite :: u16 where [udp_consts]: "cu_CommandCodeMemoryAreaWrite = 0x0102"
definition cu_CommandCodeClockRead :: u16 where [udp_consts]: "cu_CommandCodeClockRead = 0x0701"
definition cu_EndCodeNormalCompletion :: u16 where [udp_consts]: "cu_EndCodeNormalCompletion = 0x0000"
definition cu_EndCodeAddressRangeExceeded :: u16 where [udp_consts]: "cu_EndCodeAddressRangeExceeded = 0x0101"
definition cu_EndCodeNotSupportedByModelVersion :: u16 where [udp_consts]:
  "cu_EndCodeNotSupportedByModelVersion = 0x0103"
definition cu_EndCodeWriteNotPossibleReadOnly :: u16 where [udp_consts]: "cu_EndCodeWriteNotPossibleReadOnly = 0x0201"
definition cu_MemoryAreaDMWord :: u8 where [udp_consts]: "cu_MemoryAreaDMWord = 0x02"
definition cu_MemoryAreaDMBit :: u8 where [udp_consts]: "cu_MemoryAreaDMBit = 0x03"
definition cu_MemoryAreaCIOWord :: u8 where [udp_consts]: "cu_MemoryAreaCIOWord = 0x30"
definition cu_MemoryAreaWRWord :: u8 where [udp_consts]: "cu_MemoryAreaWRWord = 0x31"
definition cu_MemoryAreaHRWord :: u8 where [udp_consts]: "cu_MemoryAreaHRWord = 0x32"
definition cu_MemoryAreaARWord :: u8 where [udp_consts]: "cu_MemoryAreaARWord = 0x33"

record PLCServer =
  cu_dmArea :: bytes
  cu_bitDmArea :: bytes
  cu_cioArea :: bytes
  cu_wArea :: bytes
  cu_hArea :: bytes
  cu_aArea :: bytes
  cu_closed :: bool

definition cu_NewPLCServer :: PLCServer where
  "cu_NewPLCServer =
     \<lparr>cu_dmArea = replicate cu_DM_AREA_SIZE 0, cu_bitDmArea = replicate cu_BIT_DM_AREA_SIZE 0,
      cu_cioArea = replicate (cu_CIO_AREA_SIZE * 2) 0, cu_wArea = replicate (cu_W_AREA_SIZE * 2) 0,
      cu_hArea = replicate (cu_H_AREA_SIZE * 2) 0, cu_aArea = replicate (cu_A_AREA_SIZE * 2) 0, cu_closed = False\<rparr>"

section \<open>Codecs\<close>

definition cu_decodeMemoryAddress :: "bytes \<Rightarrow> (UdpError, memoryAddress) go" where
  "cu_decodeMemoryAddress data =
     (if length data < 4 then Panic
      else Ok \<lparr>ma_memoryArea = data ! 0, ma_address = un_be16 (slice data 1 3), ma_bitOffset = data ! 3\<rparr>)"

definition cu_encodeMemoryAddress :: "memoryAddress \<Rightarrow> bytes" where
  "cu_encodeMemoryAddress m = [ma_memoryArea m] @ be16 (ma_address m) @ [ma_bitOffset m]"

definition cu_decodeHeader :: "bytes \<Rightarrow> (UdpError, Header) go" where
  "cu_decodeHeader bs =
     (if length bs < 10 then Panic
      else
        let icf = bs ! 0 in
        Ok \<lparr>h_messageType = (if push_bit 6 (icf AND 1) = 0 then 0 else 1),
            h_responseRequired = (push_bit 0 (icf AND 1) = 0),
            h_src = \<lparr>ua_network = bs ! 6, ua_node = bs ! 7, ua_unit = bs ! 8\<rparr>,
            h_dst = \<lparr>ua_network = bs ! 3, ua_node = bs ! 4, ua_unit = bs ! 5\<rparr>,
            h_serviceID = bs ! 9, h_gatewayCount = bs ! 2\<rparr>)"

definition cu_encodeHeader :: "Header \<Rightarrow> bytes" where
  "cu_encodeHeader h =
     (let icf = push_bit 7 1
            OR (if \<not> h_responseRequired h then push_bit 0 1 else 0)
            OR (if h_messageType h = 1 then push_bit 6 1 else 0)
      in [icf, 0, h_gatewayCount h,
          ua_network (h_dst h), ua_node (h_dst h), ua_unit (h_dst h),
          ua_network (h_src h), ua_node (h_src h), ua_unit (h_src h), h_serviceID h])"

definition cu_defaultResponseHeader :: "Header \<Rightarrow> Header" where
  "cu_defaultResponseHeader h =
     \<lparr>h_messageType = 1, h_responseRequired = False, h_src = h_dst h, h_dst = h_src h,
      h_serviceID = h_serviceID h, h_gatewayCount = h_gatewayCount h\<rparr>"

definition cu_decodeRequest :: "gslice \<Rightarrow> (UdpError, request) go" where
  "cu_decodeRequest bs =
     go_bind (gs_sub bs 0 10) (\<lambda>hb. go_bind (cu_decodeHeader (gs_vis hb)) (\<lambda>h.
     go_bind (gs_sub bs 10 12) (\<lambda>c. go_bind (gs_tail bs 12) (\<lambda>d.
       Ok \<lparr>rq_header = h, rq_commandCode = un_be16 (gs_vis c), rq_data = d\<rparr>))))"

definition cu_decodeResponse :: "gslice \<Rightarrow> (UdpError, response) go" where
  "cu_decodeResponse bs =
     go_bind (gs_sub bs 0 10) (\<lambda>hb. go_bind (cu_decodeHeader (gs_vis hb)) (\<lambda>h.
     go_bind (gs_sub bs 10 12) (\<lambda>c. go_bind (gs_sub bs 12 14) (\<lambda>e. go_bind (gs_tail bs 14) (\<lambda>d.
       Ok \<lparr>rs_header = h, rs_commandCode = un_be16 (gs_vis c), rs_endCode = un_be16 (gs_vis e), rs_data = d\<rparr>)))))"

definition cu_encodeResponse :: "response \<Rightarrow> bytes" where
  "cu_encodeResponse resp =
     cu_encodeHeader (rs_header resp) @ be16 (rs_commandCode resp) @ be16 (rs_endCode resp) @ gs_vis (rs_data resp)"

text \<open>The filler nibble of an odd number of digits is 0 here.\<close>

definition cu_encodeBCD :: "u64 \<Rightarrow> bytes" where
  "cu_encodeBCD w =
     (if w = 0 then [0x00]
      else
        let x = unat w; n = bcd_count x; bcd = replicate ((n + 1) div 2) 0 in
        if n mod 2 = 1
        then bcd_fill ((n - 1) div 2) (x div 10) (bcd[(n - 1) div 2 := bcd_byte (x mod 10) 0x00])
        else bcd_fill (n div 2) x bcd)"

definition cu_clock_data :: "Clock \<Rightarrow> bytes" where
  "cu_clock_data now =
     cu_encodeBCD (word_of_nat (ck_year now mod 100)) @ cu_encodeBCD (word_of_nat (ck_month now))
     @ cu_encodeBCD (word_of_nat (ck_day now)) @ cu_encodeBCD (word_of_nat (ck_hour now))
     @ cu_encodeBCD (word_of_nat (ck_minute now)) @ cu_encodeBCD (word_of_nat (ck_second now))"

section \<open>Requests\<close>

text \<open>One case of the switch over the areas: the range check in 16 bits, then the slice.\<close>

definition cu_read_range :: "bytes \<Rightarrow> nat \<Rightarrow> u16 \<Rightarrow> u16 \<Rightarrow> u16 \<Rightarrow> (UdpError, bytes \<times> u16) go" where
  "cu_read_range area limit checked lo hi =
     (if checked > word_of_nat limit then Ok ([], cu_EndCodeAddressRangeExceeded)
      else go_bind (area_read area lo hi) (\<lambda>d. Ok (d, cu_EndCodeNormalCompletion)))"

definition cu_read_words :: "bytes \<Rightarrow> nat \<Rightarrow> memoryAddress \<Rightarrow> u16 \<Rightarrow> (UdpError, bytes \<times> u16) go" where
  "cu_read_words area limit m ic = cu_read_range area limit (ma_address m + ic * 2) (ma_address m) (ma_address m + ic * 2)"

definition cu_handleRead :: "PLCServer \<Rightarrow> gslice \<Rightarrow> (UdpError, bytes \<times> u16) go" where
  "cu_handleRead s data =
     go_bind (gs_sub data 0 4) (\<lambda>ab. go_bind (cu_decodeMemoryAddress (gs_vis ab)) (\<lambda>m.
     go_bind (gs_sub data 4 6) (\<lambda>ib.
       let ic = un_be16 (gs_vis ib) in
       if ma_memoryArea m = cu_MemoryAreaDMWord then cu_read_words (cu_dmArea s) cu_DM_AREA_SIZE m ic
       else if ma_memoryArea m = cu_MemoryAreaDMBit then
         (let start = ma_address m + ucast (ma_bitOffset m)
          in cu_read_range (cu_bitDmArea s) cu_BIT_DM_AREA_SIZE (ma_address m + ic) start (start + ic))
       else if ma_memoryArea m = cu_MemoryAreaCIOWord then cu_read_words (cu_cioArea s) (cu_CIO_AREA_SIZE * 2) m ic
       else if ma_memoryArea m = cu_MemoryAreaWRWord then cu_read_words (cu_wArea s) (cu_W_AREA_SIZE * 2) m ic
       else if ma_memoryArea m = cu_MemoryAreaHRWord then cu_read_words (cu_hArea s) (cu_H_AREA_SIZE * 2) m ic
       else if ma_memoryArea m = cu_MemoryAreaARWord then cu_read_words (cu_aArea s) (cu_A_AREA_SIZE * 2) m ic
       else Ok ([], cu_EndCodeNotSupportedByModelVersion))))"

definition cu_write_range ::
  "bytes \<Rightarrow> nat \<Rightarrow> u16 \<Rightarrow> u16 \<Rightarrow> u16 \<Rightarrow> gslice \<Rightarrow> u16 \<Rightarrow> (bytes \<Rightarrow> PLCServer) \<Rightarrow> PLCServer \<Rightarrow>
     (UdpError, u16 \<times> PLCServer) go" where
  "cu_write_range area limit checked lo hi data n upd s =
     (if checked > word_of_nat limit then Ok (cu_EndCodeAddressRangeExceeded, s)
      else go_bind (area_write area lo hi data n) (\<lambda>a. Ok (cu_EndCodeNormalCompletion, upd a)))"

definition cu_write_words ::
  "bytes \<Rightarrow> nat \<Rightarrow> memoryAddress \<Rightarrow> u16 \<Rightarrow> gslice \<Rightarrow> (bytes \<Rightarrow> PLCServer) \<Rightarrow> PLCServer \<Rightarrow>
     (UdpError, u16 \<times> PLCServer) go" where
  "cu_write_words area limit m ic data upd s =
     cu_write_range area limit (ma_address m + ic * 2) (ma_address m) (ma_address m + ic * 2) data (ic * 2) upd s"

definition cu_handleWrite :: "PLCServer \<Rightarrow> gslice \<Rightarrow> (UdpError, u16 \<times> PLCServer) go" where
  "cu_handleWrite s data =
     go_bind (gs_sub data 0 4) (\<lambda>ab. go_bind (cu_decodeMemoryAddress (gs_vis ab)) (\<lambda>m.
     go_bind (gs_sub data 4 6) (\<lambda>ib.
       let ic = un_be16 (gs_vis ib) in
       if ma_memoryArea m = cu_MemoryAreaDMWord
       then cu_write_words (cu_dmArea s) cu_DM_AREA_SIZE m ic data (\<lambda>a. s\<lparr>cu_dmArea := a\<rparr>) s
       else if ma_memoryArea m = cu_MemoryAreaDMBit then
         (let start = ma_address m + ucast (ma_bitOffset m)
          in cu_write_range (cu_bitDmArea s) cu_BIT_DM_AREA_SIZE (ma_address m + ic) start (start + ic) data ic
               (\<lambda>a. s\<lparr>cu_bitDmArea := a\<rparr>) s)
       else if ma_memoryArea m = cu_MemoryAreaCIOWord
       then cu_write_words (cu_cioArea s) (cu_CIO_AREA_SIZE * 2) m ic data (\<lambda>a. s\<lparr>cu_cioArea := a\<rparr>) s
       else if ma_memoryArea m = cu_MemoryAreaWRWord
       then cu_write_words (cu_wArea s) (cu_W_AREA_SIZE * 2) m ic data (\<lambda>a. s\<lparr>cu_wArea := a\<rparr>) s
       else if ma_memoryArea m = cu_MemoryAreaHRWord
       then cu_write_words (cu_hArea s) (cu_H_AREA_SIZE * 2) m ic data (\<lambda>a. s\<lparr>cu_hArea := a\<rparr>) s
       else if ma_memoryArea m = cu_MemoryAreaARWord then Ok (cu_EndCodeWriteNotPossibleReadOnly, s)
       else Ok (cu_EndCodeNotSupportedByModelVersion, s))))"

definition cu_handleRequest :: "Clock \<Rightarrow> PLCServer \<Rightarrow> request \<Rightarrow> (UdpError, response \<times> PLCServer) go" where
  "cu_handleRequest now s r =
     go_bind
       (if rq_commandCode r = cu_CommandCodeMemoryAreaRead
        then go_bind (cu_handleRead s (rq_data r)) (\<lambda>(data, endCode). Ok (data, endCode, s))
        else if rq_commandCode r = cu_CommandCodeMemoryAreaWrite
        then go_bind (cu_handleWrite s (rq_data r)) (\<lambda>(endCode, s'). Ok ([], endCode, s'))
        else if rq_commandCode r = cu_CommandCodeClockRead then Ok (cu_clock_data now, cu_EndCodeNormalCompletion, s)
        else Ok ([], cu_EndCodeNotSupportedByModelVersion, s))
       (\<lambda>(data, endCode, s').
          Ok (\<lparr>rs_header = cu_defaultResponseHeader (rq_header r), rs_commandCode = rq_commandCode r,
               rs_endCode = endCode, rs_data = GSlice data []\<rparr>, s'))"

text \<open>One turn of the loop over the buffer of 4096 bytes.\<close>

definition cu_listen_step :: "Clock \<Rightarrow> PLCServer \<times> bytes \<Rightarrow> bytes \<Rightarrow> (UdpError, bytes list \<times> PLCServer \<times> bytes) go" where
  "cu_listen_step now st datagram =
     (case st of (s, buf) \<Rightarrow>
      let n = min (length buf) (length datagram); buf' = copy_at buf 0 (take n datagram) in
      if n > 0
      then go_bind (cu_decodeRequest (GSlice (take n buf') (drop n buf'))) (\<lambda>req.
           go_bind (cu_handleRequest now s req) (\<lambda>(resp, s'). Ok ([cu_encodeResponse resp], s', buf')))
      else Ok ([], s, buf'))"

definition cu_Close :: "PLCServer \<Rightarrow> PLCServer" where
  "cu_Close s = s\<lparr>cu_closed := True\<rparr>"

section \<open>Agreement with the UDP package\<close>

text \<open>The copied codecs are those of the package.\<close>

lemma cu_codecs:
  "cu_decodeHeader = decodeHeader" "cu_encodeHeader = encodeHeader" "cu_decodeMemoryAddress = decodeMemoryAddress"
  "cu_encodeMemoryAddress = encodeMemoryAddress"
  "cu_decodeRequest = decodeRequest" "cu_decodeResponse = decodeResponse" "cu_encodeResponse = encodeResponse"
proof -
  show h: "cu_decodeHeader = decodeHeader" "cu_encodeHeader = encodeHeader"
    by (simp_all add: fun_eq_iff cu_decodeHeader_def decodeHeader_def cu_encodeHeader_def encodeHeader_def udp_consts Let_def)
  show "cu_decodeMemoryAddress = decodeMemoryAddress" "cu_encodeMemoryAddress = encodeMemoryAddress"
    "cu_decodeRequest = decodeRequest" "cu_decodeResponse = decodeResponse" "cu_encodeResponse = encodeResponse"
    by (simp_all add: fun_eq_iff cu_decodeMemoryAddress_def decodeMemoryAddress_def cu_encodeMemoryAddress_def
        encodeMemoryAddress_def cu_decodeRequest_def decodeRequest_def cu_decodeResponse_def decodeResponse_def
        cu_encodeResponse_def encodeResponse_def h)
qed

text \<open>A single digit is encoded as its tenfold: the client reads month 5 as 50.\<close>

theorem cu_BCD_one_digit: "\<forall>x \<in> {1..<10}. decodeBCD (cu_encodeBCD (word_of_nat x)) = Ok (word_of_nat (10 * x))"
  unfolding cu_encodeBCD_def decodeBCD_def by code_simp

text \<open>The package's client asks for the DM area with a code this server does not know.\<close>

theorem cu_rejects_client_words:
  "cu_handleRead s (GSlice (encodeMemoryAddress (memAddr Udp_MemoryAreaDMWord a) @ be16 n) S) =
     Ok ([], cu_EndCodeNotSupportedByModelVersion)"
  by (simp add: cu_handleRead_def cu_codecs decode_read_command udp_consts Let_def)

section \<open>Words\<close>

text \<open>The word areas by their codes.\<close>

definition cu_word_area :: "PLCServer \<Rightarrow> u8 \<rightharpoonup> bytes" where
  "cu_word_area s c =
     (if c = cu_MemoryAreaDMWord then Some (cu_dmArea s) else if c = cu_MemoryAreaCIOWord then Some (cu_cioArea s)
      else if c = cu_MemoryAreaWRWord then Some (cu_wArea s) else if c = cu_MemoryAreaHRWord then Some (cu_hArea s)
      else if c = cu_MemoryAreaARWord then Some (cu_aArea s) else None)"

definition cu_wf :: "PLCServer \<Rightarrow> bool" where
  "cu_wf s \<longleftrightarrow> length (cu_dmArea s) = cu_DM_AREA_SIZE \<and> length (cu_bitDmArea s) = cu_BIT_DM_AREA_SIZE \<and>
     length (cu_cioArea s) = cu_CIO_AREA_SIZE * 2 \<and> length (cu_wArea s) = cu_W_AREA_SIZE * 2 \<and>
     length (cu_hArea s) = cu_H_AREA_SIZE * 2 \<and> length (cu_aArea s) = cu_A_AREA_SIZE * 2"

lemma cu_wf_New: "cu_wf cu_NewPLCServer"
  by (simp add: cu_wf_def cu_NewPLCServer_def)

lemma cu_range_words:
  assumes "unat (ma_address m) + 2 * unat n \<le> length area" and "length area \<le> 32768"
  shows "cu_read_words area (length area) m n =
      Ok (slice area (unat (ma_address m)) (unat (ma_address m) + 2 * unat n), cu_EndCodeNormalCompletion)"
    and "2 * unat n \<le> length d \<Longrightarrow>
      cu_write_words area (length area) m n (GSlice (encodeMemoryAddress m @ be16 n @ d) S) upd s =
      Ok (cu_EndCodeNormalCompletion, upd (copy_at area (unat (ma_address m)) (take (2 * unat n) d)))"
proof -
  have "unat (ma_address m + n * 2) = unat (ma_address m) + 2 * unat n"
    using word_range [of "ma_address m" n] assms by simp
  moreover have "unat (word_of_nat (length area) :: u16) = length area"
    using assms by (intro unat_word_of_nat_small) simp
  ultimately have chk: "\<not> ma_address m + n * 2 > word_of_nat (length area)"
    using assms by (simp add: word_less_nat_alt)
  then show "cu_read_words area (length area) m n =
      Ok (slice area (unat (ma_address m)) (unat (ma_address m) + 2 * unat n), cu_EndCodeNormalCompletion)"
    using area_read_words [of "ma_address m" n area] assms by (simp add: cu_read_words_def cu_read_range_def)
  show "cu_write_words area (length area) m n (GSlice (encodeMemoryAddress m @ be16 n @ d) S) upd s =
      Ok (cu_EndCodeNormalCompletion, upd (copy_at area (unat (ma_address m)) (take (2 * unat n) d)))"
    if "2 * unat n \<le> length d"
    using chk area_write_words [of "ma_address m" n area d] assms that by (simp add: cu_write_words_def cu_write_range_def)
qed

lemma cu_handle_words:
  assumes "cu_wf s" and "cu_word_area s c = Some area" and "unat a + 2 * unat n \<le> length area"
  shows "cu_handleRead s (GSlice (encodeMemoryAddress (memAddr c a) @ be16 n) S) =
      Ok (slice area (unat a) (unat a + 2 * unat n), cu_EndCodeNormalCompletion)"
    and "2 * unat n \<le> length d \<Longrightarrow> \<exists>s'.
      cu_handleWrite s (GSlice (encodeMemoryAddress (memAddr c a) @ be16 n @ d) S) =
        Ok (if c = cu_MemoryAreaARWord then cu_EndCodeWriteNotPossibleReadOnly else cu_EndCodeNormalCompletion, s') \<and>
      (if c = cu_MemoryAreaARWord then s' = s
       else cu_wf s' \<and> cu_word_area s' = (cu_word_area s)(c \<mapsto> copy_at area (unat a) (take (2 * unat n) d)))"
proof -
  have small: "length area \<le> 32768"
    using assms(1,2) by (auto simp: cu_word_area_def cu_wf_def cu_sizes split: if_splits)
  have sizes: "length (cu_dmArea s) = cu_DM_AREA_SIZE" "length (cu_cioArea s) = cu_CIO_AREA_SIZE * 2"
      "length (cu_wArea s) = cu_W_AREA_SIZE * 2" "length (cu_hArea s) = cu_H_AREA_SIZE * 2" "length (cu_aArea s) = cu_A_AREA_SIZE * 2"
    using assms(1) by (simp_all add: cu_wf_def)
  note range = cu_range_words [of "memAddr c a" n area, simplified, OF assms(3) small]
  show "cu_handleRead s (GSlice (encodeMemoryAddress (memAddr c a) @ be16 n) S) =
      Ok (slice area (unat a) (unat a + 2 * unat n), cu_EndCodeNormalCompletion)"
    using assms(2) range(1) sizes
    by (auto simp: cu_handleRead_def cu_codecs decode_read_command cu_word_area_def Let_def udp_consts split: if_splits)
  show "\<exists>s'. cu_handleWrite s (GSlice (encodeMemoryAddress (memAddr c a) @ be16 n @ d) S) =
        Ok (if c = cu_MemoryAreaARWord then cu_EndCodeWriteNotPossibleReadOnly else cu_EndCodeNormalCompletion, s') \<and>
      (if c = cu_MemoryAreaARWord then s' = s
       else cu_wf s' \<and> cu_word_area s' = (cu_word_area s)(c \<mapsto> copy_at area (unat a) (take (2 * unat n) d)))"
    if d: "2 * unat n \<le> length d"
    using assms range(2) [OF d] sizes d
    by (auto simp: cu_handleWrite_def cu_codecs decode_memory_command cu_word_area_def cu_wf_def Let_def udp_consts fun_eq_iff
        split: if_splits)
qed

section \<open>Properties\<close>



end
