(* ===== verification/Spec2Isabelle.thy ===== *)
theory Spec2Isabelle
  imports Cmd_Tcp_Client Fins_Refinement Cmd_Tcp_Server Cmd_Udp_Client Cmd_Udp_Server
begin

text \<open>
  \<^bold>\<open>Verification of the Omron FINS driver\<close>

  \<^bold>\<open>The program.\<close> The repository is a Go library that reads and writes the memory of Omron PLCs over
  the FINS protocol, in two independent packages, with test doubles and command-line programs.
  Package \<open>fins\<close> speaks FINS over TCP in layers. \<open>protocol.go\<close> encodes and decodes frames,
  headers and memory addresses. \<open>decoder.go\<close> parses the addresses of points, such as \<open>D10.20H\<close>
  or \<open>CIO0.3\<close>, and converts values to and from bytes. \<open>transport.go\<close> keeps one connection: it
  numbers commands, hands each response frame to the command with its service ID, sends
  heartbeats and reconnects. \<open>scheduler.go\<close> turns a batch of points into as few memory requests
  as it can and decodes the responses. \<open>fins.go\<close> is the facade an application calls. \<open>mock_plc.go\<close>
  is a PLC in memory. Package \<open>udp\<close> is a client with its own codec and a PLC simulator. Under
  \<open>cmd\<close> there is a standalone server and a self-test program for each of the two packages.

  \<^bold>\<open>Foundations.\<close>
  \<^item> \<open>Fins_Prelude\<close>: Go integers as words of their width (\<open>int\<close> and durations as integers with
    \<open>int64\<close> applied where they can wrap), the outcome of a call as a value \<open>Ok\<close>, an error
    \<open>Err\<close> or \<open>Panic\<close>, sub-slices, \<open>copy\<close>, slices with spare capacity, byte orders, and the lemma
    collections \<open>bytes_simps\<close> and \<open>go_simps\<close>.
  \<^item> \<open>Go_Runtime\<close>: conversion of \<open>float64\<close>, decimal numbers, trimming and upper case of ASCII text.
  \<^item> \<open>Fins_Types\<close>: the records and enumerations of \<open>types.go\<close>, the values an \<open>interface{}\<close>
    carries, the error values of the package.

  \<^bold>\<open>Package \<open>fins\<close>.\<close>
  \<^item> \<open>Fins_Protocol\<close> (\<open>protocol.go\<close>): constants, frame types, codecs, area classification, end code
    texts. The locale \<open>frame_codec\<close> states that a decoder undoes an encoder; it is interpreted on
    the TCP frame, the FINS frame and the memory address.
  \<^item> \<open>Fins_Decoder\<close> (\<open>decoder.go\<close>): the area table, the address expression as a matcher, the value
    codecs. Printing and parsing addresses, encoding and decoding values are inverse.
  \<^item> \<open>Fins_Stream\<close>: the loop over the accumulator that \<open>Transport.readLoop\<close> and
    \<open>MockPLC.handleConnection\<close> share. The locale \<open>stream_framer\<close> derives, from the laws of one
    framing step, that chunking does not matter; lemmas show that exactly the frames sent are
    delivered and that the loop finds the next frame after garbage.
  \<^item> \<open>Fins_MockPLC\<close> (\<open>mock_plc.go\<close>): state, memory, request handler, connection loop, listener. The
    locale \<open>plc_word_memory\<close> is the contract of a word memory as a byte image.
  \<^item> \<open>Fins_Transport\<close>, \<open>Fins_Transport_Safety\<close> (\<open>transport.go\<close>): every operation as state passing.
    \<open>transport_reach\<close> is the step relation of calls, network events and heartbeat ticks; in every
    reachable state the invariant of channels and connection holds, responses are correlated with
    commands, and \<open>Reconnect\<close> backs off as configured.
  \<^item> \<open>Fins_Session\<close>, \<open>Fins_Refinement\<close>: the transport connected to the mock over a network that cuts
    the bytes anywhere. The locale \<open>plc_session\<close> is the contract of a client's memory access; the
    whole stack is shown to refine direct calls on the PLC's memory.
  \<^item> \<open>Fins_Scheduler\<close>, \<open>Fins_Scheduler_Groups\<close>, \<open>Fins_Scheduler_Live\<close> (\<open>scheduler.go\<close>): grouping,
    sorting, packing, reading, writing and statistics; a batch returns for every point what
    reading the point alone would give, and a written point reads back.
  \<^item> \<open>Fins_Driver\<close>, \<open>Fins_Driver_Correct\<close> (\<open>fins.go\<close>): the facade, its invariant over
    \<open>driver_reach\<close>, its life cycle, and reads and writes across the loss of the link.

  \<^bold>\<open>Package \<open>udp\<close>.\<close>
  \<^item> \<open>Udp_Constants\<close>, \<open>Udp_Codec\<close>: constants, headers, requests, responses, BCD numbers.
  \<^item> \<open>Udp_Server\<close> (\<open>server.go\<close>): the simulator, with its 16-bit index arithmetic.
  \<^item> \<open>Udp_Client\<close>, \<open>Udp_Session\<close> (\<open>client.go\<close>): the client and its listening goroutine, which can
    block for good; client and simulator together, correlation, and which calls return.

  \<^bold>\<open>Programs.\<close>
  \<^item> \<open>Cmd_Tcp_Server\<close>, \<open>Cmd_Udp_Server\<close> (\<open>cmd/*/server/main.go\<close>): the standalone servers with their
    own codecs and memory; the memory of the TCP server is a second instance of \<open>plc_word_memory\<close>.
  \<^item> \<open>Cmd_Tcp_Client\<close>, \<open>Cmd_Udp_Client\<close> (\<open>cmd/*/client/main.go\<close>): the self-test programs, shown to
    pass against the mock PLC and the simulator.

  \<^bold>\<open>How state and effects are modelled.\<close> A struct is a record, a method a function from the old state
  to an outcome and the new state; a nil pointer is \<open>None\<close>, and its use is \<open>Panic\<close>. The operating
  system is a record of functions over a world of any type (\<open>Env\<close>, \<open>UdpEnv\<close>): dialling, writing,
  the events of the connection until the next call, the clock. Goroutines interleave at calls and
  at network events: while a command waits, a list of events drives the read loop, and the timer
  fires when the list is used up; between calls, the step relations allow any event and any
  heartbeat. What the language leaves open is a parameter over which the theorems quantify: the
  order of map iteration and of equal elements in a sort (as picks that reach every permutation), the
  conversion of a \<open>float64\<close> out of range (\<open>float_oob\<close>), the chunks of a byte stream.

  \<^bold>\<open>Loops and bounds.\<close> There is no fuel. The loops over accumulators are \<open>function\<close>s whose argument
  shrinks, the retry loop counts down the configured retries, all others are structural; endless
  loops are modelled by one turn or by a list of events. A UDP call that waits for ever has the
  result \<open>None\<close>, and it is proved when that cannot happen. The UDP buffers of 1024 and 2048 bytes
  bound a request to 1012 bytes of data (503 words or 1006 bits to write) and a response to 2034
  (1017 words); beyond that datagrams are cut, so the theorems on UDP sessions assume these bounds.

  \<^bold>\<open>Defects shown.\<close> Theorems beside the properties show behaviour the code does not intend: a panic of
  \<open>SetWord\<close> at the last DM word, an overflow that \<open>decodeBCD\<close> misses, overlapping words and a panic
  in the simulator, a UDP client silenced by a stray response, a server stopped by a short length
  field, one-digit BCD numbers of the standalone UDP server that read as their tenfold.

  \<^bold>\<open>Not modelled.\<close> \<open>doc.go\<close> has only comments. Opening sockets, waiting for signals and printing
  (\<open>main\<close> and \<open>Start\<close> of the servers, the lines of the self-tests) have no state of the program.
  Goroutines are not preempted inside an operation: data races on unguarded fields, and a read
  loop of an old connection that outlives a reconnect, are outside the model. Error values keep
  their kind and arguments; the wording of wrapped messages is kept only where the code looks at it.
\<close>

end
